(* ===== verification/Prelude.thy ===== *)
theory Prelude
  imports Main "HOL-Library.Signed_Division" "HOL-Library.Word"
begin

text \<open>
  The vocabulary the component theories share: Go's fixed-width integers as HOL integers with
  the wrap-around written out, lemma collections, and the generic facts on lists that the
  proofs of several components use.

  A Go \<open>int\<close>, \<open>int64\<close> or \<open>time.Duration\<close> is an \<^typ>\<open>int\<close>; every operation of the source that
  can leave the 64-bit range is written with \<open>wrap64\<close> (\<open>int32\<close>: \<open>wrap32\<close>). Go's integer
  division truncates towards zero, which is the library's \<open>sdiv\<close> and \<open>smod\<close>. Code that
  works on the bits of a value uses \<open>64 word\<close> instead.
\<close>

named_theorems wrap_simps \<open>facts that remove a wrap-around\<close>
named_theorems ring_simps \<open>facts about the ring buffers and their abstractions\<close>
named_theorems step_defs \<open>definitions of single operations, for case analysis\<close>

section \<open>Fixed-width integers\<close>

type_synonym int64 = int
type_synonym int32 = int

text \<open>Durations and instants are nanosecond counts. An instant counts from Go's zero time
  (1 January of year 1, UTC), so \<open>IsZero\<close> is equality with 0.\<close>

type_synonym duration = int
type_synonym gtime = int

definition wrap64 :: "int \<Rightarrow> int64" where
  "wrap64 x = (x + 2 ^ 63) mod 2 ^ 64 - 2 ^ 63"

definition wrap32 :: "int \<Rightarrow> int32" where
  "wrap32 x = (x + 2 ^ 31) mod 2 ^ 32 - 2 ^ 31"

definition int64_range :: "int \<Rightarrow> bool" where
  "int64_range x \<longleftrightarrow> - (2 ^ 63) \<le> x \<and> x < 2 ^ 63"

definition int32_range :: "int \<Rightarrow> bool" where
  "int32_range x \<longleftrightarrow> - (2 ^ 31) \<le> x \<and> x < 2 ^ 31"

text \<open>The parts of the \<open>time\<close> package the program uses.\<close>

definition second :: duration where "second = 10 ^ 9"
definition minute :: duration where "minute = 60 * second"

definition unix_epoch :: gtime where
  "unix_epoch = 62135596800 * 10 ^ 9"

definition time_Unix :: "int64 \<Rightarrow> int64 \<Rightarrow> gtime" where
  "time_Unix sec nsec = wrap64 (sec + 62135596800) * 10 ^ 9 + nsec"

definition UnixMilli :: "gtime \<Rightarrow> int64" where
  "UnixMilli t = wrap64 ((t - unix_epoch) div 10 ^ 6)"

definition time_Unix_seconds :: "gtime \<Rightarrow> int64" where
  "time_Unix_seconds t = (t - unix_epoch) div 10 ^ 9"

definition time_UnixMilli :: "int64 \<Rightarrow> gtime" where
  "time_UnixMilli ms = unix_epoch + ms * 10 ^ 6"

abbreviation IsZero :: "gtime \<Rightarrow> bool" where
  "IsZero t \<equiv> t = 0"

lemma time_units [simp]: "0 < second" "0 < minute" "0 \<le> second" "0 \<le> minute"
  by (simp_all add: second_def minute_def)

lemma wrap64_range [simp, intro]: "int64_range (wrap64 x)"
  using pos_mod_bound [of "2 ^ 64" "x + 2 ^ 63"] pos_mod_sign [of "2 ^ 64" "x + 2 ^ 63"]
  by (simp add: wrap64_def int64_range_def)

lemma wrap32_range [simp, intro]: "int32_range (wrap32 x)"
  using pos_mod_bound [of "2 ^ 32" "x + 2 ^ 31"] pos_mod_sign [of "2 ^ 32" "x + 2 ^ 31"]
  by (simp add: wrap32_def int32_range_def)

lemma wrap64_id [wrap_simps]: "int64_range x \<Longrightarrow> wrap64 x = x"
  by (simp add: wrap64_def int64_range_def)

lemma wrap32_id [wrap_simps]: "int32_range x \<Longrightarrow> wrap32 x = x"
  by (simp add: wrap32_def int32_range_def)

lemma wrap64_add_left [wrap_simps]: "wrap64 (wrap64 x + y) = wrap64 (x + y)"
proof -
  have "((x + 2 ^ 63) mod 2 ^ 64 + y) mod 2 ^ 64 = (x + 2 ^ 63 + y) mod (2 ^ 64 :: int)"
    by (rule mod_add_left_eq)
  then show ?thesis by (simp add: wrap64_def algebra_simps)
qed

lemma wrap64_add_right [wrap_simps]: "wrap64 (x + wrap64 y) = wrap64 (x + y)"
  using wrap64_add_left [of y x] by (simp add: add.commute)

lemma wrap64_diff_left [wrap_simps]: "wrap64 (wrap64 x - y) = wrap64 (x - y)"
  using wrap64_add_left [of x "- y"] by simp

lemma wrap64_multiple [wrap_simps]: "wrap64 (x + 2 ^ 64 * k) = wrap64 x"
proof -
  have "(x + 2 ^ 63 + 2 ^ 64 * k) mod 2 ^ 64 = (x + 2 ^ 63) mod (2 ^ 64 :: int)"
    by (rule mod_mult_self2)
  then show ?thesis by (simp add: wrap64_def algebra_simps)
qed

lemma int64_rangeI: "- (2 ^ 63) \<le> x \<Longrightarrow> x < 2 ^ 63 \<Longrightarrow> int64_range x"
  by (simp add: int64_range_def)

text \<open>Truncating division agrees with the rounding one on non-negative operands.\<close>

lemma smod_nonneg: "0 \<le> a \<Longrightarrow> 0 < b \<Longrightarrow> a smod b = a mod (b :: int)"
  by (simp add: smod_int_alt_def sgn_if)

lemma sdiv_nonneg: "0 \<le> a \<Longrightarrow> 0 < b \<Longrightarrow> a sdiv b = a div (b :: int)"
  by (simp add: signed_divide_int_def sgn_if)

lemma smod_small [simp]: "0 \<le> a \<Longrightarrow> a < b \<Longrightarrow> a smod b = (a :: int)"
  by (simp add: smod_nonneg)

lemma smod_add_self: "0 \<le> a \<Longrightarrow> a < b \<Longrightarrow> (a + b) smod b = (a :: int)"
  by (simp add: smod_nonneg)

section \<open>Lists\<close>

text \<open>The ring buffers keep a count of the entries with some property; one slot changes at a
  time, so the count moves by the old and the new value of that slot.\<close>

lemma length_filter_update:
  "i < length xs \<Longrightarrow>
   int (length (filter P (xs[i := x])))
     = int (length (filter P xs)) - (if P (xs ! i) then 1 else 0) + (if P x then 1 else 0)"
proof (induction xs arbitrary: i)
  case Nil
  then show ?case by simp
next
  case (Cons y ys)
  show ?case
  proof (cases i)
    case 0
    then show ?thesis by simp
  next
    case (Suc j)
    with Cons.prems have "j < length ys" by simp
    note IH = Cons.IH [OF this]
    from Suc IH show ?thesis
      by (cases "P y"; cases "P x"; cases "P (ys ! j)") simp_all
  qed
qed

lemma sum_list_update_int:
  "i < length xs \<Longrightarrow> sum_list (xs[i := x]) = sum_list xs - xs ! i + (x :: int)"
proof (induction xs arbitrary: i)
  case Nil
  then show ?case by simp
next
  case (Cons y ys)
  then show ?case by (cases i) auto
qed

lemma take_update_append: "i < length xs \<Longrightarrow> take (Suc i) (xs[i := x]) = take i xs @ [x]"
  by (simp add: take_Suc_conv_app_nth)

lemma filter_conv_nth_count:
  "length (filter id bs) = card {i. i < length bs \<and> bs ! i}"
  by (simp add: length_filter_conv_card)

end
