(* ===== verification/Float64.thy ===== *)
theory Float64
  imports Prelude "HOL-Library.Log_Nat"
begin

text \<open>
  The part of Go's \<open>float64\<close> arithmetic the program uses: conversion of an integer, one
  product or one quotient, a comparison, and the conversion back that truncates. A finite
  \<open>float64\<close> is the rational number it denotes; an operation is the exact rational result
  followed by \<open>f64_round\<close>, IEEE 754 rounding to 53 bits, ties to even. The program's values
  stay far from the overflow and underflow thresholds, so the exponent is not bounded here.
\<close>

type_synonym f64 = rat

section \<open>Rounding to an integer, ties to even\<close>

definition rne :: "rat \<Rightarrow> int" where
  "rne x = (let n = \<lfloor>x\<rfloor>; d = x - of_int n in
     if d < 1 / 2 then n else if 1 / 2 < d then n + 1 else if even n then n else n + 1)"

lemma rne_of_int [simp]: "rne (of_int n) = n"
  by (simp add: rne_def)

lemma rne_floor: "\<lfloor>x\<rfloor> \<le> rne x" "rne x \<le> \<lfloor>x\<rfloor> + 1"
  by (simp_all add: rne_def Let_def)

lemma rne_mono: "x \<le> y \<Longrightarrow> rne x \<le> rne y"
proof (cases "\<lfloor>x\<rfloor> = \<lfloor>y\<rfloor>")
  case True
  assume "x \<le> y"
  with True show ?thesis by (simp add: rne_def Let_def)
next
  case False
  assume "x \<le> y"
  with False have "\<lfloor>x\<rfloor> + 1 \<le> \<lfloor>y\<rfloor>"
    using floor_mono [of x y] by linarith
  then show ?thesis using rne_floor [of x] rne_floor [of y] by linarith
qed

lemma rne_ge: "of_int n \<le> x \<Longrightarrow> n \<le> rne x"
  using rne_mono [of "of_int n" x] by simp

lemma rne_le: "x \<le> of_int n \<Longrightarrow> rne x \<le> n"
  using rne_mono [of x "of_int n"] by simp

section \<open>The binade of a positive rational\<close>

definition f64_exp :: "rat \<Rightarrow> int" where
  "f64_exp x = (let (p, q) = quotient_of x;
                    e = int (floorlog 2 (nat p)) - int (floorlog 2 (nat q))
                in if 2 powi e \<le> x then e else e - 1)"

lemma quotient_pos:
  assumes "0 < x" "quotient_of x = (p, q)"
  shows "0 < p" "0 < q" "x = of_int p / of_int q"
proof -
  show q: "0 < q" using assms(2) by (rule quotient_of_denom_pos)
  show x: "x = of_int p / of_int q" using assms(2) by (rule quotient_of_div)
  show "0 < p" using assms(1) q x by (simp add: zero_less_divide_iff)
qed

lemma powi2_mono: "i \<le> j \<Longrightarrow> 2 powi i \<le> (2 powi j :: rat)"
  by (rule power_int_increasing) simp_all

lemma powi2_split: "i = j + k \<Longrightarrow> 2 powi i = 2 powi j * (2 powi k :: rat)"
  by (simp add: power_int_add)

lemma powi2_pos [simp]: "0 < (2 powi i :: rat)"
  by (simp add: zero_less_power_int)

lemma floorlog_powi:
  assumes "0 < p"
  shows "2 powi (int (floorlog 2 (nat p)) - 1) \<le> (of_int p :: rat)"
    and "(of_int p :: rat) < 2 powi int (floorlog 2 (nat p))"
proof -
  let ?l = "floorlog 2 (nat p)"
  from assms have b: "2 ^ (?l - 1) \<le> nat p" "nat p < 2 ^ ?l"
    using floorlog_bounds [of "nat p" 2] by auto
  from assms have l: "0 < ?l" by (simp add: floorlog_def)
  have p: "of_int p = (of_nat (nat p) :: rat)" using assms by simp
  have e1: "2 powi (int ?l - 1) = (of_nat (2 ^ (?l - 1)) :: rat)"
  proof -
    have "int ?l - 1 = int (?l - 1)" using l by simp
    then show ?thesis by (simp only: power_int_of_nat of_nat_power of_nat_numeral)
  qed
  have e2: "2 powi int ?l = (of_nat (2 ^ ?l) :: rat)"
    by (simp only: power_int_of_nat of_nat_power of_nat_numeral)
  show "2 powi (int ?l - 1) \<le> (of_int p :: rat)"
    unfolding p e1 using b(1) by (rule of_nat_mono)
  show "(of_int p :: rat) < 2 powi int ?l"
    unfolding p e2 using b(2) by (simp only: of_nat_less_iff)
qed

lemma f64_exp_bounds:
  assumes "0 < x"
  shows "2 powi f64_exp x \<le> x" and "x < 2 powi (f64_exp x + 1)"
proof -
  obtain p q where pq: "quotient_of x = (p, q)" by force
  note f = quotient_pos [OF assms pq]
  let ?a = "int (floorlog 2 (nat p))" and ?b = "int (floorlog 2 (nat q))"
  have lo: "2 powi (?a - ?b - 1) < x"
  proof -
    have "2 powi (?a - ?b - 1) * of_int q < 2 powi (?a - ?b - 1) * (2 powi ?b :: rat)"
      using floorlog_powi(2) [OF f(2)] by (rule mult_strict_left_mono) simp
    also have "\<dots> = 2 powi (?a - 1)" by (rule powi2_split [symmetric]) simp
    also have "\<dots> \<le> of_int p" by (rule floorlog_powi(1) [OF f(1)])
    finally show ?thesis using f by (simp add: pos_less_divide_eq)
  qed
  have hi: "x < 2 powi (?a - ?b + 1)"
  proof -
    have "of_int p < (2 powi ?a :: rat)" by (rule floorlog_powi(2) [OF f(1)])
    also have "\<dots> = 2 powi (?a - ?b + 1) * 2 powi (?b - 1)" by (rule powi2_split) simp
    also have "\<dots> \<le> 2 powi (?a - ?b + 1) * of_int q"
      using floorlog_powi(1) [OF f(2)] by (rule mult_left_mono) (simp add: less_imp_le)
    finally show ?thesis using f by (simp add: pos_divide_less_eq)
  qed
  show "2 powi f64_exp x \<le> x" and "x < 2 powi (f64_exp x + 1)"
    using lo hi by (simp_all add: f64_exp_def pq Let_def)
qed

lemma f64_exp_mono:
  assumes "0 < x" "x \<le> y"
  shows "f64_exp x \<le> f64_exp y"
proof (rule ccontr)
  assume "\<not> ?thesis"
  then have "f64_exp y + 1 \<le> f64_exp x" by simp
  from powi2_mono [OF this] have "2 powi (f64_exp y + 1) \<le> (2 powi f64_exp x :: rat)" .
  also have "\<dots> \<le> x" by (rule f64_exp_bounds [OF assms(1)])
  finally show False
    using f64_exp_bounds(2) [of y] assms by simp
qed

section \<open>Rounding to 53 bits\<close>

definition f64_round :: "rat \<Rightarrow> f64" where
  "f64_round x =
     (if x = 0 then 0
      else let u = 2 powi (f64_exp \<bar>x\<bar> - 52) in sgn x * of_int (rne (\<bar>x\<bar> / u)) * u)"

lemma f64_round_0 [simp]: "f64_round 0 = 0"
  by (simp add: f64_round_def)

lemma f64_round_pos:
  "0 < x \<Longrightarrow> f64_round x = of_int (rne (x / 2 powi (f64_exp x - 52))) * 2 powi (f64_exp x - 52)"
  by (simp add: f64_round_def Let_def)

text \<open>The rounded value stays in the closed binade of its argument.\<close>

lemma f64_round_binade:
  assumes "0 < x"
  shows "2 powi f64_exp x \<le> f64_round x" and "f64_round x \<le> 2 powi (f64_exp x + 1)"
proof -
  let ?e = "f64_exp x" and ?u = "2 powi (f64_exp x - 52) :: rat"
  have u: "0 < ?u" by (simp add: zero_less_power_int)
  have s: "2 powi ?e = of_int (2 ^ 52) * ?u" "2 powi (?e + 1) = of_int (2 ^ 53) * ?u"
    using powi2_split [of ?e 52 "?e - 52"] powi2_split [of "?e + 1" 53 "?e - 52"] by simp_all
  have "of_int (2 ^ 52) \<le> x / ?u" and "x / ?u \<le> of_int (2 ^ 53)"
    using f64_exp_bounds [OF assms] u by (simp_all only: s pos_le_divide_eq pos_divide_le_eq less_imp_le)
  then have "2 ^ 52 \<le> rne (x / ?u)" and "rne (x / ?u) \<le> 2 ^ 53"
    by (simp_all only: rne_ge rne_le)
  then have "(of_int (2 ^ 52) :: rat) \<le> of_int (rne (x / ?u))"
    and "(of_int (rne (x / ?u)) :: rat) \<le> of_int (2 ^ 53)"
    by (simp_all only: of_int_le_iff)
  then show "2 powi ?e \<le> f64_round x" and "f64_round x \<le> 2 powi (?e + 1)"
    using u by (simp_all only: s f64_round_pos [OF assms] mult_right_mono less_imp_le)
qed

lemma f64_round_mono:
  assumes "0 \<le> x" "x \<le> y"
  shows "f64_round x \<le> f64_round y"
proof (cases "x = 0")
  case True
  have "0 \<le> f64_round y" if "0 < y"
  proof -
    have "(0::rat) \<le> 2 powi f64_exp y" by (simp add: zero_le_power_int)
    with f64_round_binade(1) [OF that] show ?thesis by linarith
  qed
  with True assms show ?thesis by (cases "y = 0") simp_all
next
  case False
  with assms have x: "0 < x" and y: "0 < y" by simp_all
  show ?thesis
  proof (cases "f64_exp x = f64_exp y")
    case True
    have "x / 2 powi (f64_exp y - 52) \<le> y / 2 powi (f64_exp y - 52)"
      using assms(2) by (intro divide_right_mono) (simp_all add: zero_le_power_int)
    then have "rne (x / 2 powi (f64_exp y - 52)) \<le> rne (y / 2 powi (f64_exp y - 52))"
      by (rule rne_mono)
    with True x y show ?thesis
      by (simp add: f64_round_pos mult_right_mono zero_le_power_int)
  next
    case False
    with f64_exp_mono [OF x assms(2)] have "f64_exp x + 1 \<le> f64_exp y" by simp
    then have "2 powi (f64_exp x + 1) \<le> (2 powi f64_exp y :: rat)" by (rule powi2_mono)
    with f64_round_binade(2) [OF x] f64_round_binade(1) [OF y] show ?thesis by linarith
  qed
qed

text \<open>Integers of at most 53 bits are represented exactly.\<close>

lemma f64_round_of_nat:
  assumes "n < 2 ^ 53"
  shows "f64_round (of_nat n) = of_nat n"
proof (cases "n = 0")
  case False
  let ?x = "of_nat n :: rat" and ?e = "f64_exp (of_nat n)"
  have x: "0 < ?x" using False by simp
  have "?e \<le> 52"
  proof (rule ccontr)
    assume "\<not> ?thesis"
    then have "2 powi 53 \<le> (2 powi ?e :: rat)" by (intro powi2_mono) simp
    with f64_exp_bounds(1) [OF x] have "2 ^ 53 \<le> ?x" by simp
    then have "(of_nat (2 ^ 53) :: rat) \<le> of_nat n" by simp
    then show False using assms by (simp only: of_nat_le_iff)
  qed
  then have "?x / 2 powi (?e - 52) = ?x * 2 powi (52 - ?e)"
    using power_int_minus [of "2::rat" "?e - 52"] by (simp add: divide_inverse)
  also have "\<dots> = of_int (int n * 2 ^ nat (52 - ?e))"
    using \<open>?e \<le> 52\<close> by (simp add: power_int_def)
  finally have q: "?x / 2 powi (?e - 52) = of_int (int n * 2 ^ nat (52 - ?e))" .
  have "f64_round ?x = (?x / 2 powi (?e - 52)) * 2 powi (?e - 52)"
    using f64_round_pos [OF x] by (simp only: q rne_of_int)
  then show ?thesis by simp
qed simp

section \<open>The operations of the source\<close>

definition f64_of_nat :: "nat \<Rightarrow> f64" where
  "f64_of_nat n = f64_round (of_nat n)"

definition f64_mul :: "f64 \<Rightarrow> f64 \<Rightarrow> f64" where
  "f64_mul a b = f64_round (a * b)"

definition f64_div :: "f64 \<Rightarrow> f64 \<Rightarrow> f64" where
  "f64_div a b = f64_round (a / b)"

text \<open>\<open>int(x)\<close> discards the fraction; the program converts non-negative values only.\<close>

definition f64_to_nat :: "f64 \<Rightarrow> nat" where
  "f64_to_nat x = nat \<lfloor>x\<rfloor>"

lemma f64_to_nat_ge: "of_nat n \<le> x \<Longrightarrow> n \<le> f64_to_nat x"
  by (simp add: f64_to_nat_def nat_le_iff le_nat_iff le_floor_iff)

lemma f64_to_nat_le: "x < of_nat n + 1 \<Longrightarrow> f64_to_nat x \<le> n"
  by (simp add: f64_to_nat_def nat_le_iff floor_le_iff)

lemma f64_of_nat_exact: "n < 2 ^ 53 \<Longrightarrow> f64_of_nat n = of_nat n"
  by (simp only: f64_of_nat_def f64_round_of_nat)

lemma f64_div_self: "0 < n \<Longrightarrow> n < 2 ^ 53 \<Longrightarrow> f64_div (f64_of_nat n) (f64_of_nat n) = 1"
  using f64_round_of_nat [of 1] by (simp add: f64_of_nat_exact f64_div_def)

lemma f64_div_unit:
  assumes "m \<le> n" "n < 2 ^ 53"
  shows "0 \<le> f64_div (f64_of_nat m) (f64_of_nat n)"
    and "f64_div (f64_of_nat m) (f64_of_nat n) \<le> 1"
proof -
  have "m < 2 ^ 53" using assms by simp
  then have e: "f64_div (f64_of_nat m) (f64_of_nat n) = f64_round (of_nat m / of_nat n)"
    using assms by (simp add: f64_of_nat_exact f64_div_def)
  have "f64_round 0 \<le> f64_round (of_nat m / of_nat n)"
    by (rule f64_round_mono) simp_all
  moreover have "f64_round (of_nat m / of_nat n) \<le> f64_round (of_nat 1)"
    using assms(1) by (intro f64_round_mono; cases "n = 0") (simp_all add: divide_le_eq_1)
  moreover have "f64_round (of_nat 1) = 1" using f64_round_of_nat [of 1] by simp
  ultimately show "0 \<le> f64_div (f64_of_nat m) (f64_of_nat n)"
    and "f64_div (f64_of_nat m) (f64_of_nat n) \<le> 1"
    by (simp_all add: e)
qed

end
