(* ===== verification/Sliding_Window.thy ===== *)
theory Sliding_Window
  imports Prelude
begin

text \<open>
  The contract of the program's two ring buffers (\<^verbatim>\<open>bitring.BitRing\<close> of outcomes and
  \<^verbatim>\<open>ringbuffer.TimeDurationRingBuffer\<close> of response times): adding an entry appends it to the
  contents and drops the oldest one once the capacity is reached. The lemma of the locale is
  what their clients rely on: after any number of additions the contents are the last
  \<open>capacity\<close> entries ever added.
\<close>

definition last_n :: "nat \<Rightarrow> 'a list \<Rightarrow> 'a list" where
  "last_n n xs = drop (length xs - n) xs"

lemma last_n_Nil [simp]: "last_n n [] = []"
  by (simp add: last_n_def)

lemma length_last_n [simp]: "length (last_n n xs) = min n (length xs)"
  by (simp add: last_n_def)

lemma last_n_short [simp]: "length xs \<le> n \<Longrightarrow> last_n n xs = xs"
  by (simp add: last_n_def)

lemma last_n_idem [simp]: "last_n n (last_n n xs) = last_n n xs"
  by simp

lemma last_n_eq_Nil [simp]: "0 < n \<Longrightarrow> last_n n xs = [] \<longleftrightarrow> xs = []"
  by (cases xs) (simp_all add: last_n_def)

lemma last_n_snoc:
  "0 < n \<Longrightarrow> last_n n (xs @ [x])
     = (if length (last_n n xs) = n then tl (last_n n xs) else last_n n xs) @ [x]"
  by (auto simp: last_n_def drop_Suc tl_drop Suc_diff_le min_def simp flip: drop_Suc)

locale sliding_window =
  fixes add :: "'s \<Rightarrow> 'a \<Rightarrow> 's"
    and contents :: "'s \<Rightarrow> 'a list"
    and capacity :: "'s \<Rightarrow> nat"
    and inv :: "'s \<Rightarrow> bool"
  assumes capacity_pos: "inv s \<Longrightarrow> 0 < capacity s"
    and capacity_add: "inv s \<Longrightarrow> capacity (add s x) = capacity s"
    and inv_add: "inv s \<Longrightarrow> inv (add s x)"
    and contents_add: "inv s \<Longrightarrow> contents (add s x)
      = (if length (contents s) = capacity s then tl (contents s) else contents s) @ [x]"
begin

lemma inv_foldl: "inv s \<Longrightarrow> inv (foldl add s xs)"
  by (induction xs rule: rev_induct) (simp_all add: inv_add)

lemma capacity_foldl: "inv s \<Longrightarrow> capacity (foldl add s xs) = capacity s"
  by (induction xs rule: rev_induct) (simp_all add: capacity_add inv_foldl)

lemma contents_foldl:
  assumes "inv s" "contents s = []"
  shows "contents (foldl add s xs) = last_n (capacity s) xs"
proof (induction xs rule: rev_induct)
  case Nil
  with assms show ?case by simp
next
  case (snoc x xs)
  then show ?case
    using assms by (simp add: contents_add inv_foldl capacity_foldl last_n_snoc capacity_pos)
qed

lemma contents_bound: "inv s \<Longrightarrow> contents s = [] \<Longrightarrow> length (contents (foldl add s xs)) \<le> capacity s"
  by (simp add: contents_foldl)

end

end
