(* ===== verification/BitRing.thy ===== *)
theory BitRing
  imports Float64 Sliding_Window
begin

unbundle bit_operations_syntax

text \<open>
  \<^verbatim>\<open>internal/pkg/bitring/bitring.go\<close>: a sliding window of booleans packed into 64-bit words,
  with a running count of the events in the window. The sharding scheduler adds one outcome
  per round and stops when the last \<open>consecutive\<close> rounds all failed or the failure rate
  passes \<open>threshold\<close>.

  The words are \<open>64 word\<close> values, read and written with the source's shifts and masks; the
  signed shift of \<open>[]int64\<close> differs from the unsigned one only above the bit that is kept.
  \<open>slots\<close> is the abstraction: the slots as a list of booleans. \<open>history\<close> lists the
  recorded outcomes from the oldest to the newest, and the refinement lemma says that \<open>Add\<close>
  appends to it and drops the oldest entry once the window is full. The mutex makes each
  method atomic, which is what one HOL function per method states.
\<close>

section \<open>State and operations\<close>

record BitRing =
  br_words :: "64 word list"
  br_size :: nat
  br_pos :: nat
  br_filled :: bool
  br_eventCount :: int
  br_threshold :: f64
  br_consecutive :: nat

definition bitsPerWord :: nat where "bitsPerWord = 64"
definition bitsMask :: nat where "bitsMask = bitsPerWord - 1"
definition bitsShift :: nat where "bitsShift = 6"
definition defaultSize :: int where "defaultSize = 128"
definition defaultConsecutive :: int where "defaultConsecutive = 3"

definition NewBitRing :: "int \<Rightarrow> f64 \<Rightarrow> int \<Rightarrow> BitRing" where
  "NewBitRing size0 threshold0 consecutive0 =
     (let sz = (if size0 \<le> 0 then defaultSize else size0);
          c = (if consecutive0 \<le> 0 then defaultConsecutive else consecutive0);
          c' = (if c > sz then sz else c);
          t = (if threshold0 < 0 then 0 else if threshold0 > 1 then 1 else threshold0)
      in \<lparr>br_words = replicate ((nat sz + bitsMask) div bitsPerWord) 0, br_size = nat sz,
          br_pos = 0, br_filled = False, br_eventCount = 0, br_threshold = t,
          br_consecutive = nat c'\<rparr>)"

definition bitAt :: "BitRing \<Rightarrow> nat \<Rightarrow> bool" where
  "bitAt br idx =
     (let w = drop_bit bitsShift idx; off = idx AND bitsMask
      in drop_bit off (br_words br ! w) AND 1 = 1)"

definition setBit :: "BitRing \<Rightarrow> nat \<Rightarrow> bool \<Rightarrow> BitRing" where
  "setBit br idx v =
     (let w = drop_bit bitsShift idx; off = idx AND bitsMask; old = br_words br ! w
      in br\<lparr>br_words := (br_words br)[w :=
           (if v then old OR push_bit off 1 else old AND NOT (push_bit off 1))]\<rparr>)"

definition Add :: "BitRing \<Rightarrow> bool \<Rightarrow> BitRing" where
  "Add br eventHappened =
     (let oldBit = bitAt br (br_pos br);
          br1 = (if br_filled br \<and> oldBit
                 then br\<lparr>br_eventCount := br_eventCount br - 1\<rparr> else br);
          br2 = setBit br1 (br_pos br1) eventHappened;
          br3 = (if eventHappened
                 then br2\<lparr>br_eventCount := br_eventCount br2 + 1\<rparr> else br2);
          br4 = br3\<lparr>br_pos := br_pos br3 + 1\<rparr>
      in if br_pos br4 = br_size br4
         then br4\<lparr>br_pos := 0, br_filled := True\<rparr> else br4)"

definition windowSize :: "BitRing \<Rightarrow> nat" where
  "windowSize br = (if br_filled br then br_size br else br_pos br)"

text \<open>The loop \<open>for i := 1; i <= consecutive; i++\<close> with its early exit, from index \<open>i\<close>.\<close>

function allEvents :: "BitRing \<Rightarrow> nat \<Rightarrow> bool" where
  "allEvents br i =
     (if i \<le> br_consecutive br
      then (let p = nat ((int (br_pos br) - int i + int (br_size br)) smod int (br_size br))
            in if \<not> bitAt br p then False else allEvents br (i + 1))
      else True)"
  by pat_completeness auto
termination
  by (relation "measure (\<lambda>(br, i). br_consecutive br + 1 - i)") auto

declare allEvents.simps [simp del]

definition IsConditionMet :: "BitRing \<Rightarrow> bool" where
  "IsConditionMet br =
     (let window = windowSize br in
      if window = 0 then False
      else if window \<ge> br_consecutive br \<and> allEvents br 1 then True
      else f64_div (f64_of_nat (nat (br_eventCount br))) (f64_of_nat window) > br_threshold br)"

section \<open>The words as a list of slots\<close>

lemma mask_facts: "idx AND bitsMask = idx mod 64" "drop_bit bitsShift idx = idx div (64 :: nat)"
proof -
  have "idx AND bitsMask = take_bit 6 idx"
    by (simp add: bitsMask_def bitsPerWord_def take_bit_eq_mask mask_numeral)
  then show "idx AND bitsMask = idx mod 64" by (simp add: take_bit_eq_mod)
  show "drop_bit bitsShift idx = idx div 64" by (simp add: bitsShift_def drop_bit_eq_div)
qed

lemma and_one_eq_one_iff: "(drop_bit off w AND 1 = 1) = bit (w :: 64 word) off"
  by (simp add: and_one_eq bit_iff_odd_drop_bit odd_iff_mod_2_eq_one)

lemma bitAt_bit [ring_simps]: "bitAt br idx = bit (br_words br ! (idx div 64)) (idx mod 64)"
  by (simp add: bitAt_def mask_facts and_one_eq_one_iff)

definition br_wf :: "BitRing \<Rightarrow> bool" where
  "br_wf br \<longleftrightarrow> 0 < br_size br \<and> br_pos br < br_size br
     \<and> length (br_words br) = (br_size br + 63) div 64"

lemma word_index_bound: "i < n \<Longrightarrow> i div 64 < (n + 63) div (64 :: nat)"
  by (simp add: div_less_iff_less_mult less_eq_div_iff_mult_less_eq)

lemma bit_setBit [ring_simps]:
  assumes "length (br_words br) = (br_size br + 63) div 64" "idx < br_size br" "j < br_size br"
  shows "bitAt (setBit br idx v) j = (if j = idx then v else bitAt br j)"
proof -
  have w: "idx div 64 < length (br_words br)"
    using assms by (simp add: word_index_bound)
  have m: "j mod 64 < 64" "idx mod 64 < 64" by simp_all
  show ?thesis
  proof (cases "j div 64 = idx div 64")
    case True
    have "(j = idx) = (j mod 64 = idx mod 64)"
      using True by (metis div_mult_mod_eq)
    with True w m show ?thesis
      by (simp add: bitAt_bit setBit_def mask_facts Let_def bit_or_iff bit_and_iff bit_not_iff
            bit_exp_iff)
  next
    case False
    then have "j \<noteq> idx" by blast
    with False show ?thesis
      by (simp add: bitAt_bit setBit_def mask_facts Let_def)
  qed
qed

definition slots :: "BitRing \<Rightarrow> bool list" where
  "slots br = map (bitAt br) [0 ..< br_size br]"

lemma length_slots [simp]: "length (slots br) = br_size br"
  by (simp add: slots_def)

lemma nth_slots [simp]: "i < br_size br \<Longrightarrow> slots br ! i = bitAt br i"
  by (simp add: slots_def)

lemma setBit_simps [simp]:
  "br_size (setBit br i v) = br_size br" "br_pos (setBit br i v) = br_pos br"
  "br_filled (setBit br i v) = br_filled br" "br_eventCount (setBit br i v) = br_eventCount br"
  "br_threshold (setBit br i v) = br_threshold br"
  "br_consecutive (setBit br i v) = br_consecutive br"
  "length (br_words (setBit br i v)) = length (br_words br)"
  by (simp_all add: setBit_def Let_def)

lemma slots_setBit [ring_simps]:
  assumes "br_wf br" "idx < br_size br"
  shows "slots (setBit br idx v) = (slots br)[idx := v]"
proof (rule nth_equalityI)
  fix i assume "i < length (slots (setBit br idx v))"
  then have i: "i < br_size br" by simp
  have "slots (setBit br idx v) ! i = bitAt (setBit br idx v) i" using i by simp
  then show "slots (setBit br idx v) ! i = (slots br)[idx := v] ! i"
    using assms i by (simp add: bit_setBit br_wf_def nth_list_update)
qed simp

text \<open>Only the words matter to the slots, so the other fields can be updated freely.\<close>

lemma bitAt_frame [simp]:
  "bitAt (br\<lparr>br_eventCount := c\<rparr>) i = bitAt br i"
  "bitAt (br\<lparr>br_pos := p\<rparr>) i = bitAt br i"
  "bitAt (br\<lparr>br_filled := f\<rparr>) i = bitAt br i"
  by (simp_all add: bitAt_def)

lemma slots_frame [simp]:
  "slots (br\<lparr>br_eventCount := c\<rparr>) = slots br"
  "slots (br\<lparr>br_pos := p\<rparr>) = slots br"
  "slots (br\<lparr>br_filled := f\<rparr>) = slots br"
  by (simp_all add: slots_def)

lemma setBit_count_commute:
  "setBit (br\<lparr>br_eventCount := c\<rparr>) i v = (setBit br i v)\<lparr>br_eventCount := c\<rparr>"
  by (simp add: setBit_def Let_def)

section \<open>History, invariant and refinement\<close>

definition history :: "BitRing \<Rightarrow> bool list" where
  "history br = (if br_filled br
     then drop (br_pos br) (slots br) @ take (br_pos br) (slots br)
     else take (br_pos br) (slots br))"

definition br_inv :: "BitRing \<Rightarrow> bool" where
  "br_inv br \<longleftrightarrow> br_wf br \<and> 0 < br_consecutive br \<and> br_consecutive br \<le> br_size br
     \<and> 0 \<le> br_threshold br \<and> br_threshold br \<le> 1
     \<and> br_eventCount br = int (length (filter id (history br)))"

lemma length_history: "br_wf br \<Longrightarrow> length (history br) = windowSize br"
  by (auto simp: history_def windowSize_def br_wf_def)

lemma Add_slots:
  assumes "br_wf br"
  shows "slots (Add br e) = (slots br)[br_pos br := e]"
  using assms by (auto simp: Add_def Let_def setBit_count_commute slots_setBit br_wf_def)

lemma Add_pos:
  "br_pos (Add br e) = (if br_pos br + 1 = br_size br then 0 else br_pos br + 1)"
  "br_filled (Add br e) = (br_pos br + 1 = br_size br \<or> br_filled br)"
  "br_size (Add br e) = br_size br" "br_threshold (Add br e) = br_threshold br"
  "br_consecutive (Add br e) = br_consecutive br"
  "length (br_words (Add br e)) = length (br_words br)"
  by (auto simp: Add_def Let_def setBit_count_commute)

lemma Add_count:
  "br_eventCount (Add br e)
     = br_eventCount br - (if br_filled br \<and> bitAt br (br_pos br) then 1 else 0)
       + (if e then 1 else 0)"
  by (auto simp: Add_def Let_def setBit_count_commute)

lemma drop_singleton: "Suc n = length xs \<Longrightarrow> drop n xs = [xs ! n]"
  using Cons_nth_drop_Suc [of n xs] by simp

lemma history_Add:
  assumes "br_wf br"
  shows "history (Add br e)
    = (if br_filled br then tl (history br) else history br) @ [e]"
proof -
  let ?p = "br_pos br" and ?xs = "slots br"
  have p: "?p < length ?xs" using assms by (simp add: br_wf_def)
  show ?thesis
  proof (cases "?p + 1 = br_size br")
    case True
    then have "drop ?p ?xs = [?xs ! ?p]" "?xs[?p := e] = take ?p ?xs @ [e]"
      using p by (simp_all add: drop_singleton upd_conv_take_nth_drop)
    with True show ?thesis
      by (simp add: history_def Add_pos Add_slots [OF assms])
  next
    case False
    have "tl (drop ?p ?xs) = drop (Suc ?p) ?xs" by (simp add: drop_Suc tl_drop)
    moreover have "drop ?p ?xs \<noteq> []" using p by simp
    ultimately show ?thesis using False p
      by (simp add: history_def Add_pos Add_slots [OF assms] take_update_append tl_append2)
  qed
qed

lemma history_hd:
  "br_wf br \<Longrightarrow> br_filled br \<Longrightarrow> history br = bitAt br (br_pos br) # tl (history br)"
proof -
  assume a: "br_wf br" "br_filled br"
  then have "br_pos br < length (slots br)" by (simp add: br_wf_def)
  then have "drop (br_pos br) (slots br) = bitAt br (br_pos br) # drop (Suc (br_pos br)) (slots br)"
    by (simp flip: Cons_nth_drop_Suc)
  with a show ?thesis by (simp add: history_def)
qed

lemma Add_wf: "br_wf br \<Longrightarrow> br_wf (Add br e)"
  by (auto simp: br_wf_def Add_pos)

lemma Add_inv: "br_inv br \<Longrightarrow> br_inv (Add br e)"
proof -
  assume inv: "br_inv br"
  then have wf: "br_wf br" by (simp add: br_inv_def)
  have "br_eventCount (Add br e) = int (length (filter id (history (Add br e))))"
  proof (cases "br_filled br")
    case True
    from history_hd [OF wf True] obtain t where
      t: "history br = bitAt br (br_pos br) # t" by blast
    with inv True show ?thesis
      by (simp add: br_inv_def Add_count history_Add [OF wf])
  next
    case False
    with inv show ?thesis
      by (simp add: br_inv_def Add_count history_Add [OF wf])
  qed
  with inv wf show ?thesis by (simp add: br_inv_def Add_wf Add_pos)
qed

lemma New_inv: "br_inv (NewBitRing sz t c)"
  by (auto simp: br_inv_def br_wf_def NewBitRing_def Let_def history_def bitsMask_def
      bitsPerWord_def defaultSize_def defaultConsecutive_def)

section \<open>The trigger condition\<close>

lemma nth_history_back:
  assumes "br_wf br" "1 \<le> i" "i \<le> windowSize br"
  shows "history br ! (windowSize br - i)
    = bitAt br (nat ((int (br_pos br) - int i + int (br_size br)) smod int (br_size br)))"
proof -
  let ?p = "br_pos br" and ?n = "br_size br"
  have p: "?p < ?n" using assms by (simp add: br_wf_def)
  have i: "i \<le> ?n" using assms p by (simp add: windowSize_def split: if_splits)
  have idx: "nat ((int ?p - int i + int ?n) smod int ?n) = (if i \<le> ?p then ?p - i else ?p + ?n - i)"
  proof (cases "i \<le> ?p")
    case True
    then have "(int ?p - int i + int ?n) smod int ?n = int ?p - int i"
      using p by (intro smod_add_self) simp_all
    with True show ?thesis by simp
  next
    case False
    then have "(int ?p - int i + int ?n) smod int ?n = int ?p - int i + int ?n"
      using i by (intro smod_small) simp_all
    with False i show ?thesis by simp
  qed
  show ?thesis
  proof (cases "br_filled br")
    case True
    then have w: "windowSize br = ?n" by (simp add: windowSize_def)
    show ?thesis
    proof (cases "i \<le> ?p")
      case True
      then have "?n - i = (?n - ?p) + (?p - i)" "\<not> ?n - i < ?n - ?p" using p by simp_all
      with True \<open>br_filled br\<close> p assms(2) show ?thesis
        by (simp add: w idx history_def nth_append del: diff_less_mono2)
    next
      case False
      then have "?n - i < ?n - ?p" "?p + (?n - i) = ?p + ?n - i" using i p by simp_all
      with False \<open>br_filled br\<close> p i show ?thesis
        unfolding w idx by (simp add: history_def nth_append)
    qed
  next
    case False
    then have w: "windowSize br = ?p" by (simp add: windowSize_def)
    with assms False p show ?thesis
      by (simp add: idx history_def)
  qed
qed

lemma allEvents_iff:
  "allEvents br i \<longleftrightarrow> (\<forall>j \<in> {i..br_consecutive br}.
     bitAt br (nat ((int (br_pos br) - int j + int (br_size br)) smod int (br_size br))))"
proof (induction br i rule: allEvents.induct)
  case (1 br i)
  show ?case
  proof (cases "i \<le> br_consecutive br")
    case True
    then have "{i..br_consecutive br} = insert i {i + 1..br_consecutive br}" by auto
    with True 1 show ?thesis by (subst allEvents.simps) (simp add: Let_def)
  next
    case False
    then show ?thesis by (subst allEvents.simps) simp
  qed
qed

lemma allEvents_history:
  assumes "br_inv br" "br_consecutive br \<le> windowSize br"
  shows "allEvents br 1
    \<longleftrightarrow> (\<forall>b \<in> set (drop (windowSize br - br_consecutive br) (history br)). b)"
proof -
  let ?w = "windowSize br" and ?c = "br_consecutive br" and ?h = "history br"
  have wf: "br_wf br" using assms by (simp add: br_inv_def)
  have len: "length ?h = ?w" by (rule length_history [OF wf])
  have "allEvents br 1 \<longleftrightarrow> (\<forall>j \<in> {1..?c}. ?h ! (?w - j))"
    using assms(2) by (auto simp: allEvents_iff nth_history_back [OF wf])
  also have "\<dots> \<longleftrightarrow> (\<forall>k < ?c. ?h ! (?w - ?c + k))"
  proof
    assume h: "\<forall>j \<in> {1..?c}. ?h ! (?w - j)"
    show "\<forall>k < ?c. ?h ! (?w - ?c + k)"
    proof (intro allI impI)
      fix k assume "k < ?c"
      with bspec [OF h, of "?c - k"] assms(2) show "?h ! (?w - ?c + k)"
        by (simp add: algebra_simps)
    qed
  next
    assume h: "\<forall>k < ?c. ?h ! (?w - ?c + k)"
    show "\<forall>j \<in> {1..?c}. ?h ! (?w - j)"
    proof
      fix j assume j: "j \<in> {1..?c}"
      with h [rule_format, of "?c - j"] assms(2) show "?h ! (?w - j)" by simp
    qed
  qed
  also have "\<dots> \<longleftrightarrow> (\<forall>b \<in> set (drop (?w - ?c) ?h). b)"
    using assms(2) len by (auto simp: all_set_conv_all_nth)
  finally show ?thesis .
qed

section \<open>The contract\<close>

lemma filled_iff:
  "br_wf br \<Longrightarrow> br_filled br \<longleftrightarrow> length (history br) = br_size br"
  by (auto simp: length_history windowSize_def br_wf_def)

lemma br_inv_wf: "br_inv br \<Longrightarrow> br_wf br"
  by (simp add: br_inv_def)

interpretation bits: sliding_window Add history br_size br_inv
  by unfold_locales
    (auto simp: br_inv_wf Add_pos filled_iff history_Add intro: Add_inv, simp add: br_inv_def)

text \<open>What a ring of \<open>n\<close> slots, \<open>c\<close> consecutive events and threshold \<open>t\<close> promises, stated on
  the list of all outcomes ever recorded: only the last \<open>n\<close> count.\<close>

definition trigger :: "nat \<Rightarrow> nat \<Rightarrow> f64 \<Rightarrow> bool list \<Rightarrow> bool" where
  "trigger n c t es =
     (let w = last_n n es in
      w \<noteq> [] \<and> (c \<le> length w \<and> list_all id (last_n c w)
        \<or> f64_div (f64_of_nat (length (filter id w))) (f64_of_nat (length w)) > t))"

definition Add_all :: "BitRing \<Rightarrow> bool list \<Rightarrow> BitRing" where
  "Add_all br es = foldl Add br es"

lemma New_history: "history (NewBitRing sz t c) = []"
  by (auto simp: NewBitRing_def Let_def history_def)

lemma Add_all_frame:
  "br_threshold (Add_all br es) = br_threshold br"
  "br_consecutive (Add_all br es) = br_consecutive br"
  by (induction es rule: rev_induct) (simp_all add: Add_pos Add_all_def)

lemma IsConditionMet_history:
  assumes "br_inv br"
  shows "IsConditionMet br
    = trigger (br_size br) (br_consecutive br) (br_threshold br) (history br)"
proof -
  have wf: "br_wf br" using assms by (simp add: br_inv_def)
  have len: "length (history br) = windowSize br" by (rule length_history [OF wf])
  have le: "windowSize br \<le> br_size br" using wf by (auto simp: windowSize_def br_wf_def)
  have full: "last_n (br_size br) (history br) = history br" by (simp add: len le)
  have "br_consecutive br \<le> windowSize br \<Longrightarrow>
      allEvents br 1 = list_all id (last_n (br_consecutive br) (history br))"
    using allEvents_history [OF assms] by (simp add: list_all_iff last_n_def len)
  moreover have "nat (br_eventCount br) = length (filter id (history br))"
    using assms by (simp add: br_inv_def)
  moreover have "history br = [] \<longleftrightarrow> windowSize br = 0" by (simp flip: len)
  ultimately show ?thesis
    by (auto simp: IsConditionMet_def trigger_def Let_def full len)
qed

lemma IsConditionMet_trigger:
  "IsConditionMet (Add_all (NewBitRing sz t c) es)
     = trigger (br_size (NewBitRing sz t c)) (br_consecutive (NewBitRing sz t c))
               (br_threshold (NewBitRing sz t c)) es"
  using IsConditionMet_history [OF bits.inv_foldl [OF New_inv], of sz t c es]
    bits.contents_foldl [OF New_inv New_history, of sz t c es]
    bits.capacity_foldl [OF New_inv, of sz t c es]
    Add_all_frame [of "NewBitRing sz t c" es]
  by (simp add: trigger_def Add_all_def)

text \<open>C7. The packed ring refines the plain sliding window: after any sequence of \<open>Add\<close> calls
  on a new ring, \<open>IsConditionMet\<close> answers exactly what the contract says about the recorded
  outcomes (the last \<open>consecutive\<close> of them all events, or the event rate of the last \<open>size\<close>
  above the threshold, with Go's rounded division), whatever the constructor's arguments.\<close>

theorem BitRing_IsConditionMet:
  "IsConditionMet (Add_all (NewBitRing sz t c) es)
     = trigger (br_size (NewBitRing sz t c)) (br_consecutive (NewBitRing sz t c))
               (br_threshold (NewBitRing sz t c)) es"
  by (rule IsConditionMet_trigger)

end
