(* ===== verification/RingBuffer.thy ===== *)
theory RingBuffer
  imports Sliding_Window
begin

text \<open>
  \<^verbatim>\<open>internal/pkg/ringbuffer/ringbuffer.go\<close>: the last \<open>capacity\<close> response times with their
  running sum, so that the average costs O(1). \<open>samples\<close> is the abstraction (oldest first);
  the invariant ties \<open>sum\<close> to it, modulo the wrap-around of Go's \<open>int64\<close> addition, which the
  subtraction of overwritten samples undoes.
\<close>

section \<open>State and operations\<close>

datatype ring_error = ErrInvalidCapacity

record TimeDurationRingBuffer =
  rb_buffer :: "duration list"
  rb_capacity :: nat
  rb_index :: nat
  rb_count :: nat
  rb_sum :: duration

definition NewTimeDurationRingBuffer :: "int \<Rightarrow> ring_error + TimeDurationRingBuffer" where
  "NewTimeDurationRingBuffer cap =
     (if cap \<le> 0 then Inl ErrInvalidCapacity
      else Inr \<lparr>rb_buffer = replicate (nat cap) 0, rb_capacity = nat cap, rb_index = 0,
                rb_count = 0, rb_sum = 0\<rparr>)"

definition rb_Add :: "TimeDurationRingBuffer \<Rightarrow> duration \<Rightarrow> TimeDurationRingBuffer" where
  "rb_Add r d =
     (let r1 = (if rb_count r = rb_capacity r
                then r\<lparr>rb_sum := wrap64 (rb_sum r - rb_buffer r ! rb_index r)\<rparr>
                else r\<lparr>rb_count := rb_count r + 1\<rparr>);
          r2 = r1\<lparr>rb_buffer := (rb_buffer r1)[rb_index r1 := d]\<rparr>;
          r3 = r2\<lparr>rb_sum := wrap64 (rb_sum r2 + d)\<rparr>
      in r3\<lparr>rb_index := (rb_index r3 + 1) mod rb_capacity r3\<rparr>)"

definition rb_Avg :: "TimeDurationRingBuffer \<Rightarrow> duration" where
  "rb_Avg r = (if rb_count r = 0 then 0 else rb_sum r sdiv int (rb_count r))"

definition rb_Len :: "TimeDurationRingBuffer \<Rightarrow> nat" where
  "rb_Len r = rb_count r"

definition rb_Cap :: "TimeDurationRingBuffer \<Rightarrow> nat" where
  "rb_Cap r = rb_capacity r"

definition rb_Clear :: "TimeDurationRingBuffer \<Rightarrow> TimeDurationRingBuffer" where
  "rb_Clear r = r\<lparr>rb_buffer := map (\<lambda>_. 0) (rb_buffer r), rb_count := 0, rb_sum := 0,
                   rb_index := 0\<rparr>"

section \<open>Abstraction and invariant\<close>

definition samples :: "TimeDurationRingBuffer \<Rightarrow> duration list" where
  "samples r = (if rb_count r = rb_capacity r
     then drop (rb_index r) (rb_buffer r) @ take (rb_index r) (rb_buffer r)
     else take (rb_index r) (rb_buffer r))"

definition rb_inv :: "TimeDurationRingBuffer \<Rightarrow> bool" where
  "rb_inv r \<longleftrightarrow> 0 < rb_capacity r \<and> length (rb_buffer r) = rb_capacity r
     \<and> rb_index r < rb_capacity r \<and> rb_count r \<le> rb_capacity r
     \<and> (rb_count r < rb_capacity r \<longrightarrow> rb_index r = rb_count r)
     \<and> rb_sum r = wrap64 (sum_list (samples r))"

lemma length_samples: "rb_inv r \<Longrightarrow> length (samples r) = rb_count r"
  by (auto simp: samples_def rb_inv_def)

lemma samples_full:
  "rb_inv r \<Longrightarrow> rb_count r = rb_capacity r
     \<Longrightarrow> samples r = rb_buffer r ! rb_index r # tl (samples r)"
  by (simp add: samples_def rb_inv_def flip: Cons_nth_drop_Suc)

lemma rb_Add_fields:
  "rb_capacity (rb_Add r d) = rb_capacity r"
  "rb_count (rb_Add r d) = (if rb_count r = rb_capacity r then rb_count r else rb_count r + 1)"
  "rb_buffer (rb_Add r d) = (rb_buffer r)[rb_index r := d]"
  "rb_index (rb_Add r d) = (rb_index r + 1) mod rb_capacity r"
  by (simp_all add: rb_Add_def Let_def)

lemma rb_Add_sum:
  "rb_sum (rb_Add r d) = (if rb_count r = rb_capacity r
     then wrap64 (rb_sum r - rb_buffer r ! rb_index r + d) else wrap64 (rb_sum r + d))"
  by (simp add: rb_Add_def Let_def wrap_simps)

lemma drop_update_next: "i < length xs \<Longrightarrow> drop (Suc i) (xs[i := x]) = drop (Suc i) xs"
  by simp

lemma samples_Add:
  assumes "rb_inv r"
  shows "samples (rb_Add r d)
    = (if length (samples r) = rb_capacity r then tl (samples r) else samples r) @ [d]"
proof -
  let ?i = "rb_index r" and ?b = "rb_buffer r" and ?n = "rb_capacity r"
  from assms have i: "?i < length ?b" "length ?b = ?n" by (simp_all add: rb_inv_def)
  have tl: "tl (drop ?i ?b @ take ?i ?b) = drop (Suc ?i) ?b @ take ?i ?b"
    using i by (simp add: tl_append2 drop_Suc tl_drop)
  show ?thesis
  proof (cases "Suc ?i = ?n")
    case True
    then have "?b[?i := d] = take ?i ?b @ [d]" "drop (Suc ?i) ?b = []"
      using i by (simp_all add: upd_conv_take_nth_drop)
    with True assms i tl show ?thesis
      by (auto simp: samples_def rb_Add_fields length_samples rb_inv_def)
  next
    case False
    with i have "Suc ?i mod ?n = Suc ?i" by simp
    with False assms i tl show ?thesis
      by (auto simp: samples_def rb_Add_fields length_samples rb_inv_def take_update_append)
  qed
qed

lemma rb_Add_inv:
  assumes "rb_inv r"
  shows "rb_inv (rb_Add r d)"
proof -
  have sum: "rb_sum (rb_Add r d) = wrap64 (sum_list (samples (rb_Add r d)))"
  proof (cases "rb_count r = rb_capacity r")
    case True
    from samples_full [OF assms True] obtain t where t: "samples r = rb_buffer r ! rb_index r # t"
      by blast
    have "rb_sum r = wrap64 (sum_list (samples r))" using assms by (simp add: rb_inv_def)
    then have "wrap64 (rb_sum r - rb_buffer r ! rb_index r + d) = wrap64 (sum_list t + d)"
      using wrap64_add_left [of "sum_list (samples r)" "d - rb_buffer r ! rb_index r"]
      by (simp add: t algebra_simps)
    moreover have "length (samples r) = rb_capacity r"
      using True by (simp add: length_samples [OF assms])
    ultimately show ?thesis
      using True t by (simp add: rb_Add_sum samples_Add [OF assms])
  next
    case False
    with assms show ?thesis
      by (simp add: rb_Add_sum samples_Add [OF assms] length_samples rb_inv_def wrap_simps)
  qed
  have "0 < rb_capacity r \<Longrightarrow> (rb_index r + 1) mod rb_capacity r < rb_capacity r" by simp
  with assms sum show ?thesis
    by (auto simp: rb_inv_def rb_Add_fields)
qed

lemma New_rb_inv:
  "NewTimeDurationRingBuffer cap = Inr r
     \<Longrightarrow> rb_inv r \<and> samples r = [] \<and> rb_capacity r = nat cap"
  by (auto simp: NewTimeDurationRingBuffer_def rb_inv_def samples_def wrap64_def split: if_splits)

lemma Clear_inv: "rb_inv r \<Longrightarrow> rb_inv (rb_Clear r) \<and> samples (rb_Clear r) = []"
  by (auto simp: rb_Clear_def rb_inv_def samples_def wrap64_def)

interpretation durations: sliding_window rb_Add samples rb_capacity rb_inv
  by unfold_locales (simp_all add: rb_Add_inv samples_Add rb_Add_fields, simp add: rb_inv_def)

section \<open>Properties\<close>

text \<open>The buffer computes the average of the last \<open>capacity\<close> samples: after any sequence of
  additions to a new buffer, \<open>Avg\<close> is the wrapped sum of exactly those samples divided by
  their number (0 when there is none), \<open>Len\<close> is their number, and \<open>Len\<close> never passes \<open>Cap\<close>.\<close>

theorem RingBuffer_average:
  fixes ds :: "duration list"
  assumes "NewTimeDurationRingBuffer cap = Inr r0"
  defines "w \<equiv> last_n (nat cap) ds" and "r \<equiv> foldl rb_Add r0 ds"
  shows "rb_Avg r = (if w = [] then 0 else wrap64 (sum_list w) sdiv int (length w))
    \<and> rb_Len r = length w \<and> rb_Len r \<le> rb_Cap r"
proof -
  from New_rb_inv [OF assms(1)] have r0: "rb_inv r0" "samples r0 = []" "rb_capacity r0 = nat cap"
    by simp_all
  have inv: "rb_inv r" unfolding r_def by (rule durations.inv_foldl [OF r0(1)])
  have "samples r = w"
    using durations.contents_foldl [OF r0(1,2)] by (simp add: r_def w_def r0(3))
  with inv length_samples [OF inv] show ?thesis
    by (auto simp: rb_Avg_def rb_Len_def rb_Cap_def rb_inv_def)
qed

theorem RingBuffer_average_witness:
  "rb_Avg (foldl rb_Add (projr (NewTimeDurationRingBuffer 2)) [5, 10, 21]) = 15"
proof -
  have "NewTimeDurationRingBuffer 2 = Inr (projr (NewTimeDurationRingBuffer 2))"
    by (simp add: NewTimeDurationRingBuffer_def)
  from RingBuffer_average [OF this, of "[5, 10, 21]"] show ?thesis
    by (simp add: last_n_def wrap64_def sdiv_nonneg)
qed

end
