(* ===== verification/BatchSize.thy ===== *)
theory BatchSize
  imports RingBuffer
begin

text \<open>
  \<^verbatim>\<open>internal/pkg/batchSize\<close>: the two implementations of \<open>Adjuster\<close>, which choose the next
  batch size from the last response time. The interface is the locale \<open>adjuster\<close>: whatever
  the response times and the clock, the size returned is the size kept, it stays between the
  minimum and the maximum, and one call moves it by at most the step. Both implementations
  interpret it.

  \<open>now\<close> is the value of \<open>time.Now()\<close> in the call (\<open>time.Since(t)\<close> is \<open>now - t\<close>, \<open>IsZero\<close> is
  equality with 0). Sizes and steps are Go \<open>int\<close>s; the sum that could leave 64 bits is wrapped.
\<close>

section \<open>The interface\<close>

locale adjuster =
  fixes adjust :: "'s \<Rightarrow> gtime \<Rightarrow> duration \<Rightarrow> int \<times> 's"
    and size_of :: "'s \<Rightarrow> int"
    and lo :: "'s \<Rightarrow> int"
    and hi :: "'s \<Rightarrow> int"
    and step :: "'s \<Rightarrow> int"
    and inv :: "'s \<Rightarrow> bool"
  assumes adjust_inv: "inv s \<Longrightarrow> inv (snd (adjust s now rt))"
    and adjust_result: "inv s \<Longrightarrow> fst (adjust s now rt) = size_of (snd (adjust s now rt))"
    and adjust_config: "inv s \<Longrightarrow> lo (snd (adjust s now rt)) = lo s
      \<and> hi (snd (adjust s now rt)) = hi s \<and> step (snd (adjust s now rt)) = step s"
    and bounds: "inv s \<Longrightarrow> lo s \<le> size_of s \<and> size_of s \<le> hi s"
    and adjust_step: "inv s \<Longrightarrow> \<bar>size_of (snd (adjust s now rt)) - size_of s\<bar> \<le> step s"
begin

fun adjust_all :: "'s \<Rightarrow> (gtime \<times> duration) list \<Rightarrow> int list \<times> 's" where
  "adjust_all s [] = ([], s)"
| "adjust_all s ((now, rt) # calls) =
     (let (n, s1) = adjust s now rt; (ns, s2) = adjust_all s1 calls in (n # ns, s2))"

lemma adjust_all_bounds:
  "inv s \<Longrightarrow> list_all (\<lambda>n. lo s \<le> n \<and> n \<le> hi s) (fst (adjust_all s calls))"
proof (induction calls arbitrary: s)
  case Nil
  then show ?case by simp
next
  case (Cons c calls)
  obtain now rt where c: "c = (now, rt)" by force
  let ?s = "snd (adjust s now rt)"
  from Cons.prems have i: "inv ?s" "lo ?s = lo s" "hi ?s = hi s"
    using adjust_config by (simp_all add: adjust_inv)
  have "lo s \<le> fst (adjust s now rt) \<and> fst (adjust s now rt) \<le> hi s"
    using bounds [OF i(1)] adjust_result [OF Cons.prems] i by simp
  then show ?case
    using Cons.IH [OF i(1)] i by (simp add: c split_beta)
qed

end

section \<open>FixedStepAdjuster\<close>

record FixedStepAdjuster =
  fs_batchSize :: int
  fs_adjustStep :: int
  fs_minBatchSize :: int
  fs_maxBatchSize :: int
  fs_lastAdjustTime :: gtime
  fs_minAdjustInterval :: duration
  fs_fastThreshold :: duration
  fs_slowThreshold :: duration

definition clampInitial :: "int \<Rightarrow> int \<Rightarrow> int \<Rightarrow> int" where
  "clampInitial initialSize minSize maxSize =
     (let i = (if initialSize < minSize then minSize else initialSize)
      in if i > maxSize then maxSize else i)"

definition NewFixedStepAdjuster ::
  "int \<Rightarrow> int \<Rightarrow> int \<Rightarrow> int \<Rightarrow> duration \<Rightarrow> duration \<Rightarrow> duration \<Rightarrow> FixedStepAdjuster" where
  "NewFixedStepAdjuster initialSize minSize maxSize adjustStep interval fast slow =
     \<lparr>fs_batchSize = clampInitial initialSize minSize maxSize, fs_adjustStep = adjustStep,
      fs_minBatchSize = minSize, fs_maxBatchSize = maxSize, fs_lastAdjustTime = 0,
      fs_minAdjustInterval = interval, fs_fastThreshold = fast, fs_slowThreshold = slow\<rparr>"

definition fs_Adjust ::
  "FixedStepAdjuster \<Rightarrow> gtime \<Rightarrow> duration \<Rightarrow> int \<times> FixedStepAdjuster" where
  "fs_Adjust f now responseTime =
     (if fs_lastAdjustTime f \<noteq> 0 \<and> now - fs_lastAdjustTime f < fs_minAdjustInterval f
      then (fs_batchSize f, f)
      else let f1 =
        (if responseTime < fs_fastThreshold f
         then (if fs_batchSize f < fs_maxBatchSize f
               then f\<lparr>fs_batchSize := min (wrap64 (fs_batchSize f + fs_adjustStep f))
                                          (fs_maxBatchSize f),
                      fs_lastAdjustTime := now\<rparr>
               else f)
         else if responseTime > fs_slowThreshold f
         then (if fs_batchSize f > fs_minBatchSize f
               then f\<lparr>fs_batchSize := max (wrap64 (fs_batchSize f - fs_adjustStep f))
                                          (fs_minBatchSize f),
                      fs_lastAdjustTime := now\<rparr>
               else f)
         else f)
      in (fs_batchSize f1, f1))"

text \<open>The configuration under which no sum overflows: sizes and step between 0 and \<open>2 ^ 62\<close>.\<close>

definition fs_inv :: "FixedStepAdjuster \<Rightarrow> bool" where
  "fs_inv f \<longleftrightarrow> 0 \<le> fs_minBatchSize f \<and> fs_minBatchSize f \<le> fs_batchSize f
     \<and> fs_batchSize f \<le> fs_maxBatchSize f \<and> fs_maxBatchSize f < 2 ^ 62
     \<and> 0 \<le> fs_adjustStep f \<and> fs_adjustStep f < 2 ^ 62"

lemma clampInitial_bounds: "lo \<le> hi \<Longrightarrow> lo \<le> clampInitial i lo hi \<and> clampInitial i lo hi \<le> hi"
  by (simp add: clampInitial_def Let_def)

lemma wrap64_small:
  "\<bar>a\<bar> < 2 ^ 62 \<Longrightarrow> \<bar>b\<bar> < 2 ^ 62 \<Longrightarrow> wrap64 (a + b) = a + b \<and> wrap64 (a - b) = a - b"
  by (simp add: wrap64_id int64_range_def abs_less_iff)

lemma fs_no_wrap:
  "fs_inv f \<Longrightarrow> wrap64 (fs_batchSize f + fs_adjustStep f) = fs_batchSize f + fs_adjustStep f"
  "fs_inv f \<Longrightarrow> wrap64 (fs_batchSize f - fs_adjustStep f) = fs_batchSize f - fs_adjustStep f"
  using wrap64_small [of "fs_batchSize f" "fs_adjustStep f"] by (simp_all add: fs_inv_def)

interpretation fixed_step: adjuster fs_Adjust fs_batchSize fs_minBatchSize fs_maxBatchSize
    fs_adjustStep fs_inv
proof unfold_locales
  fix s :: FixedStepAdjuster and now rt
  assume i: "fs_inv s"
  show "fs_inv (snd (fs_Adjust s now rt))"
    using i by (auto simp: fs_Adjust_def fs_no_wrap [OF i] Let_def fs_inv_def)
  show "fst (fs_Adjust s now rt) = fs_batchSize (snd (fs_Adjust s now rt))"
    by (simp add: fs_Adjust_def Let_def)
  show "fs_minBatchSize (snd (fs_Adjust s now rt)) = fs_minBatchSize s
      \<and> fs_maxBatchSize (snd (fs_Adjust s now rt)) = fs_maxBatchSize s
      \<and> fs_adjustStep (snd (fs_Adjust s now rt)) = fs_adjustStep s"
    by (simp add: fs_Adjust_def Let_def)
  show "fs_minBatchSize s \<le> fs_batchSize s \<and> fs_batchSize s \<le> fs_maxBatchSize s"
    using i by (simp add: fs_inv_def)
  show "\<bar>fs_batchSize (snd (fs_Adjust s now rt)) - fs_batchSize s\<bar> \<le> fs_adjustStep s"
    using i by (auto simp: fs_Adjust_def fs_no_wrap [OF i] Let_def fs_inv_def)
qed

section \<open>RingBufferAdjuster\<close>

record RingBufferAdjuster =
  ra_timeBuffer :: TimeDurationRingBuffer
  ra_batchSize :: int
  ra_minBatchSize :: int
  ra_maxBatchSize :: int
  ra_adjustStep :: int
  ra_cooldownPeriod :: duration
  ra_lastAdjustTime :: gtime

text \<open>The constructor drops the error of \<open>NewTimeDurationRingBuffer\<close>; with the default of 128
  the capacity is positive, so there is none.\<close>

definition NewRingBufferAdjuster ::
  "int \<Rightarrow> int \<Rightarrow> int \<Rightarrow> int \<Rightarrow> duration \<Rightarrow> int \<Rightarrow> RingBufferAdjuster option" where
  "NewRingBufferAdjuster initialSize minSize maxSize adjustStep cooldown bufferSize0 =
     (let bufferSize = (if bufferSize0 \<le> 0 then 128 else bufferSize0) in
      case NewTimeDurationRingBuffer bufferSize of
        Inl _ \<Rightarrow> None
      | Inr b \<Rightarrow> Some \<lparr>ra_timeBuffer = b, ra_batchSize = clampInitial initialSize minSize maxSize,
          ra_minBatchSize = minSize, ra_maxBatchSize = maxSize, ra_adjustStep = adjustStep,
          ra_cooldownPeriod = cooldown, ra_lastAdjustTime = 0\<rparr>)"

definition ra_Adjust ::
  "RingBufferAdjuster \<Rightarrow> gtime \<Rightarrow> duration \<Rightarrow> int \<times> RingBufferAdjuster" where
  "ra_Adjust r0 now responseTime =
     (let r = r0\<lparr>ra_timeBuffer := rb_Add (ra_timeBuffer r0) responseTime\<rparr> in
      if rb_Len (ra_timeBuffer r) < rb_Cap (ra_timeBuffer r) then (ra_batchSize r, r)
      else if ra_lastAdjustTime r \<noteq> 0 \<and> now - ra_lastAdjustTime r < ra_cooldownPeriod r
      then (ra_batchSize r, r)
      else let avgTime = rb_Avg (ra_timeBuffer r);
        r1 = (if responseTime > avgTime
              then (if ra_batchSize r > ra_minBatchSize r
                    then r\<lparr>ra_batchSize := max (wrap64 (ra_batchSize r - ra_adjustStep r))
                                               (ra_minBatchSize r),
                           ra_lastAdjustTime := now\<rparr>
                    else r)
              else if responseTime < avgTime
              then (if ra_batchSize r < ra_maxBatchSize r
                    then r\<lparr>ra_batchSize := min (wrap64 (ra_batchSize r + ra_adjustStep r))
                                               (ra_maxBatchSize r),
                           ra_lastAdjustTime := now\<rparr>
                    else r)
              else r)
      in (ra_batchSize r1, r1))"

definition ra_inv :: "RingBufferAdjuster \<Rightarrow> bool" where
  "ra_inv r \<longleftrightarrow> rb_inv (ra_timeBuffer r) \<and> 0 \<le> ra_minBatchSize r
     \<and> ra_minBatchSize r \<le> ra_batchSize r
     \<and> ra_batchSize r \<le> ra_maxBatchSize r \<and> ra_maxBatchSize r < 2 ^ 62
     \<and> 0 \<le> ra_adjustStep r \<and> ra_adjustStep r < 2 ^ 62"

lemma ra_no_wrap:
  "ra_inv r \<Longrightarrow> wrap64 (ra_batchSize r + ra_adjustStep r) = ra_batchSize r + ra_adjustStep r"
  "ra_inv r \<Longrightarrow> wrap64 (ra_batchSize r - ra_adjustStep r) = ra_batchSize r - ra_adjustStep r"
  using wrap64_small [of "ra_batchSize r" "ra_adjustStep r"] by (simp_all add: ra_inv_def)

lemma ra_Adjust_buffer:
  "ra_timeBuffer (snd (ra_Adjust r now rt)) = rb_Add (ra_timeBuffer r) rt"
  by (simp add: ra_Adjust_def Let_def)

interpretation ring_adjuster: adjuster ra_Adjust ra_batchSize ra_minBatchSize ra_maxBatchSize
    ra_adjustStep ra_inv
proof unfold_locales
  fix s :: RingBufferAdjuster and now rt
  assume i: "ra_inv s"
  then have b: "rb_inv (rb_Add (ra_timeBuffer s) rt)" by (simp add: ra_inv_def rb_Add_inv)
  show "ra_inv (snd (ra_Adjust s now rt))"
    using i b by (auto simp: ra_Adjust_def ra_no_wrap [OF i] Let_def ra_inv_def)
  show "fst (ra_Adjust s now rt) = ra_batchSize (snd (ra_Adjust s now rt))"
    by (simp add: ra_Adjust_def Let_def)
  show "ra_minBatchSize (snd (ra_Adjust s now rt)) = ra_minBatchSize s
      \<and> ra_maxBatchSize (snd (ra_Adjust s now rt)) = ra_maxBatchSize s
      \<and> ra_adjustStep (snd (ra_Adjust s now rt)) = ra_adjustStep s"
    by (simp add: ra_Adjust_def Let_def)
  show "ra_minBatchSize s \<le> ra_batchSize s \<and> ra_batchSize s \<le> ra_maxBatchSize s"
    using i by (simp add: ra_inv_def)
  show "\<bar>ra_batchSize (snd (ra_Adjust s now rt)) - ra_batchSize s\<bar> \<le> ra_adjustStep s"
    using i by (auto simp: ra_Adjust_def ra_no_wrap [OF i] Let_def ra_inv_def)
qed

lemma New_ra_inv:
  assumes "NewRingBufferAdjuster i lo hi st cd bs = Some r"
    and "0 \<le> lo" "lo \<le> hi" "hi < 2 ^ 62" "0 \<le> st" "st < 2 ^ 62"
  shows "ra_inv r" "ra_minBatchSize r = lo" "ra_maxBatchSize r = hi"
  using assms New_rb_inv clampInitial_bounds [of lo hi i]
  by (auto simp: NewRingBufferAdjuster_def ra_inv_def Let_def split: sum.splits if_splits)

section \<open>Properties\<close>

text \<open>A scheduler that keeps asking a new \<open>RingBufferAdjuster\<close> for the next batch size, with
  any response times at any instants, only ever gets sizes between the configured minimum and
  maximum, even if the initial size was outside.\<close>

theorem RingBufferAdjuster_bounded:
  assumes "NewRingBufferAdjuster i lo hi st cd bs = Some r"
    and "0 \<le> lo" "lo \<le> hi" "hi < 2 ^ 62" "0 \<le> st" "st < 2 ^ 62"
  shows "list_all (\<lambda>n. lo \<le> n \<and> n \<le> hi) (fst (ring_adjuster.adjust_all r calls))"
  using ring_adjuster.adjust_all_bounds [OF New_ra_inv(1) [OF assms], of calls]
  by (simp add: New_ra_inv [OF assms])

theorem RingBufferAdjuster_bounded_witness:
  "fst (ring_adjuster.adjust_all (the (NewRingBufferAdjuster 500 10 100 5 0 2))
     [(1, 7), (2, 9), (3, 4)]) = [100, 95, 100]
   \<and> list_all (\<lambda>n. 10 \<le> n \<and> n \<le> 100)
       (fst (ring_adjuster.adjust_all (the (NewRingBufferAdjuster 500 10 100 5 0 2))
          [(1, 7), (2, 9), (3, 4)]))"
proof -
  have "NewRingBufferAdjuster 500 10 100 5 0 2 = Some (the (NewRingBufferAdjuster 500 10 100 5 0 2))"
    by (simp add: NewRingBufferAdjuster_def NewTimeDurationRingBuffer_def)
  from RingBufferAdjuster_bounded [OF this, of "[(1, 7), (2, 9), (3, 4)]"] show ?thesis
    by (simp add: NewRingBufferAdjuster_def NewTimeDurationRingBuffer_def clampInitial_def
        ra_Adjust_def rb_Add_def rb_Avg_def rb_Len_def rb_Cap_def wrap64_def sdiv_nonneg
        numeral_2_eq_2)
qed

end
