(* ===== verification/Retry.thy ===== *)
theory Retry
  imports Prelude
begin

text \<open>
  \<^verbatim>\<open>internal/pkg/retry\<close> and its package \<^verbatim>\<open>strategy\<close>: after how long, and how often, a callback
  or a transaction check is tried again. The Go interface \<open>Strategy\<close> is the locale
  \<open>retry_strategy\<close>; the fixed interval and the exponential backoff interpret it.

  The exponential interval is \<open>initialInterval * time.Duration(math.Pow(2, float64(retries-1)))\<close>.
  Powers of two are exact in \<open>float64\<close>; a negative exponent truncates to 0; from \<open>2 ^ 63\<close> on
  the conversion is implementation-dependent by the Go specification, so it is the parameter
  \<open>cvt\<close>, a function of the exponent.
\<close>

section \<open>The interface\<close>

locale retry_strategy =
  fixes nextWithRetries :: "'s \<Rightarrow> int32 \<Rightarrow> (duration \<times> bool) \<times> 's"
    and nxt :: "'s \<Rightarrow> (duration \<times> bool) \<times> 's"
    and maxRetries :: "'s \<Rightarrow> int32"
    and retries :: "'s \<Rightarrow> int32"
  assumes allowed: "snd (fst (nextWithRetries s r)) \<longleftrightarrow> maxRetries s \<le> 0 \<or> r \<le> maxRetries s"
    and refused: "\<not> snd (fst (nextWithRetries s r)) \<Longrightarrow> fst (fst (nextWithRetries s r)) = 0"
    and next_allowed: "snd (fst (nxt s))
      \<longleftrightarrow> maxRetries s \<le> 0 \<or> wrap32 (retries s + 1) \<le> maxRetries s"
    and next_counts: "retries (snd (nxt s)) = wrap32 (retries s + 1)"
    and next_max: "maxRetries (snd (nxt s)) = maxRetries s"
begin

fun nexts :: "nat \<Rightarrow> 's \<Rightarrow> (duration \<times> bool) list \<times> 's" where
  "nexts 0 s = ([], s)"
| "nexts (Suc n) s = (let (x, s1) = nxt s; (xs, s2) = nexts n s1 in (x # xs, s2))"

lemma nexts_allowed:
  assumes "0 < maxRetries s" "0 \<le> retries s" "retries s + int n < 2 ^ 31"
  shows "map snd (fst (nexts n s))
    = map (\<lambda>k. retries s + int k \<le> maxRetries s) [1 ..< Suc n]"
  using assms
proof (induction n arbitrary: s)
  case 0
  then show ?case by simp
next
  case (Suc n)
  let ?s = "snd (nxt s)"
  from Suc.prems have w: "wrap32 (retries s + 1) = retries s + 1"
    by (intro wrap32_id) (simp add: int32_range_def)
  then have s: "retries ?s = retries s + 1" "maxRetries ?s = maxRetries s"
    by (simp_all add: next_counts next_max)
  have "map snd (fst (nexts n ?s))
      = map (\<lambda>k. retries ?s + int k \<le> maxRetries ?s) [1 ..< Suc n]"
    using Suc.prems s by (intro Suc.IH) simp_all
  also have "\<dots> = map (\<lambda>k. retries s + int k \<le> maxRetries s) [2 ..< Suc (Suc n)]"
    by (rule nth_equalityI) (simp_all add: s algebra_simps del: upt_Suc)
  finally have tail: "map snd (fst (nexts n ?s))
      = map (\<lambda>k. retries s + int k \<le> maxRetries s) [2 ..< Suc (Suc n)]" .
  have "[1 ..< Suc (Suc n)] = 1 # [2 ..< Suc (Suc n)]"
    by (simp add: upt_rec numeral_2_eq_2)
  then show ?case
    using tail Suc.prems w by (simp add: split_beta next_allowed del: upt_Suc)
qed

lemma attempts:
  assumes "0 < maxRetries s" "retries s = 0" "int n < 2 ^ 31"
  shows "length (filter snd (fst (nexts n s))) = min n (nat (maxRetries s))"
proof -
  have "length (filter snd (fst (nexts n s))) = length (filter id (map snd (fst (nexts n s))))"
    by (simp add: filter_map comp_def)
  also have "\<dots> = length (filter (\<lambda>k. int k \<le> maxRetries s) [1 ..< Suc n])"
    using nexts_allowed [of s n] assms by (simp add: filter_map comp_def del: upt_Suc)
  also have "\<dots> = card (set (filter (\<lambda>k. int k \<le> maxRetries s) [1 ..< Suc n]))"
    by (rule distinct_card [symmetric]) (simp del: upt_Suc)
  also have "set (filter (\<lambda>k. int k \<le> maxRetries s) [1 ..< Suc n])
      = {k \<in> {1 ..< Suc n}. int k \<le> maxRetries s}"
    by (simp del: upt_Suc)
  also have "{k \<in> {1 ..< Suc n}. int k \<le> maxRetries s} = {1 .. min n (nat (maxRetries s))}"
    using assms(1) by auto
  finally show ?thesis by simp
qed

end

section \<open>Fixed interval\<close>

record FixedIntervalRetryStrategy =
  fi_maxRetries :: int32
  fi_interval :: duration
  fi_retries :: int32

definition NewFixedIntervalRetryStrategy :: "int32 \<Rightarrow> duration \<Rightarrow> FixedIntervalRetryStrategy" where
  "NewFixedIntervalRetryStrategy m i = \<lparr>fi_maxRetries = m, fi_interval = i, fi_retries = 0\<rparr>"

definition fi_nextWithRetries ::
  "FixedIntervalRetryStrategy \<Rightarrow> int32 \<Rightarrow> (duration \<times> bool) \<times> FixedIntervalRetryStrategy" where
  "fi_nextWithRetries f r =
     (if fi_maxRetries f \<le> 0 \<or> r \<le> fi_maxRetries f
      then ((fi_interval f, True), f) else ((0, False), f))"

definition fi_Next ::
  "FixedIntervalRetryStrategy \<Rightarrow> (duration \<times> bool) \<times> FixedIntervalRetryStrategy" where
  "fi_Next f =
     (let f1 = f\<lparr>fi_retries := wrap32 (fi_retries f + 1)\<rparr> in fi_nextWithRetries f1 (fi_retries f1))"

interpretation fixed: retry_strategy fi_nextWithRetries fi_Next fi_maxRetries fi_retries
  by unfold_locales (auto simp: fi_nextWithRetries_def fi_Next_def Let_def)

section \<open>Exponential backoff\<close>

record ExponentialBackoffRetryStrategy =
  eb_initialInterval :: duration
  eb_maxInterval :: duration
  eb_maxRetries :: int32
  eb_retries :: int32
  eb_maxIntervalReached :: "bool option"

definition NewExponentialBackoffRetryStrategy ::
  "duration \<Rightarrow> duration \<Rightarrow> int32 \<Rightarrow> ExponentialBackoffRetryStrategy" where
  "NewExponentialBackoffRetryStrategy i m r =
     \<lparr>eb_initialInterval = i, eb_maxInterval = m, eb_maxRetries = r, eb_retries = 0,
      eb_maxIntervalReached = None\<rparr>"

definition pow2_duration :: "(int \<Rightarrow> int64) \<Rightarrow> int \<Rightarrow> int64" where
  "pow2_duration cvt y = (if y < 0 then 0 else if y \<le> 62 then 2 ^ nat y else wrap64 (cvt y))"

definition eb_nextWithRetries ::
  "(int \<Rightarrow> int64) \<Rightarrow> ExponentialBackoffRetryStrategy \<Rightarrow> int32
     \<Rightarrow> (duration \<times> bool) \<times> ExponentialBackoffRetryStrategy" where
  "eb_nextWithRetries cvt e r =
     (if eb_maxRetries e \<le> 0 \<or> r \<le> eb_maxRetries e then
        (if eb_maxIntervalReached e = Some True then ((eb_maxInterval e, True), e)
         else let interval = wrap64 (eb_initialInterval e * pow2_duration cvt (wrap32 (r - 1))) in
           if interval \<le> 0 \<or> interval > eb_maxInterval e
           then ((eb_maxInterval e, True), e\<lparr>eb_maxIntervalReached := Some True\<rparr>)
           else ((interval, True), e))
      else ((0, False), e))"

definition eb_Next ::
  "(int \<Rightarrow> int64) \<Rightarrow> ExponentialBackoffRetryStrategy
     \<Rightarrow> (duration \<times> bool) \<times> ExponentialBackoffRetryStrategy" where
  "eb_Next cvt e =
     (let e1 = e\<lparr>eb_retries := wrap32 (eb_retries e + 1)\<rparr>
      in eb_nextWithRetries cvt e1 (eb_retries e1))"

interpretation exponential:
  retry_strategy "eb_nextWithRetries cvt" "eb_Next cvt" eb_maxRetries eb_retries
  for cvt
  by unfold_locales (auto simp: eb_nextWithRetries_def eb_Next_def Let_def split: if_splits)

section \<open>NewRetry\<close>

record FixedIntervalConfig =
  fic_MaxRetries :: int32
  fic_Interval :: duration

record ExponentialBackoffConfig =
  ebc_InitialInterval :: duration
  ebc_MaxInterval :: duration
  ebc_MaxRetries :: int32

record RetryConfig =
  rc_Type :: string
  rc_FixedInterval :: "FixedIntervalConfig option"
  rc_ExponentialBackoff :: "ExponentialBackoffConfig option"

datatype Strategy =
    Fixed FixedIntervalRetryStrategy
  | Exponential ExponentialBackoffRetryStrategy

text \<open>The result of a Go call that can panic: a nil pointer of the configuration is
  dereferenced when its type says it should be there.\<close>

datatype retry_result =
    Strategy Strategy
  | UnsupportedType string
  | NilPanic

definition NewRetry :: "RetryConfig \<Rightarrow> retry_result" where
  "NewRetry cfg =
     (if rc_Type cfg = ''fixed'' then
        (case rc_FixedInterval cfg of
           None \<Rightarrow> NilPanic
         | Some c \<Rightarrow> Strategy (Fixed (NewFixedIntervalRetryStrategy (fic_MaxRetries c) (fic_Interval c))))
      else if rc_Type cfg = ''exponential'' then
        (case rc_ExponentialBackoff cfg of
           None \<Rightarrow> NilPanic
         | Some c \<Rightarrow> Strategy (Exponential (NewExponentialBackoffRetryStrategy
             (ebc_InitialInterval c) (ebc_MaxInterval c) (ebc_MaxRetries c))))
      else UnsupportedType (rc_Type cfg))"

definition NextWithRetries ::
  "(int \<Rightarrow> int64) \<Rightarrow> Strategy \<Rightarrow> int32 \<Rightarrow> (duration \<times> bool) \<times> Strategy" where
  "NextWithRetries cvt s r =
     (case s of
        Fixed f \<Rightarrow> map_prod id Fixed (fi_nextWithRetries f r)
      | Exponential e \<Rightarrow> map_prod id Exponential (eb_nextWithRetries cvt e r))"

definition Next :: "(int \<Rightarrow> int64) \<Rightarrow> Strategy \<Rightarrow> (duration \<times> bool) \<times> Strategy" where
  "Next cvt s =
     (case s of
        Fixed f \<Rightarrow> map_prod id Fixed (fi_Next f)
      | Exponential e \<Rightarrow> map_prod id Exponential (eb_Next cvt e))"

definition s_maxRetries :: "Strategy \<Rightarrow> int32" where
  "s_maxRetries s = (case s of Fixed f \<Rightarrow> fi_maxRetries f | Exponential e \<Rightarrow> eb_maxRetries e)"

definition s_retries :: "Strategy \<Rightarrow> int32" where
  "s_retries s = (case s of Fixed f \<Rightarrow> fi_retries f | Exponential e \<Rightarrow> eb_retries e)"

interpretation strategy: retry_strategy "NextWithRetries cvt" "Next cvt" s_maxRetries s_retries
  for cvt
  by unfold_locales
    (auto simp: NextWithRetries_def Next_def s_maxRetries_def s_retries_def fixed.allowed
      fixed.refused fixed.next_allowed fixed.next_counts fixed.next_max exponential.allowed
      exponential.refused exponential.next_allowed exponential.next_counts exponential.next_max
      split: Strategy.splits)

lemma NewRetry_fields:
  "NewRetry cfg = Strategy s \<Longrightarrow> s_retries s = 0"
  by (auto simp: NewRetry_def s_retries_def NewFixedIntervalRetryStrategy_def
      NewExponentialBackoffRetryStrategy_def split: if_splits option.splits)

section \<open>Properties\<close>

text \<open>Whatever strategy a configuration selects, \<open>n\<close> calls of \<open>Next\<close> on a new one allow
  exactly \<open>min n maxRetries\<close> retries when the limit is positive.\<close>

theorem Retry_attempts:
  assumes "NewRetry cfg = Strategy s" "0 < s_maxRetries s" "int n < 2 ^ 31"
  shows "length (filter snd (fst (strategy.nexts cvt n s))) = min n (nat (s_maxRetries s))"
  using assms by (intro strategy.attempts) (simp_all add: NewRetry_fields)

theorem Retry_attempts_witness:
  "length (filter snd (fst (strategy.nexts (\<lambda>_. 0) 5
     (Exponential (NewExponentialBackoffRetryStrategy 100 1000 3))))) = 3"
proof -
  let ?c = "\<lparr>rc_Type = ''exponential'', rc_FixedInterval = None, rc_ExponentialBackoff =
    Some \<lparr>ebc_InitialInterval = 100, ebc_MaxInterval = 1000, ebc_MaxRetries = 3\<rparr>\<rparr>"
  have "NewRetry ?c = Strategy (Exponential (NewExponentialBackoffRetryStrategy 100 1000 3))"
    by (simp add: NewRetry_def)
  from Retry_attempts [OF this, of 5 "\<lambda>_. 0"] show ?thesis
    by (simp add: s_maxRetries_def NewExponentialBackoffRetryStrategy_def)
qed

text \<open>The interval of the k-th call: the flag \<open>maxIntervalReached\<close> is set before the product
  can leave 64 bits, so later calls never compute it.\<close>

definition eb_wf :: "ExponentialBackoffRetryStrategy \<Rightarrow> nat \<Rightarrow> bool" where
  "eb_wf e k \<longleftrightarrow> 0 < eb_initialInterval e \<and> 0 < eb_maxInterval e \<and> eb_maxInterval e < 2 ^ 62
     \<and> eb_retries e = int k
     \<and> (eb_maxIntervalReached e = Some True \<longrightarrow>
          eb_maxInterval e < eb_initialInterval e * 2 ^ k)
     \<and> (eb_maxIntervalReached e \<noteq> Some True \<longrightarrow>
          k = 0 \<and> eb_initialInterval e < 2 ^ 63
          \<or> 0 < k \<and> eb_initialInterval e * 2 ^ (k - 1) \<le> eb_maxInterval e)"

text \<open>Before the maximum is reached the next interval does not overflow.\<close>

lemma eb_no_overflow:
  assumes wf: "eb_wf e k" and "eb_maxIntervalReached e \<noteq> Some True"
  shows "eb_initialInterval e * 2 ^ k < 2 ^ 63" "k \<le> 62"
proof -
  have i: "0 < eb_initialInterval e" "eb_maxInterval e < 2 ^ 62" using wf by (simp_all add: eb_wf_def)
  show lt: "eb_initialInterval e * 2 ^ k < 2 ^ 63"
  proof (cases k)
    case 0
    with assms show ?thesis by (auto simp: eb_wf_def)
  next
    case (Suc j)
    with assms have "eb_initialInterval e * 2 ^ j \<le> eb_maxInterval e" by (auto simp: eb_wf_def)
    with i(2) Suc show ?thesis by simp
  qed
  have "(2::int) ^ k \<le> eb_initialInterval e * 2 ^ k" using i by simp
  with lt have "(2::int) ^ k < 2 ^ 63" by linarith
  then show "k \<le> 62" by (simp only: power_strict_increasing_iff)
qed

lemma eb_step:
  assumes wf: "eb_wf e k" and k: "int k < 2 ^ 31 - 1"
    and more: "eb_maxRetries e \<le> 0 \<or> int k < eb_maxRetries e"
  shows "fst (eb_Next cvt e) = (min (eb_initialInterval e * 2 ^ k) (eb_maxInterval e), True)"
    and "eb_wf (snd (eb_Next cvt e)) (Suc k)"
    and "eb_initialInterval (snd (eb_Next cvt e)) = eb_initialInterval e"
    and "eb_maxInterval (snd (eb_Next cvt e)) = eb_maxInterval e"
proof -
  let ?i = "eb_initialInterval e" and ?m = "eb_maxInterval e"
  have w: "wrap32 (int k + 1) = int k + 1" "wrap32 (int k) = int k"
    using k by (simp_all add: wrap32_id int32_range_def)
  have i: "0 < ?i" "0 < ?m" "?m < 2 ^ 62" "eb_retries e = int k"
    using wf by (simp_all add: eb_wf_def)
  have go: "eb_maxRetries e \<le> 0 \<or> int k + 1 \<le> eb_maxRetries e" using more by linarith
  have pos: "0 < ?i * 2 ^ k" "\<not> ?i * 2 ^ k \<le> 0" using i by (simp_all add: not_le)
  have "fst (eb_Next cvt e) = (min (?i * 2 ^ k) ?m, True)
    \<and> eb_wf (snd (eb_Next cvt e)) (Suc k)
    \<and> eb_initialInterval (snd (eb_Next cvt e)) = ?i
    \<and> eb_maxInterval (snd (eb_Next cvt e)) = ?m"
  proof (cases "eb_maxIntervalReached e = Some True")
    case True
    then have g: "?m < ?i * 2 ^ k" using wf by (simp add: eb_wf_def)
    moreover have "?i * 2 ^ k \<le> ?i * 2 ^ Suc k" using i by simp
    ultimately show ?thesis
      using True i go by (simp add: eb_Next_def eb_nextWithRetries_def Let_def w eb_wf_def)
  next
    case False
    note lt = eb_no_overflow(1) [OF wf False] and k62 = eb_no_overflow(2) [OF wf False]
    have r: "wrap64 (?i * 2 ^ k) = ?i * 2 ^ k"
      using pos lt by (intro wrap64_id) (simp add: int64_range_def)
    have p: "pow2_duration cvt (int k) = 2 ^ k" using k62 by (simp add: pow2_duration_def)
    have e1: "wrap32 (eb_retries e + 1) - 1 = int k" using i(4) w by simp
    show ?thesis
    proof (cases "?i * 2 ^ k \<le> ?m")
      case le: True
      with False pos i go show ?thesis
        by (simp add: eb_Next_def eb_nextWithRetries_def Let_def e1 w p r eb_wf_def)
    next
      case gt: False
      then have "?m < ?i * 2 ^ Suc k" using pos by simp
      with gt False i go show ?thesis
        by (simp add: eb_Next_def eb_nextWithRetries_def Let_def e1 w p r eb_wf_def)
    qed
  qed
  then show "fst (eb_Next cvt e) = (min (?i * 2 ^ k) ?m, True)"
    and "eb_wf (snd (eb_Next cvt e)) (Suc k)"
    and "eb_initialInterval (snd (eb_Next cvt e)) = ?i"
    and "eb_maxInterval (snd (eb_Next cvt e)) = ?m" by simp_all
qed

lemma eb_step_max: "eb_maxRetries (snd (eb_Next cvt e)) = eb_maxRetries e"
  by (rule exponential.next_max)

lemma eb_nexts:
  assumes "eb_wf e k" "int k + int n < 2 ^ 31"
    and "eb_maxRetries e \<le> 0 \<or> int k + int n \<le> eb_maxRetries e"
  shows "fst (exponential.nexts cvt n e)
    = map (\<lambda>j. (min (eb_initialInterval e * 2 ^ j) (eb_maxInterval e), True)) [k ..< k + n]"
  using assms
proof (induction n arbitrary: e k)
  case 0
  then show ?case by simp
next
  case (Suc n)
  have k: "int k < 2 ^ 31 - 1" "eb_maxRetries e \<le> 0 \<or> int k < eb_maxRetries e"
    using Suc.prems by auto
  note st = eb_step [OF Suc.prems(1) k, of cvt]
  have "fst (exponential.nexts cvt n (snd (eb_Next cvt e)))
      = map (\<lambda>j. (min (eb_initialInterval e * 2 ^ j) (eb_maxInterval e), True)) [Suc k ..< Suc k + n]"
    using Suc.IH [OF st(2)] Suc.prems by (auto simp: st(3,4) eb_step_max)
  moreover have "[k ..< k + Suc n] = k # [Suc k ..< Suc k + n]" by (simp add: upt_rec)
  ultimately show ?case by (simp add: split_beta st(1) del: upt_Suc)
qed

text \<open>Exponential backoff is exact: as long as retries are allowed, the k-th call of \<open>Next\<close>
  (from 0) returns \<open>min (initialInterval * 2 ^ k) maxInterval\<close> for every k, in spite of the 64-bit
  product and of the implementation-dependent conversion of large powers.\<close>

theorem Exponential_intervals:
  assumes "0 < i" "i < 2 ^ 63" "0 < m" "m < 2 ^ 62" "int n < 2 ^ 31" "r \<le> 0 \<or> int n \<le> r"
  shows "fst (exponential.nexts cvt n (NewExponentialBackoffRetryStrategy i m r))
    = map (\<lambda>k. (min (i * 2 ^ k) m, True)) [0 ..< n]"
proof -
  let ?e = "NewExponentialBackoffRetryStrategy i m r"
  have f: "eb_initialInterval ?e = i" "eb_maxInterval ?e = m" "eb_maxRetries ?e = r"
    by (simp_all add: NewExponentialBackoffRetryStrategy_def)
  have "eb_wf ?e 0"
    using assms by (simp add: eb_wf_def NewExponentialBackoffRetryStrategy_def)
  from eb_nexts [OF this, of n cvt] show ?thesis using assms by (simp add: f)
qed

theorem Exponential_intervals_witness:
  "fst (exponential.nexts (\<lambda>_. 0) 3 (NewExponentialBackoffRetryStrategy 100 350 0))
     = [(100, True), (200, True), (350, True)]"
  using Exponential_intervals [of 100 350 3 0 "\<lambda>_. 0"] by (simp add: upt_rec)

text \<open>The overflow test \<open>interval <= 0\<close> of \<open>NextWithRetries\<close>, whose callers build a new
  strategy for every call, does not catch every overflow: with an initial interval of
  \<open>2 ^ 33 + 1\<close> ns (about 8.6 s) and a limit of one hour, retry 33 is scheduled after
  \<open>2 ^ 32\<close> ns (about 4.3 s), less than the initial interval. And retry 0 waits the maximum.\<close>

theorem Exponential_overflow:
  "let e = NewExponentialBackoffRetryStrategy (2 ^ 33 + 1) 3600000000000 0 in
     fst (eb_nextWithRetries cvt e 33) = (2 ^ 32, True)
     \<and> fst (eb_nextWithRetries cvt e 0) = (3600000000000, True)"
  by (simp add: eb_nextWithRetries_def NewExponentialBackoffRetryStrategy_def
      pow2_duration_def wrap64_def wrap32_def)

end
