(* ===== verification/Strconv.thy ===== *)
theory Strconv
  imports Prelude
begin

text \<open>
  What the program uses of Go's \<^verbatim>\<open>strconv\<close> and \<^verbatim>\<open>strings\<close>, in base 10: \<open>FormatInt\<close> (also
  \<^verbatim>\<open>fmt.Sprintf("%d")\<close>), \<open>ParseInt\<close> and \<open>ParseUint\<close> for 64 bits, \<open>TrimPrefix\<close>, \<open>HasPrefix\<close> and the
  comparison \<^verbatim>\<open>EqualFold\<close> with "OK". Strings are byte lists. The facts the
  components need: parsing undoes formatting, so formatting is injective, and a formatted
  number contains no separator character, so composite keys can be taken apart again.
\<close>

definition digit :: "nat \<Rightarrow> char" where
  "digit d = char_of (48 + d)"

fun format_nat :: "nat \<Rightarrow> string" where
  "format_nat n = (if n < 10 then [digit n] else format_nat (n div 10) @ [digit (n mod 10)])"

declare format_nat.simps [simp del]

definition FormatInt :: "int \<Rightarrow> string" where
  "FormatInt i = (if i < 0 then CHR ''-'' # format_nat (nat (- i)) else format_nat (nat i))"

definition digit_value :: "char \<Rightarrow> nat option" where
  "digit_value c = (let v = of_char c :: nat in if 48 \<le> v \<and> v \<le> 57 then Some (v - 48) else None)"

fun parse_digits :: "nat \<Rightarrow> string \<Rightarrow> nat option" where
  "parse_digits acc [] = Some acc"
| "parse_digits acc (c # cs) =
     (case digit_value c of None \<Rightarrow> None | Some d \<Rightarrow> parse_digits (10 * acc + d) cs)"

definition parse_unsigned :: "string \<Rightarrow> nat option" where
  "parse_unsigned s = (if s = [] then None else parse_digits 0 s)"

text \<open>\<open>ParseInt(s, 10, 64)\<close>: an optional sign, at least one digit, and the 64-bit range;
  \<open>None\<close> is the error.\<close>

definition ParseInt :: "string \<Rightarrow> int64 option" where
  "ParseInt s =
     (let (neg, ds) = (case s of [] \<Rightarrow> (False, [])
        | c # cs \<Rightarrow> if c = CHR ''+'' then (False, cs)
                    else if c = CHR ''-'' then (True, cs) else (False, s))
      in case parse_unsigned ds of
           None \<Rightarrow> None
         | Some n \<Rightarrow> (let v = (if neg then - int n else int n)
                      in if int64_range v then Some v else None))"

text \<open>\<open>ParseUint(s, 10, 64)\<close> accepts no sign.\<close>

definition ParseUint :: "string \<Rightarrow> nat option" where
  "ParseUint s =
     (case parse_unsigned s of None \<Rightarrow> None | Some n \<Rightarrow> if n < 2 ^ 64 then Some n else None)"

definition HasPrefix :: "string \<Rightarrow> string \<Rightarrow> bool" where
  "HasPrefix s p \<longleftrightarrow> take (length p) s = p"

definition TrimPrefix :: "string \<Rightarrow> string \<Rightarrow> string" where
  "TrimPrefix s p = (if HasPrefix s p then drop (length p) s else s)"

text \<open>Case folding relates K to its lower case and to the Kelvin sign (three bytes).\<close>

definition EqualFold_OK :: "string \<Rightarrow> bool" where
  "EqualFold_OK s \<longleftrightarrow> s \<noteq> [] \<and> hd s \<in> set ''Oo''
     \<and> tl s \<in> set [''K'', ''k'', [CHR 0xE2, CHR 0x84, CHR 0xAA]]"

lemma EqualFold_OK_OK [simp]: "EqualFold_OK ''OK''"
  by (simp add: EqualFold_OK_def)

lemma TrimPrefix_append: "TrimPrefix (p @ t) p = t"
  by (simp add: TrimPrefix_def HasPrefix_def)

lemma digit_value_digit [simp]: "d < 10 \<Longrightarrow> digit_value (digit d) = Some d"
  by (simp add: digit_value_def digit_def Let_def)

lemma parse_digits_append:
  "parse_digits acc (xs @ ys)
     = (case parse_digits acc xs of None \<Rightarrow> None | Some a \<Rightarrow> parse_digits a ys)"
  by (induction xs arbitrary: acc) (simp_all split: option.splits)

lemma parse_format: "parse_digits 0 (format_nat n) = Some n"
proof (induction n rule: format_nat.induct)
  case (1 n)
  show ?case
  proof (cases "n < 10")
    case True
    then show ?thesis by (subst format_nat.simps) simp
  next
    case False
    with 1 show ?thesis
      by (subst format_nat.simps) (simp add: parse_digits_append)
  qed
qed

lemma format_nat_digits: "c \<in> set (format_nat n) \<Longrightarrow> \<exists>d < 10. c = digit d"
proof (induction n rule: format_nat.induct)
  case (1 n)
  have "\<exists>d < 10. digit (n mod 10) = digit d" by (rule exI [of _ "n mod 10"]) simp
  with 1 show ?case
    by (subst (asm) (2) format_nat.simps) (auto split: if_splits)
qed

lemma format_nat_nonempty [simp]: "format_nat n \<noteq> []"
  by (subst format_nat.simps) simp

lemma digit_chars:
  "d < 10 \<Longrightarrow> digit d \<notin> {CHR ''+'', CHR ''-'', CHR '':'', CHR ''_'', CHR ''#''}"
proof -
  assume "d < 10"
  then have "(of_char (digit d) :: nat) = 48 + d" by (simp add: digit_def)
  moreover have "of_char CHR ''+'' = (43 :: nat)" "of_char CHR ''-'' = (45 :: nat)"
    "of_char CHR '':'' = (58 :: nat)" "of_char CHR ''_'' = (95 :: nat)" "of_char CHR ''#'' = (35 :: nat)"
    by simp_all
  ultimately show ?thesis using \<open>d < 10\<close> by (auto dest: arg_cong [of _ _ "of_char :: char \<Rightarrow> nat"])
qed

lemma format_nat_chars:
  "c \<in> {CHR ''+'', CHR ''-'', CHR '':'', CHR ''_'', CHR ''#''} \<Longrightarrow> c \<notin> set (format_nat n)"
  by (metis format_nat_digits digit_chars)

lemma FormatInt_chars:
  "c \<in> {CHR '':'', CHR ''_'', CHR ''#''} \<Longrightarrow> c \<notin> set (FormatInt i)"
  using format_nat_chars [of c] by (auto simp: FormatInt_def)

lemma format_nat_sign:
  "hd (format_nat n) \<noteq> CHR ''+''" "hd (format_nat n) \<noteq> CHR ''-''"
  using format_nat_chars [of _ n] by (metis format_nat_nonempty hd_in_set insertI1 insertI2)+

lemma ParseInt_FormatInt: "int64_range i \<Longrightarrow> ParseInt (FormatInt i) = Some i"
proof -
  assume i: "int64_range i"
  have u: "parse_unsigned (format_nat n) = Some n" for n
    by (simp add: parse_unsigned_def parse_format)
  show ?thesis
  proof (cases "i < 0")
    case True
    with i u [of "nat (- i)"] show ?thesis by (simp add: ParseInt_def FormatInt_def)
  next
    case False
    obtain c cs where f: "format_nat (nat i) = c # cs"
      by (cases "format_nat (nat i)") simp_all
    with format_nat_sign [of "nat i"] have "c \<noteq> CHR ''+''" "c \<noteq> CHR ''-''" by simp_all
    with False i f u [of "nat i"] show ?thesis by (simp add: ParseInt_def FormatInt_def)
  qed
qed

lemma format_nat_inject: "format_nat m = format_nat n \<longleftrightarrow> m = n"
  using parse_format by (metis option.inject)

lemma FormatInt_inject: "FormatInt i = FormatInt j \<longleftrightarrow> i = j"
proof
  assume eq: "FormatInt i = FormatInt j"
  have h: "hd (FormatInt k) = CHR ''-'' \<longleftrightarrow> k < 0" for k
    using format_nat_sign by (simp add: FormatInt_def)
  from eq h have "(i < 0) = (j < 0)" by metis
  with eq show "i = j" by (auto simp: FormatInt_def format_nat_inject split: if_splits)
qed simp

text \<open>Keys of the form \<open>%d-%s\<close> determine both parts.\<close>

lemma split_at:
  "xs @ c # ys = xs' @ c # ys' \<Longrightarrow> c \<notin> set xs \<Longrightarrow> c \<notin> set xs' \<Longrightarrow> xs = xs' \<and> ys = ys'"
  by (auto simp: append_eq_append_conv2 append_eq_Cons_conv Cons_eq_append_conv)

lemma FormatInt_dash_inject:
  "FormatInt i @ CHR ''-'' # s = FormatInt j @ CHR ''-'' # t \<longleftrightarrow> i = j \<and> s = t"
proof
  assume eq: "FormatInt i @ CHR ''-'' # s = FormatInt j @ CHR ''-'' # t"
  have hd: "hd (FormatInt k @ CHR ''-'' # u) = CHR ''-'' \<longleftrightarrow> k < 0" for k u
    using format_nat_sign [of "nat k"] by (auto simp: FormatInt_def hd_append)
  from eq hd have s: "i < 0 \<longleftrightarrow> j < 0" by metis
  from eq have "format_nat (nat \<bar>i\<bar>) @ CHR ''-'' # s = format_nat (nat \<bar>j\<bar>) @ CHR ''-'' # t"
    using s by (auto simp: FormatInt_def split: if_splits)
  from split_at [OF this] show "i = j \<and> s = t"
    using s by (auto simp: format_nat_chars format_nat_inject)
qed simp

end
