(* ===== verification/Hash_Id.thy ===== *)
theory Hash_Id
  imports Strconv
begin

unbundle bit_operations_syntax

text \<open>
  \<^verbatim>\<open>internal/pkg/hash\<close> and \<^verbatim>\<open>internal/pkg/id_generator\<close>: the hash of (business id, key) and the
  snowflake ids built from it.
  Values are \<open>64 word\<close>s, as the code works on their bits; \<open>int64\<close> right shifts are arithmetic
  (\<open>signed_drop_bit\<close>). FNV-1a and the bit rotation are the standard library's.
\<close>

section \<open>The hash\<close>

definition fnv1a :: "string \<Rightarrow> 64 word" where
  "fnv1a bs = foldl (\<lambda>h c. (h XOR of_char c) * 1099511628211) 14695981039346656037 bs"

definition mixHash :: "64 word \<Rightarrow> 64 word \<Rightarrow> 64 word" where
  "mixHash h0 salt =
     (let h1 = h0 XOR (salt + 11400714819323198485);
          h2 = word_rotl 13 h1 * 14029467366897019727;
          h3 = word_rotl 29 h2 * 1609587929392839161
      in word_rotl 31 h3)"

definition hashMask63 :: "64 word" where
  "hashMask63 = 0x7FFFFFFFFFFFFFFF"

definition Hash :: "int64 \<Rightarrow> string \<Rightarrow> 64 word" where
  "Hash bizID key =
     (let combinedKey = FormatInt bizID @ '':'' @ key;
          h = fnv1a combinedKey
      in mixHash h (word_of_int bizID) AND hashMask63)"

lemma hashMask63_mask: "hashMask63 = mask 63"
  by (simp add: hashMask63_def mask_numeral)

lemma Hash_sign: "\<not> bit (Hash b k) 63"
  by (simp add: Hash_def Let_def hashMask63_mask bit_simps)

section \<open>Snowflake ids\<close>

definition sequenceBits :: nat where "sequenceBits = 12"
definition hashBits :: nat where "hashBits = 10"
definition timestampBits :: nat where "timestampBits = 41"
definition hashShift :: nat where "hashShift = sequenceBits"
definition timestampShift :: nat where "timestampShift = sequenceBits + hashBits"
definition sequenceMask :: "64 word" where "sequenceMask = push_bit sequenceBits 1 - 1"
definition hashMask :: "64 word" where "hashMask = push_bit hashBits 1 - 1"
definition timestampMask :: "64 word" where "timestampMask = push_bit timestampBits 1 - 1"
definition epochMillis :: int64 where "epochMillis = 1704067200000"

text \<open>The generator keeps the counter; its other two fields are never read.\<close>

record Generator =
  g_sequence :: "64 word"

definition NewGenerator :: Generator where
  "NewGenerator = \<lparr>g_sequence = 0\<rparr>"

definition GenerateID :: "Generator \<Rightarrow> int64 \<Rightarrow> int64 \<Rightarrow> string \<Rightarrow> 64 word \<times> Generator" where
  "GenerateID g nowMillis bizID key =
     (let timestamp = word_of_int (nowMillis - epochMillis) :: 64 word;
          hashValue = Hash bizID key;
          g1 = g\<lparr>g_sequence := g_sequence g + 1\<rparr>;
          sequence = g_sequence g1 - 1
      in (push_bit timestampShift (timestamp AND timestampMask)
            OR push_bit hashShift (hashValue AND hashMask)
            OR (sequence AND sequenceMask), g1))"

text \<open>\<open>time.Unix(0, ns)\<close> normalises the nanoseconds into seconds.\<close>

definition unix_nanos :: "int64 \<Rightarrow> gtime" where
  "unix_nanos ns = unix_epoch + ns"

definition ExtractTimestamp :: "64 word \<Rightarrow> gtime" where
  "ExtractTimestamp i =
     (let timestamp = signed_drop_bit timestampShift i AND timestampMask
      in unix_nanos (wrap64 (wrap64 (sint timestamp + epochMillis) * 1000000)))"

definition ExtractHashValue :: "64 word \<Rightarrow> 64 word" where
  "ExtractHashValue i = signed_drop_bit hashShift i AND hashMask"

definition ExtractSequence :: "64 word \<Rightarrow> 64 word" where
  "ExtractSequence i = i AND sequenceMask"

lemma id_masks:
  "sequenceMask = mask 12" "hashMask = mask 10" "timestampMask = mask 41"
  "hashShift = 12" "timestampShift = 22"
  by (simp_all add: sequenceMask_def hashMask_def timestampMask_def mask_eq_exp_minus_1
      push_bit_of_1 sequenceBits_def hashBits_def timestampBits_def hashShift_def timestampShift_def)

lemma id_fields:
  fixes t h s :: "64 word"
  defines "i \<equiv> push_bit 22 (t AND mask 41) OR push_bit 12 (h AND mask 10) OR (s AND mask 12)"
  shows "signed_drop_bit 22 i AND mask 41 = t AND mask 41"
    and "signed_drop_bit 12 i AND mask 10 = h AND mask 10"
    and "i AND mask 12 = s AND mask 12"
    and "\<not> bit i 63"
  unfolding i_def
     apply (rule bit_word_eqI; auto simp add: bit_simps bit_signed_drop_bit_iff)
    apply (rule bit_word_eqI; auto simp add: bit_simps bit_signed_drop_bit_iff)
   apply (rule bit_word_eqI; auto simp add: bit_simps bit_signed_drop_bit_iff)
  apply (simp add: bit_simps)
  done

lemma GenerateID_fields:
  "ExtractHashValue (fst (GenerateID g now b k)) = Hash b k AND hashMask"
  "ExtractSequence (fst (GenerateID g now b k)) = g_sequence g AND sequenceMask"
  "signed_drop_bit timestampShift (fst (GenerateID g now b k)) AND timestampMask
     = word_of_int (now - epochMillis) AND timestampMask"
  "\<not> bit (fst (GenerateID g now b k)) 63"
  by (simp_all only: GenerateID_def Let_def ExtractHashValue_def ExtractSequence_def id_masks fst_conv
      id_fields Generator.simps add_diff_cancel_right' not_False_eq_True) simp

lemma word_of_int_mask41:
  "0 \<le> x \<Longrightarrow> x < 2 ^ 41 \<Longrightarrow> sint ((word_of_int x :: 64 word) AND mask 41) = x"
proof -
  assume x: "0 \<le> x" "x < 2 ^ 41"
  then have u: "uint (word_of_int x :: 64 word) = x"
    by (simp add: uint_word_of_int)
  have "uint ((word_of_int x :: 64 word) AND mask 41) = take_bit 41 (uint (word_of_int x :: 64 word))"
    by (simp only: take_bit_eq_mask [symmetric] unsigned_take_bit_eq)
  with u x have "uint ((word_of_int x :: 64 word) AND mask 41) = x"
    by (simp add: take_bit_int_eq_self)
  with x show ?thesis by (simp add: sint_uint signed_take_bit_int_eq_self)
qed

text \<open>C19. The fields packed into an id are recovered from it: the creation time to the
  millisecond (for the 69 years the 41 bits last), the low ten bits of the hash of (business
  id, key), and the low twelve bits of the counter; and the id is not negative.\<close>

theorem ID_roundtrip:
  assumes "epochMillis \<le> now" "now < epochMillis + 2 ^ 41"
  shows "ExtractTimestamp (fst (GenerateID g now b k)) = unix_nanos (now * 1000000)
       \<and> ExtractHashValue (fst (GenerateID g now b k)) = Hash b k AND mask 10
       \<and> ExtractSequence (fst (GenerateID g now b k)) = take_bit 12 (g_sequence g)
       \<and> 0 \<le> sint (fst (GenerateID g now b k))"
proof -
  let ?id = "fst (GenerateID g now b k)"
  have t: "sint (signed_drop_bit timestampShift ?id AND timestampMask) = now - epochMillis"
    unfolding GenerateID_fields(3) unfolding id_masks
    using assms by (intro word_of_int_mask41) simp_all
  have "wrap64 (wrap64 (now - epochMillis + epochMillis) * 1000000) = now * 1000000"
    using assms by (simp add: wrap64_id int64_range_def epochMillis_def)
  with t have "ExtractTimestamp ?id = unix_nanos (now * 1000000)"
    by (simp only: ExtractTimestamp_def Let_def)
  moreover have "0 \<le> sint ?id"
    using GenerateID_fields(4) [of g now b k] by (simp add: sint_uint bit_uint_iff)
  ultimately show ?thesis
    by (simp add: GenerateID_fields id_masks take_bit_eq_mask)
qed

theorem ID_roundtrip_witness:
  "ExtractTimestamp (fst (GenerateID NewGenerator 1704067200123 7 ''order''))
     = unix_nanos (1704067200123 * 1000000)"
  using ID_roundtrip [of 1704067200123 NewGenerator 7 "''order''"]
  by (simp add: epochMillis_def)

text \<open>A run of the generator: one request \<open>(nowMillis, bizID, key)\<close> after another. The counter
  is atomic, so concurrent callers are some such sequence.\<close>

fun GenerateIDs :: "Generator \<Rightarrow> (int64 \<times> int64 \<times> string) list \<Rightarrow> 64 word list" where
  "GenerateIDs g [] = []"
| "GenerateIDs g ((now, b, k) # rs) =
     (let (i, g') = GenerateID g now b k in i # GenerateIDs g' rs)"

lemma GenerateID_state [simp]: "g_sequence (snd (GenerateID g now b k)) = g_sequence g + 1"
  by (simp add: GenerateID_def Let_def)

lemma length_GenerateIDs [simp]: "length (GenerateIDs g rs) = length rs"
  by (induction rs arbitrary: g) (auto simp: split_beta)

lemma GenerateIDs_sequence:
  "i < length rs \<Longrightarrow>
   ExtractSequence (GenerateIDs g rs ! i) = take_bit 12 (g_sequence g + of_nat i)"
proof (induction rs arbitrary: g i)
  case Nil
  then show ?case by simp
next
  case (Cons r rs)
  obtain now b k where r: "r = (now, b, k)" by (cases r)
  show ?case
  proof (cases i)
    case 0
    with r show ?thesis
      by (simp add: split_beta GenerateID_fields id_masks take_bit_eq_mask)
  next
    case (Suc j)
    with Cons.prems Cons.IH [of j "snd (GenerateID g now b k)"] r show ?thesis
      by (simp add: split_beta add.assoc)
  qed
qed

lemma take_bit_shift_inject:
  fixes s :: "64 word"
  assumes "take_bit 12 (s + of_nat i) = take_bit 12 (s + of_nat j)" "i < 4096" "j < 4096"
  shows "i = j"
proof -
  have u: "uint (take_bit 12 (s + of_nat k)) = (uint s + int k) mod 4096" for k
  proof -
    have "uint (take_bit 12 (s + of_nat k)) = uint (s + of_nat k) mod 2 ^ 12"
      unfolding unsigned_take_bit_eq by (rule take_bit_eq_mod)
    also have "uint (s + of_nat k) = (uint s + int k) mod 2 ^ 64"
      by (simp add: uint_word_ariths unsigned_of_nat take_bit_eq_mod zmod_int mod_simps)
    also have "(uint s + int k) mod 2 ^ 64 mod 2 ^ 12 = (uint s + int k) mod 2 ^ 12" by (rule mod_mod_cancel) simp
    finally show ?thesis by simp
  qed
  from assms(1) have "(uint s + int i) mod 4096 = (uint s + int j) mod 4096"
    by (simp only: u [symmetric])
  then have "4096 dvd (int i - int j)" by (simp add: mod_eq_dvd_iff)
  with assms(2,3) show ?thesis using dvd_imp_le_int [of "int i - int j" 4096] by fastforce
qed

text \<open>Any 4096 ids handed out one after the other are pairwise different, whatever the
  clock does (it may stand still or go back), whatever the keys, from any counter value.\<close>

theorem IDs_distinct:
  assumes "length rs \<le> 4096"
  shows "distinct (GenerateIDs g rs)"
  unfolding distinct_conv_nth
proof (intro allI impI)
  fix i j
  assume ij: "i < length (GenerateIDs g rs)" "j < length (GenerateIDs g rs)" "i \<noteq> j"
  then have "take_bit 12 (g_sequence g + of_nat i) \<noteq> take_bit 12 (g_sequence g + of_nat j)"
    using take_bit_shift_inject [of "g_sequence g" i j] assms by auto
  then have "ExtractSequence (GenerateIDs g rs ! i) \<noteq> ExtractSequence (GenerateIDs g rs ! j)"
    using ij by (simp add: GenerateIDs_sequence)
  then show "GenerateIDs g rs ! i \<noteq> GenerateIDs g rs ! j" by auto
qed

theorem IDs_distinct_witness:
  "distinct (GenerateIDs NewGenerator
     [(1704067200123, 7, ''a''), (1704067200123, 7, ''a''), (1704067200122, 7, ''b'')])"
  by (rule IDs_distinct) simp

end
