(* ===== verification/Sharding.thy ===== *)
theory Sharding
  imports Hash_Id
begin

text \<open>
  \<^verbatim>\<open>internal/pkg/sharding/sharding.go\<close>: from (business id, key), or from an id the generator
  made, to a database and a table. A division by a zero shard count panics: \<open>None\<close>.
\<close>

record ShardingStrategy =
  dbPrefix :: string
  tablePrefix :: string
  tableSharding :: int64
  dbSharding :: int64

record Dst =
  Table :: string
  DB :: string
  TableSuffix :: int64
  DBSuffix :: int64

definition NewShardingStrategy :: "string \<Rightarrow> string \<Rightarrow> int64 \<Rightarrow> int64 \<Rightarrow> ShardingStrategy" where
  "NewShardingStrategy dbp tbp tables dbs =
     \<lparr>dbPrefix = dbp, tablePrefix = tbp, tableSharding = tables, dbSharding = dbs\<rparr>"

text \<open>The destination with given suffixes (the composite literal of all three methods).\<close>

definition mkDst :: "ShardingStrategy \<Rightarrow> int64 \<Rightarrow> int64 \<Rightarrow> Dst" where
  "mkDst s tableHash dbHash =
     \<lparr>Table = tablePrefix s @ ''_'' @ FormatInt tableHash,
      DB = dbPrefix s @ ''_'' @ FormatInt dbHash,
      TableSuffix = tableHash, DBSuffix = dbHash\<rparr>"

definition Shard :: "ShardingStrategy \<Rightarrow> int64 \<Rightarrow> string \<Rightarrow> Dst option" where
  "Shard s bizID key =
     (let hashValue = sint (Hash bizID key) in
      if dbSharding s = 0 \<or> tableSharding s = 0 then None
      else let dbHash = hashValue smod dbSharding s;
               tableHash = (hashValue sdiv dbSharding s) smod tableSharding s
           in Some (mkDst s tableHash dbHash))"

definition ShardWithID :: "ShardingStrategy \<Rightarrow> 64 word \<Rightarrow> Dst option" where
  "ShardWithID s i =
     (let hashValue = sint (ExtractHashValue i) in
      if dbSharding s = 0 \<or> tableSharding s = 0 then None
      else let dbHash = hashValue smod dbSharding s;
               tableHash = (hashValue sdiv dbSharding s) smod tableSharding s
           in Some (mkDst s tableHash dbHash))"

text \<open>\<open>Broadcast\<close>: both loops of the source run to the number of databases, and both suffixes
  come from the inner index. A negative capacity makes \<open>make\<close> panic.\<close>

definition Broadcast :: "ShardingStrategy \<Rightarrow> Dst list option" where
  "Broadcast s =
     (if wrap64 (tableSharding s * dbSharding s) < 0 then None
      else Some (concat (map (\<lambda>i. map (\<lambda>j. mkDst s (int j) (int j)) [0..<nat (dbSharding s)])
                             [0..<nat (dbSharding s)])))"

text \<open>\<open>strings.Split(s, "_")\<close>: never empty.\<close>

fun split_on :: "char \<Rightarrow> string \<Rightarrow> string list" where
  "split_on c [] = [[]]"
| "split_on c (x # xs) =
     (if x = c then [] # split_on c xs
      else case split_on c xs of [] \<Rightarrow> [[x]] | p # ps \<Rightarrow> (x # p) # ps)"

definition ExtractSuffixAndFormatFromTable :: "ShardingStrategy \<Rightarrow> string \<Rightarrow> string" where
  "ExtractSuffixAndFormatFromTable s tableName =
     (let parts = split_on CHR ''_'' tableName; suffix = last parts
      in tablePrefix s @ ''_'' @ suffix)"

section \<open>Where rows go\<close>

lemma Hash_nonneg [simp]: "0 \<le> sint (Hash b k)"
  using Hash_sign [of b k] by (simp add: sint_uint bit_uint_iff)

lemma sint_mask10: "sint ((w :: 64 word) AND mask 10) = uint w mod 1024"
proof -
  have "uint (w AND mask 10) = take_bit 10 (uint w)"
    by (simp only: take_bit_eq_mask [symmetric] unsigned_take_bit_eq)
  then have u: "uint (w AND mask 10) = uint w mod 1024" by (simp add: take_bit_eq_mod)
  moreover have "uint w mod 1024 < 1024" "0 \<le> uint w mod 1024" by simp_all
  ultimately show ?thesis by (simp add: sint_uint signed_take_bit_int_eq_self)
qed

lemma uint_of_nonneg: "0 \<le> sint (w :: 64 word) \<Longrightarrow> uint w = sint w"
proof -
  assume "0 \<le> sint w"
  then have b: "\<not> bit (uint w) 63" by (simp add: sint_uint)
  have "take_bit 64 (uint w) = uint w"
    using uint_bounded [of w] by (simp add: take_bit_int_eq_self)
  with b show ?thesis by (simp add: sint_uint signed_take_bit_eq_take_bit_minus)
qed

lemma ExtractHashValue_id:
  "sint (ExtractHashValue (fst (GenerateID g now b k))) = sint (Hash b k) mod 1024"
  by (simp add: GenerateID_fields id_masks sint_mask10 uint_of_nonneg)

lemma mod_div_mod:
  fixes x d t m :: int
  assumes "0 < d" "0 < t" "0 < m" "d * t dvd m"
  shows "x mod m mod d = x mod d" "(x mod m) div d mod t = x div d mod t"
proof -
  from assms(4) obtain c where m: "m = d * (t * c)" by (auto simp: dvd_def mult.assoc)
  show "x mod m mod d = x mod d" by (simp add: m mod_mod_cancel)
  from assms(1,3) m have tc: "0 \<le> t * c" by (auto simp: zero_less_mult_iff zero_le_mult_iff)
  have "x mod m = d * (x div d mod (t * c)) + x mod d"
    unfolding m using tc by (rule zmod_zmult2_eq)
  then have "(x mod m) div d = x div d mod (t * c)"
    using assms(1) by (simp add: div_add1_eq div_pos_pos_trivial)
  then show "(x mod m) div d mod t = x div d mod t" by (simp add: mod_mod_cancel)
qed

lemma Shard_suffixes:
  assumes "0 < dbSharding s" "0 < tableSharding s"
  shows "Shard s b k = Some (mkDst s (sint (Hash b k) div dbSharding s mod tableSharding s)
                                     (sint (Hash b k) mod dbSharding s))"
  using assms by (simp add: Shard_def Let_def smod_nonneg sdiv_nonneg pos_imp_zdiv_nonneg_iff)

lemma ShardWithID_suffixes:
  assumes "0 < dbSharding s" "0 < tableSharding s"
  shows "ShardWithID s (fst (GenerateID g now b k))
       = Some (mkDst s (sint (Hash b k) mod 1024 div dbSharding s mod tableSharding s)
                       (sint (Hash b k) mod 1024 mod dbSharding s))"
  using assms
  by (simp add: ShardWithID_def Let_def ExtractHashValue_id smod_nonneg sdiv_nonneg
      pos_imp_zdiv_nonneg_iff)



section \<open>Broadcast\<close>

lemma mkDst_inject: "mkDst s t d = mkDst s t' d' \<longleftrightarrow> t = t' \<and> d = d'"
  by (auto simp: mkDst_def FormatInt_inject)

lemma set_Broadcast:
  "Broadcast s = Some ds \<Longrightarrow> set ds = (\<lambda>j. mkDst s (int j) (int j)) ` {0..<nat (dbSharding s)}"
  by (auto simp: Broadcast_def split: if_splits)

text \<open>\<open>Broadcast\<close> reaches the shard of a row exactly when the row's database and table
  suffixes are the same number; every other shard is left out.\<close>

theorem Broadcast_reaches:
  assumes "0 < dbSharding s" "0 < tableSharding s"
    and "Broadcast s = Some ds" "Shard s b k = Some d"
  shows "d \<in> set ds \<longleftrightarrow> TableSuffix d = DBSuffix d"
proof -
  let ?t = "sint (Hash b k) div dbSharding s mod tableSharding s"
  let ?d = "sint (Hash b k) mod dbSharding s"
  from assms have d: "d = mkDst s ?t ?d" by (simp add: Shard_suffixes)
  have "0 \<le> ?d" "?d < dbSharding s" using assms(1) by simp_all
  then have "nat ?d < nat (dbSharding s)" "int (nat ?d) = ?d" by simp_all
  then have "(\<exists>j < nat (dbSharding s). ?t = int j \<and> ?d = int j) \<longleftrightarrow> ?t = ?d"
    by (metis nat_int)
  then show ?thesis
    unfolding set_Broadcast [OF assms(3)] d
    by (auto simp: mkDst_inject image_iff) (auto simp: mkDst_def)
qed

theorem Broadcast_reaches_witness:
  "\<exists>ds d. Broadcast (NewShardingStrategy ''db'' ''t'' 2 2) = Some ds
     \<and> Shard (NewShardingStrategy ''db'' ''t'' 2 2) 7 ''a'' = Some d
     \<and> d \<notin> set ds"
proof -
  let ?s = "NewShardingStrategy ''db'' ''t'' 2 2"
  have p: "0 < dbSharding ?s" "0 < tableSharding ?s" by (simp_all add: NewShardingStrategy_def)
  have "sint (Hash 7 ''a'') = 7633625241731311090" by code_simp
  then obtain d where d: "Shard ?s 7 ''a'' = Some d" "TableSuffix d \<noteq> DBSuffix d"
    using p by (simp add: Shard_suffixes mkDst_def NewShardingStrategy_def)
  obtain ds where ds: "Broadcast ?s = Some ds"
    by (simp add: Broadcast_def NewShardingStrategy_def wrap64_id int64_range_def)
  from d ds show ?thesis
    using Broadcast_reaches [OF p ds d(1)] by auto
qed

text \<open>A table name gives back its suffix: prefixes may contain underscores.\<close>

lemma split_on_nonempty [simp]: "split_on c s \<noteq> []"
  by (induction s) (auto split: list.splits)

lemma split_on_absent: "c \<notin> set s \<Longrightarrow> split_on c s = [s]"
  by (induction s) auto

lemma split_on_append:
  "c \<notin> set t \<Longrightarrow> \<exists>p ps. split_on c (s @ c # t) = (p # ps) @ [t]"
  by (induction s) (force simp: split_on_absent)+

lemma last_split_on: "c \<notin> set t \<Longrightarrow> last (split_on c (s @ c # t)) = t"
  using split_on_append [of c t s] by auto

lemma ExtractSuffix_Table [simp]:
  "ExtractSuffixAndFormatFromTable s (Table (mkDst s' t d)) = Table (mkDst s t d)"
  using last_split_on [of "CHR ''_''" "FormatInt t"] FormatInt_chars [of "CHR ''_''" t]
  by (simp add: ExtractSuffixAndFormatFromTable_def mkDst_def)

end
