(* ===== verification/Errors.thy ===== *)
theory Errors
  imports Prelude
begin

text \<open>
  \<^verbatim>\<open>internal/errs/error.go\<close> and Go's error values. A sentinel is a constructor; \<open>Ext\<close> is an
  error of another package, by name; \<open>Wrap\<close> is \<^verbatim>\<open>fmt.Errorf\<close> with the errors of its \<open>%w\<close>
  verbs. The texts are not kept: the program branches on \<^verbatim>\<open>errors.Is\<close> only. A Go result
  \<open>(value, err)\<close> is a pair whose second component is \<open>None\<close> for \<open>nil\<close>; the value is kept
  beside an error because callers sometimes read it.
\<close>

datatype sentinel =
    ErrInvalidParameter | ErrSendNotificationFailed | ErrNotificationNotFound
  | ErrCreateNotificationFailed | ErrBizIDNotFound | ErrTemplateNotFound
  | ErrTemplateVersionNotFound | ErrTemplateVersionNotApprovedByPlatform
  | ErrTemplateVersionNotApprovedByProvider | ErrTemplateAndVersionMisMatch
  | ErrChannelDisabled | ErrRateLimited | ErrCircuitBreaker | ErrNoAvailableProvider
  | ErrNoAvailableChannel | ErrConfigNotFound | ErrNoQuotaConfig | ErrNoQuota
  | ErrQuotaNotFound | ErrProviderNotFound | ErrUnknownChannel | ErrInvalidOperation
  | ErrCreateTemplateFailed | ErrUpdateTemplateFailed | ErrForkVersionFailed
  | ErrUpdateTemplateVersionFailed | ErrUpdateTemplateVersionAuditStatusFailed
  | ErrUpdateTemplateProviderAuditStatusFailed | ErrSubmitVersionForInternalReviewFailed
  | ErrSubmitVersionForProviderReviewFailed | ErrNoAvailableFailoverService
  | ErrNotificationDuplicate | ErrNotificationVersionMismatch | ErrCreateCallbackLogFailed
  | ErrDatabaseError | ErrExternalServiceError | ErrBatchSizeOverLimit | ErrToAsync
  | ErrExceedLimit | ErrErrorConditionIsMet

datatype gerr = Err sentinel | Ext string | Wrap "gerr list"

fun errors_Is :: "gerr \<Rightarrow> gerr \<Rightarrow> bool" where
  "errors_Is (Wrap es) t = (Wrap es = t \<or> list_ex (\<lambda>e. errors_Is e t) es)"
| "errors_Is e t = (e = t)"

abbreviation is_err :: "gerr \<Rightarrow> sentinel \<Rightarrow> bool" where
  "is_err e s \<equiv> errors_Is e (Err s)"

type_synonym 'a ret = "'a \<times> gerr option"

lemma errors_Is_refl [simp]: "errors_Is e e"
  by (cases e) simp_all

lemma errors_Is_Wrap [simp]: "errors_Is (Wrap es) (Err s) \<longleftrightarrow> (\<exists>e \<in> set es. errors_Is e (Err s))"
  by (simp add: list_ex_iff)

end
