(* ===== verification/Domain.thy ===== *)
theory Domain
  imports Errors Strconv Retry
begin

text \<open>
  \<^verbatim>\<open>internal/domain\<close>: the notification, its send strategy, transactions, call-back logs,
  quotas, providers and templates. Go's string enumerations are strings, as any string can be
  in such a variable. A Go map is an association list. Where the code reads the clock, the
  definition takes \<open>now\<close>; two readings in one function are one argument each.
\<close>

named_theorems status_simps \<open>the string constants, written out\<close>

definition invalid_parameter :: gerr where
  "invalid_parameter = Wrap [Err ErrInvalidParameter]"

lemma is_invalid_parameter [simp]: "is_err invalid_parameter s \<longleftrightarrow> s = ErrInvalidParameter"
  by (auto simp: invalid_parameter_def)

section \<open>Channels and providers\<close>

type_synonym Channel = string

definition ChannelSMS :: Channel where [status_simps]: "ChannelSMS = ''SMS''"
definition ChannelEmail :: Channel where [status_simps]: "ChannelEmail = ''EMAIL''"
definition ChannelInApp :: Channel where [status_simps]: "ChannelInApp = ''IN_APP''"

definition Channel_IsValid :: "Channel \<Rightarrow> bool" where
  "Channel_IsValid c \<longleftrightarrow> c = ChannelSMS \<or> c = ChannelEmail \<or> c = ChannelInApp"

definition Channel_IsSMS :: "Channel \<Rightarrow> bool" where
  "Channel_IsSMS c \<longleftrightarrow> c = ChannelSMS"
definition Channel_IsEmail :: "Channel \<Rightarrow> bool" where
  "Channel_IsEmail c \<longleftrightarrow> c = ChannelEmail"
definition Channel_IsInApp :: "Channel \<Rightarrow> bool" where
  "Channel_IsInApp c \<longleftrightarrow> c = ChannelInApp"

type_synonym ProviderStatus = string

definition ProviderStatusActive :: ProviderStatus where
  [status_simps]: "ProviderStatusActive = ''ACTIVE''"
definition ProviderStatusInactive :: ProviderStatus where
  [status_simps]: "ProviderStatusInactive = ''INACTIVE''"

record Provider =
  pID :: int64
  pName :: string
  pChannel :: Channel
  pEndpoint :: string
  pRegionID :: string
  pAPIKey :: string
  pAPISecret :: string
  pAPPID :: string
  pWeight :: int64
  pQPSLimit :: int64
  pDailyLimit :: int64
  pAuditCallbackURL :: string
  pStatus :: ProviderStatus

definition Provider_Validate :: "Provider \<Rightarrow> gerr option" where
  "Provider_Validate p =
     (if pName p = '''' then Some invalid_parameter
      else if \<not> Channel_IsValid (pChannel p) then Some invalid_parameter
      else if pEndpoint p = '''' then Some invalid_parameter
      else if pAPIKey p = '''' then Some invalid_parameter
      else if pAPISecret p = '''' then Some invalid_parameter
      else if pWeight p \<le> 0 then Some invalid_parameter
      else if pQPSLimit p \<le> 0 then Some invalid_parameter
      else if pDailyLimit p \<le> 0 then Some invalid_parameter
      else None)"

section \<open>Send strategies\<close>

type_synonym SendStrategyType = string

definition SendStrategyImmediate :: SendStrategyType where
  [status_simps]: "SendStrategyImmediate = ''IMMEDIATE''"
definition SendStrategyDelayed :: SendStrategyType where
  [status_simps]: "SendStrategyDelayed = ''DELAYED''"
definition SendStrategyScheduled :: SendStrategyType where
  [status_simps]: "SendStrategyScheduled = ''SCHEDULED''"
definition SendStrategyWindow :: SendStrategyType where
  [status_simps]: "SendStrategyWindow = ''WINDOW''"
definition SendStrategyDeadline :: SendStrategyType where
  [status_simps]: "SendStrategyDeadline = ''DEADLINE''"

record SendStrategyConfig =
  ssType :: SendStrategyType
  ssDelay :: duration
  ssScheduleTime :: gtime
  ssStartTime :: gtime
  ssEndTime :: gtime
  ssDeadlineTime :: gtime

definition SendTimeWindow :: "gtime \<Rightarrow> SendStrategyConfig \<Rightarrow> gtime \<times> gtime" where
  "SendTimeWindow now e =
     (if ssType e = SendStrategyImmediate then (now, now + 30 * minute)
      else if ssType e = SendStrategyDelayed then (now, now + ssDelay e)
      else if ssType e = SendStrategyDeadline then (now, ssDeadlineTime e)
      else if ssType e = SendStrategyWindow then (ssStartTime e, ssEndTime e)
      else if ssType e = SendStrategyScheduled
      then (ssScheduleTime e + - (3 * second), ssScheduleTime e)
      else (now, now))"

definition SendStrategyConfig_Validate :: "gtime \<Rightarrow> SendStrategyConfig \<Rightarrow> gerr option" where
  "SendStrategyConfig_Validate now e =
     (if ssType e = SendStrategyImmediate then None
      else if ssType e = SendStrategyDelayed then
        (if ssDelay e \<le> 0 then Some invalid_parameter else None)
      else if ssType e = SendStrategyDeadline then
        (if IsZero (ssDeadlineTime e) \<or> ssDeadlineTime e < now
         then Some invalid_parameter else None)
      else if ssType e = SendStrategyWindow then
        (if IsZero (ssStartTime e) \<or> ssEndTime e < ssStartTime e
         then Some invalid_parameter else None)
      else if ssType e = SendStrategyScheduled then
        (if IsZero (ssScheduleTime e) \<or> ssScheduleTime e < now
         then Some invalid_parameter else None)
      else None)"

section \<open>Notifications\<close>

type_synonym SendStatus = string

definition SendStatusPrepare :: SendStatus where [status_simps]: "SendStatusPrepare = ''PREPARE''"
definition SendStatusCanceled :: SendStatus where [status_simps]: "SendStatusCanceled = ''CANCELED''"
definition SendStatusPending :: SendStatus where [status_simps]: "SendStatusPending = ''PENDING''"
definition SendStatusSending :: SendStatus where [status_simps]: "SendStatusSending = ''SENDING''"
definition SendStatusSucceeded :: SendStatus where [status_simps]: "SendStatusSucceeded = ''SUCCEEDED''"
definition SendStatusFailed :: SendStatus where [status_simps]: "SendStatusFailed = ''FAILED''"

record Template =
  tID :: int64
  tVersionID :: int64
  tParams :: "(string \<times> string) list"
  tVersion :: int64

record Notification =
  nID :: int64
  nBizID :: int64
  nKey :: string
  nReceivers :: "string list"
  nChannel :: Channel
  nTemplate :: Template
  nStatus :: SendStatus
  nScheduledSTime :: gtime
  nScheduledETime :: gtime
  nVersion :: int64
  nSendStrategyConfig :: SendStrategyConfig

text \<open>Go's zero values: what a function returns beside an error.\<close>

definition zero_SendStrategyConfig :: SendStrategyConfig where
  "zero_SendStrategyConfig =
     \<lparr>ssType = '''', ssDelay = 0, ssScheduleTime = 0, ssStartTime = 0, ssEndTime = 0,
      ssDeadlineTime = 0\<rparr>"

definition zero_Template :: Template where
  "zero_Template = \<lparr>tID = 0, tVersionID = 0, tParams = [], tVersion = 0\<rparr>"

definition zero_Notification :: Notification where
  "zero_Notification =
     \<lparr>nID = 0, nBizID = 0, nKey = '''', nReceivers = [], nChannel = '''', nTemplate = zero_Template,
      nStatus = '''', nScheduledSTime = 0, nScheduledETime = 0, nVersion = 0,
      nSendStrategyConfig = zero_SendStrategyConfig\<rparr>"

definition SetSendTime :: "gtime \<Rightarrow> Notification \<Rightarrow> Notification" where
  "SetSendTime now n =
     (let (stime, etime) = SendTimeWindow now (nSendStrategyConfig n)
      in n\<lparr>nScheduledSTime := stime, nScheduledETime := etime\<rparr>)"

definition IsImmediate :: "Notification \<Rightarrow> bool" where
  "IsImmediate n \<longleftrightarrow> ssType (nSendStrategyConfig n) = SendStrategyImmediate"

definition ReplaceAsyncImmediate :: "gtime \<Rightarrow> Notification \<Rightarrow> Notification" where
  "ReplaceAsyncImmediate now n =
     (if IsImmediate n then
        n\<lparr>nSendStrategyConfig := (nSendStrategyConfig n)
            \<lparr>ssDeadlineTime := now + minute, ssType := SendStrategyDeadline\<rparr>\<rparr>
      else n)"

definition Notification_Validate :: "gtime \<Rightarrow> Notification \<Rightarrow> gerr option" where
  "Notification_Validate now n =
     (if nBizID n \<le> 0 then Some invalid_parameter
      else if nKey n = '''' then Some invalid_parameter
      else if nReceivers n = [] then Some invalid_parameter
      else if \<not> Channel_IsValid (nChannel n) then Some invalid_parameter
      else if tID (nTemplate n) \<le> 0 then Some invalid_parameter
      else if tVersionID (nTemplate n) \<le> 0 then Some invalid_parameter
      else if tParams (nTemplate n) = [] then Some invalid_parameter
      else case SendStrategyConfig_Validate now (nSendStrategyConfig n) of
             Some err \<Rightarrow> Some err
           | None \<Rightarrow> None)"

definition IsValidBizID :: "Notification \<Rightarrow> gerr option" where
  "IsValidBizID n = (if nBizID n \<le> 0 then Some invalid_parameter else None)"

record SendResponse =
  NotificationID :: int64
  srStatus :: SendStatus

definition zero_SendResponse :: SendResponse where
  "zero_SendResponse = \<lparr>NotificationID = 0, srStatus = ''''\<rparr>"

section \<open>From the API's messages\<close>

text \<open>The message types \<^verbatim>\<open>protoc\<close> generates: a pointer is an option, the \<open>oneof\<close> is a
  \<open>datatype\<close>, a \<open>Timestamp\<close> is the instant its \<open>AsTime\<close> returns.\<close>

datatype SendStrategy_oneof =
    SendStrategy_Immediate
  | SendStrategy_Delayed "int64 option"
  | SendStrategy_Scheduled "gtime option option"
  | SendStrategy_TimeWindow "(int64 \<times> int64) option"
  | SendStrategy_Deadline "gtime option option"

type_synonym pbChannel = int32

definition Channel_SMS :: pbChannel where "Channel_SMS = 1"
definition Channel_EMAIL :: pbChannel where "Channel_EMAIL = 2"
definition Channel_IN_APP :: pbChannel where "Channel_IN_APP = 3"

record pbNotification =
  pbKey :: string
  pbReceivers :: "string list"
  pbChannel :: pbChannel
  pbTemplateId :: string
  pbTemplateParams :: "(string \<times> string) list"
  pbSendStrategy :: "SendStrategy_oneof option option"
  pbReceiver :: string

definition getDomainSendStrategyConfig :: "pbNotification \<Rightarrow> SendStrategyConfig" where
  "getDomainSendStrategyConfig n =
     (let cfg0 = \<lparr>ssType = SendStrategyImmediate, ssDelay = wrap64 (0 * second), ssScheduleTime = 0,
                  ssStartTime = time_Unix 0 0, ssEndTime = time_Unix 0 0, ssDeadlineTime = 0\<rparr>
      in case pbSendStrategy n of
           None \<Rightarrow> cfg0
         | Some strategyType \<Rightarrow>
             (case strategyType of
                None \<Rightarrow> cfg0
              | Some SendStrategy_Immediate \<Rightarrow> cfg0\<lparr>ssType := SendStrategyImmediate\<rparr>
              | Some (SendStrategy_Delayed d) \<Rightarrow>
                  (case d of
                     Some delaySeconds \<Rightarrow>
                       if delaySeconds > 0
                       then cfg0\<lparr>ssDelay := wrap64 (delaySeconds * second),
                                 ssType := SendStrategyDelayed\<rparr>
                       else cfg0
                   | None \<Rightarrow> cfg0)
              | Some (SendStrategy_Scheduled s) \<Rightarrow>
                  (case s of
                     Some (Some sendTime) \<Rightarrow>
                       cfg0\<lparr>ssScheduleTime := sendTime, ssType := SendStrategyScheduled\<rparr>
                   | _ \<Rightarrow> cfg0)
              | Some (SendStrategy_TimeWindow w) \<Rightarrow>
                  (case w of
                     Some (startTimeMilliseconds, endTimeMilliseconds) \<Rightarrow>
                       cfg0\<lparr>ssStartTime := time_Unix startTimeMilliseconds 0,
                            ssEndTime := time_Unix endTimeMilliseconds 0,
                            ssType := SendStrategyWindow\<rparr>
                   | None \<Rightarrow> cfg0)
              | Some (SendStrategy_Deadline d) \<Rightarrow>
                  (case d of
                     Some (Some deadline) \<Rightarrow>
                       cfg0\<lparr>ssDeadlineTime := deadline, ssType := SendStrategyDeadline\<rparr>
                   | _ \<Rightarrow> cfg0)))"

definition getDomainChannel :: "pbNotification \<Rightarrow> Channel ret" where
  "getDomainChannel n =
     (if pbChannel n = Channel_SMS then (ChannelSMS, None)
      else if pbChannel n = Channel_EMAIL then (ChannelEmail, None)
      else if pbChannel n = Channel_IN_APP then (ChannelInApp, None)
      else ('''', Some invalid_parameter))"

definition NewNotificationFromAPI :: "pbNotification option \<Rightarrow> Notification ret" where
  "NewNotificationFromAPI np =
     (case np of
        None \<Rightarrow> (zero_Notification, Some invalid_parameter)
      | Some n \<Rightarrow>
          (case ParseInt (pbTemplateId n) of
             None \<Rightarrow> (zero_Notification, Some invalid_parameter)
           | Some tid \<Rightarrow>
               (case getDomainChannel n of
                  (_, Some err) \<Rightarrow> (zero_Notification, Some err)
                | (channel, None) \<Rightarrow>
                    (zero_Notification
                       \<lparr>nKey := pbKey n, nReceivers := pbReceivers n, nChannel := channel,
                        nTemplate := zero_Template\<lparr>tID := tid, tParams := pbTemplateParams n\<rparr>,
                        nSendStrategyConfig := getDomainSendStrategyConfig n\<rparr>, None))))"

section \<open>Business configuration\<close>

record ChannelItem =
  ciChannel :: string
  ciPriority :: int64
  ciEnabled :: bool

record ChannelConfig =
  ccChannels :: "ChannelItem list"
  ccRetryPolicy :: "RetryConfig option"

record TxnConfig =
  txcServiceName :: string
  txcInitialDelay :: int64
  txcRetryPolicy :: "RetryConfig option"

record MonthlyConfig =
  mcSMS :: int64
  mcEMAIL :: int64

record QuotaConfig =
  qcMonthly :: MonthlyConfig

record CallbackConfig =
  cbcServiceName :: string
  cbcRetryPolicy :: "RetryConfig option"

record BusinessConfig =
  bcID :: int64
  bcOwnerId :: int64
  bcOwnerType :: string
  bcChannelConfig :: "ChannelConfig option"
  bcTxnConfig :: "TxnConfig option"
  bcRateLimit :: int64
  bcQuota :: "QuotaConfig option"
  bcCallbackConfig :: "CallbackConfig option"
  bcCtime :: int64
  bcUtime :: int64

record Quota =
  qBizID :: int64
  qQuota :: int32
  qChannel :: Channel

section \<open>Transactions and call-back logs\<close>

type_synonym TxNotificationStatus = string

definition TxNotificationStatusPrepare :: TxNotificationStatus where
  [status_simps]: "TxNotificationStatusPrepare = ''PREPARE''"
definition TxNotificationStatusCommit :: TxNotificationStatus where
  [status_simps]: "TxNotificationStatusCommit = ''COMMIT''"
definition TxNotificationStatusCancel :: TxNotificationStatus where
  [status_simps]: "TxNotificationStatusCancel = ''CANCEL''"
definition TxNotificationStatusFail :: TxNotificationStatus where
  [status_simps]: "TxNotificationStatusFail = ''FAIL''"

record TxNotification =
  txTxID :: int64
  txNotification :: Notification
  txBizID :: int64
  txKey :: string
  txStatus :: TxNotificationStatus
  txCheckCount :: int64
  txNextCheckTime :: int64
  txCtime :: int64
  txUtime :: int64

definition Tx_SetSendTime :: "gtime \<Rightarrow> TxNotification \<Rightarrow> TxNotification" where
  "Tx_SetSendTime now t = t\<lparr>txNotification := SetSendTime now (txNotification t)\<rparr>"

text \<open>\<open>None\<close> is the panic of \<open>NewRetry\<close> on a configuration without its sub-configuration.\<close>

definition NextCheckBackTime ::
  "(int \<Rightarrow> int64) \<Rightarrow> TxNotification \<Rightarrow> TxnConfig option \<Rightarrow> (duration \<times> bool) option" where
  "NextCheckBackTime cvt t cfg =
     (case cfg of
        None \<Rightarrow> Some (0, False)
      | Some c \<Rightarrow>
          (case txcRetryPolicy c of
             None \<Rightarrow> Some (0, False)
           | Some policy \<Rightarrow>
               (case NewRetry policy of
                  NilPanic \<Rightarrow> None
                | UnsupportedType _ \<Rightarrow> Some (0, False)
                | Strategy s \<Rightarrow> Some (fst (NextWithRetries cvt s (wrap32 (txCheckCount t)))))))"

definition SetNextCheckBackTimeAndStatus ::
  "(int \<Rightarrow> int64) \<Rightarrow> gtime \<Rightarrow> TxnConfig option \<Rightarrow> TxNotification \<Rightarrow> TxNotification option" where
  "SetNextCheckBackTimeAndStatus cvt now txnCfg t =
     (case NextCheckBackTime cvt t txnCfg of
        None \<Rightarrow> None
      | Some (nextTime, ok) \<Rightarrow>
          Some (if ok then t\<lparr>txNextCheckTime := UnixMilli (now + nextTime)\<rparr>
                else t\<lparr>txNextCheckTime := 0, txStatus := TxNotificationStatusFail\<rparr>))"

type_synonym CallbackLogStatus = string

definition CallbackLogStatusInit :: CallbackLogStatus where
  [status_simps]: "CallbackLogStatusInit = ''INIT''"
definition CallbackLogStatusPending :: CallbackLogStatus where
  [status_simps]: "CallbackLogStatusPending = ''PENDING''"
definition CallbackLogStatusSuccess :: CallbackLogStatus where
  [status_simps]: "CallbackLogStatusSuccess = ''SUCCEEDED''"
definition CallbackLogStatusFailed :: CallbackLogStatus where
  [status_simps]: "CallbackLogStatusFailed = ''FAILED''"

record CallbackLog =
  clID :: int64
  clNotification :: Notification
  clRetryCount :: int32
  clNextRetryTime :: int64
  clStatus :: CallbackLogStatus

section \<open>Properties\<close>

lemma Validate_window:
  "SendStrategyConfig_Validate now e = None \<Longrightarrow> fst (SendTimeWindow now e) \<le> snd (SendTimeWindow now e)"
  by (auto simp: SendStrategyConfig_Validate_def SendTimeWindow_def second_def minute_def
      split: if_splits)

lemma SetSendTime_simps [simp]:
  "nScheduledSTime (SetSendTime now n) = fst (SendTimeWindow now (nSendStrategyConfig n))"
  "nScheduledETime (SetSendTime now n) = snd (SendTimeWindow now (nSendStrategyConfig n))"
  "nSendStrategyConfig (SetSendTime now n) = nSendStrategyConfig n"
  "nID (SetSendTime now n) = nID n" "nBizID (SetSendTime now n) = nBizID n"
  "nKey (SetSendTime now n) = nKey n" "nStatus (SetSendTime now n) = nStatus n"
  "nChannel (SetSendTime now n) = nChannel n" "nVersion (SetSendTime now n) = nVersion n"
  "nReceivers (SetSendTime now n) = nReceivers n" "nTemplate (SetSendTime now n) = nTemplate n"
  by (simp_all add: SetSendTime_def split_beta)

lemma Notification_Validate_cfg:
  "Notification_Validate now n = None \<Longrightarrow>
   SendStrategyConfig_Validate now (nSendStrategyConfig n) = None"
  by (simp add: Notification_Validate_def split: if_splits option.splits)

lemma ReplaceAsyncImmediate_valid:
  "0 \<le> now \<Longrightarrow> Notification_Validate now n = None \<Longrightarrow>
   Notification_Validate now (ReplaceAsyncImmediate now n) = None"
  by (auto simp: Notification_Validate_def ReplaceAsyncImmediate_def
      SendStrategyConfig_Validate_def status_simps minute_def second_def split: if_splits option.splits)

lemma ReplaceAsyncImmediate_not_immediate: "\<not> IsImmediate (ReplaceAsyncImmediate now n)"
  by (simp add: ReplaceAsyncImmediate_def IsImmediate_def status_simps)

text \<open>A notification that passes validation has a send window that is not empty; the
  asynchronous form of it is never immediate, passes validation again, and has a window that is
  not empty either.\<close>

theorem Valid_notification_window:
  assumes "0 \<le> now" "Notification_Validate now n = None"
  shows "nScheduledSTime (SetSendTime now n) \<le> nScheduledETime (SetSendTime now n)
       \<and> (let m = ReplaceAsyncImmediate now n in
            \<not> IsImmediate m \<and> Notification_Validate now m = None
            \<and> nScheduledSTime (SetSendTime now m) \<le> nScheduledETime (SetSendTime now m))"
  using assms ReplaceAsyncImmediate_valid [OF assms]
  by (simp add: Let_def ReplaceAsyncImmediate_not_immediate Validate_window Notification_Validate_cfg)

theorem Valid_notification_window_witness:
  "let n = zero_Notification
     \<lparr>nBizID := 1, nKey := ''order'', nReceivers := [''a''], nChannel := ChannelSMS,
      nTemplate := zero_Template\<lparr>tID := 3, tVersionID := 4, tParams := [(''code'', ''1'')]\<rparr>,
      nSendStrategyConfig := zero_SendStrategyConfig\<lparr>ssType := SendStrategyImmediate\<rparr>\<rparr>
   in nScheduledSTime (SetSendTime 5 n) \<le> nScheduledETime (SetSendTime 5 n)"
  unfolding Let_def
  by (rule Valid_notification_window [THEN conjunct1])
    (simp_all add: Notification_Validate_def zero_Notification_def zero_Template_def
      SendStrategyConfig_Validate_def status_simps Channel_IsValid_def)

lemma NewNotificationFromAPI_error:
  "NewNotificationFromAPI np = (n, Some e) \<Longrightarrow> n = zero_Notification \<and> e = invalid_parameter"
  by (auto simp: NewNotificationFromAPI_def getDomainChannel_def split: option.splits if_splits)

lemma NewNotificationFromAPI_ok:
  "snd (NewNotificationFromAPI (Some m)) = None \<longleftrightarrow>
   ParseInt (pbTemplateId m) \<noteq> None \<and> pbChannel m \<in> {Channel_SMS, Channel_EMAIL, Channel_IN_APP}"
  by (auto simp: NewNotificationFromAPI_def getDomainChannel_def split: option.splits)

lemma NewNotificationFromAPI_channel:
  "NewNotificationFromAPI np = (n, None) \<Longrightarrow> Channel_IsValid (nChannel n)"
  by (auto simp: NewNotificationFromAPI_def getDomainChannel_def Channel_IsValid_def
      split: option.splits if_splits)

text \<open>A time window given in milliseconds is read as seconds: its bounds lie a thousand
  times as far from the Unix epoch as the request says.\<close>

theorem TimeWindow_unit:
  assumes "pbSendStrategy m = Some (Some (SendStrategy_TimeWindow (Some (s, e))))"
    and "0 \<le> s" "s \<le> e" "e < 2 ^ 62"
  shows "ssType (getDomainSendStrategyConfig m) = SendStrategyWindow
       \<and> ssStartTime (getDomainSendStrategyConfig m) - unix_epoch
           = 1000 * (time_UnixMilli s - unix_epoch)
       \<and> ssEndTime (getDomainSendStrategyConfig m) - unix_epoch
           = 1000 * (time_UnixMilli e - unix_epoch)"
  using assms
  by (simp add: getDomainSendStrategyConfig_def Let_def time_Unix_def time_UnixMilli_def
      unix_epoch_def wrap64_id int64_range_def)

theorem TimeWindow_unit_witness:
  "ssStartTime (getDomainSendStrategyConfig
     \<lparr>pbKey = ''k'', pbReceivers = [''a''], pbChannel = Channel_SMS, pbTemplateId = ''1'',
      pbTemplateParams = [], pbSendStrategy =
        Some (Some (SendStrategy_TimeWindow (Some (1735689600000, 1735689660000)))),
      pbReceiver = ''''\<rparr>) - unix_epoch
   = 1000 * (time_UnixMilli 1735689600000 - unix_epoch)"
  by (rule TimeWindow_unit [THEN conjunct2, THEN conjunct1, of _ _ 1735689660000]) simp_all

end
