(* ===== verification/LoadBalancer.thy ===== *)
theory LoadBalancer
  imports Domain Float64
begin

unbundle bit_operations_syntax

text \<open>
  \<^verbatim>\<open>internal/service/provider/loadbalancer\<close>: a provider that watches its own failure rate
  (\<open>mprovider\<close>), the round-robin \<open>Selector\<close> over such providers, and the round-robin \<open>Provider\<close>.
  A provider of the platform is a function on the state \<open>'s\<close> of the outside world. Each method
  is one atomic step; the timer that \<open>Send\<close> starts is counted in \<open>mpTimers\<close> and fires as a step
  of its own (\<open>mprovider_recover\<close>).
\<close>

type_synonym 's send_fn = "Notification \<Rightarrow> 's \<Rightarrow> SendResponse ret \<times> 's"

section \<open>The health-tracking provider\<close>

record 's mprovider =
  mpProvider :: "'s send_fn"
  mpHealthy :: bool
  mpRingBuffer :: "64 word list"
  mpReqCount :: "64 word"
  mpBufferLen :: int64
  mpBitCnt :: "64 word"
  mpFailThreshold :: int64
  mpTimers :: nat

definition defaultFailPercent :: f64 where
  "defaultFailPercent = f64_round (1 / 10)"

definition newMprovider :: "'s send_fn \<Rightarrow> int64 \<Rightarrow> 's mprovider" where
  "newMprovider p bufferLen =
     (let bitCnt = word_of_int bufferLen * 64 :: 64 word
      in \<lparr>mpProvider = p, mpHealthy = True, mpRingBuffer = replicate (nat bufferLen) 0,
          mpReqCount = 0, mpBufferLen = bufferLen, mpBitCnt = bitCnt,
          mpFailThreshold = int (f64_to_nat (f64_mul (f64_of_nat (unat bitCnt)) defaultFailPercent)),
          mpTimers = 0\<rparr>)"

definition markFailed :: "'s mprovider \<Rightarrow> 's mprovider" where
  "markFailed m =
     (let reqCount = mpReqCount m + 1;
          count = reqCount mod mpBitCnt m;
          idx = unat (drop_bit 6 count);
          bitPos = unat (count AND 64);
          old = mpRingBuffer m ! idx
      in m\<lparr>mpReqCount := reqCount,
           mpRingBuffer := (mpRingBuffer m)[idx := old OR push_bit bitPos 1]\<rparr>)"

definition markSuccess :: "'s mprovider \<Rightarrow> 's mprovider" where
  "markSuccess m =
     (let reqCount = mpReqCount m + 1;
          count = reqCount mod mpBitCnt m;
          idx = unat (drop_bit 6 count);
          bitPos = unat (count AND 64);
          old = mpRingBuffer m ! idx
      in m\<lparr>mpReqCount := reqCount,
           mpRingBuffer := (mpRingBuffer m)[idx := old OR push_bit bitPos 1]\<rparr>)"

definition OnesCount64 :: "64 word \<Rightarrow> nat" where
  "OnesCount64 w = length (filter (bit w) [0..<64])"

definition getFailed :: "'s mprovider \<Rightarrow> int64" where
  "getFailed m = foldl (\<lambda>failCount v. failCount + int (OnesCount64 v)) 0 (mpRingBuffer m)"

definition isHealthy :: "'s mprovider \<Rightarrow> bool" where
  "isHealthy m \<longleftrightarrow> mpHealthy m"

definition mprovider_Send ::
  "'s mprovider \<Rightarrow> Notification \<Rightarrow> 's \<Rightarrow> SendResponse ret \<times> 's mprovider \<times> 's" where
  "mprovider_Send m n s =
     (let ((res, err), s1) = mpProvider m n s in
      case err of
        Some e \<Rightarrow>
          (let m1 = markFailed m; v = getFailed m1 in
           if v > mpFailThreshold m1 \<and> mpHealthy m1
           then ((res, err), m1\<lparr>mpHealthy := False, mpTimers := mpTimers m1 + 1\<rparr>, s1)
           else ((res, err), m1, s1))
      | None \<Rightarrow> ((res, err), markSuccess m, s1))"

text \<open>The function \<open>time.AfterFunc\<close> runs a minute after a provider became unhealthy.\<close>

definition mprovider_recover :: "'s mprovider \<Rightarrow> 's mprovider" where
  "mprovider_recover m =
     m\<lparr>mpHealthy := True, mpRingBuffer := replicate (nat (mpBufferLen m)) 0,
       mpTimers := mpTimers m - 1\<rparr>"

text \<open>What can happen to a provider: a send, a timer, or anything in the outside world.\<close>

inductive mp_step :: "'s mprovider \<times> 's \<Rightarrow> 's mprovider \<times> 's \<Rightarrow> bool" where
  send: "mprovider_Send m n s = (r, m', s') \<Longrightarrow> mp_step (m, s) (m', s')"
| timer: "0 < mpTimers m \<Longrightarrow> mp_step (m, s) (mprovider_recover m, s)"
| world: "mp_step (m, s) (m, s')"

inductive_cases mp_stepE: "mp_step (m, s) (m', s')"

inductive mp_reach :: "'s mprovider \<times> 's \<Rightarrow> 's mprovider \<times> 's \<Rightarrow> bool" where
  init: "mp_reach c c"
| step: "mp_reach c d \<Longrightarrow> mp_step d e \<Longrightarrow> mp_reach c e"

section \<open>The selector\<close>

definition ErrNoProviderAvailable :: gerr where
  "ErrNoProviderAvailable = Ext ''no provider available''"
definition ErrNoHealthyProvider :: gerr where
  "ErrNoHealthyProvider = Ext ''no healthy provider available''"

record 's Selector =
  selProviders :: "'s mprovider option list"
  selCount :: int64

definition NewSelector :: "'s send_fn list \<Rightarrow> int64 \<Rightarrow> 's Selector" where
  "NewSelector providers bufferLen0 =
     (let bufferLen = (if bufferLen0 \<le> 0 then 10 else bufferLen0)
      in \<lparr>selProviders = map (\<lambda>p. Some (newMprovider p bufferLen)) providers, selCount = 0\<rparr>)"

text \<open>The search loop, over the loop indices that are left. \<open>None\<close>: a negative index (the
  counter has wrapped around) makes the slice access panic. \<open>Some None\<close>: the loop ends.\<close>

fun next_healthy :: "'s mprovider option list \<Rightarrow> int64 \<Rightarrow> nat list \<Rightarrow> nat option option" where
  "next_healthy ps current [] = Some None"
| "next_healthy ps current (i # is) =
     (let idx = wrap64 (current + int i) smod int (length ps) in
      if idx < 0 then None
      else case ps ! nat idx of
             Some pro \<Rightarrow> if isHealthy pro then Some (Some (nat idx)) else next_healthy ps current is
           | None \<Rightarrow> next_healthy ps current is)"

definition Selector_Next :: "'s Selector \<Rightarrow> (nat option ret \<times> 's Selector) option" where
  "Selector_Next s =
     (if selProviders s = [] then Some ((None, Some ErrNoProviderAvailable), s)
      else let current = wrap64 (selCount s + 1);
               s1 = s\<lparr>selCount := current\<rparr>
           in case next_healthy (selProviders s) current [0..<length (selProviders s)] of
                None \<Rightarrow> None
              | Some (Some idx) \<Rightarrow> Some ((Some idx, None), s1)
              | Some None \<Rightarrow> Some ((None, Some ErrNoProviderAvailable), s1))"

section \<open>The balancing provider\<close>

record 's lb_Provider =
  lbProviders :: "'s mprovider option list"
  lbCount :: int64

text \<open>The loop of \<open>Send\<close>. The providers are shared through pointers, so their new states are
  part of the result.\<close>

fun lb_send_loop ::
  "int64 \<Rightarrow> Notification \<Rightarrow> nat list \<Rightarrow> 's mprovider option list \<Rightarrow> 's
     \<Rightarrow> (SendResponse ret \<times> 's mprovider option list \<times> 's) option" where
  "lb_send_loop current n [] ps s = Some ((zero_SendResponse, Some ErrNoHealthyProvider), ps, s)"
| "lb_send_loop current n (i # is) ps s =
     (let idx = wrap64 (current + int i) smod int (length ps) in
      if idx < 0 then None
      else case ps ! nat idx of
             Some pro \<Rightarrow>
               if mpHealthy pro then
                 (let ((resp, err), pro', s') = mprovider_Send pro n s;
                      ps' = ps[nat idx := Some pro']
                  in if err \<noteq> None then Some ((resp, err), ps', s')
                     else lb_send_loop current n is ps' s')
               else lb_send_loop current n is ps s
           | None \<Rightarrow> lb_send_loop current n is ps s)"

text \<open>\<open>Send\<close> has a value receiver: the counter it increments is that of a copy, so the
  provider's own counter stays as it is.\<close>

definition lb_Send ::
  "'s lb_Provider \<Rightarrow> Notification \<Rightarrow> 's \<Rightarrow> (SendResponse ret \<times> 's lb_Provider \<times> 's) option" where
  "lb_Send p n s =
     (if lbProviders p = [] then Some ((zero_SendResponse, Some ErrNoProviderAvailable), p, s)
      else let copied = p\<lparr>lbCount := wrap64 (lbCount p + 1)\<rparr>;
               current = wrap64 (lbCount copied - 1)
           in map_option (\<lambda>(r, ps, s'). (r, p\<lparr>lbProviders := ps\<rparr>, s'))
                (lb_send_loop current n [0..<length (lbProviders p)] (lbProviders p) s))"

section \<open>A provider never becomes unhealthy\<close>

text \<open>The bit position is masked with 64, not 63: it is 0 in the words of even index and 64,
  which shifts the bit out, in the others. So at most every second word holds a one.\<close>

definition sparse :: "64 word list \<Rightarrow> bool" where
  "sparse ws \<longleftrightarrow> (\<forall>i < length ws. ws ! i = 0 \<or> even i \<and> ws ! i = 1)"

definition mp_wf :: "int64 \<Rightarrow> 's mprovider \<Rightarrow> bool" where
  "mp_wf L m \<longleftrightarrow> mpBufferLen m = L \<and> length (mpRingBuffer m) = nat L
     \<and> unat (mpBitCnt m) = 64 * nat L \<and> mpHealthy m \<and> 6 * L \<le> mpFailThreshold m
     \<and> sparse (mpRingBuffer m)"

lemma OnesCount64_0 [simp]: "OnesCount64 0 = 0"
  by (simp add: OnesCount64_def)

lemma OnesCount64_1 [simp]: "OnesCount64 1 = 1"
  by (simp add: OnesCount64_def bit_1_iff upt_rec [of 0 64] filter_empty_conv)

lemma sparse_Cons2: "sparse (v # w # ws) \<longleftrightarrow> (v = 0 \<or> v = 1) \<and> w = 0 \<and> sparse ws"
proof
  assume s: "sparse (v # w # ws)"
  have "(v # w # ws) ! i = 0 \<or> even i \<and> (v # w # ws) ! i = 1" if "i < length ws + 2" for i
    using s that by (simp add: sparse_def)
  from this [of 0] this [of 1] this [of "i + 2" for i]
  show "(v = 0 \<or> v = 1) \<and> w = 0 \<and> sparse ws" by (auto simp: sparse_def)
next
  assume a: "(v = 0 \<or> v = 1) \<and> w = 0 \<and> sparse ws"
  show "sparse (v # w # ws)"
    unfolding sparse_def
  proof (intro allI impI)
    fix i
    assume "i < length (v # w # ws)"
    with a show "(v # w # ws) ! i = 0 \<or> even i \<and> (v # w # ws) ! i = 1"
      by (cases i; cases "i - 1") (auto simp: sparse_def)
  qed
qed

lemma sum_foldl: "foldl (\<lambda>a v. a + f v) (x :: int) vs = x + sum_list (map f vs)"
  by (induction vs arbitrary: x) simp_all

lemma sparse_ones:
  "sparse ws \<Longrightarrow> sum_list (map (\<lambda>v. int (OnesCount64 v)) ws) \<le> (int (length ws) + 1) div 2"
proof (induction ws rule: induct_list012)
  case (2 x)
  then show ?case by (auto simp: sparse_def)
next
  case (3 x y zs)
  then show ?case by (auto simp: sparse_Cons2)
qed simp

lemma getFailed_le: "mp_wf L m \<Longrightarrow> 0 < L \<Longrightarrow> getFailed m \<le> L"
  using sparse_ones [of "mpRingBuffer m"]
  by (simp add: mp_wf_def getFailed_def sum_foldl)

lemma unat_drop6: "unat (drop_bit 6 (c :: 64 word)) = unat c div 64"
  using unsigned_less [of c, where ?'a = nat]
  by (subst unsigned_drop_bit_eq) (simp add: drop_bit_eq_div take_bit_nat_eq_self)

lemma and_bit: "(c :: 64 word) AND push_bit k 1 = (if bit c k then push_bit k 1 else 0)"
  by (rule bit_word_eqI) (auto simp: bit_simps)

lemma and_64:
  fixes c :: "64 word"
  shows "unat (c AND 64) = (if odd (unat c div 64) then 64 else 0)"
proof -
  have "c AND 64 = (if bit c 6 then 64 else 0)"
    using and_bit [of c 6] by simp
  moreover have "bit c 6 \<longleftrightarrow> odd (unat c div 64)"
    using bit_unsigned_iff [of c 6, where ?'a = nat] by (simp add: bit_iff_odd [of "unat c"])
  ultimately show ?thesis by simp
qed

lemma mark_eq: "markFailed m = markSuccess m"
  by (simp only: markFailed_def markSuccess_def)

lemma sparse_mark:
  assumes "sparse ws" "odd i \<longrightarrow> p = 64" "even i \<longrightarrow> p = 0" "i < length ws"
  shows "sparse (ws[i := ws ! i OR push_bit p 1])"
proof -
  have "push_bit 64 (1 :: 64 word) = 0"
    by (rule push_bit_word_beyond) simp
  with assms show ?thesis
    by (auto simp: sparse_def nth_list_update)
qed

lemma mp_wf_mark:
  assumes "mp_wf L m" "0 < L"
  shows "mp_wf L (markSuccess m)"
proof -
  let ?c = "(mpReqCount m + 1) mod mpBitCnt m"
  have "unat ?c < 64 * nat L"
    using assms by (simp add: mp_wf_def unat_mod)
  then have i: "unat (drop_bit 6 ?c) < nat L" "unat (drop_bit 6 ?c) = unat ?c div 64"
    unfolding unat_drop6 by (simp_all add: less_mult_imp_div_less mult.commute)
  from assms(1) have "sparse (mpRingBuffer m)" "length (mpRingBuffer m) = nat L"
    by (simp_all add: mp_wf_def)
  with i have "sparse ((mpRingBuffer m)[unat (drop_bit 6 ?c) :=
      mpRingBuffer m ! unat (drop_bit 6 ?c) OR push_bit (unat (?c AND 64)) 1])"
    by (intro sparse_mark) (simp_all add: and_64)
  with assms(1) show ?thesis
    by (simp add: mp_wf_def markSuccess_def Let_def)
qed

lemma mp_wf_Send:
  assumes "mp_wf L m" "0 < L" "mprovider_Send m n s = (r, m', s')"
  shows "mp_wf L m'"
proof -
  have w: "mp_wf L (markSuccess m)" using assms(1,2) by (rule mp_wf_mark)
  moreover have "getFailed (markSuccess m) \<le> mpFailThreshold (markSuccess m)"
    using getFailed_le [OF w assms(2)] w assms(2) by (simp add: mp_wf_def)
  ultimately show ?thesis
    using assms(3)
    by (auto simp: mprovider_Send_def Let_def mark_eq split: prod.splits option.splits if_splits)
qed

lemma sparse_zeros [simp]: "sparse (replicate k 0)"
  by (simp add: sparse_def)

lemma mp_wf_new:
  assumes "0 < L" "L < 2 ^ 40"
  shows "mp_wf L (newMprovider p L)"
proof -
  have b: "unat (word_of_int L * 64 :: 64 word) = 64 * nat L"
  proof -
    have "uint (word_of_int L * 64 :: 64 word) = 64 * L"
      using assms by (simp add: uint_word_ariths uint_word_of_int mod_simps)
    then show ?thesis by (simp add: unat_eq_nat_uint nat_mult_distrib assms)
  qed
  have "3 / 32 \<le> defaultFailPercent"
    unfolding defaultFailPercent_def by code_simp
  then have "of_nat (6 * nat L) \<le> of_nat (64 * nat L) * defaultFailPercent"
    using mult_left_mono [of "3 / 32" defaultFailPercent "of_nat (64 * nat L)"] by simp
  then have "f64_round (of_nat (6 * nat L)) \<le> f64_round (of_nat (64 * nat L) * defaultFailPercent)"
    by (intro f64_round_mono) simp_all
  moreover have l: "64 * nat L < 2 ^ 53" "6 * nat L < 2 ^ 53" using assms by simp_all
  ultimately have "6 * nat L \<le> f64_to_nat (f64_mul (f64_of_nat (64 * nat L)) defaultFailPercent)"
    by (intro f64_to_nat_ge) (simp only: f64_mul_def f64_of_nat_exact f64_round_of_nat)
  then have "6 * L \<le> int (f64_to_nat (f64_mul (f64_of_nat (64 * nat L)) defaultFailPercent))"
    using assms by linarith
  with b show ?thesis by (simp add: mp_wf_def newMprovider_def Let_def)
qed

lemma mp_wf_step:
  assumes "mp_step c d" "mp_wf L (fst c)" "0 < L"
  shows "mp_wf L (fst d)"
  using assms(1)
proof cases
  case (send m n s r m' s')
  with assms show ?thesis using mp_wf_Send by fastforce
next
  case (timer m s)
  with assms show ?thesis by (simp add: mp_wf_def mprovider_recover_def)
next
  case (world m s s')
  with assms show ?thesis by simp
qed

lemma mp_wf_reach:
  "mp_reach c d \<Longrightarrow> mp_wf L (fst c) \<Longrightarrow> 0 < L \<Longrightarrow> mp_wf L (fst d)"
  by (induction rule: mp_reach.induct) (auto intro: mp_wf_step)

text \<open>C34. However often a provider fails, and whatever else happens, its health tracking never
  marks it unhealthy: the failures counted never exceed the threshold of ten percent.\<close>

theorem mprovider_always_healthy:
  assumes "0 < L" "L < 2 ^ 40" "mp_reach (newMprovider p L, s) (m, s')"
  shows "isHealthy m \<and> getFailed m \<le> mpFailThreshold m"
proof -
  have "mp_wf L m"
    using mp_wf_reach [OF assms(3), of L] mp_wf_new [OF assms(1,2), of p] assms(1) by simp
  with assms(1) getFailed_le [of L m] show ?thesis by (simp add: mp_wf_def isHealthy_def)
qed

theorem mprovider_always_healthy_witness:
  "isHealthy (fst (snd (mprovider_Send (newMprovider (\<lambda>n s. ((zero_SendResponse, Some (Ext ''down'')), s)) 10)
     zero_Notification ())))"
proof -
  let ?p = "\<lambda>(n :: Notification) (s :: unit). ((zero_SendResponse, Some (Ext ''down'')), s)"
  obtain r m s' where "mprovider_Send (newMprovider ?p 10) zero_Notification () = (r, m, s')"
    by (metis prod_cases3)
  then have "mp_reach (newMprovider ?p 10, ()) (m, s')"
    by (intro mp_reach.step [OF mp_reach.init] mp_step.send)
  from mprovider_always_healthy [OF _ _ this]
  have "isHealthy m" by simp
  then show ?thesis
    using \<open>mprovider_Send (newMprovider ?p 10) zero_Notification () = (r, m, s')\<close> by simp
qed

section \<open>Selection\<close>

definition healthy_at :: "'s mprovider option list \<Rightarrow> int \<Rightarrow> bool" where
  "healthy_at ps k = (case ps ! nat k of Some pro \<Rightarrow> isHealthy pro | None \<Rightarrow> False)"

lemma next_healthy_find:
  assumes "0 \<le> current" "current + int (length ps) < 2 ^ 63" "ps \<noteq> []"
    and "list_all (\<lambda>i. i < length ps) is"
  shows "next_healthy ps current is
       = Some (map_option (\<lambda>i. nat ((current + int i) mod int (length ps)))
           (find (\<lambda>i. healthy_at ps ((current + int i) mod int (length ps))) is))"
  using assms(4)
proof (induction "is")
  case (Cons i "is")
  let ?k = "(current + int i) mod int (length ps)"
  have "wrap64 (current + int i) smod int (length ps) = ?k"
    using Cons.prems assms(1-3) by (simp add: wrap64_id int64_range_def smod_nonneg)
  moreover have "0 \<le> ?k" using assms(3) by simp
  ultimately show ?case
    using Cons by (simp add: Let_def healthy_at_def split: option.split)
qed simp

text \<open>\<open>i < length ps\<close> offsets cover every index.\<close>

lemma offset_surj:
  assumes "0 \<le> k" "k < (l :: int)"
  shows "\<exists>i < nat l. (c + int i) mod l = k"
proof -
  have "(c + (k - c) mod l) mod l = k" using assms by (simp add: mod_simps)
  moreover have "0 \<le> (k - c) mod l" "(k - c) mod l < l" using assms by simp_all
  ultimately show ?thesis by (intro exI [of _ "nat ((k - c) mod l)"]) simp
qed

text \<open>C26. \<open>Next\<close> moves the counter by one and returns the first healthy provider at or after
  that position, cyclically; it reports that none is available only if none is healthy.\<close>

theorem Selector_Next_first_healthy:
  fixes s :: "'s Selector"
  defines "l \<equiv> int (length (selProviders s))" and "c \<equiv> selCount s + 1"
  assumes "0 \<le> selCount s" "selCount s + 1 + l < 2 ^ 63" "selProviders s \<noteq> []"
  shows "\<exists>r. Selector_Next s = Some (r, s\<lparr>selCount := c\<rparr>) \<and>
    (case r of
       (Some idx, e) \<Rightarrow> e = None \<and> (\<exists>i < length (selProviders s). idx = nat ((c + int i) mod l)
          \<and> healthy_at (selProviders s) (int idx)
          \<and> (\<forall>j < i. \<not> healthy_at (selProviders s) ((c + int j) mod l)))
     | (None, e) \<Rightarrow> e = Some ErrNoProviderAvailable
          \<and> (\<forall>k. 0 \<le> k \<and> k < l \<longrightarrow> \<not> healthy_at (selProviders s) k))"
proof -
  let ?P = "\<lambda>i. healthy_at (selProviders s) ((c + int i) mod l)"
  let ?f = "find ?P [0..<length (selProviders s)]"
  have w: "wrap64 (selCount s + 1) = c"
    using assms by (simp add: wrap64_id int64_range_def)
  have "next_healthy (selProviders s) c [0..<length (selProviders s)]
      = Some (map_option (\<lambda>i. nat ((c + int i) mod l)) ?f)"
    unfolding l_def using assms by (intro next_healthy_find) (simp_all add: list_all_iff)
  then have N: "Selector_Next s = Some ((case ?f of
      Some i \<Rightarrow> (Some (nat ((c + int i) mod l)), None) | None \<Rightarrow> (None, Some ErrNoProviderAvailable)),
      s\<lparr>selCount := c\<rparr>)"
    using assms(5) w by (simp add: Selector_Next_def Let_def split: option.split)
  show ?thesis
  proof (cases ?f)
    case None
    have "\<not> healthy_at (selProviders s) k" if "0 \<le> k" "k < l" for k
    proof -
      obtain i where "i < nat l" "(c + int i) mod l = k"
        using offset_surj \<open>0 \<le> k\<close> \<open>k < l\<close> by blast
      with None show ?thesis by (auto simp: find_None_iff l_def)
    qed
    with None N show ?thesis by simp
  next
    case (Some i)
    then have "i < length (selProviders s)" "?P i" "\<forall>j < i. \<not> ?P j"
      by (auto simp: find_Some_iff)
    moreover have "0 \<le> (c + int i) mod l" using assms(5) by (simp add: l_def)
    ultimately show ?thesis using Some N by auto
  qed
qed

theorem Selector_Next_first_healthy_witness:
  "\<exists>r. Selector_Next (NewSelector [\<lambda>n s. ((zero_SendResponse, None), s :: unit)] 0)
     = Some (r, (NewSelector [\<lambda>n s. ((zero_SendResponse, None), s)] 0)\<lparr>selCount := 1\<rparr>)"
  using Selector_Next_first_healthy [of "NewSelector [\<lambda>n s. ((zero_SendResponse, None), s :: unit)] 0"]
  by (auto simp: NewSelector_def Let_def)

section \<open>The balancing provider never succeeds\<close>

lemma lb_send_loop_err:
  "lb_send_loop current n is ps s = Some ((resp, err), ps', s') \<Longrightarrow> err \<noteq> None"
  by (induction "is" arbitrary: ps s)
    (auto simp: Let_def split: if_splits option.splits prod.splits)

text \<open>\<open>Send\<close> has the error test the wrong way round: whatever the providers answer, it
  returns an error, and its round-robin counter never moves.\<close>

theorem lb_Send_never_succeeds:
  assumes "lb_Send p n s = Some ((resp, err), p', s')"
  shows "err \<noteq> None \<and> lbCount p' = lbCount p"
  using assms by (auto simp: lb_Send_def Let_def dest: lb_send_loop_err split: if_splits)

theorem lb_Send_never_succeeds_witness:
  "\<exists>resp err p'. lb_Send \<lparr>lbProviders = [None], lbCount = 4\<rparr> zero_Notification ()
     = Some ((resp, err), p', ()) \<and> err \<noteq> None \<and> lbCount p' = 4"
proof -
  have "lb_Send \<lparr>lbProviders = [None], lbCount = 4\<rparr> zero_Notification ()
     = Some ((zero_SendResponse, Some ErrNoHealthyProvider), \<lparr>lbProviders = [None], lbCount = 4\<rparr>, ())"
    by (simp add: lb_Send_def Let_def wrap64_id int64_range_def smod_nonneg)
  from this lb_Send_never_succeeds [OF this] show ?thesis by simp
qed

text \<open>A provider that always accepts, and records in the world that it was asked.\<close>

definition accepting :: "nat \<Rightarrow> nat list send_fn" where
  "accepting i n sent = ((\<lparr>NotificationID = nID n, srStatus = SendStatusSucceeded\<rparr>, None), sent @ [i])"

lemma accepting_Send:
  "mpProvider m = accepting i \<Longrightarrow>
   mprovider_Send m n sent = ((\<lparr>NotificationID = nID n, srStatus = SendStatusSucceeded\<rparr>, None),
     markSuccess m, sent @ [i])"
  by (simp add: mprovider_Send_def accepting_def)

lemma markSuccess_fields [simp]:
  "mpProvider (markSuccess m) = mpProvider m" "mpHealthy (markSuccess m) = mpHealthy m"
  by (simp_all add: markSuccess_def Let_def)

lemma lb_send_loop_accepting:
  assumes "length ps < 2 ^ 62" "list_all (\<lambda>i. i < length ps) is"
    and "\<forall>i < length ps. \<exists>m. ps ! i = Some m \<and> mpHealthy m \<and> mpProvider m = accepting i"
  shows "\<exists>ps'. lb_send_loop 0 n is ps sent
    = Some ((zero_SendResponse, Some ErrNoHealthyProvider), ps', sent @ is)"
  using assms
proof (induction "is" arbitrary: ps sent)
  case (Cons i "is")
  from Cons.prems obtain m where m: "ps ! i = Some m" "mpHealthy m" "mpProvider m = accepting i"
    and i: "i < length ps" by auto
  have "wrap64 (int i) smod int (length ps) = int i"
    using i Cons.prems(1) by (simp add: wrap64_id int64_range_def)
  with m i have "lb_send_loop 0 n (i # is) ps sent
      = lb_send_loop 0 n is (ps[i := Some (markSuccess m)]) (sent @ [i])"
    by (simp add: Let_def accepting_Send)
  moreover have "\<exists>ps'. lb_send_loop 0 n is (ps[i := Some (markSuccess m)]) (sent @ [i])
      = Some ((zero_SendResponse, Some ErrNoHealthyProvider), ps', (sent @ [i]) @ is)"
    using Cons.prems m by (intro Cons.IH) (auto simp: nth_list_update)
  ultimately show ?case by simp
qed simp

text \<open>With providers that all accept, one \<open>Send\<close> hands the notification to every one of
  them and then reports that no provider is healthy.\<close>

theorem lb_Send_resends:
  assumes "0 < k" "k < 2 ^ 62"
  shows "\<exists>p'. lb_Send \<lparr>lbProviders = map (\<lambda>i. Some (newMprovider (accepting i) 10)) [0..<k],
                     lbCount = 0\<rparr> n []
    = Some ((zero_SendResponse, Some ErrNoHealthyProvider), p', [0..<k])"
proof -
  let ?ps = "map (\<lambda>i. Some (newMprovider (accepting i) 10)) [0..<k]"
  have "\<exists>ps'. lb_send_loop 0 n [0..<length ?ps] ?ps []
    = Some ((zero_SendResponse, Some ErrNoHealthyProvider), ps', [] @ [0..<length ?ps])"
    using assms by (intro lb_send_loop_accepting) (auto simp: list_all_iff newMprovider_def Let_def)
  with assms(1) show ?thesis
    by (auto simp: lb_Send_def Let_def wrap64_id int64_range_def)
qed

theorem lb_Send_resends_witness:
  "\<exists>p'. lb_Send \<lparr>lbProviders = map (\<lambda>i. Some (newMprovider (accepting i) 10)) [0..<3],
      lbCount = 0\<rparr> zero_Notification []
    = Some ((zero_SendResponse, Some ErrNoHealthyProvider), p', [0..<3])"
  by (rule lb_Send_resends) simp_all

end
