(* ===== verification/Channels.thy ===== *)
theory Channels
  imports LoadBalancer
begin

text \<open>
  \<^verbatim>\<open>internal/service/provider/sequential\<close>, \<^verbatim>\<open>internal/service/channel\<close> and the console
  provider: a channel asks a selector for one provider after another until one accepts the
  notification; the dispatcher chooses the channel. The loop of a channel has no bound, so it
  is a partial function: \<open>None\<close> is a call that never returns.
\<close>

section \<open>The sequential selector\<close>

record 's selector =
  selIdx :: int64
  selProvs :: "'s send_fn list"

text \<open>The result of an interface method that returns a provider: a pointer, possibly nil, and
  an error. \<open>Next\<close> has a value receiver: \<open>idx++\<close> is done on a copy of the selector.\<close>

definition sequential_Next :: "'s selector \<Rightarrow> 's send_fn option ret \<times> 's selector" where
  "sequential_Next sel =
     (if int (length (selProvs sel)) = selIdx sel
      then ((None, Some (Wrap [Err ErrNoAvailableProvider])), sel)
      else let p = selProvs sel ! nat (selIdx sel);
               copied = sel\<lparr>selIdx := selIdx sel + 1\<rparr>
           in ((Some p, None), sel))"

record 's SelectorBuilder =
  sbProviders :: "'s send_fn list"

definition NewSelectorBuilder :: "'s send_fn list \<Rightarrow> 's SelectorBuilder" where
  "NewSelectorBuilder ps = \<lparr>sbProviders = ps\<rparr>"

definition sequential_Build :: "'s SelectorBuilder \<Rightarrow> 's selector ret" where
  "sequential_Build b = (\<lparr>selIdx = 0, selProvs = sbProviders b\<rparr>, None)"

section \<open>A channel\<close>

text \<open>The loop, for any implementation \<open>nxt\<close> of the \<open>Selector\<close> interface. A nil provider
  without an error is dereferenced: a panic, which ends the call and is a \<open>None\<close> too.\<close>

partial_function (option) channel_loop ::
  "(Notification \<Rightarrow> 'sel \<Rightarrow> 's send_fn option ret \<times> 'sel) \<Rightarrow> Notification \<Rightarrow> 'sel \<Rightarrow> 's
     \<Rightarrow> (SendResponse ret \<times> 's) option" where
  "channel_loop nxt n sel s =
     (case nxt n sel of
        ((_, Some er), sel') \<Rightarrow>
          Some ((zero_SendResponse, Some (Wrap [Err ErrSendNotificationFailed, er])), s)
      | ((None, None), sel') \<Rightarrow> None
      | ((Some p, None), sel') \<Rightarrow>
          (case p n s of
             ((resp, None), s') \<Rightarrow> Some ((resp, None), s')
           | ((resp, Some er1), s') \<Rightarrow> channel_loop nxt n sel' s'))"

definition baseChannel_Send ::
  "'sel ret \<Rightarrow> (Notification \<Rightarrow> 'sel \<Rightarrow> 's send_fn option ret \<times> 'sel) \<Rightarrow> Notification \<Rightarrow> 's
     \<Rightarrow> (SendResponse ret \<times> 's) option" where
  "baseChannel_Send build nxt n s =
     (case build of
        (_, Some err) \<Rightarrow>
          Some ((zero_SendResponse, Some (Wrap [Err ErrSendNotificationFailed, err])), s)
      | (selector, None) \<Rightarrow> channel_loop nxt n selector s)"

text \<open>The SMS channel of the platform: built on the sequential selector.\<close>

definition NewSmsChannel ::
  "'s SelectorBuilder \<Rightarrow> Notification \<Rightarrow> 's \<Rightarrow> (SendResponse ret \<times> 's) option" where
  "NewSmsChannel b = baseChannel_Send (sequential_Build b) (\<lambda>_. sequential_Next)"

section \<open>The dispatcher\<close>

type_synonym 's Channel_fn = "Notification \<Rightarrow> 's \<Rightarrow> (SendResponse ret \<times> 's) option"

record 's Dispatcher =
  dpChannels :: "Channel \<Rightarrow> 's Channel_fn option"

definition NewDispatcher :: "(Channel \<Rightarrow> 's Channel_fn option) \<Rightarrow> 's Dispatcher" where
  "NewDispatcher cs = \<lparr>dpChannels = cs\<rparr>"

definition Dispatcher_Send :: "'s Dispatcher \<Rightarrow> 's Channel_fn" where
  "Dispatcher_Send d n s =
     (case dpChannels d (nChannel n) of
        None \<Rightarrow> Some ((zero_SendResponse, Some (Wrap [Err ErrNoAvailableChannel])), s)
      | Some channel \<Rightarrow> channel n s)"

text \<open>The console provider logs and accepts.\<close>

definition console_Send :: "'s send_fn" where
  "console_Send n s = ((zero_SendResponse\<lparr>srStatus := SendStatusSucceeded\<rparr>, None), s)"

section \<open>Properties\<close>

lemma NewSmsChannel_loop:
  "NewSmsChannel (NewSelectorBuilder ps) n s
     = channel_loop (\<lambda>_. sequential_Next) n \<lparr>selIdx = 0, selProvs = ps\<rparr> s"
  by (simp add: NewSmsChannel_def baseChannel_Send_def sequential_Build_def NewSelectorBuilder_def)

lemma sequential_Next_first:
  "sequential_Next \<lparr>selIdx = 0, selProvs = p # ps\<rparr>
     = ((Some p, None), \<lparr>selIdx = 0, selProvs = p # ps\<rparr>)"
  by (simp add: sequential_Next_def Let_def)

lemma channel_unfold:
  "channel_loop (\<lambda>_. sequential_Next) n \<lparr>selIdx = 0, selProvs = p # ps\<rparr> s =
     (case p n s of
        ((resp, None), s') \<Rightarrow> Some ((resp, None), s')
      | ((resp, Some er1), s') \<Rightarrow>
          channel_loop (\<lambda>_. sequential_Next) n \<lparr>selIdx = 0, selProvs = p # ps\<rparr> s')"
  by (subst channel_loop.simps) (simp add: sequential_Next_first)

text \<open>What the loop reaches with a provider whose answers may change: the state after \<open>k\<close>
  failures in a row.\<close>

inductive fails_until :: "'s send_fn \<Rightarrow> Notification \<Rightarrow> 's \<Rightarrow> 's \<Rightarrow> bool" for p n where
  now: "fails_until p n s s"
| later: "p n s = ((r, Some e), s') \<Longrightarrow> fails_until p n s' s'' \<Longrightarrow> fails_until p n s s''"

lemma channel_returns:
  assumes "channel_loop (\<lambda>_. sequential_Next) n \<lparr>selIdx = 0, selProvs = p # ps\<rparr> s = Some r"
  shows "\<exists>s' resp s''. fails_until p n s s' \<and> p n s' = ((resp, None), s'') \<and> r = ((resp, None), s'')"
  using assms
proof (induction "\<lambda>_ :: Notification. sequential_Next :: 'a selector \<Rightarrow> _" n
    "\<lparr>selIdx = 0, selProvs = p # ps\<rparr>" s r rule: channel_loop.raw_induct [rotated, consumes 1, case_names 1])
  case (1 loop n s r)
  obtain resp e s' where p: "p n s = ((resp, e), s')" by (metis prod.collapse)
  show ?case
  proof (cases e)
    case None
    with 1(2) p have "fails_until p n s s \<and> p n s = ((resp, None), s') \<and> r = ((resp, None), s')"
      by (simp add: sequential_Next_first fails_until.now)
    then show ?thesis by blast
  next
    case (Some er)
    with 1(2) p have "loop (\<lambda>_. sequential_Next) n \<lparr>selIdx = 0, selProvs = p # ps\<rparr> s' = Some r"
      by (simp add: sequential_Next_first)
    from 1(1) [OF this] obtain s1 resp' s2
      where r: "fails_until p n s' s1" "p n s1 = ((resp', None), s2)" "r = ((resp', None), s2)" by blast
    from Some p have "p n s = ((resp, Some er), s')" by simp
    then have "fails_until p n s s1" using r(1) by (rule fails_until.later)
    with r show ?thesis by blast
  qed
qed

lemma channel_reaches:
  "fails_until p n s s' \<Longrightarrow> p n s' = ((resp, None), s'') \<Longrightarrow>
   channel_loop (\<lambda>_. sequential_Next) n \<lparr>selIdx = 0, selProvs = p # ps\<rparr> s = Some ((resp, None), s'')"
  by (induction rule: fails_until.induct) (subst channel_unfold, simp)+

text \<open>The SMS channel hands every notification to its first provider only, again and again
  until that one accepts: it returns exactly when it does, with its answer, and the providers
  after it make no difference.\<close>

theorem SmsChannel_first_provider_only:
  "NewSmsChannel (NewSelectorBuilder (p # ps)) n s = Some (r, s'') \<longleftrightarrow>
   (\<exists>s'. fails_until p n s s' \<and> p n s' = (r, s'') \<and> snd r = None)"
proof
  assume "NewSmsChannel (NewSelectorBuilder (p # ps)) n s = Some (r, s'')"
  then obtain s' resp where "fails_until p n s s'" "p n s' = ((resp, None), s'')" "r = (resp, None)"
    unfolding NewSmsChannel_loop by (blast dest: channel_returns)
  then show "\<exists>s'. fails_until p n s s' \<and> p n s' = (r, s'') \<and> snd r = None" by auto
next
  assume "\<exists>s'. fails_until p n s s' \<and> p n s' = (r, s'') \<and> snd r = None"
  then show "NewSmsChannel (NewSelectorBuilder (p # ps)) n s = Some (r, s'')"
    unfolding NewSmsChannel_loop by (cases r) (auto intro: channel_reaches)
qed

text \<open>If the first provider is down, the channel never returns, although another provider
  would accept.\<close>

theorem SmsChannel_hangs:
  assumes "\<And>s. snd (fst (p n s)) \<noteq> None"
  shows "NewSmsChannel (NewSelectorBuilder (p # ps)) n s = None"
proof (rule ccontr)
  assume "NewSmsChannel (NewSelectorBuilder (p # ps)) n s \<noteq> None"
  then obtain r s'' where "NewSmsChannel (NewSelectorBuilder (p # ps)) n s = Some (r, s'')" by auto
  then obtain s' resp where "p n s' = ((resp, None), s'')"
    unfolding NewSmsChannel_loop by (blast dest: channel_returns)
  with assms [of s'] show False by simp
qed

theorem SmsChannel_hangs_witness:
  "NewSmsChannel (NewSelectorBuilder
     [\<lambda>n s. ((zero_SendResponse, Some (Ext ''down'')), s), console_Send]) zero_Notification () = None"
  by (rule SmsChannel_hangs) simp

lemma SmsChannel_empty:
  "NewSmsChannel (NewSelectorBuilder []) n s =
     Some ((zero_SendResponse, Some (Wrap [Err ErrSendNotificationFailed, Wrap [Err ErrNoAvailableProvider]])), s)"
  unfolding NewSmsChannel_loop
  by (subst channel_loop.simps) (simp add: sequential_Next_def)

lemma Dispatcher_unknown:
  "dpChannels d (nChannel n) = None \<Longrightarrow>
   \<exists>e. Dispatcher_Send d n s = Some ((zero_SendResponse, Some e), s) \<and> is_err e ErrNoAvailableChannel"
  by (simp add: Dispatcher_Send_def)

end
