(* ===== verification/LoopJob.thy ===== *)
theory LoopJob
  imports Sharding Errors
begin

text \<open>
  \<^verbatim>\<open>internal/pkg/loopjob\<close>: the semaphore that bounds the tables one node works on, the endless
  job under a distributed lock (\<open>InfiniteLoop\<close>), and its sharded form (\<open>ShardingLoopJob\<close>).
  The lock service and the business function are not part of the repository: their answers are
  events. A loop is a step function on its program counter and the clock; one step is one call
  to the outside, with the error it returned, \<open>ctx.Err()\<close> after it, and the time it took.
\<close>

section \<open>The semaphore\<close>

record MaxCntResourceSemaphore =
  maxCount :: int64
  currentCount :: int64

definition NewMaxCntResourceSemaphore :: "int64 \<Rightarrow> MaxCntResourceSemaphore" where
  "NewMaxCntResourceSemaphore m = \<lparr>maxCount = m, currentCount = 0\<rparr>"

definition sem_Acquire ::
  "MaxCntResourceSemaphore \<Rightarrow> gerr option \<times> MaxCntResourceSemaphore" where
  "sem_Acquire m =
     (if currentCount m \<ge> maxCount m then (Some (Err ErrExceedLimit), m)
      else (None, m\<lparr>currentCount := currentCount m + 1\<rparr>))"

definition sem_Release ::
  "MaxCntResourceSemaphore \<Rightarrow> gerr option \<times> MaxCntResourceSemaphore" where
  "sem_Release m = (None, m\<lparr>currentCount := currentCount m - 1\<rparr>)"

definition UpdateMaxCount :: "int64 \<Rightarrow> MaxCntResourceSemaphore \<Rightarrow> MaxCntResourceSemaphore" where
  "UpdateMaxCount n m = m\<lparr>maxCount := n\<rparr>"

text \<open>What a job relies on: a grant is counted, and there are never more grants than the limit.
  \<open>grants\<close> and \<open>limit\<close> read the state.\<close>

locale resource_semaphore =
  fixes acquire :: "'m \<Rightarrow> gerr option \<times> 'm"
    and release :: "'m \<Rightarrow> gerr option \<times> 'm"
    and grants :: "'m \<Rightarrow> int"
    and limit :: "'m \<Rightarrow> int"
  assumes acquire_granted:
      "fst (acquire m) = None \<Longrightarrow> grants m < limit m \<and> grants (snd (acquire m)) = grants m + 1"
    and acquire_refused:
      "fst (acquire m) = Some e \<Longrightarrow>
       e = Err ErrExceedLimit \<and> limit m \<le> grants m \<and> snd (acquire m) = m"
    and release_frees: "fst (release m) = None \<and> grants (snd (release m)) = grants m - 1"
    and limit_fixed: "limit (snd (acquire m)) = limit m" "limit (snd (release m)) = limit m"
begin

primrec acquires :: "nat \<Rightarrow> 'm \<Rightarrow> 'm" where
  "acquires 0 m = m"
| "acquires (Suc n) m = acquires n (snd (acquire m))"

lemma acquire_grants:
  "grants (snd (acquire m)) = (if grants m < limit m then grants m + 1 else grants m)"
  using acquire_granted [of m] acquire_refused [of m] by (cases "fst (acquire m)") auto

lemma acquire_free_iff: "fst (acquire m) = None \<longleftrightarrow> grants m < limit m"
  using acquire_granted [of m] acquire_refused [of m] by (cases "fst (acquire m)") auto

lemma acquires_limit [simp]: "limit (acquires n m) = limit m"
  by (induction n arbitrary: m) (simp_all add: limit_fixed)

lemma acquires_grants:
  "grants m \<le> limit m \<Longrightarrow> grants (acquires n m) = min (grants m + int n) (limit m)"
  by (induction n arbitrary: m) (auto simp: acquire_grants limit_fixed)

lemma acquire_bounded: "grants m \<le> limit m \<Longrightarrow> grants (snd (acquire m)) \<le> limit (snd (acquire m))"
  by (simp add: acquire_grants limit_fixed)

end

interpretation semaphore: resource_semaphore sem_Acquire sem_Release currentCount maxCount
  by unfold_locales (auto simp: sem_Acquire_def sem_Release_def split: if_splits)

section \<open>Events and clocks\<close>

definition context_Canceled :: gerr where
  "context_Canceled = Ext ''context canceled''"
definition context_DeadlineExceeded :: gerr where
  "context_DeadlineExceeded = Ext ''context deadline exceeded''"

datatype job_pc = AtNewLock | AtLock | AtBiz | AtRefresh | AtUnlock | AtSleep | Returned

record job_event =
  evErr :: "gerr option"
  evCtx :: "gerr option"
  evTook :: duration

text \<open>\<open>jExpires\<close> is the end of the lease: the lock was granted for \<open>retryInterval\<close> at the
  earliest when the successful call started.\<close>

record job_state =
  jPc :: job_pc
  jNow :: gtime
  jExpires :: gtime

definition canceled :: "gerr option \<Rightarrow> bool" where
  "canceled err = (case err of None \<Rightarrow> False
     | Some e \<Rightarrow> errors_Is e context_Canceled \<or> errors_Is e context_DeadlineExceeded)"

definition bizTimeout :: duration where
  "bizTimeout = 50 * second"

section \<open>InfiniteLoop\<close>

record InfiniteLoop =
  ilKey :: string
  ilRetryInterval :: duration
  ilDefaultTimeout :: duration

definition NewInfiniteLoop :: "string \<Rightarrow> InfiniteLoop" where
  "NewInfiniteLoop key =
     \<lparr>ilKey = key, ilRetryInterval = minute, ilDefaultTimeout = 3 * second\<rparr>"

text \<open>The part of \<open>Run\<close> inside \<open>bizLoop\<close>: an error of the business function and one of
  \<open>Refresh\<close> are logged, and the loop goes on.\<close>

definition il_bizLoop_step :: "InfiniteLoop \<Rightarrow> job_event \<Rightarrow> job_state \<Rightarrow> job_state" where
  "il_bizLoop_step l e st =
     (let t = jNow st + evTook e in
      case jPc st of
        AtBiz \<Rightarrow>
          if evCtx e \<noteq> None then st\<lparr>jPc := AtUnlock, jNow := t\<rparr>
          else st\<lparr>jPc := AtRefresh, jNow := t\<rparr>
      | AtRefresh \<Rightarrow>
          if evErr e \<noteq> None then st\<lparr>jPc := AtBiz, jNow := t\<rparr>
          else st\<lparr>jPc := AtBiz, jNow := t, jExpires := jNow st + ilRetryInterval l\<rparr>
      | _ \<Rightarrow> st)"

definition il_Run_step :: "InfiniteLoop \<Rightarrow> job_event \<Rightarrow> job_state \<Rightarrow> job_state" where
  "il_Run_step l e st =
     (let t = jNow st + evTook e in
      case jPc st of
        AtNewLock \<Rightarrow>
          if evErr e \<noteq> None then st\<lparr>jPc := AtSleep, jNow := t\<rparr> else st\<lparr>jPc := AtLock, jNow := t\<rparr>
      | AtLock \<Rightarrow>
          if evErr e \<noteq> None then st\<lparr>jPc := AtSleep, jNow := t\<rparr>
          else st\<lparr>jPc := AtBiz, jNow := t, jExpires := jNow st + ilRetryInterval l\<rparr>
      | AtBiz \<Rightarrow> il_bizLoop_step l e st
      | AtRefresh \<Rightarrow> il_bizLoop_step l e st
      | AtUnlock \<Rightarrow>
          if canceled (evCtx e) then st\<lparr>jPc := Returned, jNow := t\<rparr>
          else st\<lparr>jPc := AtSleep, jNow := t\<rparr>
      | AtSleep \<Rightarrow> st\<lparr>jPc := AtNewLock, jNow := jNow st + ilRetryInterval l\<rparr>
      | Returned \<Rightarrow> st)"

section \<open>ShardingLoopJob\<close>

record ShardingLoopJob =
  sjStrategy :: ShardingStrategy
  sjBaseKey :: string
  sjRetryInterval :: duration
  sjDefaultTimeout :: duration

definition NewShardingLoopJob :: "string \<Rightarrow> ShardingStrategy \<Rightarrow> ShardingLoopJob" where
  "NewShardingLoopJob baseKey strategy =
     \<lparr>sjStrategy = strategy, sjBaseKey = baseKey, sjRetryInterval = minute,
      sjDefaultTimeout = 3 * second\<rparr>"

definition generateKey :: "ShardingLoopJob \<Rightarrow> string \<Rightarrow> string \<Rightarrow> string" where
  "generateKey l db table = sjBaseKey l @ '':'' @ db @ '':'' @ table"

text \<open>One pass through the body of the loop of \<open>Run\<close>. \<open>newLock\<close> and \<open>lock\<close> answer for the lock
  service (\<open>newLock\<close> gives a lock, possibly nil, and an error). The result is the semaphore and
  the \<open>tableLoop\<close> started, if any; \<open>None\<close> is the panic of a call on a nil lock. The code that takes
  the lock stands inside the branch for \<open>err \<noteq> nil\<close>.\<close>

definition sj_visit ::
  "ShardingLoopJob \<Rightarrow> (string \<Rightarrow> 'l option ret) \<Rightarrow> ('l \<Rightarrow> gerr option) \<Rightarrow> Dst
     \<Rightarrow> MaxCntResourceSemaphore \<Rightarrow> (MaxCntResourceSemaphore \<times> (Dst \<times> 'l) option) option" where
  "sj_visit l newLock lock dst sem =
     (case sem_Acquire sem of
        (Some err, sem1) \<Rightarrow> Some (sem1, None)
      | (None, sem1) \<Rightarrow>
          (let key = generateKey l (DB dst) (Table dst) in
           case newLock key of
             (lk, None) \<Rightarrow> Some (sem1, None)
           | (lk, Some err) \<Rightarrow>
               (case sem_Release sem1 of
                  (Some err', sem2) \<Rightarrow> Some (sem2, None)
                | (None, sem2) \<Rightarrow>
                    (case lk of
                       None \<Rightarrow> None
                     | Some lk' \<Rightarrow>
                         (case lock lk' of
                            Some err' \<Rightarrow> Some (snd (sem_Release sem2), None)
                          | None \<Rightarrow> Some (sem2, Some (dst, lk')))))))"

text \<open>A stretch of \<open>Run\<close>: destinations in the order of the loop, with the lock service answering
  differently every time.\<close>

fun sj_visits ::
  "ShardingLoopJob \<Rightarrow> (Dst \<times> (string \<Rightarrow> 'l option ret) \<times> ('l \<Rightarrow> gerr option)) list
     \<Rightarrow> MaxCntResourceSemaphore \<Rightarrow> (MaxCntResourceSemaphore \<times> (Dst \<times> 'l) list) option" where
  "sj_visits l [] sem = Some (sem, [])"
| "sj_visits l ((dst, newLock, lock) # vs) sem =
     (case sj_visit l newLock lock dst sem of
        None \<Rightarrow> None
      | Some (sem', started) \<Rightarrow>
          map_option (\<lambda>(sem'', js). (sem'', (case started of None \<Rightarrow> js | Some j \<Rightarrow> j # js)))
            (sj_visits l vs sem'))"

text \<open>\<open>tableLoop\<close> starts behind a successful \<open>Lock\<close>; its \<open>bizLoop\<close> ends when \<open>Refresh\<close> fails.
  The deferred \<open>Release\<close> happens when it returns.\<close>

definition sj_bizLoop_step :: "ShardingLoopJob \<Rightarrow> job_event \<Rightarrow> job_state \<Rightarrow> job_state" where
  "sj_bizLoop_step l e st =
     (let t = jNow st + evTook e in
      case jPc st of
        AtBiz \<Rightarrow>
          if evCtx e \<noteq> None then st\<lparr>jPc := AtUnlock, jNow := t\<rparr>
          else st\<lparr>jPc := AtRefresh, jNow := t\<rparr>
      | AtRefresh \<Rightarrow>
          if evErr e \<noteq> None then st\<lparr>jPc := AtUnlock, jNow := t\<rparr>
          else st\<lparr>jPc := AtBiz, jNow := t, jExpires := jNow st + sjRetryInterval l\<rparr>
      | _ \<Rightarrow> st)"

definition sj_tableLoop_step ::
  "ShardingLoopJob \<Rightarrow> job_event \<Rightarrow> job_state \<times> MaxCntResourceSemaphore
     \<Rightarrow> job_state \<times> MaxCntResourceSemaphore" where
  "sj_tableLoop_step l e c =
     (let (st, sem) = c; t = jNow st + evTook e in
      case jPc st of
        AtBiz \<Rightarrow> (sj_bizLoop_step l e st, sem)
      | AtRefresh \<Rightarrow> (sj_bizLoop_step l e st, sem)
      | AtUnlock \<Rightarrow>
          if canceled (evCtx e) then (st\<lparr>jPc := Returned, jNow := t\<rparr>, snd (sem_Release sem))
          else (st\<lparr>jPc := AtSleep, jNow := t\<rparr>, sem)
      | AtSleep \<Rightarrow>
          (st\<lparr>jPc := Returned, jNow := jNow st + sjRetryInterval l\<rparr>, snd (sem_Release sem))
      | _ \<Rightarrow> c)"

section \<open>Runs\<close>

text \<open>What the contexts with a timeout guarantee about an event: the business function ends
  within \<open>bizTimeout\<close>, a call of the lock service within the default timeout.\<close>

definition timely :: "duration \<Rightarrow> job_pc \<Rightarrow> job_event \<Rightarrow> bool" where
  "timely defaultTimeout pc e \<longleftrightarrow> 0 \<le> evTook e
     \<and> (pc = AtBiz \<longrightarrow> evTook e \<le> bizTimeout)
     \<and> (pc = AtLock \<or> pc = AtRefresh \<or> pc = AtUnlock \<longrightarrow> evTook e \<le> defaultTimeout)"

inductive il_reach :: "InfiniteLoop \<Rightarrow> (job_pc \<Rightarrow> job_event \<Rightarrow> bool) \<Rightarrow> job_state \<Rightarrow> job_state \<Rightarrow> bool"
  for l ok where
  init: "il_reach l ok st st"
| step: "il_reach l ok st st' \<Longrightarrow> ok (jPc st') e \<Longrightarrow> il_reach l ok st (il_Run_step l e st')"

inductive tl_reach ::
  "ShardingLoopJob \<Rightarrow> job_state \<times> MaxCntResourceSemaphore \<Rightarrow> job_state \<times> MaxCntResourceSemaphore \<Rightarrow> bool"
  for l where
  init: "tl_reach l c c"
| step: "tl_reach l c (st, sem) \<Longrightarrow> timely (sjDefaultTimeout l) (jPc st) e \<Longrightarrow>
    tl_reach l c (sj_tableLoop_step l e (st, sem))"

definition lease_covers_biz :: "job_state \<Rightarrow> bool" where
  "lease_covers_biz st \<longleftrightarrow> (jPc st = AtBiz \<longrightarrow> jNow st + bizTimeout \<le> jExpires st)"

lemma sj_step_lease:
  assumes "lease_covers_biz st" "timely (3 * second) (jPc st) e"
  shows "lease_covers_biz (fst (sj_tableLoop_step (NewShardingLoopJob k s) e (st, sem)))"
  using assms
  by (cases "jPc st")
    (auto simp: sj_tableLoop_step_def sj_bizLoop_step_def Let_def lease_covers_biz_def timely_def
      NewShardingLoopJob_def bizTimeout_def minute_def)

lemma sj_step_semaphore:
  assumes "jPc st \<notin> {AtNewLock, AtLock}"
    and "(st', sem') = sj_tableLoop_step l e (st, sem)"
  shows "currentCount sem' + (if jPc st' = Returned then 1 else 0)
         = currentCount sem + (if jPc st = Returned then 1 else 0) \<and> jPc st' \<notin> {AtNewLock, AtLock}"
  using assms
  by (cases "jPc st")
    (auto simp: sj_tableLoop_step_def sj_bizLoop_step_def Let_def sem_Release_def split: if_splits)

lemma tl_invariant:
  assumes "tl_reach (NewShardingLoopJob k s) (st0, sem0) (st, sem)"
    and "jPc st0 = AtBiz" "jNow st0 + bizTimeout \<le> jExpires st0"
  shows "lease_covers_biz st \<and> jPc st \<notin> {AtNewLock, AtLock}
       \<and> currentCount sem + (if jPc st = Returned then 1 else 0) = currentCount sem0"
  using assms
proof (induction "(st0, sem0)" "(st, sem)" arbitrary: st sem rule: tl_reach.induct)
  case init
  then show ?case by (simp add: lease_covers_biz_def)
next
  case (step st1 sem1 e)
  then have IH: "lease_covers_biz st1" "jPc st1 \<notin> {AtNewLock, AtLock}"
    "currentCount sem1 + (if jPc st1 = Returned then 1 else 0) = currentCount sem0" by simp_all
  have t: "timely (3 * second) (jPc st1) e"
    using step.hyps by (simp add: NewShardingLoopJob_def)
  from sj_step_lease [OF IH(1) t, of k s sem1] step.hyps(4) have "lease_covers_biz st" by simp
  with IH sj_step_semaphore [OF IH(2) step.hyps(4) [symmetric]] show ?case by simp
qed



lemma il_step_lease:
  assumes "lease_covers_biz st" "timely (3 * second) (jPc st) e"
    and "jPc st = AtRefresh \<Longrightarrow> evErr e = None"
  shows "lease_covers_biz (il_Run_step (NewInfiniteLoop k) e st)"
  using assms
  by (cases "jPc st")
    (auto simp: il_Run_step_def il_bizLoop_step_def Let_def lease_covers_biz_def timely_def
      NewInfiniteLoop_def bizTimeout_def minute_def)

text \<open>The unsharded job keeps to its lease as long as every renewal of the lock succeeds.\<close>

theorem InfiniteLoop_exclusive:
  assumes "il_reach (NewInfiniteLoop k)
      (\<lambda>pc e. timely (3 * second) pc e \<and> (pc = AtRefresh \<longrightarrow> evErr e = None)) st0 st"
    and "jPc st0 = AtNewLock" "jPc st = AtBiz"
  shows "jNow st + bizTimeout \<le> jExpires st"
proof -
  from assms(1) have "lease_covers_biz st0 \<Longrightarrow> lease_covers_biz st"
    by (induction rule: il_reach.induct) (auto intro: il_step_lease)
  with assms(2,3) show ?thesis by (simp add: lease_covers_biz_def)
qed

definition quick :: job_event where
  "quick = \<lparr>evErr = None, evCtx = None, evTook = second\<rparr>"

lemma il_enter:
  assumes "\<And>pc. ok pc quick"
  shows "il_reach (NewInfiniteLoop k) ok \<lparr>jPc = AtNewLock, jNow = 0, jExpires = 0\<rparr>
     \<lparr>jPc = AtBiz, jNow = 2 * second, jExpires = 61 * second\<rparr>"
proof -
  let ?l = "NewInfiniteLoop k"
  let ?st = "\<lparr>jPc = AtNewLock, jNow = 0, jExpires = 0\<rparr>"
  have "il_reach ?l ok ?st (il_Run_step ?l quick (il_Run_step ?l quick ?st))"
    using assms by (intro il_reach.step il_reach.init) simp_all
  then show ?thesis
    by (simp add: il_Run_step_def quick_def NewInfiniteLoop_def minute_def)
qed

theorem InfiniteLoop_exclusive_witness:
  "jNow \<lparr>jPc = AtBiz, jNow = 2 * second, jExpires = 61 * second\<rparr> + bizTimeout
     \<le> jExpires \<lparr>jPc = AtBiz, jNow = 2 * second, jExpires = 61 * second\<rparr>"
  by (rule InfiniteLoop_exclusive [OF il_enter])
    (simp_all add: timely_def quick_def bizTimeout_def second_def)

text \<open>It does not stop when a renewal fails: the business function is then run after the
  lease has ended, when another node can hold the lock.\<close>

theorem InfiniteLoop_outlives_lease:
  "\<exists>st. il_reach (NewInfiniteLoop k) (timely (3 * second))
          \<lparr>jPc = AtNewLock, jNow = 0, jExpires = 0\<rparr> st
      \<and> jPc st = AtBiz \<and> jExpires st < jNow st"
proof -
  let ?l = "NewInfiniteLoop k"
  let ?biz = "\<lparr>evErr = None, evCtx = None, evTook = 50 * second\<rparr>"
  let ?fail = "\<lparr>evErr = Some context_DeadlineExceeded, evCtx = None, evTook = 3 * second\<rparr>"
  let ?ok = "timely (3 * second)"
  have "il_reach ?l ?ok \<lparr>jPc = AtNewLock, jNow = 0, jExpires = 0\<rparr>
      \<lparr>jPc = AtBiz, jNow = 2 * second, jExpires = 61 * second\<rparr>"
    by (rule il_enter) (simp add: timely_def quick_def bizTimeout_def second_def)
  then have "il_reach ?l ?ok \<lparr>jPc = AtNewLock, jNow = 0, jExpires = 0\<rparr>
      (il_Run_step ?l ?fail (il_Run_step ?l ?biz (il_Run_step ?l ?fail (il_Run_step ?l ?biz
        \<lparr>jPc = AtBiz, jNow = 2 * second, jExpires = 61 * second\<rparr>))))"
    by (intro il_reach.step)
      (simp_all add: timely_def bizTimeout_def il_Run_step_def il_bizLoop_step_def)
  then show ?thesis
    by (simp add: il_Run_step_def il_bizLoop_step_def) (force simp: second_def)
qed

section \<open>The sharded job never starts\<close>

lemma sj_visits_leak:
  assumes "list_all (\<lambda>(dst, newLock, lock). \<forall>key. snd (newLock key) = None) vs"
  shows "sj_visits l vs sem = Some (semaphore.acquires (length vs) sem, [])"
  using assms
proof (induction vs arbitrary: sem)
  case (Cons v vs)
  obtain dst newLock lock where v: "v = (dst, newLock, lock)" by (cases v)
  from Cons.prems v have n: "\<And>key. snd (newLock key) = None" by simp
  have "sj_visit l newLock lock dst sem = Some (snd (sem_Acquire sem), None)"
    using n [of "generateKey l (DB dst) (Table dst)"]
    by (auto simp: sj_visit_def Let_def split: prod.splits option.splits)
  with Cons v show ?case by simp
qed simp

text \<open>When the lock service works, the sharded job never takes a lock and never starts a
  \<open>tableLoop\<close>; instead every destination it looks at keeps a grant of the semaphore, until none
  is left.\<close>

theorem ShardingLoopJob_leaks:
  assumes "list_all (\<lambda>(dst, newLock, lock). \<forall>key. snd (newLock key) = None) vs" "0 \<le> m"
  shows "\<exists>sem. sj_visits l vs (NewMaxCntResourceSemaphore m) = Some (sem, [])
     \<and> currentCount sem = min (int (length vs)) m
     \<and> (m \<le> int (length vs) \<longrightarrow> fst (sem_Acquire sem) = Some (Err ErrExceedLimit))"
proof -
  let ?sem = "semaphore.acquires (length vs) (NewMaxCntResourceSemaphore m)"
  have c: "currentCount ?sem = min (int (length vs)) m"
    using assms(2) semaphore.acquires_grants [of "NewMaxCntResourceSemaphore m"]
    by (simp add: NewMaxCntResourceSemaphore_def)
  have "m \<le> int (length vs) \<longrightarrow> fst (sem_Acquire ?sem) = Some (Err ErrExceedLimit)"
    using c semaphore.acquires_limit [of "length vs" "NewMaxCntResourceSemaphore m"]
    by (simp add: sem_Acquire_def NewMaxCntResourceSemaphore_def)
  with c sj_visits_leak [OF assms(1)] show ?thesis by blast
qed

theorem ShardingLoopJob_leaks_witness:
  "\<exists>sem. sj_visits (NewShardingLoopJob ''job'' (NewShardingStrategy ''db'' ''t'' 2 2))
        (replicate 3 (\<lparr>Table = ''t_0'', DB = ''db_0'', TableSuffix = 0, DBSuffix = 0\<rparr>,
                      \<lambda>key. (Some key, None), \<lambda>_. None))
        (NewMaxCntResourceSemaphore 2) = Some (sem, [])
     \<and> fst (sem_Acquire sem) = Some (Err ErrExceedLimit)"
proof -
  let ?vs = "replicate 3 (\<lparr>Table = ''t_0'', DB = ''db_0'', TableSuffix = 0, DBSuffix = 0\<rparr>,
    \<lambda>key. (Some key, None), \<lambda>_. None)"
  have "list_all (\<lambda>(dst, newLock, lock). \<forall>key. snd (newLock key) = None) ?vs"
    by (simp add: list_all_length)
  from ShardingLoopJob_leaks [OF this, of 2] show ?thesis by force
qed

end
