(* ===== verification/Interfaces.thy ===== *)
theory Interfaces
  imports Domain "HOL-Library.State_Monad"
begin

text \<open>
  The Go interfaces of \<^verbatim>\<open>internal/repository\<close> and \<^verbatim>\<open>internal/service\<close>. A method is a state
  transformer on the world \<open>'s\<close> (database, cache, network, clock, whatever the implementations
  behind the interfaces share), and an interface is the record of its methods, so that a
  component is modelled once for all implementations of what it calls and the components of
  the repository are composed by filling in the records. A method that returns only an error
  has the result \<open>gerr option\<close>; a Go map result is a partial function. Where a method can panic its
  result is an option, and \<open>None\<close> is the panic.
\<close>

type_synonym ('s, 'a) io = "('s, 'a) state"

abbreviation io_return :: "'a \<Rightarrow> ('s, 'a) io" where
  "io_return \<equiv> State_Monad.return"

text \<open>Loops over a slice: \<open>for_each\<close> runs the body for every element, \<open>for_until\<close> stops at the
  first error and returns it.\<close>

primrec for_each :: "('a \<Rightarrow> ('s, unit) io) \<Rightarrow> 'a list \<Rightarrow> ('s, unit) io" where
  "for_each f [] = io_return ()"
| "for_each f (x # xs) = do { _ \<leftarrow> f x; for_each f xs }"

primrec for_until :: "('a \<Rightarrow> ('s, gerr option) io) \<Rightarrow> 'a list \<Rightarrow> ('s, gerr option) io" where
  "for_until f [] = io_return None"
| "for_until f (x # xs) =
     do { e \<leftarrow> f x; case e of Some err \<Rightarrow> io_return (Some err) | None \<Rightarrow> for_until f xs }"

text \<open>Calls that can panic.\<close>

definition io_ok :: "'a \<Rightarrow> ('s, 'a option) io" where
  "io_ok x = io_return (Some x)"

definition io_panic :: "('s, 'a option) io" where
  "io_panic = io_return None"

definition io_call :: "('s, 'a option) io \<Rightarrow> ('a \<Rightarrow> ('s, 'b option) io) \<Rightarrow> ('s, 'b option) io" where
  "io_call m f = do { r \<leftarrow> m; case r of None \<Rightarrow> io_panic | Some x \<Rightarrow> f x }"

lemma run_ok [simp]: "run_state (io_ok x) s = (Some x, s)"
  by (simp add: io_ok_def)

lemma run_panic [simp]: "run_state io_panic s = (None, s)"
  by (simp add: io_panic_def)

lemma run_calls [simp]:
  "run_state (io_call m f) s = (case run_state m s of
      (None, s') \<Rightarrow> (None, s') | (Some x, s') \<Rightarrow> run_state (f x) s')"
  by (simp add: io_call_def split: option.split prod.split)

section \<open>Rows\<close>

record daoNotification =
  dnID :: int64
  dnBizID :: int64
  dnKey :: string
  dnReceivers :: string
  dnChannel :: string
  dnTemplateID :: int64
  dnTemplateVersionID :: int64
  dnTemplateParams :: string
  dnStatus :: string
  dnScheduledSTime :: int64
  dnScheduledETime :: int64
  dnVersion :: int64
  dnCtime :: int64
  dnUtime :: int64

definition zero_daoNotification :: daoNotification where
  "zero_daoNotification =
     \<lparr>dnID = 0, dnBizID = 0, dnKey = '''', dnReceivers = '''', dnChannel = '''', dnTemplateID = 0,
      dnTemplateVersionID = 0, dnTemplateParams = '''', dnStatus = '''', dnScheduledSTime = 0,
      dnScheduledETime = 0, dnVersion = 0, dnCtime = 0, dnUtime = 0\<rparr>"

record daoCallbackLog =
  dcID :: int64
  dcNotificationID :: int64
  dcRetryCount :: int32
  dcNextRetryTime :: int64
  dcStatus :: string
  dcCtime :: int64
  dcUtime :: int64

record daoTxNotification =
  dtTxID :: int64
  dtKey :: string
  dtNotificationID :: int64
  dtBizID :: int64
  dtStatus :: string
  dtCheckCount :: int64
  dtNextCheckTime :: int64
  dtCtime :: int64
  dtUtime :: int64

record daoQuota =
  dqID :: int64
  dqBizID :: int64
  dqChannel :: string
  dqQuota :: int32
  dqUtime :: int64
  dqCtime :: int64

section \<open>Data access and caches\<close>

record 's NotificationDAO =
  ndCreate :: "daoNotification \<Rightarrow> ('s, daoNotification ret) io"
  ndCreateWithCallbackLog :: "daoNotification \<Rightarrow> ('s, daoNotification ret) io"
  ndBatchCreate :: "daoNotification list \<Rightarrow> ('s, daoNotification list ret) io"
  ndBatchCreateWithCallbackLog :: "daoNotification list \<Rightarrow> ('s, daoNotification list ret) io"
  ndGetByID :: "int64 \<Rightarrow> ('s, daoNotification ret) io"
  ndBatchGetByIDs :: "int64 list \<Rightarrow> ('s, (int64 \<Rightarrow> daoNotification option) ret) io"
  ndGetByKey :: "int64 \<Rightarrow> string \<Rightarrow> ('s, daoNotification ret) io"
  ndGetByKeys :: "int64 \<Rightarrow> string list \<Rightarrow> ('s, daoNotification list ret) io"
  ndCASStatus :: "daoNotification \<Rightarrow> ('s, gerr option) io"
  ndUpdateStatus :: "daoNotification \<Rightarrow> ('s, gerr option) io"
  ndBatchUpdateStatusSucceedOrFailed ::
    "daoNotification list \<Rightarrow> daoNotification list \<Rightarrow> ('s, gerr option) io"
  ndFindReadyNotifications :: "int64 \<Rightarrow> int64 \<Rightarrow> ('s, daoNotification list ret) io"
  ndMarkSuccess :: "daoNotification \<Rightarrow> ('s, gerr option) io"
  ndMarkFailed :: "daoNotification \<Rightarrow> ('s, gerr option) io"
  ndMarkTimeoutSendingAsFailed :: "int64 \<Rightarrow> ('s, int64 ret) io"

record IncrItem =
  iiBizID :: int64
  iiChannel :: Channel
  iiVal :: int32

record 's QuotaCache =
  qcCreateOrUpdate :: "Quota list \<Rightarrow> ('s, gerr option) io"
  qcFind :: "int64 \<Rightarrow> Channel \<Rightarrow> ('s, Quota ret) io"
  qcIncr :: "int64 \<Rightarrow> Channel \<Rightarrow> int32 \<Rightarrow> ('s, gerr option) io"
  qcDecr :: "int64 \<Rightarrow> Channel \<Rightarrow> int32 \<Rightarrow> ('s, gerr option) io"
  qcMutiIncr :: "IncrItem list \<Rightarrow> ('s, gerr option) io"
  qcMutiDecr :: "IncrItem list \<Rightarrow> ('s, gerr option) io"

section \<open>Repositories\<close>

record 's NotificationRepository =
  nrCreate :: "Notification \<Rightarrow> ('s, Notification ret) io"
  nrCreateWithCallbackLog :: "Notification \<Rightarrow> ('s, Notification ret) io"
  nrBatchCreate :: "Notification list \<Rightarrow> ('s, Notification list ret) io"
  nrBatchCreateWithCallbackLog :: "Notification list \<Rightarrow> ('s, Notification list ret) io"
  nrGetByID :: "int64 \<Rightarrow> ('s, Notification ret) io"
  nrBatchGetByID :: "int64 list \<Rightarrow> ('s, (int64 \<Rightarrow> Notification option) ret) io"
  nrGetByKey :: "int64 \<Rightarrow> string \<Rightarrow> ('s, Notification ret) io"
  nrGetByKeys :: "int64 \<Rightarrow> string list \<Rightarrow> ('s, Notification list ret) io"
  nrCASStatus :: "Notification \<Rightarrow> ('s, gerr option) io"
  nrUpdateStatus :: "Notification \<Rightarrow> ('s, gerr option) io"
  nrBatchUpdateStatusSucceededOrFailed ::
    "Notification list \<Rightarrow> Notification list \<Rightarrow> ('s, gerr option) io"
  nrFindReadNotifications :: "int64 \<Rightarrow> int64 \<Rightarrow> ('s, Notification list ret) io"
  nrMarkSuccess :: "Notification \<Rightarrow> ('s, gerr option) io"
  nrMarkFailed :: "Notification \<Rightarrow> ('s, gerr option) io"
  nrMarkTimeoutSendingAsFailed :: "int64 \<Rightarrow> ('s, int64 ret) io"

record 's TxNotificationRepository =
  trCreate :: "TxNotification \<Rightarrow> ('s, int64 ret) io"
  trFindCheckBack :: "int64 \<Rightarrow> int64 \<Rightarrow> ('s, TxNotification list ret) io"
  trUpdateStatus ::
    "int64 \<Rightarrow> string \<Rightarrow> TxNotificationStatus \<Rightarrow> SendStatus \<Rightarrow> ('s, gerr option) io"
  trUpdateCheckStatus :: "TxNotification list \<Rightarrow> SendStatus \<Rightarrow> ('s, gerr option) io"

record 's CallbackLogRepository =
  crFind :: "int64 \<Rightarrow> int64 \<Rightarrow> int64 \<Rightarrow> ('s, CallbackLog list \<times> int64 \<times> gerr option) io"
  crUpdate :: "CallbackLog list \<Rightarrow> ('s, gerr option) io"
  crFindByNotificationIDs :: "int64 list \<Rightarrow> ('s, CallbackLog list ret) io"

section \<open>Services\<close>

record 's BusinessConfigService =
  bsGetByIDs :: "int64 list \<Rightarrow> ('s, (int64 \<Rightarrow> BusinessConfig option) ret) io"
  bsGetByID :: "int64 \<Rightarrow> ('s, BusinessConfig ret) io"
  bsDeleteByID :: "int64 \<Rightarrow> ('s, gerr option) io"
  bsSaveConfig :: "BusinessConfig \<Rightarrow> ('s, gerr option) io"

record 's CallbackService =
  csSendCallback :: "int64 \<Rightarrow> int64 \<Rightarrow> ('s, gerr option) io"
  csSendCallbackByNotification :: "Notification \<Rightarrow> ('s, gerr option) io"
  csSendCallbackByNotifications :: "Notification list \<Rightarrow> ('s, gerr option) io"

record 's NotificationSender =
  nsSend :: "Notification \<Rightarrow> ('s, SendResponse ret) io"
  nsBatchSend :: "Notification list \<Rightarrow> ('s, SendResponse list ret) io"

record 's SendStrategy =
  stSend :: "Notification \<Rightarrow> ('s, SendResponse ret) io"
  stBatchSend :: "Notification list \<Rightarrow> ('s, SendResponse list ret) io"

section \<open>Trivial implementations\<close>

text \<open>Implementations that do nothing and report success, for examples.\<close>

definition idle_repo :: "'s NotificationRepository" where
  "idle_repo =
     \<lparr>nrCreate = \<lambda>n. io_return (n, None), nrCreateWithCallbackLog = \<lambda>n. io_return (n, None),
      nrBatchCreate = \<lambda>ns. io_return (ns, None),
      nrBatchCreateWithCallbackLog = \<lambda>ns. io_return (ns, None),
      nrGetByID = \<lambda>i. io_return (zero_Notification\<lparr>nID := i\<rparr>, None),
      nrBatchGetByID = \<lambda>ids. io_return
        (\<lambda>i. if i \<in> set ids then Some (zero_Notification\<lparr>nID := i\<rparr>) else None, None),
      nrGetByKey = \<lambda>b k. io_return (zero_Notification\<lparr>nBizID := b, nKey := k\<rparr>, None),
      nrGetByKeys = \<lambda>b ks. io_return (map (\<lambda>k. zero_Notification\<lparr>nBizID := b, nKey := k\<rparr>) ks, None),
      nrCASStatus = \<lambda>_. io_return None, nrUpdateStatus = \<lambda>_. io_return None,
      nrBatchUpdateStatusSucceededOrFailed = \<lambda>_ _. io_return None,
      nrFindReadNotifications = \<lambda>_ _. io_return ([], None),
      nrMarkSuccess = \<lambda>_. io_return None, nrMarkFailed = \<lambda>_. io_return None,
      nrMarkTimeoutSendingAsFailed = \<lambda>_. io_return (0, None)\<rparr>"

definition idle_callback :: "'s CallbackService" where
  "idle_callback =
     \<lparr>csSendCallback = \<lambda>_ _. io_return None, csSendCallbackByNotification = \<lambda>_. io_return None,
      csSendCallbackByNotifications = \<lambda>_. io_return None\<rparr>"

definition zero_BusinessConfig :: BusinessConfig where
  "zero_BusinessConfig =
     \<lparr>bcID = 0, bcOwnerId = 0, bcOwnerType = '''', bcChannelConfig = None, bcTxnConfig = None,
      bcRateLimit = 0, bcQuota = None, bcCallbackConfig = None, bcCtime = 0, bcUtime = 0\<rparr>"

definition fixed_config :: "(int64 \<Rightarrow> BusinessConfig option) \<Rightarrow> 's BusinessConfigService" where
  "fixed_config cfg =
     \<lparr>bsGetByIDs = \<lambda>_. io_return (cfg, None),
      bsGetByID = \<lambda>i. io_return (case cfg i of Some c \<Rightarrow> (c, None)
        | None \<Rightarrow> (zero_BusinessConfig, Some (Wrap [Err ErrConfigNotFound]))),
      bsDeleteByID = \<lambda>_. io_return None, bsSaveConfig = \<lambda>_. io_return None\<rparr>"

end
