(* ===== verification/QuotaCache.thy ===== *)
theory QuotaCache
  imports Interfaces
begin

text \<open>
  \<^verbatim>\<open>internal/repository/cache/redis/quota.go\<close>: the quotas of the businesses in Redis. The Redis
  client is a parameter, one function per command used; a reply of Lua's \<open>nil\<close> is \<open>RNil\<close>. The
  scripts embedded from \<^verbatim>\<open>lua/\<close> are modelled by their contents: the three files are empty.
\<close>

datatype redis_reply = RNil | RString string | RInt int64

datatype redis_arg = ANil | AQuota Quota

record 's Redis =
  rdDecrBy :: "string \<Rightarrow> int64 \<Rightarrow> ('s, int64 ret) io"
  rdGet :: "string \<Rightarrow> ('s, string ret) io"
  rdMSet :: "redis_arg list \<Rightarrow> ('s, gerr option) io"
  rdEval :: "string \<Rightarrow> string list \<Rightarrow> int32 list \<Rightarrow> ('s, redis_reply ret) io"

definition redis_Nil :: gerr where
  "redis_Nil = Ext ''redis: nil''"
definition ErrQuotaLessThenZero :: gerr where
  "ErrQuotaLessThenZero = Ext ''quota less than zero''"

definition quotaScript :: string where "quotaScript = ''''"
definition batchDecrQuotaScript :: string where "batchDecrQuotaScript = ''''"
definition batchIncrQuotaScript :: string where "batchIncrQuotaScript = ''''"

definition zero_Quota :: Quota where
  "zero_Quota = \<lparr>qBizID = 0, qQuota = 0, qChannel = ''''\<rparr>"

definition quota_key :: "Quota \<Rightarrow> string" where
  "quota_key q = ''quota:'' @ FormatInt (qBizID q) @ '':'' @ qChannel q"

text \<open>The slice of arguments is made with its final length and then appended to: twice as many
  nils as quotas come first.\<close>

definition quota_CreateOrUpdate :: "'s Redis \<Rightarrow> Quota list \<Rightarrow> ('s, gerr option) io" where
  "quota_CreateOrUpdate rd quotas =
     (let vals = foldl (\<lambda>vals quota. vals @ [AQuota quota]) (replicate (2 * length quotas) ANil) quotas
      in rdMSet rd vals)"

definition quota_Find :: "'s Redis \<Rightarrow> int64 \<Rightarrow> Channel \<Rightarrow> ('s, Quota ret) io" where
  "quota_Find rd bizID channel = do {
     (val, err) \<leftarrow> rdGet rd (quota_key (zero_Quota\<lparr>qBizID := bizID, qChannel := channel\<rparr>));
     io_return (case err of
         Some e \<Rightarrow> (zero_Quota, Some e)
       | None \<Rightarrow> (case ParseInt val of
           None \<Rightarrow> (zero_Quota, Some (Ext ''strconv.Atoi''))
         | Some quota \<Rightarrow> (\<lparr>qBizID = bizID, qQuota = wrap32 quota, qChannel = channel\<rparr>, None)))
   }"

definition quota_Incr :: "'s Redis \<Rightarrow> int64 \<Rightarrow> Channel \<Rightarrow> int32 \<Rightarrow> ('s, gerr option) io" where
  "quota_Incr rd bizID channel quota = do {
     (_, err) \<leftarrow> rdEval rd quotaScript
       [quota_key (zero_Quota\<lparr>qBizID := bizID, qChannel := channel\<rparr>)] [quota];
     io_return err
   }"

definition quota_Decr :: "'s Redis \<Rightarrow> int64 \<Rightarrow> Channel \<Rightarrow> int32 \<Rightarrow> ('s, gerr option) io" where
  "quota_Decr rd bizID channel quota = do {
     (res, err) \<leftarrow> rdDecrBy rd (quota_key (zero_Quota\<lparr>qBizID := bizID, qChannel := channel\<rparr>)) quota;
     io_return (case err of
         Some e \<Rightarrow> Some e
       | None \<Rightarrow> if res \<le> 0 then Some ErrQuotaLessThenZero else None)
   }"

definition getKeysAndQuotas :: "IncrItem list \<Rightarrow> string list \<times> int32 list" where
  "getKeysAndQuotas items =
     (map (\<lambda>item. quota_key (zero_Quota\<lparr>qBizID := iiBizID item, qChannel := iiChannel item\<rparr>)) items,
      map iiVal items)"

definition quota_MutiIncr :: "'s Redis \<Rightarrow> IncrItem list \<Rightarrow> ('s, gerr option) io" where
  "quota_MutiIncr rd items =
     (if items = [] then io_return None
      else let (keys, quotas) = getKeysAndQuotas items in
        do { (_, err) \<leftarrow> rdEval rd batchIncrQuotaScript keys quotas;
             io_return (case err of Some e \<Rightarrow> Some e | None \<Rightarrow> None) })"

text \<open>\<open>MutiDecr\<close> takes an empty answer of the script for a shortage.\<close>

definition quota_MutiDecr :: "'s Redis \<Rightarrow> IncrItem list \<Rightarrow> ('s, gerr option) io" where
  "quota_MutiDecr rd items =
     (let (keys, quotas) = getKeysAndQuotas items in
        do { (res, err) \<leftarrow> rdEval rd batchDecrQuotaScript keys quotas;
             io_return (case err of
                 Some e \<Rightarrow> Some e
               | None \<Rightarrow> (case res of
                   RString resStr \<Rightarrow>
                     if resStr = '''' then Some (Wrap [ErrQuotaLessThenZero]) else None
                 | _ \<Rightarrow> Some (Ext ''bad reply''))) })"

definition NewQuotaCache :: "'s Redis \<Rightarrow> 's QuotaCache" where
  "NewQuotaCache rd =
     \<lparr>qcCreateOrUpdate = quota_CreateOrUpdate rd, qcFind = quota_Find rd, qcIncr = quota_Incr rd,
      qcDecr = quota_Decr rd, qcMutiIncr = quota_MutiIncr rd, qcMutiDecr = quota_MutiDecr rd\<rparr>"

section \<open>What the cache relies on\<close>

text \<open>\<open>DECRBY\<close> subtracts from the number under the key and answers the new value; \<open>quotas\<close>
  reads the numbers in the world.\<close>

definition redis_decrby :: "'s Redis \<Rightarrow> ('s \<Rightarrow> string \<Rightarrow> int64) \<Rightarrow> bool" where
  "redis_decrby rd quotas \<longleftrightarrow>
     (\<forall>k n s. \<exists>s'. run_state (rdDecrBy rd k n) s = ((quotas s k - n, None), s')
        \<and> quotas s' = (quotas s)(k := quotas s k - n))"

text \<open>An empty script changes nothing and replies nil, which the client reports as the error
  \<open>redis.Nil\<close>.\<close>

definition redis_empty_script :: "'s Redis \<Rightarrow> bool" where
  "redis_empty_script rd \<longleftrightarrow>
     (\<forall>keys args s. run_state (rdEval rd '''' keys args) s = ((RNil, Some redis_Nil), s))"

text \<open>An instance: the numbers themselves as the world.\<close>

definition mem_redis :: "(string \<Rightarrow> int64) Redis" where
  "mem_redis =
     \<lparr>rdDecrBy = \<lambda>k n. State (\<lambda>s. ((s k - n, None), s(k := s k - n))),
      rdGet = \<lambda>k. State (\<lambda>s. ((FormatInt (s k), None), s)),
      rdMSet = \<lambda>_. io_return (Some (Ext ''marshal'')),
      rdEval = \<lambda>_ _ _. io_return (RNil, Some redis_Nil)\<rparr>"

lemma mem_redis_laws: "redis_decrby mem_redis (\<lambda>s. s)" "redis_empty_script mem_redis"
  by (simp_all add: redis_decrby_def redis_empty_script_def mem_redis_def)

lemma Decr_run:
  fixes b :: int64 and c :: Channel
  assumes "redis_decrby rd quotas"
  defines "k \<equiv> quota_key (zero_Quota\<lparr>qBizID := b, qChannel := c\<rparr>)"
  shows "\<exists>s'. run_state (quota_Decr rd b c n) s
      = (if quotas s k \<le> n then Some ErrQuotaLessThenZero else None, s')
    \<and> quotas s' = (quotas s)(k := quotas s k - n)"
proof -
  from assms obtain s' where "run_state (rdDecrBy rd k n) s = ((quotas s k - n, None), s')"
    "quotas s' = (quotas s)(k := quotas s k - n)" unfolding redis_decrby_def by blast
  then show ?thesis by (auto simp: quota_Decr_def k_def)
qed

lemma Incr_empty: "redis_empty_script rd \<Longrightarrow> run_state (quota_Incr rd b c n) s = (Some redis_Nil, s)"
  by (simp add: quota_Incr_def redis_empty_script_def quotaScript_def)

lemma MutiDecr_empty:
  "redis_empty_script rd \<Longrightarrow> run_state (quota_MutiDecr rd items) s = (Some redis_Nil, s)"
  by (simp add: quota_MutiDecr_def redis_empty_script_def batchDecrQuotaScript_def Let_def split_beta)

lemma MutiIncr_empty:
  "redis_empty_script rd \<Longrightarrow>
   run_state (quota_MutiIncr rd items) s = (if items = [] then None else Some redis_Nil, s)"
  by (simp add: quota_MutiIncr_def redis_empty_script_def batchIncrQuotaScript_def Let_def split_beta)

lemma CreateOrUpdate_args:
  "quota_CreateOrUpdate rd qs = rdMSet rd (replicate (2 * length qs) ANil @ map AQuota qs)"
proof -
  have "foldl (\<lambda>vals quota. vals @ [AQuota quota]) vs qs = vs @ map AQuota qs" for vs
    by (induction qs arbitrary: vs) simp_all
  then show ?thesis by (simp add: quota_CreateOrUpdate_def Let_def)
qed

lemma quota_key_inject:
  "quota_key q = quota_key q' \<Longrightarrow> qBizID q = qBizID q' \<and> qChannel q = qChannel q'"
proof -
  have split: "xs = xs' \<and> ys = ys'"
    if "xs @ CHR '':'' # ys = xs' @ CHR '':'' # ys'" "CHR '':'' \<notin> set xs" "CHR '':'' \<notin> set xs'"
    for xs xs' ys ys' :: string
    using that by (auto simp: append_eq_append_conv2 append_eq_Cons_conv Cons_eq_append_conv)
  assume "quota_key q = quota_key q'"
  then have "FormatInt (qBizID q) @ CHR '':'' # qChannel q
      = FormatInt (qBizID q') @ CHR '':'' # qChannel q'" by (simp add: quota_key_def)
  from split [OF this] show ?thesis by (simp add: FormatInt_chars FormatInt_inject)
qed

end
