(* ===== verification/NotificationRepo.thy ===== *)
theory NotificationRepo
  imports QuotaCache
begin

text \<open>
  \<^verbatim>\<open>internal/repository/notification.go\<close>: notifications are created under a quota and their
  outcome is recorded, over the interfaces \<open>NotificationDAO\<close> and \<open>QuotaCache\<close>. JSON texts are
  made and read by \<^verbatim>\<open>encoding/json\<close>, the parameter \<open>Codec\<close>.
\<close>

record Codec =
  cMarshalParams :: "(string \<times> string) list \<Rightarrow> string"
  cUnmarshalParams :: "string \<Rightarrow> (string \<times> string) list"
  cMarshalReceivers :: "string list \<Rightarrow> string"
  cUnmarshalReceivers :: "string \<Rightarrow> string list"

definition codec_roundtrip :: "Codec \<Rightarrow> bool" where
  "codec_roundtrip c \<longleftrightarrow> (\<forall>ps. cUnmarshalParams c (cMarshalParams c ps) = ps)
     \<and> (\<forall>rs. cUnmarshalReceivers c (cMarshalReceivers c rs) = rs)"

definition toEntity :: "Codec \<Rightarrow> Notification \<Rightarrow> daoNotification" where
  "toEntity c n =
     (let templateParams = cMarshalParams c (tParams (nTemplate n));
          receivers = cMarshalReceivers c (nReceivers n)
      in \<lparr>dnID = nID n, dnBizID = nBizID n, dnKey = nKey n, dnReceivers = receivers,
          dnChannel = nChannel n, dnTemplateID = tID (nTemplate n),
          dnTemplateVersionID = tVersionID (nTemplate n), dnTemplateParams = templateParams,
          dnStatus = nStatus n, dnScheduledSTime = UnixMilli (nScheduledSTime n),
          dnScheduledETime = UnixMilli (nScheduledETime n), dnVersion = nVersion n,
          dnCtime = 0, dnUtime = 0\<rparr>)"

definition toDomain :: "Codec \<Rightarrow> daoNotification \<Rightarrow> Notification" where
  "toDomain c d =
     (let templateParams = cUnmarshalParams c (dnTemplateParams d);
          receivers = cUnmarshalReceivers c (dnReceivers d)
      in \<lparr>nID = dnID d, nBizID = dnBizID d, nKey = dnKey d, nReceivers = receivers,
          nChannel = dnChannel d,
          nTemplate = \<lparr>tID = dnTemplateID d, tVersionID = dnTemplateVersionID d,
                       tParams = templateParams, tVersion = 0\<rparr>,
          nStatus = dnStatus d, nScheduledSTime = time_UnixMilli (dnScheduledSTime d),
          nScheduledETime = time_UnixMilli (dnScheduledETime d), nVersion = dnVersion d,
          nSendStrategyConfig = zero_SendStrategyConfig\<rparr>)"

section \<open>Quota items\<close>

text \<open>\<open>getItems\<close> counts the notifications of each business and channel in a map; the items
  come in the map's order, which Go leaves open and the model takes to be the order of the
  first insertion.\<close>

fun put_item :: "string \<Rightarrow> IncrItem \<Rightarrow> (string \<times> IncrItem) list \<Rightarrow> (string \<times> IncrItem) list" where
  "put_item k v [] = [(k, v)]"
| "put_item k v ((k', v') # m) = (if k = k' then (k, v) # m else (k', v') # put_item k v m)"

definition item_key :: "Notification \<Rightarrow> string" where
  "item_key d = FormatInt (nBizID d) @ ''-'' @ nChannel d"

definition count_item ::
  "(string \<times> IncrItem) list \<Rightarrow> Notification \<Rightarrow> (string \<times> IncrItem) list" where
  "count_item notiMap d =
     (let key = item_key d;
          item = (case map_of notiMap key of
                    None \<Rightarrow> \<lparr>iiBizID = nBizID d, iiChannel = nChannel d, iiVal = 0\<rparr>
                  | Some item \<Rightarrow> item)
      in put_item key (item\<lparr>iiVal := wrap32 (iiVal item + 1)\<rparr>) notiMap)"

definition getItems :: "Notification list \<Rightarrow> IncrItem list" where
  "getItems ns = map snd (foldl count_item [] ns)"

section \<open>The repository\<close>

record 's notificationRepository =
  rDao :: "'s NotificationDAO"
  rQuota :: "'s QuotaCache"
  rCodec :: Codec

definition defaultQuotaNumber :: int32 where
  "defaultQuotaNumber = 1"

definition repo_Create ::
  "'s notificationRepository \<Rightarrow> Notification \<Rightarrow> ('s, Notification ret) io" where
  "repo_Create r n = do {
     err \<leftarrow> qcDecr (rQuota r) (nBizID n) (nChannel n) defaultQuotaNumber;
     case err of
       Some e \<Rightarrow> io_return (zero_Notification, Some e)
     | None \<Rightarrow> do {
         (ds, err) \<leftarrow> ndCreate (rDao r) (toEntity (rCodec r) n);
         case err of
           Some e \<Rightarrow> do {
             qerr \<leftarrow> qcIncr (rQuota r) (nBizID n) (nChannel n) defaultQuotaNumber;
             io_return (zero_Notification, Some e)
           }
         | None \<Rightarrow> io_return (toDomain (rCodec r) ds, None)
       }
   }"

definition repo_CreateWithCallbackLog ::
  "'s notificationRepository \<Rightarrow> Notification \<Rightarrow> ('s, Notification ret) io" where
  "repo_CreateWithCallbackLog r n = do {
     err \<leftarrow> qcDecr (rQuota r) (nBizID n) (nChannel n) defaultQuotaNumber;
     case err of
       Some e \<Rightarrow> io_return (zero_Notification, Some e)
     | None \<Rightarrow> do {
         (ds, err) \<leftarrow> ndCreateWithCallbackLog (rDao r) (toEntity (rCodec r) n);
         case err of
           Some e \<Rightarrow> do {
             qerr \<leftarrow> qcIncr (rQuota r) (nBizID n) (nChannel n) defaultQuotaNumber;
             io_return (zero_Notification, Some e)
           }
         | None \<Rightarrow> io_return (toDomain (rCodec r) ds, None)
       }
   }"

definition mutiDecr :: "'s notificationRepository \<Rightarrow> Notification list \<Rightarrow> ('s, gerr option) io" where
  "mutiDecr r ns = qcMutiDecr (rQuota r) (getItems ns)"

definition mutiIncr :: "'s notificationRepository \<Rightarrow> Notification list \<Rightarrow> ('s, gerr option) io" where
  "mutiIncr r ns = qcMutiDecr (rQuota r) (getItems ns)"

definition repo_batchCreate ::
  "'s notificationRepository \<Rightarrow> Notification list \<Rightarrow> bool \<Rightarrow> ('s, Notification list ret) io" where
  "repo_batchCreate r ns createCallbackLog =
     (if ns = [] then io_return ([], None)
      else do {
        err \<leftarrow> mutiDecr r ns;
        case err of
          Some e \<Rightarrow> io_return ([], Some e)
        | None \<Rightarrow>
            if createCallbackLog then do {
              (created, err) \<leftarrow>
                ndBatchCreateWithCallbackLog (rDao r) (map (toEntity (rCodec r)) ns);
              case err of
                Some e \<Rightarrow> do { eerr \<leftarrow> mutiIncr r ns; io_return ([], Some e) }
              | None \<Rightarrow> io_return (map (toDomain (rCodec r)) created, None)
            }
            else do {
              (created, err) \<leftarrow> ndBatchCreate (rDao r) (map (toEntity (rCodec r)) ns);
              case err of
                Some e \<Rightarrow> do {
                  eerr \<leftarrow> mutiIncr r ns;
                  io_return (if eerr \<noteq> None then ([], Some e)
                             else (map (toDomain (rCodec r)) created, None))
                }
              | None \<Rightarrow> io_return (map (toDomain (rCodec r)) created, None)
            }
      })"

definition repo_BatchCreate ::
  "'s notificationRepository \<Rightarrow> Notification list \<Rightarrow> ('s, Notification list ret) io" where
  "repo_BatchCreate r ns = repo_batchCreate r ns False"

definition repo_BatchCreateWithCallbackLog ::
  "'s notificationRepository \<Rightarrow> Notification list \<Rightarrow> ('s, Notification list ret) io" where
  "repo_BatchCreateWithCallbackLog r ns = repo_batchCreate r ns True"

definition repo_GetByID :: "'s notificationRepository \<Rightarrow> int64 \<Rightarrow> ('s, Notification ret) io" where
  "repo_GetByID r i = do {
     (n, err) \<leftarrow> ndGetByID (rDao r) i;
     io_return (case err of Some e \<Rightarrow> (zero_Notification, Some e)
                | None \<Rightarrow> (toDomain (rCodec r) n, None))
   }"

definition repo_BatchGetByID ::
  "'s notificationRepository \<Rightarrow> int64 list \<Rightarrow> ('s, (int64 \<Rightarrow> Notification option) ret) io" where
  "repo_BatchGetByID r ids = do {
     (m, err) \<leftarrow> ndBatchGetByIDs (rDao r) ids;
     io_return (case err of Some e \<Rightarrow> (Map.empty, Some e)
                | None \<Rightarrow> (map_option (toDomain (rCodec r)) \<circ> m, None))
   }"

definition repo_GetByKey ::
  "'s notificationRepository \<Rightarrow> int64 \<Rightarrow> string \<Rightarrow> ('s, Notification ret) io" where
  "repo_GetByKey r bizID key = do {
     (n, err) \<leftarrow> ndGetByKey (rDao r) bizID key;
     io_return (toDomain (rCodec r) n, err)
   }"

definition repo_GetByKeys ::
  "'s notificationRepository \<Rightarrow> int64 \<Rightarrow> string list \<Rightarrow> ('s, Notification list ret) io" where
  "repo_GetByKeys r bizID keys = do {
     (ns, err) \<leftarrow> ndGetByKeys (rDao r) bizID keys;
     io_return (case err of Some e \<Rightarrow> ([], Some (Wrap [e]))
                | None \<Rightarrow> (map (toDomain (rCodec r)) ns, None))
   }"

definition repo_CASStatus :: "'s notificationRepository \<Rightarrow> Notification \<Rightarrow> ('s, gerr option) io" where
  "repo_CASStatus r n = ndCASStatus (rDao r) (toEntity (rCodec r) n)"

definition repo_UpdateStatus ::
  "'s notificationRepository \<Rightarrow> Notification \<Rightarrow> ('s, gerr option) io" where
  "repo_UpdateStatus r n = ndUpdateStatus (rDao r) (toEntity (rCodec r) n)"

definition repo_BatchUpdateStatusSucceededOrFailed ::
  "'s notificationRepository \<Rightarrow> Notification list \<Rightarrow> Notification list \<Rightarrow> ('s, gerr option) io" where
  "repo_BatchUpdateStatusSucceededOrFailed r succeeded failed = do {
     err \<leftarrow> ndBatchUpdateStatusSucceedOrFailed (rDao r)
       (map (toEntity (rCodec r)) succeeded) (map (toEntity (rCodec r)) failed);
     case err of
       Some e \<Rightarrow> io_return (Some e)
     | None \<Rightarrow> do { eerr \<leftarrow> qcMutiIncr (rQuota r) (getItems failed); io_return None }
   }"

definition repo_FindReadNotifications ::
  "'s notificationRepository \<Rightarrow> int64 \<Rightarrow> int64 \<Rightarrow> ('s, Notification list ret) io" where
  "repo_FindReadNotifications r offset limit = do {
     (nos, err) \<leftarrow> ndFindReadyNotifications (rDao r) offset limit;
     io_return (case err of Some e \<Rightarrow> ([], Some e)
                | None \<Rightarrow> (map (toDomain (rCodec r)) nos, None))
   }"

definition repo_MarkSuccess :: "'s notificationRepository \<Rightarrow> Notification \<Rightarrow> ('s, gerr option) io" where
  "repo_MarkSuccess r n = ndMarkSuccess (rDao r) (toEntity (rCodec r) n)"

definition repo_MarkFailed :: "'s notificationRepository \<Rightarrow> Notification \<Rightarrow> ('s, gerr option) io" where
  "repo_MarkFailed r n = do {
     err \<leftarrow> ndMarkFailed (rDao r) (toEntity (rCodec r) n);
     case err of
       Some e \<Rightarrow> io_return (Some e)
     | None \<Rightarrow> qcIncr (rQuota r) (nBizID n) (nChannel n) defaultQuotaNumber
   }"

definition repo_MarkTimeoutSendingAsFailed ::
  "'s notificationRepository \<Rightarrow> int64 \<Rightarrow> ('s, int64 ret) io" where
  "repo_MarkTimeoutSendingAsFailed r batchSize = ndMarkTimeoutSendingAsFailed (rDao r) batchSize"

definition NewNotificationRepository ::
  "'s NotificationDAO \<Rightarrow> 's QuotaCache \<Rightarrow> Codec \<Rightarrow> 's NotificationRepository" where
  "NewNotificationRepository d q c =
     (let r = \<lparr>rDao = d, rQuota = q, rCodec = c\<rparr>
      in \<lparr>nrCreate = repo_Create r, nrCreateWithCallbackLog = repo_CreateWithCallbackLog r,
          nrBatchCreate = repo_BatchCreate r,
          nrBatchCreateWithCallbackLog = repo_BatchCreateWithCallbackLog r,
          nrGetByID = repo_GetByID r, nrBatchGetByID = repo_BatchGetByID r,
          nrGetByKey = repo_GetByKey r, nrGetByKeys = repo_GetByKeys r,
          nrCASStatus = repo_CASStatus r, nrUpdateStatus = repo_UpdateStatus r,
          nrBatchUpdateStatusSucceededOrFailed = repo_BatchUpdateStatusSucceededOrFailed r,
          nrFindReadNotifications = repo_FindReadNotifications r,
          nrMarkSuccess = repo_MarkSuccess r, nrMarkFailed = repo_MarkFailed r,
          nrMarkTimeoutSendingAsFailed = repo_MarkTimeoutSendingAsFailed r\<rparr>)"

section \<open>Properties\<close>

text \<open>What a stored notification is when it is read back: everything is kept except the
  template's version number, the sub-millisecond part of the send window, and the send strategy.\<close>

theorem Notification_roundtrip:
  assumes "codec_roundtrip c"
  shows "toDomain c (toEntity c n)
       = n\<lparr>nTemplate := (nTemplate n)\<lparr>tVersion := 0\<rparr>,
           nScheduledSTime := time_UnixMilli (UnixMilli (nScheduledSTime n)),
           nScheduledETime := time_UnixMilli (UnixMilli (nScheduledETime n)),
           nSendStrategyConfig := zero_SendStrategyConfig\<rparr>"
  using assms by (simp add: codec_roundtrip_def toDomain_def toEntity_def Let_def)

text \<open>A codec that shows that the hypothesis can hold: every character is preceded by a dot,
  and a string is closed by a comma.\<close>

definition encode_string :: "string \<Rightarrow> string" where
  "encode_string s = concat (map (\<lambda>ch. ''.'' @ [ch]) s) @ '',''"

fun decode_string :: "string \<Rightarrow> string \<times> string" where
  "decode_string (a # b # rest) =
     (if a = CHR ''.'' then (let (s, r) = decode_string rest in (b # s, r)) else ('''', b # rest))"
| "decode_string [a] = ('''', [])"
| "decode_string [] = ('''', [])"

lemma decode_encode [simp]: "decode_string (encode_string s @ r) = (s, r)"
proof (induction s)
  case Nil
  then show ?case by (cases r) (simp_all add: encode_string_def)
next
  case (Cons a s)
  then show ?case by (simp add: encode_string_def)
qed

fun decode_strings :: "nat \<Rightarrow> string \<Rightarrow> string list" where
  "decode_strings 0 t = []"
| "decode_strings (Suc k) t =
     (if t = [] then [] else let (s, r) = decode_string t in s # decode_strings k r)"

lemma encode_nonempty [simp]: "encode_string s \<noteq> []"
  by (simp add: encode_string_def)

lemma decode_strings_encode:
  "length ss \<le> k \<Longrightarrow> decode_strings k (concat (map encode_string ss)) = ss"
proof (induction ss arbitrary: k)
  case Nil
  then show ?case by (cases k) simp_all
next
  case (Cons s ss)
  then show ?case by (cases k) simp_all
qed

lemma length_encodes: "length ss \<le> length (concat (map encode_string ss))"
proof (induction ss)
  case (Cons s ss)
  have "1 \<le> length (encode_string s)" by (simp add: encode_string_def)
  with Cons show ?case by simp
qed simp

fun pairs :: "'a list \<Rightarrow> ('a \<times> 'a) list" where
  "pairs (a # b # r) = (a, b) # pairs r"
| "pairs _ = []"

definition test_codec :: Codec where
  "test_codec =
     \<lparr>cMarshalParams = \<lambda>ps. concat (map encode_string (concat (map (\<lambda>(a, b). [a, b]) ps))),
      cUnmarshalParams = \<lambda>t. pairs (decode_strings (length t) t),
      cMarshalReceivers = \<lambda>rs. concat (map encode_string rs),
      cUnmarshalReceivers = \<lambda>t. decode_strings (length t) t\<rparr>"

lemma test_codec_roundtrip: "codec_roundtrip test_codec"
proof -
  have p: "pairs (concat (map (\<lambda>(a, b). [a, b]) ps)) = ps" for ps :: "(string \<times> string) list"
    by (induction ps) auto
  have "decode_strings (length (concat (map encode_string ss))) (concat (map encode_string ss)) = ss"
    for ss by (rule decode_strings_encode [OF length_encodes])
  with p show ?thesis by (simp only: codec_roundtrip_def test_codec_def Codec.simps) blast
qed

theorem Notification_roundtrip_witness:
  "nReceivers (toDomain test_codec (toEntity test_codec
     (zero_Notification\<lparr>nReceivers := [''13800138000'', '''']\<rparr>))) = [''13800138000'', '''']"
  using Notification_roundtrip [OF test_codec_roundtrip,
      of "zero_Notification\<lparr>nReceivers := [''13800138000'', '''']\<rparr>"]
  by simp

section \<open>Quota items\<close>

lemma item_key_inject:
  "item_key d = item_key d' \<longleftrightarrow> nBizID d = nBizID d' \<and> nChannel d = nChannel d'"
  by (simp add: item_key_def FormatInt_dash_inject)

lemma map_of_put [simp]: "map_of (put_item k v m) k' = (if k = k' then Some v else map_of m k')"
  by (induction k v m rule: put_item.induct) auto

lemma put_item_keys: "set (map fst (put_item k v m)) = insert k (set (map fst m))"
  by (induction k v m rule: put_item.induct) auto

lemma put_item_distinct: "distinct (map fst m) \<Longrightarrow> distinct (map fst (put_item k v m))"
proof (induction k v m rule: put_item.induct)
  case (2 k v k' v' m)
  then show ?case using put_item_keys [of k v m] by auto
qed simp

definition same_item :: "Notification \<Rightarrow> Notification \<Rightarrow> bool" where
  "same_item d d' \<longleftrightarrow> nBizID d = nBizID d' \<and> nChannel d = nChannel d'"

definition tally :: "Notification list \<Rightarrow> Notification \<Rightarrow> nat" where
  "tally ns d = length (filter (same_item d) ns)"

lemma tally_cong: "nBizID n = nBizID d \<Longrightarrow> nChannel n = nChannel d \<Longrightarrow> tally ns n = tally ns d"
  by (simp add: tally_def same_item_def [abs_def])

text \<open>The items of a prefix of the batch are exact; so is the item the next notification starts from, and
  the items after it.\<close>

definition exact_items :: "Notification list \<Rightarrow> (string \<times> IncrItem) list \<Rightarrow> bool" where
  "exact_items ns m \<longleftrightarrow> distinct (map fst m)
    \<and> (\<forall>k. k \<notin> item_key ` set ns \<longrightarrow> map_of m k = None)
    \<and> (\<forall>d \<in> set ns. map_of m (item_key d)
          = Some \<lparr>iiBizID = nBizID d, iiChannel = nChannel d, iiVal = int (tally ns d)\<rparr>)"

lemma exact_current:
  assumes "exact_items ns m"
  shows "(case map_of m (item_key n) of
      None \<Rightarrow> \<lparr>iiBizID = nBizID n, iiChannel = nChannel n, iiVal = 0\<rparr> | Some item \<Rightarrow> item)
    = \<lparr>iiBizID = nBizID n, iiChannel = nChannel n, iiVal = int (tally ns n)\<rparr>"
proof (cases "item_key n \<in> item_key ` set ns")
  case True
  then obtain d where "d \<in> set ns" "item_key n = item_key d" by auto
  moreover from this(2) have "nBizID d = nBizID n" "nChannel d = nChannel n"
    by (simp_all add: item_key_inject)
  moreover from this have "tally ns d = tally ns n" by (rule tally_cong)
  ultimately show ?thesis using assms by (simp add: exact_items_def)
next
  case False
  then have "tally ns n = 0"
    by (auto simp: tally_def filter_empty_conv same_item_def item_key_inject image_iff)
  with False assms show ?thesis by (simp add: exact_items_def)
qed

lemma exact_put:
  assumes ex: "exact_items ns m"
  shows "exact_items (ns @ [n]) (put_item (item_key n)
      \<lparr>iiBizID = nBizID n, iiChannel = nChannel n, iiVal = int (tally ns n) + 1\<rparr> m)"
proof -
  let ?i = "\<lparr>iiBizID = nBizID n, iiChannel = nChannel n, iiVal = int (tally ns n) + 1\<rparr>"
  have t: "tally (ns @ [n]) d = tally ns d + (if same_item d n then 1 else 0)" for d
    by (simp add: tally_def)
  have "(if item_key n = item_key d then Some ?i else map_of m (item_key d))
      = Some \<lparr>iiBizID = nBizID d, iiChannel = nChannel d, iiVal = int (tally (ns @ [n]) d)\<rparr>"
    if d: "d \<in> set (ns @ [n])" for d
  proof (cases "item_key n = item_key d")
    case True
    then have "nBizID n = nBizID d" "nChannel n = nChannel d" by (simp_all add: item_key_inject)
    moreover from this have "tally ns n = tally ns d" by (rule tally_cong)
    ultimately show ?thesis using True by (simp add: t same_item_def)
  next
    case False
    with d ex show ?thesis by (auto simp: t same_item_def item_key_inject exact_items_def)
  qed
  with ex put_item_distinct show ?thesis
    unfolding exact_items_def map_of_put by auto
qed

lemma count_items: "length ns < 2 ^ 31 \<Longrightarrow> exact_items ns (foldl count_item [] ns)"
proof (induction ns rule: rev_induct)
  case Nil
  then show ?case by (simp add: exact_items_def)
next
  case (snoc n ns)
  then have ex: "exact_items ns (foldl count_item [] ns)" by simp
  have "tally ns n \<le> length ns" by (simp add: tally_def)
  with snoc.prems have "int32_range (int (tally ns n) + 1)" by (simp add: int32_range_def)
  then have "count_item m n = put_item (item_key n)
      \<lparr>iiBizID = nBizID n, iiChannel = nChannel n, iiVal = int (tally ns n) + 1\<rparr> m"
    if "exact_items ns m" for m
    using exact_current [OF that, of n] by (simp add: count_item_def Let_def wrap32_id)
  with exact_put [OF ex, of n] ex show ?case by simp
qed

text \<open>C27. The quota items of a batch are exact: one item for each business and channel that
  occurs in it, holding the number of its notifications.\<close>

theorem getItems_exact:
  assumes "length ns < 2 ^ 31"
  shows "distinct (map (\<lambda>i. (iiBizID i, iiChannel i)) (getItems ns))
    \<and> set (getItems ns) = (\<lambda>d. \<lparr>iiBizID = nBizID d, iiChannel = nChannel d,
        iiVal = int (length (filter (\<lambda>d'. nBizID d = nBizID d' \<and> nChannel d = nChannel d') ns))\<rparr>)
        ` set ns"
proof -
  let ?m = "foldl count_item [] ns"
  let ?item = "\<lambda>d. \<lparr>iiBizID = nBizID d, iiChannel = nChannel d, iiVal = int (tally ns d)\<rparr>"
  note c = count_items [OF assms, unfolded exact_items_def]
  have kv: "\<exists>d \<in> set ns. k = item_key d \<and> v = ?item d" if "(k, v) \<in> set ?m" for k v
  proof -
    have "map_of ?m k = Some v" using c that by simp
    then obtain d where "d \<in> set ns" "k = item_key d" using c by force
    with c \<open>map_of ?m k = Some v\<close> show ?thesis by auto
  qed
  have "set (getItems ns) = ?item ` set ns"
  proof (intro set_eqI iffI)
    fix v
    assume "v \<in> set (getItems ns)"
    then obtain k where "(k, v) \<in> set ?m" by (auto simp: getItems_def)
    from kv [OF this] show "v \<in> ?item ` set ns" by blast
  next
    fix v
    assume "v \<in> ?item ` set ns"
    then obtain d where "d \<in> set ns" "v = ?item d" by auto
    with c have "map_of ?m (item_key d) = Some v" by simp
    then show "v \<in> set (getItems ns)"
      by (auto simp: getItems_def dest!: map_of_SomeD intro: image_eqI [where x = "(item_key d, v)"])
  qed
  moreover have "inj_on (\<lambda>i. (iiBizID (snd i), iiChannel (snd i))) (set ?m)"
  proof (rule inj_onI)
    fix x y
    assume xy: "x \<in> set ?m" "y \<in> set ?m"
      "(iiBizID (snd x), iiChannel (snd x)) = (iiBizID (snd y), iiChannel (snd y))"
    from xy(1) kv obtain d where d: "fst x = item_key d" "snd x = ?item d" by (metis prod.collapse)
    from xy(2) kv obtain e where e: "fst y = item_key e" "snd y = ?item e" by (metis prod.collapse)
    from d e xy(3) have "fst x = fst y" by (simp add: item_key_inject)
    with c xy(1,2) show "x = y"
      by (metis eq_key_imp_eq_value prod.collapse)
  qed
  with c have "distinct (map (\<lambda>i. (iiBizID i, iiChannel i)) (getItems ns))"
    by (simp add: getItems_def distinct_map comp_def)
  ultimately show ?thesis by (simp add: tally_def same_item_def cong: filter_cong)
qed

theorem getItems_exact_witness:
  "set (getItems (replicate 3 (zero_Notification\<lparr>nBizID := 7, nChannel := ChannelSMS\<rparr>)))
     = {\<lparr>iiBizID = 7, iiChannel = ChannelSMS, iiVal = 3\<rparr>}"
  using getItems_exact [of "replicate 3 (zero_Notification\<lparr>nBizID := 7, nChannel := ChannelSMS\<rparr>)"]
  by simp

section \<open>Quota accounting\<close>

text \<open>The database is a part of the world the quotas are not in.\<close>

definition dao_keeps_quotas :: "'s NotificationDAO \<Rightarrow> ('s \<Rightarrow> string \<Rightarrow> int64) \<Rightarrow> bool" where
  "dao_keeps_quotas d quotas \<longleftrightarrow>
     (\<forall>e s. quotas (snd (run_state (ndCreate d e) s)) = quotas s)"

definition quota_of :: "Notification \<Rightarrow> string" where
  "quota_of n = quota_key (zero_Quota\<lparr>qBizID := nBizID n, qChannel := nChannel n\<rparr>)"

text \<open>Creating a notification takes one unit of the quota whatever the outcome: a quota of
  one is refused although it covers the request, a refused request still lowers the quota, and
  a unit taken for a row the database then rejects is not given back, as the script that should
  do it is empty.\<close>

theorem Create_takes_quota:
  assumes "redis_decrby rd quotas" "redis_empty_script rd" "dao_keeps_quotas d quotas"
  shows "\<exists>r e s'. run_state (nrCreate (NewNotificationRepository d (NewQuotaCache rd) c) n) s = ((r, e), s')
     \<and> quotas s' = (quotas s)(quota_of n := quotas s (quota_of n) - 1)
     \<and> (quotas s (quota_of n) \<le> 1 \<longrightarrow> e = Some ErrQuotaLessThenZero)"
proof -
  obtain s1 where s1: "run_state (quota_Decr rd (nBizID n) (nChannel n) defaultQuotaNumber) s
      = (if quotas s (quota_of n) \<le> 1 then Some ErrQuotaLessThenZero else None, s1)"
    "quotas s1 = (quotas s)(quota_of n := quotas s (quota_of n) - 1)"
    using Decr_run [OF assms(1), of "nBizID n" "nChannel n" defaultQuotaNumber s]
    by (auto simp: quota_of_def defaultQuotaNumber_def)
  obtain ds e s2 where s2: "run_state (ndCreate d (toEntity c n)) s1 = ((ds, e), s2)"
    by (metis prod.collapse)
  with assms(3) have "quotas s2 = quotas s1" by (metis dao_keeps_quotas_def snd_conv)
  with s1 s2 show ?thesis
    by (cases e)
      (auto simp: NewNotificationRepository_def NewQuotaCache_def Let_def repo_Create_def
        Incr_empty [OF assms(2)])
qed

text \<open>A database that rejects everything.\<close>

definition rejecting_dao :: "'s NotificationDAO" where
  "rejecting_dao =
     (let no = io_return (zero_daoNotification, Some (Ext ''down'')); nos = io_return ([], Some (Ext ''down''));
          fail = io_return (Some (Ext ''down''))
      in \<lparr>ndCreate = \<lambda>_. no, ndCreateWithCallbackLog = \<lambda>_. no, ndBatchCreate = \<lambda>_. nos,
          ndBatchCreateWithCallbackLog = \<lambda>_. nos, ndGetByID = \<lambda>_. no,
          ndBatchGetByIDs = \<lambda>_. io_return (Map.empty, Some (Ext ''down'')), ndGetByKey = \<lambda>_ _. no,
          ndGetByKeys = \<lambda>_ _. nos, ndCASStatus = \<lambda>_. fail, ndUpdateStatus = \<lambda>_. fail,
          ndBatchUpdateStatusSucceedOrFailed = \<lambda>_ _. fail, ndFindReadyNotifications = \<lambda>_ _. nos,
          ndMarkSuccess = \<lambda>_. fail, ndMarkFailed = \<lambda>_. fail,
          ndMarkTimeoutSendingAsFailed = \<lambda>_. io_return (0, Some (Ext ''down''))\<rparr>)"

theorem Create_takes_quota_witness:
  "\<exists>r s'. run_state (nrCreate (NewNotificationRepository rejecting_dao (NewQuotaCache mem_redis) test_codec)
        zero_Notification) (\<lambda>_. 1) = ((r, Some ErrQuotaLessThenZero), s')
     \<and> s' (quota_of zero_Notification) = 0"
proof -
  have "dao_keeps_quotas rejecting_dao (\<lambda>s. s)"
    by (simp add: dao_keeps_quotas_def rejecting_dao_def Let_def)
  from Create_takes_quota [OF mem_redis_laws this, of test_codec zero_Notification "\<lambda>_. 1"]
  show ?thesis by auto
qed

text \<open>With the scripts as they are in the repository, no batch is ever created, with or
  without call-back logs: the quota step fails first. And recording a failed notification
  reports an error although the row was updated.\<close>

theorem Batch_never_created:
  fixes d :: "'s NotificationDAO" and rd :: "'s Redis" and c :: Codec
  assumes "redis_empty_script rd" "ns \<noteq> []"
  defines "r \<equiv> NewNotificationRepository d (NewQuotaCache rd) c"
  shows "run_state (nrBatchCreate r ns) s = (([], Some redis_Nil), s)
     \<and> run_state (nrBatchCreateWithCallbackLog r ns) s = (([], Some redis_Nil), s)
     \<and> fst (run_state (nrMarkFailed r n) s) \<noteq> None"
proof -
  have b: "run_state (repo_batchCreate \<lparr>rDao = d, rQuota = NewQuotaCache rd, rCodec = c\<rparr> ns w) s
      = (([], Some redis_Nil), s)" for w
    using assms(2) MutiDecr_empty [OF assms(1)]
    by (simp add: repo_batchCreate_def mutiDecr_def NewQuotaCache_def)
  have "fst (run_state (repo_MarkFailed \<lparr>rDao = d, rQuota = NewQuotaCache rd, rCodec = c\<rparr> n) s) \<noteq> None"
    by (simp add: repo_MarkFailed_def NewQuotaCache_def Incr_empty [OF assms(1)]
        split: prod.split option.split)
  with b show ?thesis
    by (simp add: r_def NewNotificationRepository_def Let_def repo_BatchCreate_def
        repo_BatchCreateWithCallbackLog_def)
qed

theorem Batch_never_created_witness:
  "run_state (nrBatchCreate (NewNotificationRepository rejecting_dao (NewQuotaCache mem_redis) test_codec)
     [zero_Notification]) (\<lambda>_. 100) = (([], Some redis_Nil), \<lambda>_. 100)"
  by (rule Batch_never_created [OF mem_redis_laws(2), THEN conjunct1]) simp

text \<open>The batch without call-back logs swallows the database's error: when the quota step
  succeeds both times, a rejected batch is reported as created.\<close>

theorem BatchCreate_swallows_error:
  assumes "\<And>items s. run_state (qcMutiDecr q items) s = (None, dec items s)"
    and "\<And>es s. run_state (ndBatchCreate d es) s = ((rows es, Some e), s)"
    and "ns \<noteq> []"
  shows "run_state (nrBatchCreate (NewNotificationRepository d q c) ns) s
     = ((map (toDomain c) (rows (map (toEntity c) ns)), None), dec (getItems ns) (dec (getItems ns) s))"
  using assms
  by (simp add: NewNotificationRepository_def Let_def repo_BatchCreate_def repo_batchCreate_def
      mutiDecr_def mutiIncr_def)

theorem BatchCreate_swallows_error_witness:
  "run_state (nrBatchCreate (NewNotificationRepository
      (rejecting_dao\<lparr>ndBatchCreate := \<lambda>es. io_return (es, Some (Err ErrNotificationDuplicate))\<rparr>)
      ((NewQuotaCache mem_redis)\<lparr>qcMutiDecr := \<lambda>_. io_return None\<rparr>) test_codec) [zero_Notification]) (\<lambda>_. 5)
   = (([toDomain test_codec (toEntity test_codec zero_Notification)], None), \<lambda>_. 5)"
  using BatchCreate_swallows_error [of "(NewQuotaCache mem_redis)\<lparr>qcMutiDecr := \<lambda>_. io_return None\<rparr>" "\<lambda>_ s. s"
    "rejecting_dao\<lparr>ndBatchCreate := \<lambda>es. io_return (es, Some (Err ErrNotificationDuplicate))\<rparr>" "\<lambda>es. es"
    "Err ErrNotificationDuplicate" "[zero_Notification]" test_codec "\<lambda>_. 5"]
  by simp

end
