(* ===== verification/Dao.thy ===== *)
theory Dao
  imports Interfaces
begin

text \<open>
  \<^verbatim>\<open>internal/repository/dao\<close>: the notification, call-back log, transaction and quota tables.
  The database library gorm is the parameter \<open>gorm\<close>, one function per call the code makes: a
  condition list stands for \<open>Where\<close>, an assignment list for \<open>Updates\<close>, and columns keep the names
  the code writes. \<open>Transaction\<close> takes the closure; the variables a closure assigns are its
  result (\<open>captured\<close>).
\<close>

section \<open>The database interface\<close>

datatype sql_val = SInt int64 | SStr string

datatype sql_cond =
    CEq string sql_val
  | CLe string int64
  | CGe string int64
  | CGt string int64
  | CIn string "sql_val list"

datatype sql_set = SetTo string sql_val | Increment string

datatype sql_table = Notifications | CallbackLogs | TxNotifications

datatype captured =
    CapNone
  | CapInt int64
  | CapNotification daoNotification
  | CapNotifications "daoNotification list"

record 's gorm =
  gNow :: "('s, gtime) io"
  gTransaction :: "('s, captured ret) io \<Rightarrow> ('s, captured ret) io"
  gUpdates :: "sql_table \<Rightarrow> sql_cond list \<Rightarrow> sql_set list \<Rightarrow> ('s, int64 ret) io"
  gCreateN :: "daoNotification \<Rightarrow> ('s, daoNotification ret) io"
  gCreateInBatchesN :: "daoNotification list \<Rightarrow> int64 \<Rightarrow> ('s, daoNotification list ret) io"
  gFirstN :: "sql_cond list \<Rightarrow> ('s, daoNotification ret) io"
  gFindN :: "sql_cond list \<Rightarrow> (int64 \<times> int64) option \<Rightarrow> ('s, daoNotification list ret) io"
  gSelectIdsN :: "sql_cond list \<Rightarrow> int64 \<Rightarrow> ('s, int64 list ret) io"
  gCreateC :: "daoCallbackLog list \<Rightarrow> ('s, gerr option) io"
  gFindC :: "sql_cond list \<Rightarrow> (string \<times> int64) option \<Rightarrow> ('s, daoCallbackLog list ret) io"
  gCreateT :: "daoTxNotification \<Rightarrow> ('s, int64 ret) io"
  gFirstT :: "sql_cond list \<Rightarrow> ('s, daoTxNotification ret) io"
  gFindT :: "sql_cond list \<Rightarrow> (int64 \<times> int64 \<times> string) option \<Rightarrow> ('s, daoTxNotification list ret) io"
  gExec :: "string \<Rightarrow> ('s, gerr option) io"
  gUpsertQuotas :: "daoQuota list \<Rightarrow> string list \<Rightarrow> ('s, gerr option) io"
  gFirstQ :: "sql_cond list \<Rightarrow> ('s, daoQuota ret) io"

definition ErrRecordNotFound :: gerr where
  "ErrRecordNotFound = Ext ''record not found''"

definition mysql_error :: "int \<Rightarrow> gerr" where
  "mysql_error n = Ext (''MySQL error '' @ FormatInt n)"

definition isUniqueConstraintError :: "gerr option \<Rightarrow> bool" where
  "isUniqueConstraintError err =
     (case err of None \<Rightarrow> False | Some e \<Rightarrow> errors_Is e (mysql_error 1062))"

section \<open>Notifications\<close>

definition dao_create :: "'s gorm \<Rightarrow> daoNotification \<Rightarrow> bool \<Rightarrow> ('s, daoNotification ret) io" where
  "dao_create g data0 createCallbackLog = do {
     t \<leftarrow> gNow g;
     let now = UnixMilli t;
     let data = data0\<lparr>dnCtime := now, dnUtime := now, dnVersion := 1\<rparr>;
     (cap, err) \<leftarrow> gTransaction g (do {
       (data', err) \<leftarrow> gCreateN g data;
       case err of
         Some e \<Rightarrow>
           io_return (CapNotification data',
             if isUniqueConstraintError err then Some (Wrap [Err ErrNotificationDuplicate]) else err)
       | None \<Rightarrow>
           if createCallbackLog then do {
             cerr \<leftarrow> gCreateC g [\<lparr>dcID = 0, dcNotificationID = dnID data', dcRetryCount = 0,
               dcNextRetryTime = now, dcStatus = CallbackLogStatusInit, dcCtime = 0, dcUtime = 0\<rparr>];
             io_return (CapNotification data',
               if cerr \<noteq> None then Some (Wrap [Err ErrCreateCallbackLogFailed]) else None)
           }
           else io_return (CapNotification data', None)
     });
     io_return ((case cap of CapNotification d \<Rightarrow> d | _ \<Rightarrow> data), err)
   }"

definition dao_batchCreate ::
  "'s gorm \<Rightarrow> daoNotification list \<Rightarrow> bool \<Rightarrow> ('s, daoNotification list ret) io" where
  "dao_batchCreate g dataList0 createCallbackLog =
     (if dataList0 = [] then io_return (dataList0, None)
      else do {
        t \<leftarrow> gNow g;
        let now = UnixMilli t;
        let dataList = map (\<lambda>d. d\<lparr>dnCtime := now, dnUtime := now, dnVersion := 1\<rparr>) dataList0;
        (cap, err) \<leftarrow> gTransaction g (do {
          (data', err) \<leftarrow> gCreateInBatchesN g dataList 100;
          case err of
            Some e \<Rightarrow>
              io_return (CapNotifications data',
                if isUniqueConstraintError err then Some (Wrap [Err ErrNotificationDuplicate]) else err)
          | None \<Rightarrow>
              if createCallbackLog then do {
                cerr \<leftarrow> gCreateC g (map (\<lambda>d. \<lparr>dcID = 0, dcNotificationID = dnID d, dcRetryCount = 0,
                  dcNextRetryTime = now, dcStatus = '''', dcCtime = now, dcUtime = now\<rparr>) data');
                io_return (CapNotifications data',
                  if cerr \<noteq> None then Some (Wrap [Err ErrCreateCallbackLogFailed]) else None)
              }
              else io_return (CapNotifications data', None)
        });
        io_return ((case cap of CapNotifications ds \<Rightarrow> ds | _ \<Rightarrow> dataList), err)
      })"

definition dao_GetByID :: "'s gorm \<Rightarrow> int64 \<Rightarrow> ('s, daoNotification ret) io" where
  "dao_GetByID g i = do {
     (n, err) \<leftarrow> gFirstN g [CEq ''id'' (SInt i)];
     io_return (case err of
         None \<Rightarrow> (n, None)
       | Some e \<Rightarrow>
           if errors_Is e ErrRecordNotFound
           then (zero_daoNotification, Some (Wrap [Err ErrNotificationNotFound]))
           else (zero_daoNotification, Some e))
   }"

definition dao_BatchGetByIDs ::
  "'s gorm \<Rightarrow> int64 list \<Rightarrow> ('s, (int64 \<Rightarrow> daoNotification option) ret) io" where
  "dao_BatchGetByIDs g ids = do {
     (ns, err) \<leftarrow> gFindN g [CIn ''id'' (map SInt ids)] None;
     io_return (foldl (\<lambda>m n. m(dnID n \<mapsto> n)) Map.empty ns, err)
   }"

definition dao_GetByKey :: "'s gorm \<Rightarrow> int64 \<Rightarrow> string \<Rightarrow> ('s, daoNotification ret) io" where
  "dao_GetByKey g bizID key = do {
     (n, err) \<leftarrow> gFirstN g [CEq ''biz_id'' (SInt bizID), CEq ''key'' (SStr key)];
     io_return (case err of
         None \<Rightarrow> (n, None)
       | Some e \<Rightarrow> (zero_daoNotification, Some (Wrap [e])))
   }"

definition dao_GetByKeys :: "'s gorm \<Rightarrow> int64 \<Rightarrow> string list \<Rightarrow> ('s, daoNotification list ret) io" where
  "dao_GetByKeys g bizID keys = do {
     (ns, err) \<leftarrow> gFindN g [CEq ''biz_id'' (SInt bizID), CIn ''key'' (map SStr keys)] None;
     io_return (case err of None \<Rightarrow> (ns, None) | Some e \<Rightarrow> (ns, Some (Wrap [e])))
   }"

definition status_updates :: "string \<Rightarrow> int64 \<Rightarrow> sql_set list" where
  "status_updates status now =
     [SetTo ''status'' (SStr status), Increment ''version'', SetTo ''utime'' (SInt now)]"

definition dao_CASStatus :: "'s gorm \<Rightarrow> daoNotification \<Rightarrow> ('s, gerr option) io" where
  "dao_CASStatus g n = do {
     t \<leftarrow> gNow g;
     (rowsAffected, err) \<leftarrow> gUpdates g Notifications
       [CEq ''id'' (SInt (dnID n)), CEq ''version'' (SInt (dnVersion n))]
       (status_updates (dnStatus n) (UnixMilli t));
     io_return (case err of
         Some e \<Rightarrow> Some e
       | None \<Rightarrow> if rowsAffected < 1 then Some (Wrap [Err ErrNotificationVersionMismatch]) else None)
   }"

definition dao_UpdateStatus :: "'s gorm \<Rightarrow> daoNotification \<Rightarrow> ('s, gerr option) io" where
  "dao_UpdateStatus g n = do {
     t \<leftarrow> gNow g;
     (_, err) \<leftarrow> gUpdates g Notifications [CEq ''id'' (SInt (dnID n))]
       (status_updates (dnStatus n) (UnixMilli t));
     io_return err
   }"

text \<open>The second statement of \<open>batchMarkSuccess\<close> is meant for the call-back logs, but is issued
  on the notifications.\<close>

definition dao_batchMarkSuccess :: "'s gorm \<Rightarrow> int64 list \<Rightarrow> ('s, gerr option) io" where
  "dao_batchMarkSuccess g successIDs = do {
     t \<leftarrow> gNow g;
     let now = UnixMilli t;
     (_, err) \<leftarrow> gUpdates g Notifications [CIn ''id'' (map SInt successIDs)]
       [Increment ''version'', SetTo ''utime'' (SInt now), SetTo ''status'' (SStr SendStatusSucceeded)];
     case err of
       Some e \<Rightarrow> io_return (Some e)
     | None \<Rightarrow> do {
         (_, err) \<leftarrow> gUpdates g Notifications [CIn ''notification_id'' (map SInt successIDs)]
           [SetTo ''status'' (SStr CallbackLogStatusPending), SetTo ''utime'' (SInt now)];
         io_return err
       }
   }"

text \<open>The closure of the batch update looks the failed notifications up among the successful
  ones.\<close>

definition dao_batchUpdate_tx :: "'s gorm \<Rightarrow> int64 list \<Rightarrow> int64 list \<Rightarrow> ('s, captured ret) io" where
  "dao_batchUpdate_tx g successIDs failedIDs = do {
     err \<leftarrow> (if successIDs \<noteq> [] then dao_batchMarkSuccess g successIDs else io_return None);
     case err of
       Some e \<Rightarrow> io_return (CapNone, Some e)
     | None \<Rightarrow>
         if failedIDs \<noteq> [] then do {
           t \<leftarrow> gNow g;
           (_, err) \<leftarrow> gUpdates g Notifications [CIn ''id'' (map SInt successIDs)]
             (status_updates SendStatusFailed (UnixMilli t));
           io_return (CapNone, err)
         }
         else io_return (CapNone, None)
   }"

definition dao_BatchUpdateStatusSucceedOrFailed ::
  "'s gorm \<Rightarrow> daoNotification list \<Rightarrow> daoNotification list \<Rightarrow> ('s, gerr option) io" where
  "dao_BatchUpdateStatusSucceedOrFailed g succeeded failed =
     (if succeeded = [] \<and> failed = [] then io_return None
      else let successIDs = map dnID succeeded; failedIDs = map dnID failed in do {
        (_, err) \<leftarrow> gTransaction g (dao_batchUpdate_tx g successIDs failedIDs);
        io_return err
      })"

definition dao_FindReadyNotifications ::
  "'s gorm \<Rightarrow> int64 \<Rightarrow> int64 \<Rightarrow> ('s, daoNotification list ret) io" where
  "dao_FindReadyNotifications g offset limit = do {
     t \<leftarrow> gNow g;
     let now = UnixMilli t;
     gFindN g [CLe ''scheduled_stime'' now, CGe ''scheduled_etime'' now,
       CEq ''status'' (SStr SendStatusPending)] (Some (limit, offset))
   }"

definition dao_MarkSuccess :: "'s gorm \<Rightarrow> daoNotification \<Rightarrow> ('s, gerr option) io" where
  "dao_MarkSuccess g n = do {
     t \<leftarrow> gNow g;
     let now = UnixMilli t;
     (_, err) \<leftarrow> gTransaction g (do {
       (_, err) \<leftarrow> gUpdates g Notifications [CEq ''id'' (SInt (dnID n))] (status_updates (dnStatus n) now);
       case err of
         Some e \<Rightarrow> io_return (CapNone, Some e)
       | None \<Rightarrow> do {
           (_, err) \<leftarrow> gUpdates g CallbackLogs [CEq ''notification_id'' (SInt (dnID n))]
             [SetTo ''status'' (SStr CallbackLogStatusPending), SetTo ''utime'' (SInt now)];
           io_return (CapNone, err)
         }
     });
     io_return err
   }"

definition dao_MarkFailed :: "'s gorm \<Rightarrow> daoNotification \<Rightarrow> ('s, gerr option) io" where
  "dao_MarkFailed g n = do {
     t \<leftarrow> gNow g;
     (_, err) \<leftarrow> gUpdates g Notifications [CEq ''id'' (SInt (dnID n))]
       (status_updates (dnStatus n) (UnixMilli t));
     io_return err
   }"

text \<open>The timeout job: the closure looks for pending notifications, and then updates call-back
  logs with the notifications' identifiers.\<close>

definition dao_markTimeout_tx :: "'s gorm \<Rightarrow> gtime \<Rightarrow> int64 \<Rightarrow> ('s, captured ret) io" where
  "dao_markTimeout_tx g now batchSize = do {
     (idsToUpdate, err) \<leftarrow> gSelectIdsN g
       [CEq ''status'' (SStr SendStatusPending), CLe ''utime'' (UnixMilli (now + - minute))] batchSize;
     if err \<noteq> None \<and> \<not> errors_Is (the err) ErrRecordNotFound then io_return (CapInt 0, err)
     else if idsToUpdate = [] then io_return (CapInt 0, None)
     else do {
       (affected, err) \<leftarrow> gUpdates g CallbackLogs [CIn ''id'' (map SInt idsToUpdate)]
         [SetTo ''status'' (SStr CallbackLogStatusFailed), Increment ''version'',
          SetTo ''utime'' (SInt (UnixMilli now))];
       io_return (CapInt affected, err)
     }
   }"

definition dao_MarkTimeoutSendingAsFailed :: "'s gorm \<Rightarrow> int64 \<Rightarrow> ('s, int64 ret) io" where
  "dao_MarkTimeoutSendingAsFailed g batchSize = do {
     now \<leftarrow> gNow g;
     (cap, err) \<leftarrow> gTransaction g (dao_markTimeout_tx g now batchSize);
     io_return ((case cap of CapInt rowsAffected \<Rightarrow> rowsAffected | _ \<Rightarrow> 0), err)
   }"

definition NewNotificationDAO :: "'s gorm \<Rightarrow> 's NotificationDAO" where
  "NewNotificationDAO g =
     \<lparr>ndCreate = \<lambda>d. dao_create g d False, ndCreateWithCallbackLog = \<lambda>d. dao_create g d True,
      ndBatchCreate = \<lambda>ds. dao_batchCreate g ds False,
      ndBatchCreateWithCallbackLog = \<lambda>ds. dao_batchCreate g ds True,
      ndGetByID = dao_GetByID g, ndBatchGetByIDs = dao_BatchGetByIDs g, ndGetByKey = dao_GetByKey g,
      ndGetByKeys = dao_GetByKeys g, ndCASStatus = dao_CASStatus g, ndUpdateStatus = dao_UpdateStatus g,
      ndBatchUpdateStatusSucceedOrFailed = dao_BatchUpdateStatusSucceedOrFailed g,
      ndFindReadyNotifications = dao_FindReadyNotifications g, ndMarkSuccess = dao_MarkSuccess g,
      ndMarkFailed = dao_MarkFailed g,
      ndMarkTimeoutSendingAsFailed = dao_MarkTimeoutSendingAsFailed g\<rparr>"

section \<open>Call-back logs\<close>

definition cb_Find ::
  "'s gorm \<Rightarrow> int64 \<Rightarrow> int64 \<Rightarrow> int64 \<Rightarrow> ('s, daoCallbackLog list \<times> int64 \<times> gerr option) io" where
  "cb_Find g startTime batchSize startID = do {
     (logs, err) \<leftarrow> gFindC g [CLe ''next_retry_time'' startTime,
       CEq ''status'' (SStr CallbackLogStatusPending), CGt ''id'' startID] (Some (''id ASC'', batchSize));
     io_return (case err of
         Some e \<Rightarrow> (logs, 0, Some e)
       | None \<Rightarrow> (logs, if logs \<noteq> [] then dcID (last logs) else 0, None))
   }"

definition cb_FindByNotificationIDs ::
  "'s gorm \<Rightarrow> int64 list \<Rightarrow> ('s, daoCallbackLog list ret) io" where
  "cb_FindByNotificationIDs g ids = gFindC g [CIn ''notification_id'' (map SInt ids)] None"

definition cb_Update :: "'s gorm \<Rightarrow> daoCallbackLog list \<Rightarrow> ('s, gerr option) io" where
  "cb_Update g logs =
     (if logs = [] then io_return None
      else do {
        t \<leftarrow> gNow g;
        let utime = UnixMilli t;
        (_, err) \<leftarrow> gTransaction g (do {
          e \<leftarrow> for_until (\<lambda>lg. do {
              (_, err) \<leftarrow> gUpdates g CallbackLogs [CEq ''id'' (SInt (dcID lg))]
                [SetTo ''retry_count'' (SInt (dcRetryCount lg)),
                 SetTo ''next_retry_time'' (SInt (dcNextRetryTime lg)),
                 SetTo ''status'' (SStr (dcStatus lg)), SetTo ''utime'' (SInt utime)];
              io_return err
            }) logs;
          io_return (CapNone, e)
        });
        io_return err
      })"

record 's CallbackLogDAO =
  cdFind :: "int64 \<Rightarrow> int64 \<Rightarrow> int64 \<Rightarrow> ('s, daoCallbackLog list \<times> int64 \<times> gerr option) io"
  cdFindByNotificationIDs :: "int64 list \<Rightarrow> ('s, daoCallbackLog list ret) io"
  cdUpdate :: "daoCallbackLog list \<Rightarrow> ('s, gerr option) io"

definition NewCallbackLogDAO :: "'s gorm \<Rightarrow> 's CallbackLogDAO" where
  "NewCallbackLogDAO g =
     \<lparr>cdFind = cb_Find g, cdFindByNotificationIDs = cb_FindByNotificationIDs g, cdUpdate = cb_Update g\<rparr>"

section \<open>Transactions\<close>

definition ErrUpdateStatusFailed :: gerr where
  "ErrUpdateStatusFailed = Ext ''update status failed''"

text \<open>\<open>FindCheckBack\<close> calls \<open>Find\<close> before the offset, limit and order are set, and once more
  after; the second call fills the same slice again.\<close>

definition tx_FindCheckBack :: "'s gorm \<Rightarrow> int64 \<Rightarrow> int64 \<Rightarrow> ('s, daoTxNotification list ret) io" where
  "tx_FindCheckBack g offset limit = do {
     t \<leftarrow> gNow g;
     let conds = [CEq ''status'' (SStr TxNotificationStatusPrepare),
                  CLe ''next_check_time'' (UnixMilli t), CGt ''next_check_time'' 0];
     _ \<leftarrow> gFindT g conds None;
     gFindT g conds (Some (offset, limit, ''next_check_time''))
   }"

text \<open>The statement texts are put together with \<^verbatim>\<open>fmt.Sprintf\<close>: the strings are inserted as
  they are, without quotes.\<close>

definition check_status_sql :: "int64 \<Rightarrow> daoTxNotification \<Rightarrow> string" where
  "check_status_sql now t =
     ''UPDATE `tx_notifications` set `status` = '' @ dtStatus t
     @ '', `utime` = '' @ FormatInt now
     @ '', `next_check_time` = '' @ FormatInt (dtNextCheckTime t)
     @ '', `check_count` = '' @ FormatInt (dtCheckCount t)
     @ '' WHERE `key` ='' @ dtKey t
     @ '' AND `biz_id` = '' @ FormatInt (dtBizID t)
     @ '' AND `status` = ''
     @ [CHR 0x27] @ ''PREPARE'' @ [CHR 0x27]"

fun join_with :: "string \<Rightarrow> string list \<Rightarrow> string" where
  "join_with sep [] = ''''"
| "join_with sep [s] = s"
| "join_with sep (s # t # ss) = s @ sep @ join_with sep (t # ss)"

definition tx_UpdateCheckStatus ::
  "'s gorm \<Rightarrow> daoTxNotification list \<Rightarrow> SendStatus \<Rightarrow> ('s, gerr option) io" where
  "tx_UpdateCheckStatus g txns status = do {
     t \<leftarrow> gNow g;
     let sqls = map (check_status_sql (UnixMilli t)) txns;
     let notificationIDs = map dtNotificationID txns;
     if sqls \<noteq> [] then do {
       (_, err) \<leftarrow> gTransaction g (do {
         err \<leftarrow> gExec g (join_with ''; '' sqls);
         case err of
           Some e \<Rightarrow> io_return (CapNone, Some e)
         | None \<Rightarrow>
             if status \<noteq> SendStatusPrepare then do {
               (_, err) \<leftarrow> gUpdates g Notifications [CIn ''id'' (map SInt notificationIDs)]
                 [SetTo ''status'' (SStr status)];
               io_return (CapNone, err)
             }
             else io_return (CapNone, None)
       });
       io_return err
     }
     else io_return None
   }"

definition tx_First :: "'s gorm \<Rightarrow> int64 \<Rightarrow> ('s, daoTxNotification ret) io" where
  "tx_First g txID = gFirstT g [CEq ''tx_id'' (SInt txID)]"

definition tx_BatchGetTXNotification ::
  "'s gorm \<Rightarrow> int64 list \<Rightarrow> ('s, (int64 \<Rightarrow> daoTxNotification option) ret) io" where
  "tx_BatchGetTXNotification g txIDs = do {
     (txns, err) \<leftarrow> gFindT g [CIn ''tx_id'' (map SInt txIDs)] None;
     io_return (case err of
         Some e \<Rightarrow> (Map.empty, Some e)
       | None \<Rightarrow> (foldl (\<lambda>m t. m(dtTxID t \<mapsto> t)) Map.empty txns, None))
   }"

definition tx_GetByBizIDKey :: "'s gorm \<Rightarrow> int64 \<Rightarrow> string \<Rightarrow> ('s, daoTxNotification ret) io" where
  "tx_GetByBizIDKey g bizID key =
     gFirstT g [CEq ''biz_id'' (SInt bizID), CEq ''key'' (SStr key)]"

definition tx_UpdateNotificationID ::
  "'s gorm \<Rightarrow> int64 \<Rightarrow> string \<Rightarrow> int64 \<Rightarrow> ('s, gerr option) io" where
  "tx_UpdateNotificationID g bizID key notificationID = do {
     (_, err) \<leftarrow> gUpdates g TxNotifications [CEq ''biz_id'' (SInt bizID), CEq ''key'' (SStr key)]
       [SetTo ''notification_id'' (SInt notificationID)];
     io_return err
   }"

text \<open>\<open>Prepare\<close> creates the transaction row (ignoring conflicts) and, where the notification's
  row should follow, creates the transaction row again.\<close>

definition tx_prepare_tx ::
  "'s gorm \<Rightarrow> daoTxNotification \<Rightarrow> daoNotification \<Rightarrow> ('s, captured ret) io" where
  "tx_prepare_tx g txn n = do {
     (rowsAffected, err) \<leftarrow> gCreateT g txn;
     case err of
       Some e \<Rightarrow> io_return (CapInt 0, Some e)
     | None \<Rightarrow>
         if rowsAffected = 0 then io_return (CapInt (dnID n), None)
         else do {
           (_, err) \<leftarrow> gCreateT g (txn\<lparr>dtNotificationID := dnID n\<rparr>);
           io_return (CapInt (dnID n), err)
         }
   }"

definition tx_Prepare ::
  "'s gorm \<Rightarrow> daoTxNotification \<Rightarrow> daoNotification \<Rightarrow> ('s, int64 ret) io" where
  "tx_Prepare g txn0 n0 = do {
     t \<leftarrow> gNow g;
     let now = UnixMilli t;
     let txn = txn0\<lparr>dtCtime := now, dtUtime := now\<rparr>;
     let n = n0\<lparr>dnCtime := now, dnUtime := now\<rparr>;
     (cap, err) \<leftarrow> gTransaction g (tx_prepare_tx g txn n);
     io_return ((case cap of CapInt i \<Rightarrow> i | _ \<Rightarrow> 0), err)
   }"

definition tx_updateStatus_tx ::
  "'s gorm \<Rightarrow> int64 \<Rightarrow> string \<Rightarrow> TxNotificationStatus \<Rightarrow> SendStatus \<Rightarrow> ('s, captured ret) io" where
  "tx_updateStatus_tx g bizID key status notificationStatus = do {
     (rowsAffected, err) \<leftarrow> gUpdates g TxNotifications
       [CEq ''biz_id'' (SInt bizID), CEq ''key'' (SStr key), CEq ''status'' (SStr ''PREPARE'')]
       [SetTo ''status'' (SStr status)];
     case err of
       Some e \<Rightarrow> io_return (CapNone, Some e)
     | None \<Rightarrow>
         if rowsAffected = 0 then io_return (CapNone, Some ErrUpdateStatusFailed)
         else do {
           (_, err) \<leftarrow> gUpdates g Notifications [CEq ''biz_id'' (SInt bizID), CEq ''key'' (SStr key)]
             [SetTo ''status'' (SStr notificationStatus)];
           io_return (CapNone, err)
         }
   }"

definition tx_UpdateStatus ::
  "'s gorm \<Rightarrow> int64 \<Rightarrow> string \<Rightarrow> TxNotificationStatus \<Rightarrow> SendStatus \<Rightarrow> ('s, gerr option) io" where
  "tx_UpdateStatus g bizID key status notificationStatus = do {
     (_, err) \<leftarrow> gTransaction g (tx_updateStatus_tx g bizID key status notificationStatus);
     io_return err
   }"

record 's TxNotificationDAO =
  tdFindCheckBack :: "int64 \<Rightarrow> int64 \<Rightarrow> ('s, daoTxNotification list ret) io"
  tdUpdateCheckStatus :: "daoTxNotification list \<Rightarrow> SendStatus \<Rightarrow> ('s, gerr option) io"
  tdPrepare :: "daoTxNotification \<Rightarrow> daoNotification \<Rightarrow> ('s, int64 ret) io"
  tdUpdateStatus ::
    "int64 \<Rightarrow> string \<Rightarrow> TxNotificationStatus \<Rightarrow> SendStatus \<Rightarrow> ('s, gerr option) io"

definition NewTxNotificationDAO :: "'s gorm \<Rightarrow> 's TxNotificationDAO" where
  "NewTxNotificationDAO g =
     \<lparr>tdFindCheckBack = tx_FindCheckBack g, tdUpdateCheckStatus = tx_UpdateCheckStatus g,
      tdPrepare = tx_Prepare g, tdUpdateStatus = tx_UpdateStatus g\<rparr>"

section \<open>Quotas\<close>

definition qd_CreateOrUpdate :: "'s gorm \<Rightarrow> daoQuota list \<Rightarrow> ('s, gerr option) io" where
  "qd_CreateOrUpdate g quotas = do {
     t \<leftarrow> gNow g;
     let now = UnixMilli t;
     gUpsertQuotas g (map (\<lambda>q. q\<lparr>dqCtime := now, dqUtime := now\<rparr>) quotas) [''quota'', ''utime'']
   }"

text \<open>\<open>Find\<close> drops every error except that of a missing row.\<close>

definition qd_Find :: "'s gorm \<Rightarrow> int64 \<Rightarrow> string \<Rightarrow> ('s, daoQuota ret) io" where
  "qd_Find g bizID channel = do {
     (q, err) \<leftarrow> gFirstQ g [CEq ''biz_id'' (SInt bizID), CEq ''channel'' (SStr channel)];
     io_return (case err of
         Some e \<Rightarrow> if errors_Is e ErrRecordNotFound then (q, Some (Wrap [Err ErrQuotaNotFound])) else (q, None)
       | None \<Rightarrow> (q, None))
   }"

section \<open>What the statements mean\<close>

text \<open>The tables as the statements of this component see them: the columns they name, and what
  \<open>UPDATE\<close> does to the rows that satisfy all conditions. A column a table does not have is an
  error, and nothing is changed.\<close>

record tables =
  tbN :: "daoNotification list"
  tbC :: "daoCallbackLog list"
  tbT :: "daoTxNotification list"

definition n_col :: "string \<Rightarrow> daoNotification \<Rightarrow> sql_val option" where
  "n_col c r =
     (if c = ''id'' then Some (SInt (dnID r)) else if c = ''biz_id'' then Some (SInt (dnBizID r))
      else if c = ''key'' then Some (SStr (dnKey r)) else if c = ''status'' then Some (SStr (dnStatus r))
      else if c = ''version'' then Some (SInt (dnVersion r))
      else if c = ''utime'' then Some (SInt (dnUtime r)) else None)"

definition c_col :: "string \<Rightarrow> daoCallbackLog \<Rightarrow> sql_val option" where
  "c_col c r =
     (if c = ''id'' then Some (SInt (dcID r))
      else if c = ''notification_id'' then Some (SInt (dcNotificationID r))
      else if c = ''retry_count'' then Some (SInt (dcRetryCount r))
      else if c = ''next_retry_time'' then Some (SInt (dcNextRetryTime r))
      else if c = ''status'' then Some (SStr (dcStatus r))
      else if c = ''utime'' then Some (SInt (dcUtime r)) else None)"

definition t_col :: "string \<Rightarrow> daoTxNotification \<Rightarrow> sql_val option" where
  "t_col c r =
     (if c = ''tx_id'' then Some (SInt (dtTxID r)) else if c = ''biz_id'' then Some (SInt (dtBizID r))
      else if c = ''key'' then Some (SStr (dtKey r)) else if c = ''status'' then Some (SStr (dtStatus r))
      else if c = ''notification_id'' then Some (SInt (dtNotificationID r))
      else if c = ''next_check_time'' then Some (SInt (dtNextCheckTime r))
      else if c = ''utime'' then Some (SInt (dtUtime r)) else None)"

text \<open>A column's value for a row, in a table given by its column function; \<open>None\<close> if unknown.\<close>

fun cond_col :: "sql_cond \<Rightarrow> string" where
  "cond_col (CEq c v) = c" | "cond_col (CLe c v) = c" | "cond_col (CGe c v) = c"
| "cond_col (CGt c v) = c" | "cond_col (CIn c vs) = c"

fun set_col :: "sql_set \<Rightarrow> string" where
  "set_col (SetTo c v) = c" | "set_col (Increment c) = c"

fun cond_holds :: "sql_val option \<Rightarrow> sql_cond \<Rightarrow> bool" where
  "cond_holds (Some v) (CEq c w) = (v = w)"
| "cond_holds (Some (SInt i)) (CLe c j) = (i \<le> j)"
| "cond_holds (Some (SInt i)) (CGe c j) = (j \<le> i)"
| "cond_holds (Some (SInt i)) (CGt c j) = (j < i)"
| "cond_holds (Some v) (CIn c ws) = (v \<in> set ws)"
| "cond_holds _ _ = False"

definition row_matches :: "(string \<Rightarrow> 'r \<Rightarrow> sql_val option) \<Rightarrow> sql_cond list \<Rightarrow> 'r \<Rightarrow> bool" where
  "row_matches col conds r = list_all (\<lambda>c. cond_holds (col (cond_col c) r) c) conds"

fun n_set :: "sql_set \<Rightarrow> daoNotification \<Rightarrow> daoNotification" where
  "n_set (SetTo c (SStr v)) r = (if c = ''status'' then r\<lparr>dnStatus := v\<rparr> else r)"
| "n_set (SetTo c (SInt v)) r = (if c = ''utime'' then r\<lparr>dnUtime := v\<rparr> else r)"
| "n_set (Increment c) r = (if c = ''version'' then r\<lparr>dnVersion := dnVersion r + 1\<rparr> else r)"

fun c_set :: "sql_set \<Rightarrow> daoCallbackLog \<Rightarrow> daoCallbackLog" where
  "c_set (SetTo c (SStr v)) r = (if c = ''status'' then r\<lparr>dcStatus := v\<rparr> else r)"
| "c_set (SetTo c (SInt v)) r =
     (if c = ''utime'' then r\<lparr>dcUtime := v\<rparr> else if c = ''retry_count'' then r\<lparr>dcRetryCount := v\<rparr>
      else if c = ''next_retry_time'' then r\<lparr>dcNextRetryTime := v\<rparr> else r)"
| "c_set (Increment c) r = r"

fun t_set :: "sql_set \<Rightarrow> daoTxNotification \<Rightarrow> daoTxNotification" where
  "t_set (SetTo c (SStr v)) r = (if c = ''status'' then r\<lparr>dtStatus := v\<rparr> else r)"
| "t_set (SetTo c (SInt v)) r = (if c = ''notification_id'' then r\<lparr>dtNotificationID := v\<rparr> else r)"
| "t_set (Increment c) r = r"

definition n_columns :: "string list" where
  "n_columns = [''id'', ''biz_id'', ''key'', ''status'', ''version'', ''utime'']"
definition c_columns :: "string list" where
  "c_columns = [''id'', ''notification_id'', ''retry_count'', ''next_retry_time'', ''status'', ''utime'']"
definition t_columns :: "string list" where
  "t_columns = [''tx_id'', ''biz_id'', ''key'', ''status'', ''notification_id'', ''next_check_time'', ''utime'']"

definition update_rows ::
  "string list \<Rightarrow> (string \<Rightarrow> 'r \<Rightarrow> sql_val option) \<Rightarrow> (sql_set \<Rightarrow> 'r \<Rightarrow> 'r) \<Rightarrow> sql_cond list
     \<Rightarrow> sql_set list \<Rightarrow> 'r list \<Rightarrow> (int64 \<times> 'r list) option" where
  "update_rows columns col asg conds sets rows =
     (if list_all (\<lambda>c. c \<in> set columns) (map cond_col conds @ map set_col sets)
      then Some (int (length (filter (row_matches col conds) rows)),
                 map (\<lambda>r. if row_matches col conds r then fold asg sets r else r) rows)
      else None)"

definition sql_update ::
  "sql_table \<Rightarrow> sql_cond list \<Rightarrow> sql_set list \<Rightarrow> tables \<Rightarrow> (int64 \<times> tables) option" where
  "sql_update table conds sets tb =
     (case table of
        Notifications \<Rightarrow> map_option (\<lambda>(k, rows). (k, tb\<lparr>tbN := rows\<rparr>))
          (update_rows n_columns n_col n_set conds sets (tbN tb))
      | CallbackLogs \<Rightarrow> map_option (\<lambda>(k, rows). (k, tb\<lparr>tbC := rows\<rparr>))
          (update_rows c_columns c_col c_set conds sets (tbC tb))
      | TxNotifications \<Rightarrow> map_option (\<lambda>(k, rows). (k, tb\<lparr>tbT := rows\<rparr>))
          (update_rows t_columns t_col t_set conds sets (tbT tb)))"

text \<open>What the code relies on, for a database without failures of its own: updates as above; a
  transaction commits when its closure returns no error and otherwise undoes what it did; the
  clock and the queries change nothing; creating a transaction row leaves the other tables
  alone. \<open>view\<close> reads the tables in the world.\<close>

definition updates_law :: "'s gorm \<Rightarrow> ('s \<Rightarrow> tables) \<Rightarrow> bool" where
  "updates_law g view \<longleftrightarrow> (\<forall>table conds sets s.
     (case sql_update table conds sets (view s) of
        Some (k, tb) \<Rightarrow> \<exists>s'. run_state (gUpdates g table conds sets) s = ((k, None), s') \<and> view s' = tb
      | None \<Rightarrow> \<exists>e s'. run_state (gUpdates g table conds sets) s = ((0, Some e), s') \<and> view s' = view s))"

definition transaction_law :: "'s gorm \<Rightarrow> ('s \<Rightarrow> tables) \<Rightarrow> bool" where
  "transaction_law g view \<longleftrightarrow> (\<forall>body s x e s1. run_state body s = ((x, e), s1) \<longrightarrow>
     (\<exists>s'. run_state (gTransaction g body) s = ((x, e), s')
        \<and> view s' = (if e = None then view s1 else view s)))"

definition frame_law :: "'s gorm \<Rightarrow> ('s \<Rightarrow> tables) \<Rightarrow> bool" where
  "frame_law g view \<longleftrightarrow> (\<forall>s. view (snd (run_state (gNow g) s)) = view s)
     \<and> (\<forall>conds k s. view (snd (run_state (gSelectIdsN g conds k) s)) = view s)
     \<and> (\<forall>t s. \<exists>ts. view (snd (run_state (gCreateT g t) s)) = (view s)\<lparr>tbT := ts\<rparr>)"

definition sql_engine :: "'s gorm \<Rightarrow> ('s \<Rightarrow> tables) \<Rightarrow> bool" where
  "sql_engine g view \<longleftrightarrow> updates_law g view \<and> transaction_law g view \<and> frame_law g view"

end
