(* ===== verification/DaoFacts.thy ===== *)
theory DaoFacts
  imports Dao
begin

text \<open>
  What the statements of \<open>Dao\<close> do to the tables, over any database that satisfies
  \<open>sql_engine\<close>; and a database in memory that does.
\<close>

section \<open>A database in memory\<close>

definition mem_updates :: "sql_table \<Rightarrow> sql_cond list \<Rightarrow> sql_set list \<Rightarrow> (tables, int64 ret) io" where
  "mem_updates table conds sets = State (\<lambda>tb.
     case sql_update table conds sets tb of
       Some (k, tb') \<Rightarrow> ((k, None), tb')
     | None \<Rightarrow> ((0, Some (Ext ''unknown column'')), tb))"

definition mem_transaction :: "(tables, captured ret) io \<Rightarrow> (tables, captured ret) io" where
  "mem_transaction body = State (\<lambda>tb.
     let ((x, e), tb') = run_state body tb in ((x, e), if e = None then tb' else tb))"

definition mem_gorm :: "tables gorm" where
  "mem_gorm =
     \<lparr>gNow = io_return (time_UnixMilli 1735689600000), gTransaction = mem_transaction,
      gUpdates = mem_updates,
      gCreateN = \<lambda>d. State (\<lambda>tb. ((d, None), tb\<lparr>tbN := tbN tb @ [d]\<rparr>)),
      gCreateInBatchesN = \<lambda>ds _. State (\<lambda>tb. ((ds, None), tb\<lparr>tbN := tbN tb @ ds\<rparr>)),
      gFirstN = \<lambda>conds. State (\<lambda>tb. (case filter (row_matches n_col conds) (tbN tb) of
          [] \<Rightarrow> (zero_daoNotification, Some ErrRecordNotFound) | r # _ \<Rightarrow> (r, None), tb)),
      gFindN = \<lambda>conds _. State (\<lambda>tb. ((filter (row_matches n_col conds) (tbN tb), None), tb)),
      gSelectIdsN = \<lambda>conds k. State (\<lambda>tb.
          ((map dnID (take (nat k) (filter (row_matches n_col conds) (tbN tb))), None), tb)),
      gCreateC = \<lambda>cs. State (\<lambda>tb. (None, tb\<lparr>tbC := tbC tb @ cs\<rparr>)),
      gFindC = \<lambda>conds _. State (\<lambda>tb. ((filter (row_matches c_col conds) (tbC tb), None), tb)),
      gCreateT = \<lambda>t. State (\<lambda>tb. ((1, None), tb\<lparr>tbT := tbT tb @ [t]\<rparr>)),
      gFirstT = \<lambda>_. io_return (\<lparr>dtTxID = 0, dtKey = '''', dtNotificationID = 0, dtBizID = 0,
          dtStatus = '''', dtCheckCount = 0, dtNextCheckTime = 0, dtCtime = 0, dtUtime = 0\<rparr>,
          Some ErrRecordNotFound),
      gFindT = \<lambda>conds _. State (\<lambda>tb. ((filter (row_matches t_col conds) (tbT tb), None), tb)),
      gExec = \<lambda>_. io_return (Some (mysql_error 1064)),
      gUpsertQuotas = \<lambda>_ _. io_return None,
      gFirstQ = \<lambda>_. io_return (\<lparr>dqID = 0, dqBizID = 0, dqChannel = '''', dqQuota = 0, dqUtime = 0,
          dqCtime = 0\<rparr>, Some ErrRecordNotFound)\<rparr>"

lemma mem_gorm_engine: "sql_engine mem_gorm (\<lambda>tb. tb)"
proof -
  have "updates_law mem_gorm (\<lambda>tb. tb)"
    by (auto simp: updates_law_def mem_gorm_def mem_updates_def split: option.split)
  moreover have "transaction_law mem_gorm (\<lambda>tb. tb)"
    by (simp add: transaction_law_def mem_gorm_def mem_transaction_def)
  moreover have "\<exists>ts. tb\<lparr>tbT := tbT tb @ [t]\<rparr> = tb\<lparr>tbT := ts\<rparr>" for tb t by blast
  then have "frame_law mem_gorm (\<lambda>tb. tb)"
    unfolding frame_law_def by (simp add: mem_gorm_def) blast
  ultimately show ?thesis by (simp add: sql_engine_def)
qed

section \<open>Single statements\<close>

lemma run_updates:
  assumes "sql_engine g view"
  obtains (ok) k tb s' where "sql_update table conds sets (view s) = Some (k, tb)"
      "run_state (gUpdates g table conds sets) s = ((k, None), s')" "view s' = tb"
    | (bad) e s' where "sql_update table conds sets (view s) = None"
      "run_state (gUpdates g table conds sets) s = ((0, Some e), s')" "view s' = view s"
proof -
  from assms have "updates_law g view" by (simp add: sql_engine_def)
  then have law: "case sql_update table conds sets (view s) of
        Some (k, tb) \<Rightarrow> \<exists>s'. run_state (gUpdates g table conds sets) s = ((k, None), s') \<and> view s' = tb
      | None \<Rightarrow> \<exists>e s'. run_state (gUpdates g table conds sets) s = ((0, Some e), s') \<and> view s' = view s"
    unfolding updates_law_def by blast
  show ?thesis
  proof (cases "sql_update table conds sets (view s)")
    case None
    with law bad show ?thesis by auto
  next
    case (Some p)
    with law ok show ?thesis by (cases p) auto
  qed
qed

lemma run_now:
  assumes "sql_engine g view"
  obtains t s' where "run_state (gNow g) s = (t, s')" "view s' = view s"
  using assms unfolding sql_engine_def frame_law_def by (metis prod.collapse)

lemma run_transaction:
  assumes "sql_engine g view" "run_state body s = ((x, e), s1)"
  obtains s' where "run_state (gTransaction g body) s = ((x, e), s')"
    "view s' = (if e = None then view s1 else view s)"
  using assms unfolding sql_engine_def transaction_law_def by blast

lemma columns_known [simp]:
  "c \<in> set n_columns \<longleftrightarrow> c \<in> {''id'', ''biz_id'', ''key'', ''status'', ''version'', ''utime''}"
  "c \<in> set c_columns \<longleftrightarrow> c \<in> {''id'', ''notification_id'', ''retry_count'', ''next_retry_time'',
     ''status'', ''utime''}"
  by (auto simp: n_columns_def c_columns_def)

text \<open>The status update all single-row operations share.\<close>

definition set_status :: "string \<Rightarrow> int64 \<Rightarrow> daoNotification \<Rightarrow> daoNotification" where
  "set_status status now r = r\<lparr>dnStatus := status, dnVersion := dnVersion r + 1, dnUtime := now\<rparr>"

lemma fold_status: "fold n_set (status_updates status now) r = set_status status now r"
  by (simp add: status_updates_def set_status_def)

lemma set_status_simps [simp]:
  "dnID (set_status st t r) = dnID r" "dnVersion (set_status st t r) = dnVersion r + 1"
  "dnStatus (set_status st t r) = st" "dnBizID (set_status st t r) = dnBizID r"
  "dnKey (set_status st t r) = dnKey r"
  by (simp_all add: set_status_def)

lemma matches_id: "row_matches n_col [CEq ''id'' (SInt i)] = (\<lambda>r. dnID r = i)"
  by (rule ext) (auto simp: row_matches_def n_col_def)

lemma matches_id_version:
  "row_matches n_col [CEq ''id'' (SInt i), CEq ''version'' (SInt v)]
     = (\<lambda>r. dnID r = i \<and> dnVersion r = v)"
  by (rule ext) (auto simp: row_matches_def n_col_def)

lemma update_id_version:
  "sql_update Notifications [CEq ''id'' (SInt i), CEq ''version'' (SInt v)] (status_updates st now) tb
     = Some (int (length (filter (\<lambda>r. dnID r = i \<and> dnVersion r = v) (tbN tb))),
        tb\<lparr>tbN := map (\<lambda>r. if dnID r = i \<and> dnVersion r = v then set_status st now r else r) (tbN tb)\<rparr>)"
  by (simp add: sql_update_def update_rows_def matches_id_version fold_status)
    (simp add: status_updates_def)

section \<open>Optimistic locking\<close>

lemma CASStatus_run:
  assumes "sql_engine g view"
  defines "hit \<equiv> \<lambda>n r. dnID r = dnID n \<and> dnVersion r = dnVersion n"
  shows "\<exists>now s'. run_state (dao_CASStatus g n) s
      = (if \<exists>r \<in> set (tbN (view s)). hit n r then None
         else Some (Wrap [Err ErrNotificationVersionMismatch]), s')
    \<and> view s' = (view s)\<lparr>tbN := map (\<lambda>r. if hit n r then set_status (dnStatus n) now r else r)
                          (tbN (view s))\<rparr>"
proof -
  obtain t s1 where t: "run_state (gNow g) s = (t, s1)" "view s1 = view s"
    using run_now [OF assms(1)] .
  let ?c = "[CEq ''id'' (SInt (dnID n)), CEq ''version'' (SInt (dnVersion n))]"
  let ?u = "status_updates (dnStatus n) (UnixMilli t)"
  have "int (length (filter (hit n) rs)) < 1 \<longleftrightarrow> \<not> (\<exists>r \<in> set rs. hit n r)" for rs
    by (auto simp: filter_empty_conv)
  note count = this [unfolded hit_def]
  from assms(1) show ?thesis
  proof (cases rule: run_updates [of g view Notifications ?c ?u s1])
    case (ok k tb s')
    have "run_state (dao_CASStatus g n) s
      = (if \<exists>r \<in> set (tbN (view s)). hit n r then None
         else Some (Wrap [Err ErrNotificationVersionMismatch]), s')"
      using ok t count by (auto simp: dao_CASStatus_def update_id_version hit_def)
    moreover have "view s' = (view s)\<lparr>tbN := map (\<lambda>r. if hit n r
        then set_status (dnStatus n) (UnixMilli t) r else r) (tbN (view s))\<rparr>"
      using ok t by (simp add: update_id_version hit_def)
    ultimately show ?thesis by blast
  next
    case (bad e s')
    then show ?thesis by (simp add: update_id_version)
  qed
qed

text \<open>C2. Optimistic locking: the update succeeds exactly when a row with the identifier and
  version exists; then that version is gone, so of two writers that read the same version at
  most one succeeds, and the other is told so.\<close>

theorem CASStatus_once:
  assumes "sql_engine g view" "run_state (dao_CASStatus g n) s = (r, s1)"
    and "dnID n' = dnID n" "dnVersion n' = dnVersion n"
  shows "(r = None \<longleftrightarrow> (\<exists>d \<in> set (tbN (view s)). dnID d = dnID n \<and> dnVersion d = dnVersion n))
       \<and> fst (run_state (dao_CASStatus g n') s1) = Some (Wrap [Err ErrNotificationVersionMismatch])"
proof -
  obtain now s2 where run: "run_state (dao_CASStatus g n) s
      = (if \<exists>d \<in> set (tbN (view s)). dnID d = dnID n \<and> dnVersion d = dnVersion n
         then None else Some (Wrap [Err ErrNotificationVersionMismatch]), s2)"
    "view s2 = (view s)\<lparr>tbN := map (\<lambda>d. if dnID d = dnID n \<and> dnVersion d = dnVersion n
        then set_status (dnStatus n) now d else d) (tbN (view s))\<rparr>"
    using CASStatus_run [OF assms(1), of n s] by blast
  with assms(2) have now: "r = (if \<exists>d \<in> set (tbN (view s)). dnID d = dnID n \<and> dnVersion d = dnVersion n
      then None else Some (Wrap [Err ErrNotificationVersionMismatch]))"
    "tbN (view s1) = map (\<lambda>d. if dnID d = dnID n \<and> dnVersion d = dnVersion n
        then set_status (dnStatus n) now d else d) (tbN (view s))"
    by simp_all
  have "\<not> (\<exists>d \<in> set (tbN (view s1)). dnID d = dnID n' \<and> dnVersion d = dnVersion n')"
    using assms(3,4) by (auto simp: now(2))
  with CASStatus_run [OF assms(1), of n' s1] now(1) show ?thesis by auto
qed

theorem CASStatus_once_witness:
  "let n = zero_daoNotification\<lparr>dnID := 5, dnVersion := 1, dnStatus := SendStatusSending\<rparr>;
       s = \<lparr>tbN = [zero_daoNotification\<lparr>dnID := 5, dnVersion := 1\<rparr>], tbC = [], tbT = []\<rparr>;
       (r, s1) = run_state (dao_CASStatus mem_gorm n) s
   in r = None \<and> fst (run_state (dao_CASStatus mem_gorm n) s1)
        = Some (Wrap [Err ErrNotificationVersionMismatch])"
proof -
  let ?n = "zero_daoNotification\<lparr>dnID := 5, dnVersion := 1, dnStatus := SendStatusSending\<rparr>"
  let ?s = "\<lparr>tbN = [zero_daoNotification\<lparr>dnID := 5, dnVersion := 1\<rparr>], tbC = [], tbT = []\<rparr>"
  obtain r s1 where "run_state (dao_CASStatus mem_gorm ?n) ?s = (r, s1)" by force
  from CASStatus_once [OF mem_gorm_engine this refl refl] this show ?thesis
    by (simp add: Let_def)
qed

section \<open>Updates that do not happen\<close>

lemma update_unknown:
  "sql_update Notifications [CIn ''notification_id'' vs] sets tb = None"
  "sql_update CallbackLogs conds [x, Increment ''version'', y] tb = None"
  by (simp_all add: sql_update_def update_rows_def)

lemma update_none:
  "sql_update Notifications [CIn ''id'' []] (status_updates st now) tb = Some (0, tb)"
proof -
  have "row_matches n_col [CIn ''id'' []] r = False" for r
    by (simp add: row_matches_def n_col_def)
  then show ?thesis
    by (simp add: sql_update_def update_rows_def) (simp add: status_updates_def)
qed

lemma batchMarkSuccess_fails:
  assumes "sql_engine g view"
  obtains e s' where "run_state (dao_batchMarkSuccess g ids) s = (Some e, s')"
proof -
  obtain t s1 where t: "run_state (gNow g) s = (t, s1)" "view s1 = view s"
    using run_now [OF assms] .
  let ?u = "[Increment ''version'', SetTo ''utime'' (SInt (UnixMilli t)),
    SetTo ''status'' (SStr SendStatusSucceeded)]"
  let ?v = "[SetTo ''status'' (SStr CallbackLogStatusPending), SetTo ''utime'' (SInt (UnixMilli t))]"
  from assms show ?thesis
  proof (cases rule: run_updates [of g view Notifications "[CIn ''id'' (map SInt ids)]" ?u s1])
    case (ok k tb s2)
    from assms show ?thesis
    proof (cases rule: run_updates
        [of g view Notifications "[CIn ''notification_id'' (map SInt ids)]" ?v s2])
      case (ok k tb s')
      then show ?thesis by (simp add: update_unknown)
    next
      case (bad e s')
      with t ok that show ?thesis by (simp add: dao_batchMarkSuccess_def Let_def)
    qed
  next
    case (bad e s')
    with t that show ?thesis by (simp add: dao_batchMarkSuccess_def Let_def)
  qed
qed

lemma BatchUpdate_unchanged:
  assumes "sql_engine g view"
    and "run_state (dao_BatchUpdateStatusSucceedOrFailed g succeeded failed) s = (r, s')"
  shows "view s' = view s \<and> (r = None \<longleftrightarrow> succeeded = [])"
proof (cases "succeeded = []")
  case False
  obtain e s1 where b: "run_state (dao_batchMarkSuccess g (map dnID succeeded)) s = (Some e, s1)"
    using batchMarkSuccess_fails [OF assms(1)] .
  let ?body = "dao_batchUpdate_tx g (map dnID succeeded) (map dnID failed)"
  have body: "run_state ?body s = ((CapNone, Some e), s1)"
    using False b by (simp add: dao_batchUpdate_tx_def)
  obtain s2 where "run_state (gTransaction g ?body) s = ((CapNone, Some e), s2)" "view s2 = view s"
    using run_transaction [OF assms(1) body] by auto
  with assms(2) False show ?thesis
    by (auto simp: dao_BatchUpdateStatusSucceedOrFailed_def Let_def)
next
  case True
  show ?thesis
  proof (cases "failed = []")
    case True
    with \<open>succeeded = []\<close> assms(2) show ?thesis
      by (simp add: dao_BatchUpdateStatusSucceedOrFailed_def)
  next
    case False
    obtain t s1 where t: "run_state (gNow g) s = (t, s1)" "view s1 = view s"
      using run_now [OF assms(1)] .
    let ?body = "dao_batchUpdate_tx g [] (map dnID failed)"
    obtain s2 where "run_state ?body s = ((CapNone, None), s2)" "view s2 = view s"
      using assms(1)
    proof (cases rule: run_updates [of g view Notifications "[CIn ''id'' []]"
          "status_updates SendStatusFailed (UnixMilli t)" s1])
      case (ok k tb s')
      with t that False show ?thesis by (simp add: update_none dao_batchUpdate_tx_def)
    qed (simp add: update_none)
    from run_transaction [OF assms(1) this(1)] this(2)
    obtain s3 where "run_state (gTransaction g ?body) s = ((CapNone, None), s3)" "view s3 = view s"
      by auto
    then show ?thesis
      using \<open>succeeded = []\<close> False assms(2)
      by (simp add: dao_BatchUpdateStatusSucceedOrFailed_def Let_def)
  qed
qed

text \<open>The batch update of outcomes never records one: with a success in the batch its
  second statement names a column the table does not have and the transaction is undone;
  without one the failures are looked up among the identifiers of the successes, and no row is
  updated.\<close>

theorem BatchUpdate_records_nothing:
  assumes "sql_engine g view"
    and "run_state (dao_BatchUpdateStatusSucceedOrFailed g succeeded failed) s = (r, s')"
  shows "view s' = view s \<and> (r = None \<longleftrightarrow> succeeded = [])"
  by (rule BatchUpdate_unchanged [OF assms])

theorem BatchUpdate_records_nothing_witness:
  "let s = \<lparr>tbN = [zero_daoNotification\<lparr>dnID := 5, dnStatus := SendStatusSending\<rparr>], tbC = [], tbT = []\<rparr>
   in snd (run_state (dao_BatchUpdateStatusSucceedOrFailed mem_gorm
        [zero_daoNotification\<lparr>dnID := 5, dnStatus := SendStatusSucceeded\<rparr>] []) s) = s"
proof -
  let ?s = "\<lparr>tbN = [zero_daoNotification\<lparr>dnID := 5, dnStatus := SendStatusSending\<rparr>], tbC = [], tbT = []\<rparr>"
  let ?u = "[zero_daoNotification\<lparr>dnID := 5, dnStatus := SendStatusSucceeded\<rparr>]"
  obtain r s' where "run_state (dao_BatchUpdateStatusSucceedOrFailed mem_gorm ?u []) ?s = (r, s')" by force
  from BatchUpdate_records_nothing [OF mem_gorm_engine this] this show ?thesis by simp
qed

lemma run_select:
  assumes "sql_engine g view"
  obtains ids err s' where "run_state (gSelectIdsN g conds k) s = ((ids, err), s')" "view s' = view s"
  using assms unfolding sql_engine_def frame_law_def by (metis prod.collapse)

lemma run_createT:
  assumes "sql_engine g view"
  obtains k err s' ts where "run_state (gCreateT g t) s = ((k, err), s')"
    "view s' = (view s)\<lparr>tbT := ts\<rparr>"
  using assms unfolding sql_engine_def frame_law_def by (metis prod.collapse)

text \<open>The job that should fail notifications stuck in sending fails none: it changes no
  table, and when it has found notifications to change it ends in an error, since it updates
  the call-back logs and names a column they do not have.\<close>

theorem MarkTimeout_marks_nothing:
  assumes "sql_engine g view"
    and "run_state (dao_MarkTimeoutSendingAsFailed g batchSize) s = ((k, err), s')"
  shows "view s' = view s \<and> (k = 0 \<or> err \<noteq> None)"
proof -
  obtain now s1 where t: "run_state (gNow g) s = (now, s1)" "view s1 = view s"
    using run_now [OF assms(1)] .
  obtain ids e s2 where sel: "run_state (gSelectIdsN g
      [CEq ''status'' (SStr SendStatusPending), CLe ''utime'' (UnixMilli (now + - minute))] batchSize) s1
      = ((ids, e), s2)" "view s2 = view s1"
    using run_select [OF assms(1)] .
  let ?bad = "e \<noteq> None \<and> \<not> errors_Is (the e) ErrRecordNotFound"
  obtain e' s3 where body: "run_state (dao_markTimeout_tx g now batchSize) s1 = ((CapInt 0, e'), s3)"
    and v: "view s3 = view s"
  proof (cases "?bad \<or> ids = []")
    case True
    with sel have "run_state (dao_markTimeout_tx g now batchSize) s1
        = ((CapInt 0, if ?bad then e else None), s2)"
      by (auto simp: dao_markTimeout_tx_def)
    with sel t that show ?thesis by metis
  next
    case False
    from assms(1) show ?thesis
    proof (cases rule: run_updates [of g view CallbackLogs "[CIn ''id'' (map SInt ids)]"
          "[SetTo ''status'' (SStr CallbackLogStatusFailed), Increment ''version'',
            SetTo ''utime'' (SInt (UnixMilli now))]" s2])
      case (ok k tb s')
      then show ?thesis by (simp add: update_unknown)
    next
      case (bad e' s')
      with False sel t that show ?thesis by (auto simp: dao_markTimeout_tx_def)
    qed
  qed
  obtain s4 where "run_state (gTransaction g (dao_markTimeout_tx g now batchSize)) s1
      = ((CapInt 0, e'), s4)" "view s4 = view s"
    using run_transaction [OF assms(1) body] v t(2) by (metis (full_types))
  with t assms(2) show ?thesis by (auto simp: dao_MarkTimeoutSendingAsFailed_def)
qed

theorem MarkTimeout_marks_nothing_witness:
  "let s = \<lparr>tbN = [zero_daoNotification\<lparr>dnID := 5, dnStatus := SendStatusPending\<rparr>], tbC = [], tbT = []\<rparr>
   in snd (run_state (dao_MarkTimeoutSendingAsFailed mem_gorm 10) s) = s"
proof -
  let ?s = "\<lparr>tbN = [zero_daoNotification\<lparr>dnID := 5, dnStatus := SendStatusPending\<rparr>], tbC = [], tbT = []\<rparr>"
  obtain k err s' where "run_state (dao_MarkTimeoutSendingAsFailed mem_gorm 10) ?s = ((k, err), s')"
    by (metis prod.collapse)
  from MarkTimeout_marks_nothing [OF mem_gorm_engine this] this show ?thesis by simp
qed

lemma Prepare_stores_no_notification_lemma:
  assumes "sql_engine g view" "run_state (tx_Prepare g txn n) s = (r, s')"
  shows "tbN (view s') = tbN (view s) \<and> tbC (view s') = tbC (view s)"
proof -
  obtain t s1 where t: "run_state (gNow g) s = (t, s1)" "view s1 = view s"
    using run_now [OF assms(1)] .
  let ?txn = "txn\<lparr>dtCtime := UnixMilli t, dtUtime := UnixMilli t\<rparr>"
  let ?n = "n\<lparr>dnCtime := UnixMilli t, dnUtime := UnixMilli t\<rparr>"
  obtain k e s2 ts where c1: "run_state (gCreateT g ?txn) s1 = ((k, e), s2)"
    "view s2 = (view s1)\<lparr>tbT := ts\<rparr>"
    using run_createT [OF assms(1)] .
  obtain k' e' s3 ts' where c2: "run_state (gCreateT g (?txn\<lparr>dtNotificationID := dnID ?n\<rparr>)) s2 = ((k', e'), s3)"
    "view s3 = (view s2)\<lparr>tbT := ts'\<rparr>"
    using run_createT [OF assms(1)] .
  obtain cap err s4 ts'' where body: "run_state (tx_prepare_tx g ?txn ?n) s1 = ((cap, err), s4)"
    and v: "view s4 = (view s)\<lparr>tbT := ts''\<rparr>"
  proof (cases "e = None \<and> k \<noteq> 0")
    case True
    with c1 c2 t that show ?thesis by (simp add: tx_prepare_tx_def)
  next
    case False
    with c1 t that show ?thesis
      by (cases e) (auto simp: tx_prepare_tx_def)
  qed
  obtain s5 where "run_state (gTransaction g (tx_prepare_tx g ?txn ?n)) s1 = ((cap, err), s5)"
    "tbN (view s5) = tbN (view s) \<and> tbC (view s5) = tbC (view s)"
    using run_transaction [OF assms(1) body] v t(2) by (metis tables.select_convs(1,2) tables.surjective tables.update_convs(3))
  with t assms(2) show ?thesis by (auto simp: tx_Prepare_def Let_def)
qed

text \<open>Preparing a transaction never stores its notification: the notification table stays
  as it is, whatever the outcome.\<close>

theorem Prepare_stores_no_notification:
  assumes "sql_engine g view" "run_state (tx_Prepare g txn n) s = (r, s')"
  shows "tbN (view s') = tbN (view s) \<and> tbC (view s') = tbC (view s)"
  using assms by (rule Prepare_stores_no_notification_lemma)

theorem Prepare_stores_no_notification_witness:
  "let txn = \<lparr>dtTxID = 0, dtKey = ''k'', dtNotificationID = 0, dtBizID = 7, dtStatus = ''PREPARE'',
         dtCheckCount = 0, dtNextCheckTime = 0, dtCtime = 0, dtUtime = 0\<rparr>
   in tbN (snd (run_state (tx_Prepare mem_gorm txn (zero_daoNotification\<lparr>dnID := 5\<rparr>))
        \<lparr>tbN = [], tbC = [], tbT = []\<rparr>)) = []"
proof -
  let ?txn = "\<lparr>dtTxID = 0, dtKey = ''k'', dtNotificationID = 0, dtBizID = 7, dtStatus = ''PREPARE'',
         dtCheckCount = 0, dtNextCheckTime = 0, dtCtime = 0, dtUtime = 0\<rparr>"
  obtain r s' where "run_state (tx_Prepare mem_gorm ?txn (zero_daoNotification\<lparr>dnID := 5\<rparr>))
      \<lparr>tbN = [], tbC = [], tbT = []\<rparr> = (r, s')" by (metis prod.collapse)
  from Prepare_stores_no_notification [OF mem_gorm_engine this] this show ?thesis by simp
qed

end
