(* ===== verification/Sender.thy ===== *)
theory Sender
  imports Interfaces "HOL-Library.Multiset"
begin

text \<open>
  \<^verbatim>\<open>internal/service/sender/sender.go\<close>: sends a notification through the channel, records the
  outcome, and triggers the call-back. The tasks of a batch run concurrently; each sends one
  notification and appends to one of two lists, and the order in which they do so is the
  parameter \<open>sched\<close>, a list of indices. \<open>submit\<close> is the answer of the task pool to the i-th
  submission.
\<close>

record 's sender =
  sdRepo :: "'s NotificationRepository"
  sdCallback :: "'s CallbackService"
  sdChannel :: "Notification \<Rightarrow> ('s, SendResponse ret) io"

definition sender_Send :: "'s sender \<Rightarrow> Notification \<Rightarrow> ('s, SendResponse ret) io" where
  "sender_Send sd n = do {
     let resp = zero_SendResponse\<lparr>NotificationID := nID n\<rparr>;
     (_, err) \<leftarrow> sdChannel sd n;
     (resp, n, err) \<leftarrow> (if err \<noteq> None then do {
         let n = n\<lparr>nStatus := SendStatusFailed\<rparr>;
         err \<leftarrow> nrMarkFailed (sdRepo sd) n;
         io_return (resp\<lparr>srStatus := SendStatusFailed\<rparr>, n, err)
       } else do {
         let n = n\<lparr>nStatus := SendStatusSucceeded\<rparr>;
         err \<leftarrow> nrMarkSuccess (sdRepo sd) n;
         io_return (resp\<lparr>srStatus := SendStatusSucceeded\<rparr>, n, err)
       });
     if err \<noteq> None then io_return (zero_SendResponse, err)
     else do {
       _ \<leftarrow> csSendCallbackByNotification (sdCallback sd) n;
       io_return (resp, None)
     }
   }"

text \<open>The tasks in the order they finish: the lists of successes and failures.\<close>

fun send_tasks ::
  "'s sender \<Rightarrow> Notification list \<Rightarrow> nat list \<Rightarrow> SendResponse list \<Rightarrow> SendResponse list
     \<Rightarrow> ('s, SendResponse list \<times> SendResponse list) io" where
  "send_tasks sd ns [] succeeded failed = io_return (succeeded, failed)"
| "send_tasks sd ns (i # is) succeeded failed = do {
     let n = ns ! i;
     (_, err) \<leftarrow> sdChannel sd n;
     if err \<noteq> None
     then send_tasks sd ns is succeeded
            (failed @ [\<lparr>NotificationID = nID n, srStatus = SendStatusFailed\<rparr>])
     else send_tasks sd ns is
            (succeeded @ [\<lparr>NotificationID = nID n, srStatus = SendStatusSucceeded\<rparr>]) failed
   }"

fun getUpdatedNotifications ::
  "SendResponse list \<Rightarrow> (int64 \<Rightarrow> Notification option) \<Rightarrow> Notification list" where
  "getUpdatedNotifications [] m = []"
| "getUpdatedNotifications (r # rs) m =
     (case m (NotificationID r) of
        Some n \<Rightarrow> n\<lparr>nStatus := srStatus r\<rparr> # getUpdatedNotifications rs m
      | None \<Rightarrow> getUpdatedNotifications rs m)"

text \<open>The guard names the list of successes twice.\<close>

definition batchUpdateStatus ::
  "'s sender \<Rightarrow> Notification list \<Rightarrow> Notification list \<Rightarrow> ('s, gerr option) io" where
  "batchUpdateStatus sd succeeded failed =
     (if length succeeded > 0 \<or> length succeeded > 0 then do {
        err \<leftarrow> nrBatchUpdateStatusSucceededOrFailed (sdRepo sd) succeeded failed;
        io_return (case err of Some e \<Rightarrow> Some (Wrap [e]) | None \<Rightarrow> None)
      }
      else io_return None)"

definition sender_BatchSend ::
  "'s sender \<Rightarrow> (nat \<Rightarrow> gerr option) \<Rightarrow> nat list \<Rightarrow> Notification list
     \<Rightarrow> ('s, SendResponse list ret) io" where
  "sender_BatchSend sd submit sched ns =
     (if ns = [] then io_return ([], None)
      else case find (\<lambda>i. submit i \<noteq> None) [0..<length ns] of
        Some k \<Rightarrow> do {
          _ \<leftarrow> send_tasks sd ns (filter (\<lambda>i. i < k) sched) [] [];
          io_return ([], Some (Wrap [the (submit k)]))
        }
      | None \<Rightarrow> do {
          (succeeded, failed) \<leftarrow> send_tasks sd ns sched [] [];
          let allNotificationIDs = map NotificationID succeeded @ map NotificationID failed;
          (notificationsMap, err) \<leftarrow> nrBatchGetByID (sdRepo sd) allNotificationIDs;
          case err of
            Some e \<Rightarrow> io_return ([], Some (Wrap [e]))
          | None \<Rightarrow> do {
              let succeedNotifications = getUpdatedNotifications succeeded notificationsMap;
              let failedNotifications = getUpdatedNotifications failed notificationsMap;
              err \<leftarrow> batchUpdateStatus sd succeedNotifications failedNotifications;
              case err of
                Some e \<Rightarrow> io_return ([], Some e)
              | None \<Rightarrow> do {
                  _ \<leftarrow> csSendCallbackByNotifications (sdCallback sd)
                         (succeedNotifications @ failedNotifications);
                  io_return (succeeded @ failed, None)
                }
            }
        })"

definition NewSender ::
  "'s NotificationRepository \<Rightarrow> 's CallbackService \<Rightarrow> (Notification \<Rightarrow> ('s, SendResponse ret) io)
     \<Rightarrow> (nat \<Rightarrow> gerr option) \<Rightarrow> (Notification list \<Rightarrow> nat list) \<Rightarrow> 's NotificationSender" where
  "NewSender repo cb ch submit sched =
     (let sd = \<lparr>sdRepo = repo, sdCallback = cb, sdChannel = ch\<rparr>
      in \<lparr>nsSend = sender_Send sd, nsBatchSend = \<lambda>ns. sender_BatchSend sd submit (sched ns) ns\<rparr>)"

section \<open>Single sends\<close>

text \<open>C3. A send that returns no error reports what the channel did, and that outcome has been
  recorded before: the response is SUCCEEDED with a successful \<open>MarkSuccess\<close> or FAILED with a
  successful \<open>MarkFailed\<close>, for the notification's own identifier.\<close>

theorem Send_reports_recorded_outcome:
  assumes "run_state (sender_Send sd n) s = ((resp, None), s')"
  shows "NotificationID resp = nID n \<and>
    (\<exists>r err s1 s2. run_state (sdChannel sd n) s = ((r, err), s1)
       \<and> (if err = None
          then srStatus resp = SendStatusSucceeded
             \<and> run_state (nrMarkSuccess (sdRepo sd) (n\<lparr>nStatus := SendStatusSucceeded\<rparr>)) s1 = (None, s2)
             \<and> s' = snd (run_state (csSendCallbackByNotification (sdCallback sd)
                      (n\<lparr>nStatus := SendStatusSucceeded\<rparr>)) s2)
          else srStatus resp = SendStatusFailed
             \<and> run_state (nrMarkFailed (sdRepo sd) (n\<lparr>nStatus := SendStatusFailed\<rparr>)) s1 = (None, s2)
             \<and> s' = snd (run_state (csSendCallbackByNotification (sdCallback sd)
                      (n\<lparr>nStatus := SendStatusFailed\<rparr>)) s2)))"
proof -
  obtain r err s1 where ch: "run_state (sdChannel sd n) s = ((r, err), s1)" by (metis prod.collapse)
  show ?thesis
  proof (cases err)
    case None
    obtain e s2 where "run_state (nrMarkSuccess (sdRepo sd) (n\<lparr>nStatus := SendStatusSucceeded\<rparr>)) s1 = (e, s2)"
      by (metis prod.collapse)
    with None ch assms show ?thesis
      by (auto simp: sender_Send_def Let_def split: if_splits prod.splits)
  next
    case (Some e)
    obtain e s2 where "run_state (nrMarkFailed (sdRepo sd) (n\<lparr>nStatus := SendStatusFailed\<rparr>)) s1 = (e, s2)"
      by (metis prod.collapse)
    with Some ch assms show ?thesis
      by (auto simp: sender_Send_def Let_def split: if_splits prod.splits)
  qed
qed

text \<open>A sender for examples: its channel accepts the notifications with a receiver.\<close>

definition demo_outcome :: "Notification \<Rightarrow> gerr option" where
  "demo_outcome n = (if nReceivers n = [] then Some (Ext ''no receiver'') else None)"

definition demo_sender :: "unit sender" where
  "demo_sender =
     \<lparr>sdRepo = idle_repo, sdCallback = idle_callback,
      sdChannel = \<lambda>n. io_return (zero_SendResponse, demo_outcome n)\<rparr>"

theorem Send_reports_recorded_outcome_witness:
  "run_state (sender_Send demo_sender (zero_Notification\<lparr>nID := 9\<rparr>)) ()
     = ((\<lparr>NotificationID = 9, srStatus = SendStatusFailed\<rparr>, None), ())"
proof -
  obtain resp where r: "run_state (sender_Send demo_sender (zero_Notification\<lparr>nID := 9\<rparr>)) () = ((resp, None), ())"
    by (simp add: sender_Send_def demo_sender_def demo_outcome_def idle_repo_def idle_callback_def
        zero_Notification_def)
  from Send_reports_recorded_outcome [OF r] r show ?thesis
    by (auto simp: demo_sender_def demo_outcome_def zero_Notification_def idle_repo_def
        intro: SendResponse.equality)
qed

section \<open>Batches\<close>

definition response_of :: "(Notification \<Rightarrow> gerr option) \<Rightarrow> Notification \<Rightarrow> SendResponse" where
  "response_of outcome n =
     \<lparr>NotificationID = nID n,
      srStatus = (if outcome n = None then SendStatusSucceeded else SendStatusFailed)\<rparr>"

definition steady_channel ::
  "(Notification \<Rightarrow> ('s, SendResponse ret) io) \<Rightarrow> (Notification \<Rightarrow> gerr option) \<Rightarrow> bool" where
  "steady_channel ch outcome \<longleftrightarrow> (\<forall>n s. snd (fst (run_state (ch n) s)) = outcome n)"

lemma send_tasks_lists:
  assumes "steady_channel (sdChannel sd) outcome"
  shows "fst (run_state (send_tasks sd ns is a b) s)
    = (a @ map (response_of outcome) (filter (\<lambda>n. outcome n = None) (map (nth ns) is)),
       b @ map (response_of outcome) (filter (\<lambda>n. outcome n \<noteq> None) (map (nth ns) is)))"
proof (induction "is" arbitrary: a b s)
  case Nil
  then show ?case by simp
next
  case (Cons i "is")
  obtain r e s1 where c: "run_state (sdChannel sd (ns ! i)) s = ((r, e), s1)" by (metis prod.collapse)
  with assms have "e = outcome (ns ! i)"
    by (metis steady_channel_def fst_conv snd_conv)
  with c Cons show ?case
    by (cases "outcome (ns ! i)") (simp_all add: Let_def response_of_def)
qed

lemma mset_filter_split:
  "mset (filter P xs) + mset (filter (\<lambda>x. \<not> P x) xs) = mset xs"
  by (induction xs) simp_all


lemma demo_steady: "steady_channel (sdChannel demo_sender) demo_outcome"
  by (simp add: steady_channel_def demo_sender_def)


lemma BatchSend_all_failed_aux:
  "steady_channel (sdChannel sd) outcome \<Longrightarrow> \<forall>i \<in> set is. outcome (ns ! i) \<noteq> None \<Longrightarrow>
   \<exists>b s'. run_state (send_tasks sd ns is [] []) s = (([], b), s')"
  using send_tasks_lists [of sd outcome ns "is" "[]" "[]" s]
  by (cases "run_state (send_tasks sd ns is [] []) s") (auto simp: filter_empty_conv)

text \<open>When every notification of a batch fails, no outcome is recorded: the batch update of
  the repository is not called, so replacing it by anything makes no difference.\<close>

theorem BatchSend_all_failed_not_recorded:
  assumes "steady_channel (sdChannel sd) outcome" "mset sched = mset [0..<length ns]"
    and "list_all (\<lambda>n. outcome n \<noteq> None) ns"
  shows "run_state (sender_BatchSend sd submit sched ns) s
    = run_state (sender_BatchSend (sd\<lparr>sdRepo := (sdRepo sd)
        \<lparr>nrBatchUpdateStatusSucceededOrFailed := update\<rparr>\<rparr>) submit sched ns) s"
proof -
  let ?sd = "sd\<lparr>sdRepo := (sdRepo sd)\<lparr>nrBatchUpdateStatusSucceededOrFailed := update\<rparr>\<rparr>"
  have tasks: "send_tasks ?sd ns is a b = send_tasks sd ns is a b" for "is" a b
    by (induction "is" arbitrary: a b) (simp_all add: Let_def cong: if_cong)
  have "set sched = {0..<length ns}" using assms(2) by (metis set_mset_mset set_upt)
  then have "\<forall>i \<in> set sched. outcome (ns ! i) \<noteq> None"
    using assms(3) by (auto simp: list_all_length)
  from BatchSend_all_failed_aux [OF assms(1) this]
  obtain b s' where b: "run_state (send_tasks sd ns sched [] []) s = (([], b), s')" by blast
  show ?thesis
  proof (cases "find (\<lambda>i. submit i \<noteq> None) [0..<length ns]")
    case None
    with b tasks show ?thesis
      by (simp add: sender_BatchSend_def Let_def batchUpdateStatus_def split: prod.split option.split)
  next
    case (Some k)
    with tasks show ?thesis by (simp add: sender_BatchSend_def)
  qed
qed

theorem BatchSend_all_failed_not_recorded_witness:
  "run_state (sender_BatchSend demo_sender (\<lambda>_. None) [0] [zero_Notification]) ()
     = run_state (sender_BatchSend (demo_sender\<lparr>sdRepo := (sdRepo demo_sender)
         \<lparr>nrBatchUpdateStatusSucceededOrFailed := \<lambda>_ _. io_return (Some (Err ErrDatabaseError))\<rparr>\<rparr>)
         (\<lambda>_. None) [0] [zero_Notification]) ()"
  by (rule BatchSend_all_failed_not_recorded [OF demo_steady])
    (simp_all add: demo_outcome_def zero_Notification_def)

end
