(* ===== verification/SendStrategies.thy ===== *)
theory SendStrategies
  imports Interfaces
begin

text \<open>
  \<^verbatim>\<open>internal/service/sendstrategy\<close>: the immediate strategy stores and sends at once, the
  default strategy only stores (a scheduler sends later), and the dispatcher chooses by the
  strategy type of the notification. \<open>clock\<close> is \<^verbatim>\<open>time.Now\<close>.
\<close>

text \<open>The loop \<^verbatim>\<open>notifications[i].SetSendTime()\<close> of both batch operations.\<close>

definition set_send_times ::
  "('s, gtime) io \<Rightarrow> Notification list \<Rightarrow> ('s, Notification list) io" where
  "set_send_times clock ns =
     State_Monad.traverse_list (\<lambda>n. do { now \<leftarrow> clock; io_return (SetSendTime now n) }) ns"

section \<open>The default strategy\<close>

record 's DefaultSendStrategy =
  dsRepo :: "'s NotificationRepository"
  dsConfig :: "'s BusinessConfigService"
  dsClock :: "('s, gtime) io"

definition needCreateCallbackLog :: "'s DefaultSendStrategy \<Rightarrow> Notification \<Rightarrow> ('s, bool) io" where
  "needCreateCallbackLog d n = do {
     (bizConfig, err) \<leftarrow> bsGetByID (dsConfig d) (nBizID n);
     io_return (if err \<noteq> None then False else bcCallbackConfig bizConfig \<noteq> None)
   }"

definition default_create :: "'s DefaultSendStrategy \<Rightarrow> Notification \<Rightarrow> ('s, Notification ret) io" where
  "default_create d n = do {
     need \<leftarrow> needCreateCallbackLog d n;
     if \<not> need then nrCreateWithCallbackLog (dsRepo d) n else nrCreate (dsRepo d) n
   }"

definition default_batchCreate ::
  "'s DefaultSendStrategy \<Rightarrow> Notification list \<Rightarrow> ('s, Notification list ret) io" where
  "default_batchCreate d ns = do {
     need \<leftarrow> needCreateCallbackLog d (hd ns);
     if need then nrBatchCreateWithCallbackLog (dsRepo d) ns else nrBatchCreate (dsRepo d) ns
   }"

definition default_Send :: "'s DefaultSendStrategy \<Rightarrow> Notification \<Rightarrow> ('s, SendResponse ret) io" where
  "default_Send d n = do {
     now \<leftarrow> dsClock d;
     (created, err) \<leftarrow> default_create d (SetSendTime now n);
     io_return (case err of
         Some e \<Rightarrow> (zero_SendResponse, Some (Wrap [e]))
       | None \<Rightarrow> (\<lparr>NotificationID = nID created, srStatus = nStatus created\<rparr>, None))
   }"

definition default_BatchSend ::
  "'s DefaultSendStrategy \<Rightarrow> Notification list \<Rightarrow> ('s, SendResponse list ret) io" where
  "default_BatchSend d ns =
     (if ns = [] then io_return ([], Some invalid_parameter)
      else do {
        ns' \<leftarrow> set_send_times (dsClock d) ns;
        (created, err) \<leftarrow> default_batchCreate d ns';
        io_return (case err of
            Some e \<Rightarrow> ([], Some (Wrap [e]))
          | None \<Rightarrow> (map (\<lambda>n. \<lparr>NotificationID = nID n, srStatus = nStatus n\<rparr>) created, None))
      })"

section \<open>The immediate strategy\<close>

record 's ImmediateSendStrategy =
  imRepo :: "'s NotificationRepository"
  imSender :: "'s NotificationSender"
  imClock :: "('s, gtime) io"

text \<open>The part of \<open>Send\<close> behind a duplicate key; \<open>created\<close> is the value \<open>Create\<close> returned beside
  its error.\<close>

definition resend_existing ::
  "'s ImmediateSendStrategy \<Rightarrow> Notification \<Rightarrow> ('s, SendResponse ret) io" where
  "resend_existing i created = do {
     (found, err) \<leftarrow> nrGetByKey (imRepo i) (nBizID created) (nKey created);
     case err of
       Some e \<Rightarrow> io_return (zero_SendResponse, Some (Wrap [e]))
     | None \<Rightarrow>
         if nStatus found = SendStatusSucceeded
         then io_return (\<lparr>NotificationID = nID found, srStatus = nStatus found\<rparr>, None)
         else if nStatus found = SendStatusSending
         then io_return (zero_SendResponse, Some (Wrap [Err ErrSendNotificationFailed]))
         else do {
           let found = found\<lparr>nStatus := SendStatusSending\<rparr>;
           err \<leftarrow> nrCASStatus (imRepo i) found;
           case err of
             Some e \<Rightarrow> io_return (zero_SendResponse, Some (Wrap [e]))
           | None \<Rightarrow> nsSend (imSender i) (found\<lparr>nVersion := wrap64 (nVersion found + 1)\<rparr>)
         }
   }"

definition immediate_Send ::
  "'s ImmediateSendStrategy \<Rightarrow> Notification \<Rightarrow> ('s, SendResponse ret) io" where
  "immediate_Send i n = do {
     now \<leftarrow> imClock i;
     (created, err) \<leftarrow> nrCreate (imRepo i) (SetSendTime now n);
     case err of
       None \<Rightarrow> nsSend (imSender i) created
     | Some e \<Rightarrow>
         if \<not> errors_Is e (Err ErrNotificationDuplicate)
         then io_return (zero_SendResponse, Some (Wrap [e]))
         else resend_existing i created
   }"

definition immediate_BatchSend ::
  "'s ImmediateSendStrategy \<Rightarrow> Notification list \<Rightarrow> ('s, SendResponse list ret) io" where
  "immediate_BatchSend i ns =
     (if ns = [] then io_return ([], Some (Wrap [Err ErrSendNotificationFailed]))
      else do {
        ns' \<leftarrow> set_send_times (imClock i) ns;
        (created, err) \<leftarrow> nrBatchCreate (imRepo i) ns';
        case err of
          Some e \<Rightarrow> io_return ([], Some (Wrap [e]))
        | None \<Rightarrow> nsBatchSend (imSender i) created
      })"

section \<open>The dispatcher\<close>

record 's StrategyDispatcher =
  sdImmediate :: "'s ImmediateSendStrategy"
  sdDefault :: "'s DefaultSendStrategy"

definition selectStrategy :: "'s StrategyDispatcher \<Rightarrow> Notification \<Rightarrow> 's SendStrategy" where
  "selectStrategy d n =
     (if ssType (nSendStrategyConfig n) = SendStrategyImmediate
      then \<lparr>stSend = immediate_Send (sdImmediate d), stBatchSend = immediate_BatchSend (sdImmediate d)\<rparr>
      else \<lparr>stSend = default_Send (sdDefault d), stBatchSend = default_BatchSend (sdDefault d)\<rparr>)"

definition dispatcher_Send :: "'s StrategyDispatcher \<Rightarrow> Notification \<Rightarrow> ('s, SendResponse ret) io" where
  "dispatcher_Send d n = stSend (selectStrategy d n) n"

text \<open>The error of an empty batch is \<^verbatim>\<open>fmt.Errorf("%w: ...")\<close> without an operand: it wraps nothing.\<close>

definition dispatcher_BatchSend ::
  "'s StrategyDispatcher \<Rightarrow> Notification list \<Rightarrow> ('s, SendResponse list ret) io" where
  "dispatcher_BatchSend d ns =
     (if ns = [] then io_return ([], Some (Wrap []))
      else stBatchSend (selectStrategy d (hd ns)) ns)"

definition NewStrategyDispatcher ::
  "'s ImmediateSendStrategy \<Rightarrow> 's DefaultSendStrategy \<Rightarrow> 's SendStrategy" where
  "NewStrategyDispatcher im df =
     (let d = \<lparr>sdImmediate = im, sdDefault = df\<rparr>
      in \<lparr>stSend = dispatcher_Send d, stBatchSend = dispatcher_BatchSend d\<rparr>)"

section \<open>Properties\<close>

text \<open>The decision of a single default send is the wrong way round: a business with a
  call-back configuration gets no call-back log, one without gets one; the batch form decides
  the right way.\<close>

theorem Default_callback_log_inverted:
  assumes "run_state (dsClock d) s = (now, s1)"
    and "run_state (bsGetByID (dsConfig d) (nBizID n)) s1 = ((cfg, None), s2)"
  shows "run_state (default_Send d n) s =
    (let ((created, err), s3) = run_state
        (if bcCallbackConfig cfg \<noteq> None then nrCreate (dsRepo d) (SetSendTime now n)
         else nrCreateWithCallbackLog (dsRepo d) (SetSendTime now n)) s2
     in (case err of Some e \<Rightarrow> (zero_SendResponse, Some (Wrap [e]))
         | None \<Rightarrow> (\<lparr>NotificationID = nID created, srStatus = nStatus created\<rparr>, None), s3))
    \<and> run_state (default_BatchSend d [n]) s =
    (let ((created, err), s3) = run_state
        (if bcCallbackConfig cfg \<noteq> None then nrBatchCreateWithCallbackLog (dsRepo d) [SetSendTime now n]
         else nrBatchCreate (dsRepo d) [SetSendTime now n]) s2
     in (case err of Some e \<Rightarrow> ([], Some (Wrap [e]))
         | None \<Rightarrow> (map (\<lambda>n. \<lparr>NotificationID = nID n, srStatus = nStatus n\<rparr>) created, None), s3))"
  using assms
  by (simp add: default_Send_def default_create_def needCreateCallbackLog_def default_BatchSend_def
      default_batchCreate_def set_send_times_def Let_def split: prod.split)

theorem Default_callback_log_inverted_witness:
  "run_state (default_Send
     \<lparr>dsRepo = idle_repo\<lparr>nrCreate := \<lambda>n. io_return (n, Some (Ext ''plain''))\<rparr>,
      dsConfig = fixed_config (\<lambda>i. Some (zero_BusinessConfig
        \<lparr>bcCallbackConfig := Some \<lparr>cbcServiceName = ''svc'', cbcRetryPolicy = None\<rparr>\<rparr>)),
      dsClock = io_return 0\<rparr> zero_Notification) ()
   = ((zero_SendResponse, Some (Wrap [Ext ''plain''])), ())"
  using Default_callback_log_inverted [of
      "\<lparr>dsRepo = idle_repo\<lparr>nrCreate := \<lambda>n. io_return (n, Some (Ext ''plain''))\<rparr>,
        dsConfig = fixed_config (\<lambda>i. Some (zero_BusinessConfig
          \<lparr>bcCallbackConfig := Some \<lparr>cbcServiceName = ''svc'', cbcRetryPolicy = None\<rparr>\<rparr>)),
        dsClock = io_return 0\<rparr>" "()" 0 "()" zero_Notification
      "zero_BusinessConfig\<lparr>bcCallbackConfig := Some \<lparr>cbcServiceName = ''svc'', cbcRetryPolicy = None\<rparr>\<rparr>" "()"]
  by (simp add: fixed_config_def)

text \<open>A retry of a notification that exists never finds it: the repository returns the zero
  notification beside the duplicate error, the lookup asks for business 0 and the empty key,
  and unless such a row exists the retry ends in an error, whatever the state of the
  notification itself.\<close>

theorem Immediate_retry_lost:
  assumes "run_state (imClock i) s = (now, s1)"
    and "run_state (nrCreate (imRepo i) (SetSendTime now n)) s1 = ((zero_Notification, Some e), s2)"
    and "errors_Is e (Err ErrNotificationDuplicate)"
    and "run_state (nrGetByKey (imRepo i) 0 '''') s2 = ((found, Some e'), s3)"
  shows "run_state (immediate_Send i n) s = ((zero_SendResponse, Some (Wrap [e'])), s3)"
  using assms
  by (simp add: immediate_Send_def resend_existing_def zero_Notification_def)

definition ErrNotFound :: gerr where
  "ErrNotFound = Ext ''record not found''"

text \<open>A repository that holds one notification, already sent.\<close>

definition holding_repo :: "unit NotificationRepository" where
  "holding_repo = idle_repo
     \<lparr>nrCreate := \<lambda>_. io_return (zero_Notification, Some (Wrap [Err ErrNotificationDuplicate])),
      nrGetByKey := \<lambda>b k. io_return (if b = 7 \<and> k = ''k''
        then (zero_Notification\<lparr>nBizID := 7, nKey := ''k'', nStatus := SendStatusSucceeded\<rparr>, None)
        else (zero_Notification, Some ErrNotFound))\<rparr>"

theorem Immediate_retry_lost_witness:
  "run_state (immediate_Send \<lparr>imRepo = holding_repo,
       imSender = \<lparr>nsSend = \<lambda>_. io_return (zero_SendResponse, None), nsBatchSend = \<lambda>_. io_return ([], None)\<rparr>,
       imClock = io_return 0\<rparr> (zero_Notification\<lparr>nBizID := 7, nKey := ''k''\<rparr>)) ()
   = ((zero_SendResponse, Some (Wrap [ErrNotFound])), ())"
  by (rule Immediate_retry_lost [where e = "Wrap [Err ErrNotificationDuplicate]" and now = 0
        and found = zero_Notification]) (simp_all add: holding_repo_def)

text \<open>A retry that does find its notification sends it only after winning it: a notification
  that was sent, that is being sent, or whose version another retry has taken is never handed to
  the sender, so replacing the sender by any other makes no difference.\<close>

theorem Immediate_resend_guarded:
  assumes "run_state (nrGetByKey (imRepo i) (nBizID c) (nKey c)) s = ((found, None), s1)"
    and "nStatus found = SendStatusSucceeded \<or> nStatus found = SendStatusSending
       \<or> fst (run_state (nrCASStatus (imRepo i) (found\<lparr>nStatus := SendStatusSending\<rparr>)) s1) \<noteq> None"
  shows "run_state (resend_existing i c) s = run_state (resend_existing (i\<lparr>imSender := other\<rparr>) c) s"
  using assms by (auto simp: resend_existing_def Let_def split: prod.split)

theorem Immediate_resend_guarded_witness:
  "run_state (resend_existing \<lparr>imRepo = holding_repo,
       imSender = \<lparr>nsSend = \<lambda>_. io_return (zero_SendResponse, None), nsBatchSend = \<lambda>_. io_return ([], None)\<rparr>,
       imClock = io_return 0\<rparr> (zero_Notification\<lparr>nBizID := 7, nKey := ''k''\<rparr>)) ()
   = run_state (resend_existing \<lparr>imRepo = holding_repo,
       imSender = \<lparr>nsSend = \<lambda>_. io_return (zero_SendResponse, Some (Ext ''sent twice'')),
                    nsBatchSend = \<lambda>_. io_return ([], None)\<rparr>,
       imClock = io_return 0\<rparr> (zero_Notification\<lparr>nBizID := 7, nKey := ''k''\<rparr>)) ()"
  using Immediate_resend_guarded [of "\<lparr>imRepo = holding_repo,
       imSender = \<lparr>nsSend = \<lambda>_. io_return (zero_SendResponse, None), nsBatchSend = \<lambda>_. io_return ([], None)\<rparr>,
       imClock = io_return 0\<rparr>" "zero_Notification\<lparr>nBizID := 7, nKey := ''k''\<rparr>" "()" _ "()"
      "\<lparr>nsSend = \<lambda>_. io_return (zero_SendResponse, Some (Ext ''sent twice'')),
        nsBatchSend = \<lambda>_. io_return ([], None)\<rparr>"]
  by (simp add: holding_repo_def)

end
