(* ===== verification/SendService.thy ===== *)
theory SendService
  imports SendStrategies Hash_Id
begin

text \<open>
  \<^verbatim>\<open>internal/service/notification/send_notification.go\<close> and \<^verbatim>\<open>notification.go\<close>: the entry
  points of sending. Each validates, gives the notification its identifier, and hands it to the
  send strategy; the asynchronous ones turn an immediate notification into one with a deadline.
  \<open>svGenerate\<close> is \<open>GenerateID\<close> on the service's generator and clock.
\<close>

record 's sendService =
  svClock :: "('s, gtime) io"
  svGenerate :: "int64 \<Rightarrow> string \<Rightarrow> ('s, int64) io"
  svStrategy :: "'s SendStrategy"

text \<open>The generator as a part of the world, read and written through \<open>get\<close> and \<open>put\<close>.\<close>

definition generator_io ::
  "('s \<Rightarrow> Generator) \<Rightarrow> (Generator \<Rightarrow> 's \<Rightarrow> 's) \<Rightarrow> ('s, gtime) io \<Rightarrow> int64 \<Rightarrow> string \<Rightarrow> ('s, int64) io" where
  "generator_io get put clock bizID key = do {
     now \<leftarrow> clock;
     s \<leftarrow> State_Monad.get;
     let (i, g) = GenerateID (get s) (UnixMilli now) bizID key;
     _ \<leftarrow> State_Monad.set (put g s);
     io_return (sint i)
   }"

definition NewSendService ::
  "('s, gtime) io \<Rightarrow> (int64 \<Rightarrow> string \<Rightarrow> ('s, int64) io) \<Rightarrow> 's SendStrategy \<Rightarrow> 's sendService" where
  "NewSendService clock gen st = \<lparr>svClock = clock, svGenerate = gen, svStrategy = st\<rparr>"

definition SendNotification :: "'s sendService \<Rightarrow> Notification \<Rightarrow> ('s, SendResponse ret) io" where
  "SendNotification sv n = do {
     now \<leftarrow> svClock sv;
     case Notification_Validate now n of
       Some err \<Rightarrow> io_return (zero_SendResponse\<lparr>srStatus := SendStatusFailed\<rparr>, Some err)
     | None \<Rightarrow> do {
         i \<leftarrow> svGenerate sv (nBizID n) (nKey n);
         (resp, err) \<leftarrow> stSend (svStrategy sv) (n\<lparr>nID := i\<rparr>);
         io_return (case err of
             Some e \<Rightarrow> (resp, Some (Wrap [Err ErrSendNotificationFailed, e]))
           | None \<Rightarrow> (resp, None))
       }
   }"

definition SendNotificationAsync :: "'s sendService \<Rightarrow> Notification \<Rightarrow> ('s, SendResponse ret) io" where
  "SendNotificationAsync sv n = do {
     now \<leftarrow> svClock sv;
     case Notification_Validate now n of
       Some err \<Rightarrow> io_return (zero_SendResponse, Some err)
     | None \<Rightarrow> do {
         i \<leftarrow> svGenerate sv (nBizID n) (nKey n);
         now' \<leftarrow> svClock sv;
         stSend (svStrategy sv) (ReplaceAsyncImmediate now' (n\<lparr>nID := i\<rparr>))
       }
   }"

text \<open>The loops of the batch operations: validate and number each notification, stop at the
  first invalid one. The flag tells the asynchronous form.\<close>

fun prepare_batch ::
  "'s sendService \<Rightarrow> bool \<Rightarrow> Notification list \<Rightarrow> Notification list
     \<Rightarrow> ('s, Notification list ret) io" where
  "prepare_batch sv asynchronous [] ready = io_return (ready, None)"
| "prepare_batch sv asynchronous (n # ns) ready = do {
     now \<leftarrow> svClock sv;
     case Notification_Validate now n of
       Some err \<Rightarrow> io_return (ready, Some (Wrap [err]))
     | None \<Rightarrow> do {
         i \<leftarrow> svGenerate sv (nBizID n) (nKey n);
         if asynchronous then do {
           now' \<leftarrow> svClock sv;
           prepare_batch sv asynchronous ns (ready @ [ReplaceAsyncImmediate now' (n\<lparr>nID := i\<rparr>)])
         }
         else prepare_batch sv asynchronous ns (ready @ [n\<lparr>nID := i\<rparr>])
       }
   }"

definition BatchSendNotifications ::
  "'s sendService \<Rightarrow> Notification list \<Rightarrow> ('s, SendResponse list ret) io" where
  "BatchSendNotifications sv ns =
     (if ns = [] then io_return ([], Some invalid_parameter)
      else do {
        (ready, err) \<leftarrow> prepare_batch sv False ns [];
        case err of
          Some e \<Rightarrow> io_return ([], Some e)
        | None \<Rightarrow> do {
            (results, err) \<leftarrow> stBatchSend (svStrategy sv) ready;
            io_return (case err of
                Some e \<Rightarrow> (results, Some (Wrap [Err ErrSendNotificationFailed, e]))
              | None \<Rightarrow> (results, None))
          }
      })"

definition BatchSendNotificationsAsync ::
  "'s sendService \<Rightarrow> Notification list \<Rightarrow> ('s, int64 list ret) io" where
  "BatchSendNotificationsAsync sv ns =
     (if ns = [] then io_return ([], Some invalid_parameter)
      else do {
        (ready, err) \<leftarrow> prepare_batch sv True ns [];
        case err of
          Some e \<Rightarrow> io_return ([], Some e)
        | None \<Rightarrow> do {
            (_, err) \<leftarrow> stBatchSend (svStrategy sv) ready;
            io_return (case err of
                Some e \<Rightarrow> ([], Some (Wrap [Err ErrSendNotificationFailed, e]))
              | None \<Rightarrow> (map nID ready, None))
          }
      })"

section \<open>The query service\<close>

definition FindReadyNotifications ::
  "'s NotificationRepository \<Rightarrow> int64 \<Rightarrow> int64 \<Rightarrow> ('s, Notification list ret) io" where
  "FindReadyNotifications repo offset limit = nrFindReadNotifications repo offset limit"

definition GetByKeys ::
  "'s NotificationRepository \<Rightarrow> int64 \<Rightarrow> string list \<Rightarrow> ('s, Notification list ret) io" where
  "GetByKeys repo bizID keys =
     (if keys = [] then io_return ([], Some invalid_parameter)
      else do {
        (ns, err) \<leftarrow> nrGetByKeys repo bizID keys;
        io_return (case err of Some e \<Rightarrow> ([], Some (Wrap [e])) | None \<Rightarrow> (ns, None))
      })"

section \<open>Properties\<close>

lemma ReplaceAsyncImmediate_simps [simp]:
  "nID (ReplaceAsyncImmediate now n) = nID n" "nBizID (ReplaceAsyncImmediate now n) = nBizID n"
  "nKey (ReplaceAsyncImmediate now n) = nKey n"
  by (simp_all add: ReplaceAsyncImmediate_def)

lemma prepare_batch_ready:
  assumes "run_state (prepare_batch sv asynchronous ns ready) s = ((out, None), s')"
  shows "\<exists>new. out = ready @ new \<and> map nKey new = map nKey ns \<and> map nBizID new = map nBizID ns
    \<and> (asynchronous \<longrightarrow> list_all (\<lambda>n. \<not> IsImmediate n) new)"
  using assms
proof (induction ns arbitrary: ready s)
  case Nil
  then show ?case by simp
next
  case (Cons n ns)
  obtain now s1 where t: "run_state (svClock sv) s = (now, s1)" by (metis prod.collapse)
  with Cons.prems have v: "Notification_Validate now n = None"
    by (auto split: option.splits)
  obtain i s2 where i: "run_state (svGenerate sv (nBizID n) (nKey n)) s1 = (i, s2)"
    by (metis prod.collapse)
  show ?case
  proof (cases asynchronous)
    case True
    obtain now' s3 where "run_state (svClock sv) s2 = (now', s3)" by (metis prod.collapse)
    with Cons.prems t v i True have "run_state (prepare_batch sv asynchronous ns
        (ready @ [ReplaceAsyncImmediate now' (n\<lparr>nID := i\<rparr>)])) s3 = ((out, None), s')" by simp
    from Cons.IH [OF this] obtain new where
      "out = (ready @ [ReplaceAsyncImmediate now' (n\<lparr>nID := i\<rparr>)]) @ new"
      "map nKey new = map nKey ns" "map nBizID new = map nBizID ns"
      "list_all (\<lambda>n. \<not> IsImmediate n) new" using True by blast
    then show ?thesis
      by (intro exI [of _ "ReplaceAsyncImmediate now' (n\<lparr>nID := i\<rparr>) # new"])
        (simp add: ReplaceAsyncImmediate_not_immediate)
  next
    case False
    with Cons.prems t v i have "run_state (prepare_batch sv asynchronous ns
        (ready @ [n\<lparr>nID := i\<rparr>])) s2 = ((out, None), s')" by simp
    from Cons.IH [OF this] obtain new where "out = (ready @ [n\<lparr>nID := i\<rparr>]) @ new"
      "map nKey new = map nKey ns" "map nBizID new = map nBizID ns" by blast
    with False show ?thesis by (intro exI [of _ "n\<lparr>nID := i\<rparr> # new"]) simp
  qed
qed

lemma prepare_batch_strategy:
  "prepare_batch (sv\<lparr>svStrategy := st\<rparr>) a ns ready = prepare_batch sv a ns ready"
proof (induction ns arbitrary: ready)
  case (Cons n ns)
  then show ?case by (cases a) (simp_all cong: option.case_cong)
qed simp

text \<open>The asynchronous entry points never reach the immediate strategy: over a dispatcher,
  single and batch alike, the immediate strategy can be replaced by any other without a
  difference.\<close>

theorem Async_never_immediate:
  fixes clock :: "('s, gtime) io" and gen :: "int64 \<Rightarrow> string \<Rightarrow> ('s, int64) io"
    and df :: "'s DefaultSendStrategy"
  defines "over im \<equiv> NewSendService clock gen (NewStrategyDispatcher im df)"
  shows "SendNotificationAsync (over im) n = SendNotificationAsync (over im') n
     \<and> BatchSendNotificationsAsync (over im) ns = BatchSendNotificationsAsync (over im') ns"
proof -
  have sel: "stSend (NewStrategyDispatcher im df) m = stSend (NewStrategyDispatcher im' df) m"
    if "\<not> IsImmediate m" for m
    using that by (simp add: NewStrategyDispatcher_def Let_def dispatcher_Send_def
        selectStrategy_def IsImmediate_def)
  have bsel: "stBatchSend (NewStrategyDispatcher im df) ms = stBatchSend (NewStrategyDispatcher im' df) ms"
    if "list_all (\<lambda>n. \<not> IsImmediate n) ms" for ms
    using that by (cases ms) (simp_all add: NewStrategyDispatcher_def Let_def dispatcher_BatchSend_def
        selectStrategy_def IsImmediate_def)
  have p: "prepare_batch (over im) True ns [] = prepare_batch (over im') True ns []"
    using prepare_batch_strategy [where sv = "over im" and st = "NewStrategyDispatcher im' df" and a = True
        and ns = ns and ready = "[]"]
    by (simp add: over_def NewSendService_def)
  have "run_state (BatchSendNotificationsAsync (over im) ns) s
      = run_state (BatchSendNotificationsAsync (over im') ns) s" for s
  proof -
    obtain ready err s1 where r: "run_state (prepare_batch (over im') True ns []) s = ((ready, err), s1)"
      by (metis prod.collapse)
    have "err = None \<Longrightarrow> list_all (\<lambda>n. \<not> IsImmediate n) ready"
      using prepare_batch_ready [of "over im'" True ns "[]" s ready s1] r by auto
    then have "err = None \<Longrightarrow> stBatchSend (svStrategy (over im)) ready = stBatchSend (svStrategy (over im')) ready"
      using bsel by (simp add: over_def NewSendService_def)
    with r p show ?thesis
      by (cases err) (simp_all add: BatchSendNotificationsAsync_def)
  qed
  moreover have "SendNotificationAsync (over im) n = SendNotificationAsync (over im') n"
    by (simp add: SendNotificationAsync_def over_def NewSendService_def sel
        ReplaceAsyncImmediate_not_immediate cong: option.case_cong)
  ultimately show ?thesis by (auto intro: state_ext)
qed

text \<open>A batch sent asynchronously answers with one identifier for every notification, in
  their order, or with an error and no identifier; what is handed to the strategy are the
  notifications of the request under these identifiers.\<close>

theorem BatchAsync_ids:
  assumes "run_state (BatchSendNotificationsAsync sv ns) s = ((ids, err), s')"
  shows "(err = None \<longrightarrow> length ids = length ns) \<and> (err \<noteq> None \<longrightarrow> ids = [])
     \<and> (ns = [] \<longrightarrow> err = Some invalid_parameter)"
proof (cases "ns = []")
  case True
  with assms show ?thesis by (simp add: BatchSendNotificationsAsync_def)
next
  case False
  obtain ready e s1 where r: "run_state (prepare_batch sv True ns []) s = ((ready, e), s1)"
    by (metis prod.collapse)
  show ?thesis
  proof (cases e)
    case None
    from prepare_batch_ready [of sv True ns "[]" s ready s1] r None
    have "length ready = length ns" by (auto dest: map_eq_imp_length_eq)
    with assms False r None show ?thesis
      by (auto simp: BatchSendNotificationsAsync_def split: prod.splits option.splits)
  next
    case (Some e')
    with assms False r show ?thesis by (auto simp: BatchSendNotificationsAsync_def)
  qed
qed

definition demo_service :: "unit sendService" where
  "demo_service = NewSendService (io_return 5) (\<lambda>_ _. io_return 1)
     \<lparr>stSend = \<lambda>_. io_return (zero_SendResponse, None), stBatchSend = \<lambda>_. io_return ([], None)\<rparr>"

definition demo_notification :: Notification where
  "demo_notification = zero_Notification
     \<lparr>nBizID := 1, nKey := ''order'', nReceivers := [''a''], nChannel := ChannelSMS,
      nTemplate := zero_Template\<lparr>tID := 3, tVersionID := 4, tParams := [(''code'', ''1'')]\<rparr>,
      nSendStrategyConfig := zero_SendStrategyConfig\<lparr>ssType := SendStrategyImmediate\<rparr>\<rparr>"

lemma demo_notification_valid: "Notification_Validate now demo_notification = None"
  by (simp add: Notification_Validate_def demo_notification_def zero_Notification_def zero_Template_def
      SendStrategyConfig_Validate_def status_simps Channel_IsValid_def)

theorem BatchAsync_ids_witness:
  "length (fst (fst (run_state (BatchSendNotificationsAsync demo_service
     [demo_notification, demo_notification]) ()))) = 2"
proof -
  let ?ns = "[demo_notification, demo_notification]"
  obtain ids where r: "run_state (BatchSendNotificationsAsync demo_service ?ns) () = ((ids, None), ())"
    by (simp add: BatchSendNotificationsAsync_def demo_service_def NewSendService_def
        demo_notification_valid)
  from BatchAsync_ids [OF this] r show ?thesis by simp
qed

end
