(* ===== verification/TxService.thy ===== *)
theory TxService
  imports NotificationRepo DaoFacts "HOL-Library.Multiset"
begin

text \<open>
  Transactional notifications: \<^verbatim>\<open>internal/repository/tx_notification.go\<close>, the service
  \<^verbatim>\<open>internal/service/notification/tx_notification.go\<close> and the check-back task
  \<^verbatim>\<open>check_back_task.go\<close>, which asks the business for the fate of transactions that are still
  prepared. The business is the parameter \<open>check\<close> (service name, key); its answer is the gRPC
  status code of the reply and an error.
\<close>

section \<open>The repository\<close>

definition tx_toDao :: "TxNotification \<Rightarrow> daoTxNotification" where
  "tx_toDao t =
     \<lparr>dtTxID = txTxID t, dtKey = txKey t, dtNotificationID = nID (txNotification t),
      dtBizID = txBizID t, dtStatus = txStatus t, dtCheckCount = txCheckCount t,
      dtNextCheckTime = txNextCheckTime t, dtCtime = txCtime t, dtUtime = txUtime t\<rparr>"

text \<open>Unlike the conversion of the notification repository this one leaves the template
  version out.\<close>

definition tx_toEntity :: "Codec \<Rightarrow> Notification \<Rightarrow> daoNotification" where
  "tx_toEntity c n =
     (let templateParams = cMarshalParams c (tParams (nTemplate n));
          receivers = cMarshalReceivers c (nReceivers n)
      in zero_daoNotification
           \<lparr>dnID := nID n, dnBizID := nBizID n, dnKey := nKey n, dnReceivers := receivers,
            dnChannel := nChannel n, dnTemplateID := tID (nTemplate n),
            dnTemplateParams := templateParams, dnStatus := nStatus n,
            dnScheduledSTime := UnixMilli (nScheduledSTime n),
            dnScheduledETime := UnixMilli (nScheduledETime n), dnVersion := nVersion n\<rparr>)"

definition tx_toDomain :: "daoTxNotification \<Rightarrow> TxNotification" where
  "tx_toDomain t =
     \<lparr>txTxID = dtTxID t, txNotification = zero_Notification\<lparr>nID := dtNotificationID t\<rparr>,
      txBizID = dtBizID t, txKey = dtKey t, txStatus = dtStatus t, txCheckCount = dtCheckCount t,
      txNextCheckTime = dtNextCheckTime t, txCtime = dtCtime t, txUtime = dtUtime t\<rparr>"

definition txrepo_Create ::
  "'s TxNotificationDAO \<Rightarrow> Codec \<Rightarrow> TxNotification \<Rightarrow> ('s, int64 ret) io" where
  "txrepo_Create d c t =
     (let txnEntity = tx_toDao t; notificationEntity = tx_toEntity c (txNotification t)
      in tdPrepare d txnEntity notificationEntity)"

definition txrepo_FindCheckBack ::
  "'s TxNotificationDAO \<Rightarrow> int64 \<Rightarrow> int64 \<Rightarrow> ('s, TxNotification list ret) io" where
  "txrepo_FindCheckBack d offset limit = do {
     (ts, err) \<leftarrow> tdFindCheckBack d offset limit;
     io_return (case err of Some e \<Rightarrow> ([], Some e) | None \<Rightarrow> (map tx_toDomain ts, None))
   }"

definition txrepo_UpdateCheckStatus ::
  "'s TxNotificationDAO \<Rightarrow> TxNotification list \<Rightarrow> SendStatus \<Rightarrow> ('s, gerr option) io" where
  "txrepo_UpdateCheckStatus d ts status = tdUpdateCheckStatus d (map tx_toDao ts) status"

definition NewTxNotificationRepository ::
  "'s TxNotificationDAO \<Rightarrow> Codec \<Rightarrow> 's TxNotificationRepository" where
  "NewTxNotificationRepository d c =
     \<lparr>trCreate = txrepo_Create d c, trFindCheckBack = txrepo_FindCheckBack d,
      trUpdateStatus = tdUpdateStatus d, trUpdateCheckStatus = txrepo_UpdateCheckStatus d\<rparr>"

section \<open>The service\<close>

record 's txService =
  tsRepo :: "'s TxNotificationRepository"
  tsNotiRepo :: "'s NotificationRepository"
  tsConfig :: "'s BusinessConfigService"
  tsSender :: "'s NotificationSender"
  tsClock :: "('s, gtime) io"

definition tx_Prepare_notification :: "'s txService \<Rightarrow> Notification \<Rightarrow> ('s, int64 ret) io" where
  "tx_Prepare_notification ts n0 = do {
     now \<leftarrow> tsClock ts;
     let n = SetSendTime now (n0\<lparr>nStatus := SendStatusPrepare\<rparr>);
     let txn = \<lparr>txTxID = 0, txNotification = n, txBizID = nBizID n, txKey = nKey n,
                txStatus = TxNotificationStatusPrepare, txCheckCount = 0, txNextCheckTime = 0,
                txCtime = 0, txUtime = 0\<rparr>;
     (cfg, err) \<leftarrow> bsGetByID (tsConfig ts) (nBizID n);
     if err = None then do {
       now' \<leftarrow> tsClock ts;
       trCreate (tsRepo ts) (case bcTxnConfig cfg of
           Some c \<Rightarrow> txn\<lparr>txNextCheckTime :=
             wrap64 (UnixMilli now' + wrap64 (txcInitialDelay c * 1000))\<rparr>
         | None \<Rightarrow> txn)
     }
     else trCreate (tsRepo ts) txn
   }"

definition tx_Commit :: "'s txService \<Rightarrow> int64 \<Rightarrow> string \<Rightarrow> ('s, gerr option) io" where
  "tx_Commit ts bizID key = do {
     err \<leftarrow> trUpdateStatus (tsRepo ts) bizID key TxNotificationStatusCommit SendStatusSending;
     case err of
       Some e \<Rightarrow> io_return (Some e)
     | None \<Rightarrow> do {
         (n, err) \<leftarrow> nrGetByKey (tsNotiRepo ts) bizID key;
         case err of
           Some e \<Rightarrow> io_return (Some e)
         | None \<Rightarrow>
             if IsImmediate n then do { (_, err) \<leftarrow> nsSend (tsSender ts) n; io_return err }
             else io_return None
       }
   }"

definition tx_Cancel :: "'s txService \<Rightarrow> int64 \<Rightarrow> string \<Rightarrow> ('s, gerr option) io" where
  "tx_Cancel ts bizID key =
     trUpdateStatus (tsRepo ts) bizID key TxNotificationStatusCancel SendStatusCanceled"

section \<open>The check-back task\<close>

record 's TxCheckTask =
  tcRepo :: "'s TxNotificationRepository"
  tcConfig :: "'s BusinessConfigService"
  tcClock :: "('s, gtime) io"
  tcBatchSize :: int64
  tcCheck :: "string \<Rightarrow> string \<Rightarrow> ('s, int32 ret) io"
  tcConvert :: "int \<Rightarrow> int64"

definition defaultBatchSize :: int64 where "defaultBatchSize = 10"
definition unknownStatus :: int32 where "unknownStatus = 0"
definition committedStatus :: int32 where "committedStatus = 1"
definition cancelStatus :: int32 where "cancelStatus = 2"

text \<open>\<open>NewTxCheckTask\<close> leaves the batch size at its zero value; \<open>StartTask\<close> of the service sets it.\<close>

definition NewTxCheckTask ::
  "'s TxNotificationRepository \<Rightarrow> 's BusinessConfigService \<Rightarrow> ('s, gtime) io
     \<Rightarrow> (string \<Rightarrow> string \<Rightarrow> ('s, int32 ret) io) \<Rightarrow> (int \<Rightarrow> int64) \<Rightarrow> 's TxCheckTask" where
  "NewTxCheckTask repo cfg clock check cvt =
     \<lparr>tcRepo = repo, tcConfig = cfg, tcClock = clock, tcBatchSize = 0, tcCheck = check,
      tcConvert = cvt\<rparr>"

definition StartTask ::
  "'s txService \<Rightarrow> (string \<Rightarrow> string \<Rightarrow> ('s, int32 ret) io) \<Rightarrow> (int \<Rightarrow> int64) \<Rightarrow> 's TxCheckTask" where
  "StartTask ts check cvt =
     \<lparr>tcRepo = tsRepo ts, tcConfig = tsConfig ts, tcClock = tsClock ts,
      tcBatchSize = defaultBatchSize, tcCheck = check, tcConvert = cvt\<rparr>"

definition getCheckBackRes ::
  "'s TxCheckTask \<Rightarrow> TxnConfig \<Rightarrow> TxNotification \<Rightarrow> ('s, int32 ret) io" where
  "getCheckBackRes task cfg txn = do {
     (status, err) \<leftarrow> tcCheck task (txcServiceName cfg) (txKey txn);
     io_return (case err of Some e \<Rightarrow> (unknownStatus, Some e) | None \<Rightarrow> (status, None))
   }"

text \<open>\<open>None\<close>: the retry configuration makes \<open>SetNextCheckBackTimeAndStatus\<close> panic.\<close>

definition oneBackCheck ::
  "'s TxCheckTask \<Rightarrow> (int64 \<Rightarrow> BusinessConfig option) \<Rightarrow> TxNotification
     \<Rightarrow> ('s, TxNotification option) io" where
  "oneBackCheck task configMap txn =
     (case Option.bind (configMap (txBizID txn)) bcTxnConfig of
        None \<Rightarrow> io_return (Some (txn\<lparr>txNextCheckTime := 0, txStatus := TxNotificationStatusFail\<rparr>))
      | Some txConfig \<Rightarrow> do {
          (res, err) \<leftarrow> getCheckBackRes task txConfig txn;
          let txn = txn\<lparr>txCheckCount := wrap64 (txCheckCount txn + 1)\<rparr>;
          if err \<noteq> None \<or> res = unknownStatus then do {
            now \<leftarrow> tcClock task;
            io_return (SetNextCheckBackTimeAndStatus (tcConvert task) now (Some txConfig) txn)
          }
          else if res = cancelStatus then
            io_return (Some (txn\<lparr>txNextCheckTime := 0, txStatus := TxNotificationStatusCancel\<rparr>))
          else if res = committedStatus then
            io_return (Some (txn\<lparr>txNextCheckTime := 0, txStatus := TxNotificationStatusCommit\<rparr>))
          else io_return (Some txn)
        })"

definition task_updateStatus ::
  "'s TxCheckTask \<Rightarrow> TxNotification list \<Rightarrow> SendStatus \<Rightarrow> ('s, gerr option) io" where
  "task_updateStatus task txns status =
     (if txns = [] then io_return None else trUpdateCheckStatus (tcRepo task) txns status)"

definition multierr_Append :: "gerr option \<Rightarrow> gerr option \<Rightarrow> gerr option" where
  "multierr_Append a b =
     (case a of None \<Rightarrow> b | Some e \<Rightarrow> (case b of None \<Rightarrow> a | Some e' \<Rightarrow> Some (Wrap [e, e'])))"

text \<open>The concurrent checks, in the order \<open>sched\<close> in which they finish.\<close>

definition run_checks ::
  "'s TxCheckTask \<Rightarrow> (int64 \<Rightarrow> BusinessConfig option) \<Rightarrow> TxNotification list \<Rightarrow> nat list
     \<Rightarrow> ('s, TxNotification option list) io" where
  "run_checks task configMap txns sched =
     State_Monad.traverse_list (\<lambda>i. oneBackCheck task configMap (txns ! i)) sched"

definition is_retry :: "TxNotification \<Rightarrow> bool" where
  "is_retry t \<longleftrightarrow> txStatus t = TxNotificationStatusPrepare"
definition is_commit :: "TxNotification \<Rightarrow> bool" where
  "is_commit t \<longleftrightarrow> txStatus t = TxNotificationStatusCommit"
definition is_fail :: "TxNotification \<Rightarrow> bool" where
  "is_fail t \<longleftrightarrow> txStatus t = TxNotificationStatusCancel \<or> txStatus t = TxNotificationStatusFail"

definition oneLoop :: "'s TxCheckTask \<Rightarrow> nat list \<Rightarrow> ('s, gerr option option) io" where
  "oneLoop task sched = do {
     (txns, err) \<leftarrow> trFindCheckBack (tcRepo task) 0 (tcBatchSize task);
     case err of
       Some e \<Rightarrow> io_return (Some (Some e))
     | None \<Rightarrow>
         if txns = [] then io_return (Some None)
         else do {
           (configMap, err) \<leftarrow> bsGetByIDs (tcConfig task) (map txBizID txns);
           case err of
             Some e \<Rightarrow> io_return (Some (Some e))
           | None \<Rightarrow> do {
               results \<leftarrow> run_checks task configMap txns sched;
               if None \<in> set results then io_return None
               else do {
                 let checked = map the results;
                 if \<not> list_all (\<lambda>t. is_retry t \<or> is_commit t \<or> is_fail t) checked
                 then io_return (Some (Some (Ext ''illegal check-back status'')))
                 else do {
                   err1 \<leftarrow> task_updateStatus task (filter is_retry checked) SendStatusPrepare;
                   err2 \<leftarrow> task_updateStatus task (filter is_fail checked) SendStatusFailed;
                   err3 \<leftarrow> task_updateStatus task (filter is_commit checked) SendStatusSending;
                   io_return (Some (multierr_Append (multierr_Append err1 err2) err3))
                 }
               }
             }
         }
   }"

section \<open>Check-back\<close>

lemma SetNext_status:
  assumes "SetNextCheckBackTimeAndStatus cvt now cfg t = Some t'"
  shows "txStatus t' = txStatus t \<or> txStatus t' = TxNotificationStatusFail \<and> txNextCheckTime t' = 0"
    and "txKey t' = txKey t" "txBizID t' = txBizID t" "txCheckCount t' = txCheckCount t"
    "txNotification t' = txNotification t"
  using assms by (auto simp: SetNextCheckBackTimeAndStatus_def split: option.splits prod.splits if_splits)

text \<open>A check-back keeps the identity of a prepared transaction, counts the question if it
  asked one, and settles it by the answer: commit on 1, cancel on 2, and without a transaction
  configuration failure. On an error or 0 the retry policy keeps it prepared or fails it. A
  settled transaction is never checked again.\<close>

theorem oneBackCheck_settles:
  assumes "run_state (oneBackCheck task configMap t) s = (Some t', s')"
    and "txStatus t = TxNotificationStatusPrepare"
    and "run_state (getCheckBackRes task (the (bcTxnConfig (the (configMap (txBizID t))))) t) s
           = ((res, err), s1)"
  shows "txKey t' = txKey t \<and> txBizID t' = txBizID t \<and> txNotification t' = txNotification t
    \<and> txStatus t' = (case Option.bind (configMap (txBizID t)) bcTxnConfig of
          None \<Rightarrow> TxNotificationStatusFail
        | Some _ \<Rightarrow>
            if err = None \<and> res = 1 then TxNotificationStatusCommit
            else if err = None \<and> res = 2 then TxNotificationStatusCancel
            else if (err \<noteq> None \<or> res = 0) \<and> txStatus t' = TxNotificationStatusFail
            then TxNotificationStatusFail else TxNotificationStatusPrepare)
    \<and> (txStatus t' \<noteq> TxNotificationStatusPrepare \<longrightarrow> txNextCheckTime t' = 0)
    \<and> (Option.bind (configMap (txBizID t)) bcTxnConfig \<noteq> None \<longrightarrow>
          txCheckCount t' = wrap64 (txCheckCount t + 1))"
proof (cases "Option.bind (configMap (txBizID t)) bcTxnConfig")
  case None
  with assms show ?thesis by (auto simp: oneBackCheck_def status_simps)
next
  case (Some txConfig)
  then obtain c where c: "configMap (txBizID t) = Some c" "bcTxnConfig c = Some txConfig"
    by (auto simp: bind_eq_Some_conv)
  with assms(3) have chk: "run_state (getCheckBackRes task txConfig t) s = ((res, err), s1)" by simp
  let ?t = "t\<lparr>txCheckCount := wrap64 (txCheckCount t + 1)\<rparr>"
  show ?thesis
  proof (cases "err \<noteq> None \<or> res = 0")
    case True
    obtain now s2 where "run_state (tcClock task) s1 = (now, s2)" by (metis prod.collapse)
    with assms(1) Some chk True
    have "SetNextCheckBackTimeAndStatus (tcConvert task) now (Some txConfig) ?t = Some t'"
      by (auto simp: oneBackCheck_def Let_def unknownStatus_def split: if_splits)
    from SetNext_status [OF this] Some True assms(2) show ?thesis
      by (auto simp: status_simps)
  next
    case False
    with assms(1,2) Some chk show ?thesis
      by (auto simp: oneBackCheck_def Let_def unknownStatus_def cancelStatus_def committedStatus_def
          status_simps split: if_splits)
  qed
qed

text \<open>A business that has a transaction configuration and always answers that it committed.\<close>

definition example_txn :: TxNotification where
  "example_txn = \<lparr>txTxID = 1, txNotification = zero_Notification, txBizID = 7, txKey = ''k'',
     txStatus = TxNotificationStatusPrepare, txCheckCount = 0, txNextCheckTime = 5, txCtime = 0,
     txUtime = 0\<rparr>"

definition example_config :: "int64 \<Rightarrow> BusinessConfig option" where
  "example_config _ = Some (zero_BusinessConfig\<lparr>bcTxnConfig :=
     Some \<lparr>txcServiceName = ''svc'', txcInitialDelay = 1, txcRetryPolicy = None\<rparr>\<rparr>)"

definition example_task :: "unit TxCheckTask" where
  "example_task =
     \<lparr>tcRepo = \<lparr>trCreate = \<lambda>_. io_return (1, None),
                trFindCheckBack = \<lambda>_ _. io_return ([example_txn], None),
                trUpdateStatus = \<lambda>_ _ _ _. io_return None,
                trUpdateCheckStatus = \<lambda>_ _. io_return None\<rparr>,
      tcConfig = fixed_config example_config, tcClock = io_return 1, tcBatchSize = defaultBatchSize,
      tcCheck = \<lambda>_ _. io_return (committedStatus, None), tcConvert = \<lambda>_. 0\<rparr>"

lemma example_check:
  "run_state (getCheckBackRes example_task cfg t) s = ((committedStatus, None), s)"
  "run_state (oneBackCheck example_task example_config example_txn) s =
     (Some (example_txn\<lparr>txCheckCount := 1, txNextCheckTime := 0, txStatus := TxNotificationStatusCommit\<rparr>), s)"
  by (simp_all add: getCheckBackRes_def example_task_def oneBackCheck_def example_config_def Let_def
      committedStatus_def unknownStatus_def cancelStatus_def example_txn_def wrap64_def)

theorem oneBackCheck_settles_witness:
  "\<exists>t'. run_state (oneBackCheck example_task example_config example_txn) () = (Some t', ())
     \<and> txStatus t' = TxNotificationStatusCommit \<and> txKey t' = ''k'' \<and> txCheckCount t' = 1"
proof -
  let ?t = "example_txn\<lparr>txCheckCount := 1, txNextCheckTime := 0, txStatus := TxNotificationStatusCommit\<rparr>"
  have "txStatus example_txn = TxNotificationStatusPrepare" by (simp add: example_txn_def)
  from oneBackCheck_settles [OF example_check(2) this example_check(1)]
  have "txStatus ?t = TxNotificationStatusCommit \<and> txKey ?t = ''k'' \<and> txCheckCount ?t = 1"
    by (simp add: example_config_def example_txn_def committedStatus_def wrap64_def)
  with example_check(2) [of "()"] show ?thesis by blast
qed

lemma length_run_checks:
  "length (fst (run_state (run_checks task m txns sched) s)) = length sched"
proof -
  have "length (fst (run_state (State_Monad.traverse_list f xs) s)) = length xs" for f :: "nat \<Rightarrow> _" and xs s
    by (induction xs arbitrary: s) (simp_all add: split_beta)
  then show ?thesis by (simp add: run_checks_def)
qed

lemma partition3:
  assumes "list_all (\<lambda>x. P x \<or> Q x \<or> R x) xs"
    and "\<And>x. \<not> (P x \<and> Q x)" "\<And>x. \<not> (P x \<and> R x)" "\<And>x. \<not> (Q x \<and> R x)"
  shows "mset (filter P xs) + mset (filter Q xs) + mset (filter R xs) = mset xs"
  using assms(1)
proof (induction xs)
  case (Cons x xs)
  then show ?case using assms(2-4) [of x] by auto
qed simp

lemma statuses_exclusive:
  "\<not> (is_retry t \<and> is_fail t)" "\<not> (is_retry t \<and> is_commit t)" "\<not> (is_fail t \<and> is_commit t)"
  by (auto simp: is_retry_def is_fail_def is_commit_def status_simps)



section \<open>Commit\<close>

text \<open>The service over the in-memory database, with a quota cache that grants everything.\<close>

definition mem_service :: "tables txService" where
  "mem_service =
     \<lparr>tsRepo = NewTxNotificationRepository (NewTxNotificationDAO mem_gorm) test_codec,
      tsNotiRepo = NewNotificationRepository (NewNotificationDAO mem_gorm)
        \<lparr>qcCreateOrUpdate = \<lambda>_. io_return None,
         qcFind = \<lambda>b c. io_return (\<lparr>qBizID = b, qQuota = 1, qChannel = c\<rparr>, None),
         qcIncr = \<lambda>_ _ _. io_return None, qcDecr = \<lambda>_ _ _. io_return None,
         qcMutiIncr = \<lambda>_. io_return None, qcMutiDecr = \<lambda>_. io_return None\<rparr> test_codec,
      tsConfig = fixed_config example_config,
      tsSender = \<lparr>nsSend = \<lambda>n. io_return (\<lparr>NotificationID = nID n, srStatus = SendStatusSucceeded\<rparr>, None),
                  nsBatchSend = \<lambda>_. io_return ([], None)\<rparr>,
      tsClock = gNow mem_gorm\<rparr>"

text \<open>Committing never sends: the notification read back from the repository has lost its
  send strategy, so it is never immediate, and the sender can be replaced by any other.\<close>

theorem Commit_never_sends:
  assumes "tsNotiRepo ts = NewNotificationRepository d q c"
  shows "tx_Commit ts bizID key = tx_Commit (ts\<lparr>tsSender := other\<rparr>) bizID key"
proof -
  have "\<not> IsImmediate (toDomain c e)" for e
    by (simp add: IsImmediate_def toDomain_def Let_def zero_SendStrategyConfig_def status_simps)
  then have "run_state (tx_Commit ts bizID key) s = run_state (tx_Commit (ts\<lparr>tsSender := other\<rparr>) bizID key) s" for s
    using assms
    by (simp add: tx_Commit_def NewNotificationRepository_def Let_def repo_GetByKey_def
        split: option.split prod.split)
  then show ?thesis by (rule state_ext)
qed

theorem Commit_never_sends_witness:
  "tx_Commit mem_service 7 ''k''
   = tx_Commit (mem_service\<lparr>tsSender := \<lparr>nsSend = \<lambda>n. io_return
       (\<lparr>NotificationID = 0, srStatus = SendStatusFailed\<rparr>, Some (Err ErrSendNotificationFailed)),
       nsBatchSend = \<lambda>_. io_return ([], None)\<rparr>\<rparr>) 7 ''k''"
  by (rule Commit_never_sends) (simp add: mem_service_def)

text \<open>What \<open>First\<close> does when no row satisfies the conditions.\<close>

definition first_law :: "'s gorm \<Rightarrow> ('s \<Rightarrow> tables) \<Rightarrow> bool" where
  "first_law g view \<longleftrightarrow> (\<forall>conds s. filter (row_matches n_col conds) (tbN (view s)) = [] \<longrightarrow>
     (\<exists>r s'. run_state (gFirstN g conds) s = ((r, Some ErrRecordNotFound), s') \<and> view s' = view s))"

lemma mem_first: "first_law mem_gorm (\<lambda>tb. tb)"
  by (simp add: first_law_def mem_gorm_def)

lemma matches_key:
  "row_matches n_col [CEq ''biz_id'' (SInt b), CEq ''key'' (SStr k)] = (\<lambda>r. dnBizID r = b \<and> dnKey r = k)"
  by (rule ext) (auto simp: row_matches_def n_col_def)

definition has_row :: "tables \<Rightarrow> int64 \<Rightarrow> string \<Rightarrow> bool" where
  "has_row tb bizID key \<longleftrightarrow> (\<exists>r \<in> set (tbN tb). dnBizID r = bizID \<and> dnKey r = key)"

lemma n_set_key [simp]: "dnBizID (n_set u r) = dnBizID r" "dnKey (n_set u r) = dnKey r"
  by (cases "(u, r)" rule: n_set.cases; simp)+

lemma update_has_row:
  assumes "sql_update table conds [u] tb = Some (k, tb')"
  shows "has_row tb' bizID key \<longleftrightarrow> has_row tb bizID key"
proof -
  let ?keys = "\<lambda>tb. map (\<lambda>r. (dnBizID r, dnKey r)) (tbN tb)"
  have "?keys tb' = ?keys tb"
  proof (cases table)
    case Notifications
    with assms have "tbN tb' = map (\<lambda>r. if row_matches n_col conds r then fold n_set [u] r else r) (tbN tb)"
      by (auto simp: sql_update_def update_rows_def split: if_splits)
    then show ?thesis by simp
  qed (use assms in \<open>auto simp: sql_update_def update_rows_def split: if_splits\<close>)
  then have "set (?keys tb') = set (?keys tb)" by simp
  moreover have "has_row t bizID key \<longleftrightarrow> (bizID, key) \<in> set (?keys t)" for t
    by (auto simp: has_row_def)
  ultimately show ?thesis by simp
qed

lemma updates_has_row:
  assumes "sql_engine g view" "run_state (gUpdates g table conds [u]) s = (r, s')"
  shows "has_row (view s') bizID key \<longleftrightarrow> has_row (view s) bizID key"
  using assms(1)
proof (cases rule: run_updates [of g view table conds "[u]" s])
  case (ok k tb s'')
  with assms(2) show ?thesis using update_has_row by fastforce
next
  case (bad e s'')
  with assms(2) show ?thesis by simp
qed

lemma UpdateStatus_has_row:
  assumes "sql_engine g view" "run_state (tx_UpdateStatus g b k st ns) s = (r, s')"
  shows "has_row (view s') bizID key \<longleftrightarrow> has_row (view s) bizID key"
proof -
  obtain k1 e1 s1 where u1: "run_state (gUpdates g TxNotifications
      [CEq ''biz_id'' (SInt b), CEq ''key'' (SStr k), CEq ''status'' (SStr ''PREPARE'')]
      [SetTo ''status'' (SStr st)]) s = ((k1, e1), s1)" by (metis prod.collapse)
  obtain k2 e2 s2 where u2: "run_state (gUpdates g Notifications
      [CEq ''biz_id'' (SInt b), CEq ''key'' (SStr k)] [SetTo ''status'' (SStr ns)]) s1 = ((k2, e2), s2)"
    by (metis prod.collapse)
  note keep = updates_has_row [OF assms(1) u1] updates_has_row [OF assms(1) u2]
  obtain x e s3 where body: "run_state (tx_updateStatus_tx g b k st ns) s = ((x, e), s3)"
    by (metis prod.collapse)
  with u1 u2 have "s3 = s1 \<or> s3 = s2"
    by (cases e1) (auto simp: tx_updateStatus_tx_def split: if_splits)
  with keep have "has_row (view s3) bizID key \<longleftrightarrow> has_row (view s) bizID key" by auto
  moreover obtain s4 where "run_state (gTransaction g (tx_updateStatus_tx g b k st ns)) s = ((x, e), s4)"
    "view s4 = (if e = None then view s3 else view s)"
    using run_transaction [OF assms(1) body] by blast
  ultimately show ?thesis using assms(2) by (auto simp: tx_UpdateStatus_def split: if_splits)
qed

lemma Commit_without_row:
  assumes "sql_engine g view" "first_law g view" "\<not> has_row (view s) bizID key"
    and "tsRepo ts = NewTxNotificationRepository (NewTxNotificationDAO g) c"
    and "tsNotiRepo ts = NewNotificationRepository (NewNotificationDAO g) q c'"
  shows "fst (run_state (tx_Commit ts bizID key) s) \<noteq> None"
proof -
  obtain e s1 where u: "run_state (tx_UpdateStatus g bizID key TxNotificationStatusCommit SendStatusSending) s
      = (e, s1)" by (metis prod.collapse)
  then have "\<not> has_row (view s1) bizID key"
    using UpdateStatus_has_row [OF assms(1) u] assms(3) by blast
  then have "filter (row_matches n_col [CEq ''biz_id'' (SInt bizID), CEq ''key'' (SStr key)])
      (tbN (view s1)) = []"
    by (auto simp: matches_key has_row_def filter_empty_conv)
  with assms(2) obtain r s2 where "run_state (gFirstN g
      [CEq ''biz_id'' (SInt bizID), CEq ''key'' (SStr key)]) s1 = ((r, Some ErrRecordNotFound), s2)"
    unfolding first_law_def by blast
  with u assms(4,5) show ?thesis
    by (cases e) (simp_all add: tx_Commit_def NewTxNotificationRepository_def NewTxNotificationDAO_def
        NewNotificationRepository_def Let_def repo_GetByKey_def NewNotificationDAO_def dao_GetByKey_def)
qed



end
