(* ===== verification/Api.thy ===== *)
theory Api
  imports Domain
begin

text \<open>
  The enumerations and messages of \<^verbatim>\<open>api/proto/notification/v1/notification.proto\<close> that the
  call-back service and the gRPC server build. Protocol buffer enumerations are integers; error
  messages are not kept, as everywhere in this development.
\<close>

type_synonym pbSendStatus = int

definition SendStatus_SEND_STATUS_UNSPECIFIED :: pbSendStatus where
  [status_simps]: "SendStatus_SEND_STATUS_UNSPECIFIED = 0"
definition SendStatus_PREPARE :: pbSendStatus where [status_simps]: "SendStatus_PREPARE = 1"
definition SendStatus_CANCELED :: pbSendStatus where [status_simps]: "SendStatus_CANCELED = 2"
definition SendStatus_PENDING :: pbSendStatus where [status_simps]: "SendStatus_PENDING = 3"
definition SendStatus_SUCCEEDED :: pbSendStatus where [status_simps]: "SendStatus_SUCCEEDED = 4"
definition SendStatus_FAILED :: pbSendStatus where [status_simps]: "SendStatus_FAILED = 5"

definition Channel_CHANNEL_UNSPECIFIED :: pbChannel where [status_simps]: "Channel_CHANNEL_UNSPECIFIED = 0"

text \<open>The error codes.\<close>

datatype ErrorCode =
    ErrorCode_ERROR_CODE_UNSPECIFIED | ErrorCode_INVALID_PARAMETER
  | ErrorCode_RATE_LIMITED | ErrorCode_TEMPLATE_NOT_FOUND
  | ErrorCode_CHANNEL_DISABLED | ErrorCode_CREATE_NOTIFICATION_FAILED
  | ErrorCode_BIZ_ID_NOT_FOUND | ErrorCode_NOTIFICATION_NOT_FOUND
  | ErrorCode_NO_AVAILABLE_PROVIDER | ErrorCode_NO_AVAILABLE_CHANNEL
  | ErrorCode_SEND_NOTIFICATION_FAILED | ErrorCode_CONFIG_NOT_FOUND
  | ErrorCode_NO_QUOTA_CONFIG | ErrorCode_NO_QUOTA
  | ErrorCode_QUOTA_NOT_FOUND | ErrorCode_PROVIDER_NOT_FOUND
  | ErrorCode_UNKNOWN_CHANNEL

record SendNotificationResponse =
  snrNotificationId :: int64
  snrStatus :: pbSendStatus
  snrErrorCode :: ErrorCode

definition zero_response :: SendNotificationResponse where
  "zero_response =
     \<lparr>snrNotificationId = 0, snrStatus = SendStatus_SEND_STATUS_UNSPECIFIED,
      snrErrorCode = ErrorCode_ERROR_CODE_UNSPECIFIED\<rparr>"

definition zero_pbNotification :: pbNotification where
  "zero_pbNotification =
     \<lparr>pbKey = '''', pbReceivers = [], pbChannel = Channel_CHANNEL_UNSPECIFIED, pbTemplateId = '''',
      pbTemplateParams = [], pbSendStrategy = None, pbReceiver = ''''\<rparr>"

text \<open>The request of the call-back interface (\<^verbatim>\<open>api/proto/client/v1/notification.proto\<close>).\<close>

record HandleNotificationResultRequest =
  hrNotificationId :: int64
  hrOriginalRequest :: pbNotification
  hrResult :: SendNotificationResponse

section \<open>Requests\<close>

text \<open>The requests of the notification service; a message field that is nil is \<open>None\<close>.\<close>

datatype request =
    SendNotificationRequest "pbNotification option"
  | SendNotificationAsyncRequest "pbNotification option"
  | SendNotificationBatchRequest "pbNotification option list"
  | SendNotificationBatchAsyncRequest "pbNotification option list"
  | OtherRequest

text \<open>\<^verbatim>\<open>notification_ext.go\<close>. The outer \<open>None\<close> of \<open>GetIdempotencyKeys\<close> is a request that does not
  implement the interface, the inner one the panic of reading the key of a nil notification.\<close>

fun GetIdempotencyKeys :: "request \<Rightarrow> string list option option" where
  "GetIdempotencyKeys (SendNotificationRequest n) =
     Some (Some (case n of Some n \<Rightarrow> [pbKey n] | None \<Rightarrow> []))"
| "GetIdempotencyKeys (SendNotificationAsyncRequest n) =
     Some (Some (case n of Some n \<Rightarrow> [pbKey n] | None \<Rightarrow> []))"
| "GetIdempotencyKeys (SendNotificationBatchRequest ns) =
     Some (those (map (map_option pbKey) ns))"
| "GetIdempotencyKeys (SendNotificationBatchAsyncRequest ns) =
     Some (those (map (map_option pbKey) ns))"
| "GetIdempotencyKeys OtherRequest = None"

fun GetNotifications :: "request \<Rightarrow> pbNotification option list option" where
  "GetNotifications (SendNotificationRequest n) =
     Some (case n of Some n \<Rightarrow> [Some n] | None \<Rightarrow> [])"
| "GetNotifications (SendNotificationAsyncRequest n) =
     Some (case n of Some n \<Rightarrow> [Some n] | None \<Rightarrow> [])"
| "GetNotifications (SendNotificationBatchRequest ns) = Some ns"
| "GetNotifications (SendNotificationBatchAsyncRequest ns) = Some ns"
| "GetNotifications OtherRequest = None"

definition FindReceivers :: "pbNotification \<Rightarrow> string list" where
  "FindReceivers x = (if pbReceiver x \<noteq> '''' then pbReceivers x @ [pbReceiver x] else pbReceivers x)"

text \<open>\<open>None\<close>: a nil pointer is dereferenced.\<close>

definition CustomValidate :: "pbNotification \<Rightarrow> gerr option option" where
  "CustomValidate x =
     (case pbSendStrategy x of
        None \<Rightarrow> None
      | Some (Some (SendStrategy_Delayed None)) \<Rightarrow> None
      | Some (Some (SendStrategy_Delayed (Some delaySeconds))) \<Rightarrow>
          Some (if wrap64 (delaySeconds * second) > 24 * 60 * minute
                then Some (Ext ''delayed send strategy is too long'') else None)
      | Some _ \<Rightarrow> Some None)"

fun parse_receivers :: "string list \<Rightarrow> int64 list \<Rightarrow> int64 list ret" where
  "parse_receivers [] result = (result, None)"
| "parse_receivers (r # rs) result =
     (case ParseInt r of
        None \<Rightarrow> ([], Some (Wrap [Ext ''strconv.ParseInt'']))
      | Some val \<Rightarrow> parse_receivers rs (result @ [val]))"

definition ReceiverAsUid :: "pbNotification \<Rightarrow> int64 list ret" where
  "ReceiverAsUid x = parse_receivers (FindReceivers x) []"

lemma parse_receivers_ids:
  "list_all int64_range ids \<Longrightarrow> parse_receivers (map FormatInt ids) acc = (acc @ ids, None)"
  by (induction ids arbitrary: acc) (simp_all add: ParseInt_FormatInt)

lemma FormatInt_nonempty [simp]: "FormatInt i \<noteq> ''''"
  by (simp add: FormatInt_def)

text \<open>User identifiers written as receivers are read back, the single receiver last.\<close>

lemma ReceiverAsUid_ids:
  assumes "list_all int64_range ids" "int64_range i"
    and "pbReceivers x = map FormatInt ids" "pbReceiver x = FormatInt i"
  shows "ReceiverAsUid x = (ids @ [i], None)"
proof -
  have "FindReceivers x = map FormatInt (ids @ [i])"
    using assms(3,4) by (simp add: FindReceivers_def)
  then show ?thesis
    using parse_receivers_ids [of "ids @ [i]" "[]"] assms(1,2) by (simp add: ReceiverAsUid_def)
qed

text \<open>The limit of one day does not hold for delays whose nanoseconds overflow.\<close>

lemma CustomValidate_overflow:
  "CustomValidate (zero_pbNotification
     \<lparr>pbSendStrategy := Some (Some (SendStrategy_Delayed (Some 18446744074)))\<rparr>) = Some None"
  by (simp add: CustomValidate_def wrap64_def second_def minute_def)

end
