(* ===== verification/Callback.thy ===== *)
theory Callback
  imports Interfaces Api
begin

text \<open>
  The call-backs: \<^verbatim>\<open>internal/repository/callback_log.go\<close> and
  \<^verbatim>\<open>internal/service/notification/callback/callback.go\<close>, which tells the businesses the outcome of
  their notifications and keeps a log of the attempts. The gRPC client of the business is the
  operation \<open>cbHandle\<close> (service name, request), which answers whether the business accepted; the
  cache of configurations is a part of the world, read and written through \<open>cbCache\<close> and
  \<open>cbSetCache\<close>. A result \<open>None\<close> of an operation is a panic. \<open>cbOrder\<close> is the order in which Go
  walks through a map.
\<close>

section \<open>The repository\<close>

record 's callbackLogRepository =
  clrNotificationRepo :: "'s NotificationRepository"
  clrFind :: "int64 \<Rightarrow> int64 \<Rightarrow> int64 \<Rightarrow> ('s, daoCallbackLog list \<times> int64 \<times> gerr option) io"
  clrFindByNotificationIDs :: "int64 list \<Rightarrow> ('s, daoCallbackLog list ret) io"
  clrUpdate :: "daoCallbackLog list \<Rightarrow> ('s, gerr option) io"

definition cbl_toDomain :: "daoCallbackLog \<Rightarrow> Notification \<Rightarrow> CallbackLog" where
  "cbl_toDomain l n =
     \<lparr>clID = dcID l, clNotification = n, clRetryCount = dcRetryCount l,
      clNextRetryTime = dcNextRetryTime l, clStatus = dcStatus l\<rparr>"

definition cbl_toEntity :: "CallbackLog \<Rightarrow> daoCallbackLog" where
  "cbl_toEntity l =
     \<lparr>dcID = clID l, dcNotificationID = nID (clNotification l), dcRetryCount = clRetryCount l,
      dcNextRetryTime = clNextRetryTime l, dcStatus = clStatus l, dcCtime = 0, dcUtime = 0\<rparr>"

definition cbl_load ::
  "'s NotificationRepository \<Rightarrow> daoCallbackLog \<Rightarrow> ('s, CallbackLog) io" where
  "cbl_load repo l = do {
     (n, _) \<leftarrow> nrGetByID repo (dcNotificationID l);
     io_return (cbl_toDomain l n)
   }"

definition cblrepo_Find ::
  "'s callbackLogRepository \<Rightarrow> int64 \<Rightarrow> int64 \<Rightarrow> int64
     \<Rightarrow> ('s, CallbackLog list \<times> int64 \<times> gerr option) io" where
  "cblrepo_Find r startTime batchSize startID = do {
     (entities, nextStartID, err) \<leftarrow> clrFind r startTime batchSize startID;
     case err of
       Some e \<Rightarrow> io_return ([], 0, Some e)
     | None \<Rightarrow> do {
         let nextStartID = (if int (length entities) < batchSize then 0 else nextStartID);
         result \<leftarrow> State_Monad.traverse_list (cbl_load (clrNotificationRepo r)) entities;
         io_return (result, nextStartID, None)
       }
   }"

definition cblrepo_Update :: "'s callbackLogRepository \<Rightarrow> CallbackLog list \<Rightarrow> ('s, gerr option) io" where
  "cblrepo_Update r logs = clrUpdate r (map cbl_toEntity logs)"

text \<open>A notification that is not in the answer reads as the zero value.\<close>

definition cblrepo_FindByNotificationIDs ::
  "'s callbackLogRepository \<Rightarrow> int64 list \<Rightarrow> ('s, CallbackLog list ret) io" where
  "cblrepo_FindByNotificationIDs r ids = do {
     (logs, err) \<leftarrow> clrFindByNotificationIDs r ids;
     case err of
       Some e \<Rightarrow> io_return ([], Some e)
     | None \<Rightarrow> do {
         (ns, err) \<leftarrow> nrBatchGetByID (clrNotificationRepo r) ids;
         io_return (case err of
             Some e \<Rightarrow> ([], Some e)
           | None \<Rightarrow> (map (\<lambda>l. cbl_toDomain l (case ns (dcNotificationID l) of
                 Some n \<Rightarrow> n | None \<Rightarrow> zero_Notification)) logs, None))
       }
   }"

definition NewCallbackLogRepository :: "'s callbackLogRepository \<Rightarrow> 's CallbackLogRepository" where
  "NewCallbackLogRepository r =
     \<lparr>crFind = cblrepo_Find r, crUpdate = cblrepo_Update r,
      crFindByNotificationIDs = cblrepo_FindByNotificationIDs r\<rparr>"

section \<open>Requests\<close>

definition callback_getChannel :: "Notification \<Rightarrow> pbChannel" where
  "callback_getChannel n =
     (if nChannel n = ChannelSMS then Channel_SMS
      else if nChannel n = ChannelEmail then Channel_EMAIL
      else if nChannel n = ChannelInApp then Channel_IN_APP
      else Channel_CHANNEL_UNSPECIFIED)"

definition callback_getStatus :: "Notification \<Rightarrow> pbSendStatus" where
  "callback_getStatus n =
     (if nStatus n = SendStatusSucceeded then SendStatus_SUCCEEDED
      else if nStatus n = SendStatusFailed then SendStatus_FAILED
      else if nStatus n = SendStatusCanceled then SendStatus_CANCELED
      else if nStatus n = SendStatusPending then SendStatus_PENDING
      else if nStatus n = SendStatusPrepare then SendStatus_PREPARE
      else SendStatus_SEND_STATUS_UNSPECIFIED)"

definition buildRequest :: "Notification \<Rightarrow> HandleNotificationResultRequest" where
  "buildRequest n =
     \<lparr>hrNotificationId = nID n,
      hrOriginalRequest = zero_pbNotification
        \<lparr>pbKey := nKey n, pbReceivers := nReceivers n, pbChannel := callback_getChannel n,
         pbTemplateId := FormatInt (tID (nTemplate n)), pbTemplateParams := tParams (nTemplate n)\<rparr>,
      hrResult = zero_response\<lparr>snrNotificationId := nID n, snrStatus := callback_getStatus n\<rparr>\<rparr>"

section \<open>The service\<close>

record 's callback_service =
  cbConfig :: "'s BusinessConfigService"
  cbRepo :: "'s CallbackLogRepository"
  cbClock :: "('s, gtime) io"
  cbHandle :: "string \<Rightarrow> HandleNotificationResultRequest \<Rightarrow> ('s, bool ret) io"
  cbCache :: "'s \<Rightarrow> int64 \<Rightarrow> CallbackConfig option"
  cbSetCache :: "(int64 \<Rightarrow> CallbackConfig option) \<Rightarrow> 's \<Rightarrow> 's"
  cbConvert :: "int \<Rightarrow> int64"
  cbOrder :: "int64 list \<Rightarrow> int64 list"

definition getConfig :: "'s callback_service \<Rightarrow> int64 \<Rightarrow> ('s, CallbackConfig option ret) io" where
  "getConfig sv bizId = do {
     s \<leftarrow> State_Monad.get;
     case cbCache sv s bizId of
       Some cfg \<Rightarrow> io_return (Some cfg, None)
     | None \<Rightarrow> do {
         (bizConfig, err) \<leftarrow> bsGetByID (cbConfig sv) bizId;
         case err of
           Some e \<Rightarrow> io_return (None, Some e)
         | None \<Rightarrow> do {
             _ \<leftarrow> (case bcCallbackConfig bizConfig of
                 None \<Rightarrow> io_return ()
               | Some cfg \<Rightarrow> do {
                   s \<leftarrow> State_Monad.get;
                   State_Monad.set (cbSetCache sv ((cbCache sv s)(bizId \<mapsto> cfg)) s)
                 });
             io_return (bcCallbackConfig bizConfig, None)
           }
       }
   }"

text \<open>The result is the field \<open>Success\<close> of the response; it is only read when there is no error.\<close>

definition sendCallback :: "'s callback_service \<Rightarrow> Notification \<Rightarrow> ('s, bool ret) io" where
  "sendCallback sv n = do {
     (cfg, err) \<leftarrow> getConfig sv (nBizID n);
     case err of
       Some e \<Rightarrow> io_return (False, Some e)
     | None \<Rightarrow>
         (case cfg of
            None \<Rightarrow> io_return (False, Some (Wrap [Err ErrConfigNotFound]))
          | Some c \<Rightarrow> cbHandle sv (cbcServiceName c) (buildRequest n))
   }"

definition sendCallbackAndSetChangedFields ::
  "'s callback_service \<Rightarrow> CallbackLog \<Rightarrow> ('s, (CallbackLog \<times> bool ret) option) io" where
  "sendCallbackAndSetChangedFields sv l = do {
     (success, err) \<leftarrow> sendCallback sv (clNotification l);
     if err \<noteq> None then io_return (Some (l, False, err))
     else if success
     then io_return (Some (l\<lparr>clStatus := CallbackLogStatusSuccess\<rparr>, True, None))
     else do {
       (cfg, _) \<leftarrow> getConfig sv (nBizID (clNotification l));
       case Option.bind cfg cbcRetryPolicy of
         None \<Rightarrow> io_return None
       | Some policy \<Rightarrow>
           (case NewRetry policy of
              Strategy st \<Rightarrow>
                (case fst (NextWithRetries (cbConvert sv) st (clRetryCount l)) of
                   (interval, ok) \<Rightarrow>
                     if ok then do {
                       now \<leftarrow> cbClock sv;
                       io_return (Some (l\<lparr>clNextRetryTime := UnixMilli (now + interval),
                         clRetryCount := wrap32 (clRetryCount l + 1)\<rparr>, True, None))
                     }
                     else io_return (Some (l\<lparr>clStatus := CallbackLogStatusFailed\<rparr>, True, None)))
            | _ \<Rightarrow> io_return None)
     }
   }"

fun callback_each ::
  "'s callback_service \<Rightarrow> CallbackLog list \<Rightarrow> CallbackLog list
     \<Rightarrow> ('s, CallbackLog list option) io" where
  "callback_each sv [] needUpdate = io_return (Some needUpdate)"
| "callback_each sv (l # ls) needUpdate = do {
     r \<leftarrow> sendCallbackAndSetChangedFields sv l;
     case r of
       None \<Rightarrow> io_return None
     | Some (l', changed, err) \<Rightarrow>
         callback_each sv ls (if err = None \<and> changed then needUpdate @ [l'] else needUpdate)
   }"

definition sendCallbackAndUpdateCallBackLogs ::
  "'s callback_service \<Rightarrow> CallbackLog list \<Rightarrow> ('s, gerr option option) io" where
  "sendCallbackAndUpdateCallBackLogs sv logs = do {
     r \<leftarrow> callback_each sv logs [];
     case r of
       None \<Rightarrow> io_return None
     | Some needUpdate \<Rightarrow> do { err \<leftarrow> crUpdate (cbRepo sv) needUpdate; io_return (Some err) }
   }"

definition SendCallbackByNotification ::
  "'s callback_service \<Rightarrow> Notification \<Rightarrow> ('s, gerr option option) io" where
  "SendCallbackByNotification sv n = do {
     (logs, err) \<leftarrow> crFindByNotificationIDs (cbRepo sv) [nID n];
     case err of
       Some e \<Rightarrow> io_return (Some (Some e))
     | None \<Rightarrow> sendCallbackAndUpdateCallBackLogs sv logs
   }"

text \<open>The last notification with an identifier stays in the map.\<close>

definition notification_map :: "Notification list \<Rightarrow> int64 \<Rightarrow> Notification option" where
  "notification_map ns = map_of (rev (map (\<lambda>n. (nID n, n)) ns))"

fun callback_rest ::
  "'s callback_service \<Rightarrow> (int64 \<Rightarrow> Notification option) \<Rightarrow> int64 list \<Rightarrow> gerr option
     \<Rightarrow> ('s, gerr option) io" where
  "callback_rest sv mp [] er = io_return er"
| "callback_rest sv mp (k # ks) er = do {
     (_, e) \<leftarrow> sendCallback sv (the (mp k));
     callback_rest sv mp ks e
   }"

definition SendCallbackByNotifications ::
  "'s callback_service \<Rightarrow> Notification list \<Rightarrow> ('s, gerr option option) io" where
  "SendCallbackByNotifications sv ns = do {
     let ids = map nID ns;
     (logs, err) \<leftarrow> crFindByNotificationIDs (cbRepo sv) ids;
     case err of
       Some e \<Rightarrow> io_return (Some (Some e))
     | None \<Rightarrow>
         if length logs = length ns then sendCallbackAndUpdateCallBackLogs sv logs
         else do {
           let logged = map (\<lambda>l. nID (clNotification l)) logs;
           let rest = filter (\<lambda>k. k \<notin> set logged) (remdups ids);
           er \<leftarrow> (if logs \<noteq> [] then sendCallbackAndUpdateCallBackLogs sv logs
                  else io_return (Some None));
           case er of
             None \<Rightarrow> io_return None
           | Some er \<Rightarrow> do {
               er \<leftarrow> callback_rest sv (notification_map ns) (cbOrder sv rest) er;
               io_return (Some er)
             }
         }
   }"

text \<open>The paging loop need not end: \<open>None\<close> is a run that does not return.\<close>

partial_function (option) SendCallback_loop ::
  "'s callback_service \<Rightarrow> int64 \<Rightarrow> int64 \<Rightarrow> int64 \<Rightarrow> 's \<Rightarrow> (gerr option option \<times> 's) option" where
  "SendCallback_loop sv startTime batchSize nextStartID s =
     (case run_state (crFind (cbRepo sv) startTime batchSize nextStartID) s of
        ((logs, newNextStartID, err), s1) \<Rightarrow>
          if err \<noteq> None then Some (Some err, s1)
          else if logs = [] then Some (Some None, s1)
          else (case run_state (sendCallbackAndUpdateCallBackLogs sv logs) s1 of
                  (None, s2) \<Rightarrow> Some (None, s2)
                | (Some (Some e), s2) \<Rightarrow> Some (Some (Some e), s2)
                | (Some None, s2) \<Rightarrow>
                    SendCallback_loop sv startTime batchSize newNextStartID s2))"

definition SendCallback ::
  "'s callback_service \<Rightarrow> int64 \<Rightarrow> int64 \<Rightarrow> 's \<Rightarrow> (gerr option option \<times> 's) option" where
  "SendCallback sv startTime batchSize = SendCallback_loop sv startTime batchSize 0"

text \<open>\<^verbatim>\<open>async_result_callback_task.go\<close>: one round; the sleep at its end leaves no trace.\<close>

definition callback_batchSize :: int64 where "callback_batchSize = 10"

definition HandleSendResult :: "'s callback_service \<Rightarrow> 's \<Rightarrow> (gerr option option \<times> 's) option" where
  "HandleSendResult sv s =
     (case run_state (cbClock sv) s of
        (now, s1) \<Rightarrow> SendCallback sv (UnixMilli now) callback_batchSize s1)"

section \<open>The outcome of an attempt\<close>

text \<open>An attempt at a call-back keeps the log's identity. If the business cannot be asked the
  log stays as it is and is not written back; if it accepts, the log is SUCCEEDED; if it refuses,
  the retry policy reschedules the log, counting the attempt, or gives it up as FAILED.\<close>

theorem Callback_settles:
  assumes "run_state (sendCallbackAndSetChangedFields sv l) s = (Some (l', changed, err), s')"
    and "run_state (sendCallback sv (clNotification l)) s = ((success, failure), s1)"
  shows "clID l' = clID l \<and> clNotification l' = clNotification l \<and> err = failure
    \<and> (if failure \<noteq> None then l' = l \<and> \<not> changed
       else changed \<and>
         (if success then l' = l\<lparr>clStatus := CallbackLogStatusSuccess\<rparr>
          else l' = l\<lparr>clStatus := CallbackLogStatusFailed\<rparr>
            \<or> (\<exists>t. l' = l\<lparr>clNextRetryTime := t, clRetryCount := wrap32 (clRetryCount l + 1)\<rparr>)))"
proof (cases "failure \<noteq> None \<or> success")
  case True
  with assms show ?thesis
    by (auto simp: sendCallbackAndSetChangedFields_def split: if_splits)
next
  case False
  with assms obtain cfg e s2 where c: "run_state (getConfig sv (nBizID (clNotification l))) s1 = ((cfg, e), s2)"
    and r: "run_state (case Option.bind cfg cbcRetryPolicy of
         None \<Rightarrow> io_return None
       | Some policy \<Rightarrow>
           (case NewRetry policy of
              Strategy st \<Rightarrow>
                (case fst (NextWithRetries (cbConvert sv) st (clRetryCount l)) of
                   (interval, ok) \<Rightarrow>
                     if ok then do {
                       now \<leftarrow> cbClock sv;
                       io_return (Some (l\<lparr>clNextRetryTime := UnixMilli (now + interval),
                         clRetryCount := wrap32 (clRetryCount l + 1)\<rparr>, True, None))
                     }
                     else io_return (Some (l\<lparr>clStatus := CallbackLogStatusFailed\<rparr>, True, None)))
            | _ \<Rightarrow> io_return None)) s2 = (Some (l', changed, err), s')"
    by (auto simp: sendCallbackAndSetChangedFields_def split_beta)
      (metis prod.collapse)
  from r False show ?thesis
    by (auto split: option.splits retry_result.splits prod.splits if_splits)
qed

section \<open>How often a business is asked\<close>

text \<open>The attempts at one log, one after the other, on the log as the previous one left it.\<close>

primrec callback_attempts :: "'s callback_service \<Rightarrow> nat \<Rightarrow> CallbackLog \<Rightarrow> ('s, CallbackLog option) io" where
  "callback_attempts sv 0 l = io_return (Some l)"
| "callback_attempts sv (Suc k) l = do {
     r \<leftarrow> sendCallbackAndSetChangedFields sv l;
     case r of None \<Rightarrow> io_return None | Some (l', _) \<Rightarrow> callback_attempts sv k l'
   }"

text \<open>A business with configuration \<open>cfg\<close> that answers every call-back with a refusal.\<close>

definition refuses :: "'s callback_service \<Rightarrow> int64 \<Rightarrow> CallbackConfig \<Rightarrow> bool" where
  "refuses sv b cfg \<longleftrightarrow>
     (\<forall>s. \<exists>s'. run_state (getConfig sv b) s = ((Some cfg, None), s'))
     \<and> (\<forall>req s. \<exists>s'. run_state (cbHandle sv (cbcServiceName cfg) req) s = ((False, None), s'))"

lemma NextWithRetries_allowed:
  "snd (fst (NextWithRetries cvt st r)) \<longleftrightarrow> s_maxRetries st \<le> 0 \<or> r \<le> s_maxRetries st"
  by (cases st) (auto simp: NextWithRetries_def fi_nextWithRetries_def eb_nextWithRetries_def
      s_maxRetries_def Let_def)

lemma refused_attempt:
  assumes "refuses sv b cfg" "cbcRetryPolicy cfg = Some policy" "NewRetry policy = Strategy st"
    and "nBizID (clNotification l) = b"
  obtains l' s' where
    "run_state (sendCallbackAndSetChangedFields sv l) s = (Some (l', True, None), s')"
    "clNotification l' = clNotification l"
    "if s_maxRetries st \<le> 0 \<or> clRetryCount l \<le> s_maxRetries st
     then clStatus l' = clStatus l \<and> clRetryCount l' = wrap32 (clRetryCount l + 1)
     else clStatus l' = CallbackLogStatusFailed \<and> clRetryCount l' = clRetryCount l"
proof -
  from assms(1) obtain s1 where c1: "run_state (getConfig sv b) s = ((Some cfg, None), s1)"
    unfolding refuses_def by blast
  from assms(1) obtain s2 where h: "run_state (cbHandle sv (cbcServiceName cfg)
      (buildRequest (clNotification l))) s1 = ((False, None), s2)"
    unfolding refuses_def by blast
  from assms(1) obtain s3 where c2: "run_state (getConfig sv b) s2 = ((Some cfg, None), s3)"
    unfolding refuses_def by blast
  obtain now s4 where t: "run_state (cbClock sv) s3 = (now, s4)" by (metis prod.collapse)
  obtain interval ok where nx: "fst (NextWithRetries (cbConvert sv) st (clRetryCount l)) = (interval, ok)"
    by (metis prod.collapse)
  then have ok: "ok \<longleftrightarrow> s_maxRetries st \<le> 0 \<or> clRetryCount l \<le> s_maxRetries st"
    using NextWithRetries_allowed [of "cbConvert sv" st "clRetryCount l"] by simp
  have send: "run_state (sendCallback sv (clNotification l)) s = ((False, None), s2)"
    using assms(4) c1 h by (simp add: sendCallback_def)
  show ?thesis
  proof (cases ok)
    case True
    with ok that [of "l\<lparr>clNextRetryTime := UnixMilli (now + interval),
        clRetryCount := wrap32 (clRetryCount l + 1)\<rparr>" s4] assms(2-4) send c2 nx t show ?thesis
      by (simp add: sendCallbackAndSetChangedFields_def)
  next
    case False
    with ok that [of "l\<lparr>clStatus := CallbackLogStatusFailed\<rparr>" s3] assms(2-4) send c2 nx show ?thesis
      by (simp add: sendCallbackAndSetChangedFields_def)
  qed
qed

lemma refused_attempts:
  assumes "refuses sv b cfg" "cbcRetryPolicy cfg = Some policy" "NewRetry policy = Strategy st"
    and "0 < s_maxRetries st" "s_maxRetries st < 2 ^ 31 - 1"
    and "nBizID (clNotification l) = b" "0 \<le> clRetryCount l"
    and "clRetryCount l + int k \<le> s_maxRetries st + 1"
  shows "\<exists>l' s'. run_state (callback_attempts sv k l) s = (Some l', s')
    \<and> clStatus l' = clStatus l \<and> clRetryCount l' = clRetryCount l + int k
    \<and> clNotification l' = clNotification l"
  using assms(6-8)
proof (induction k arbitrary: l s)
  case 0
  then show ?case by simp
next
  case (Suc k)
  obtain l1 s1 where a: "run_state (sendCallbackAndSetChangedFields sv l) s = (Some (l1, True, None), s1)"
    and n: "clNotification l1 = clNotification l"
    and r: "if s_maxRetries st \<le> 0 \<or> clRetryCount l \<le> s_maxRetries st
      then clStatus l1 = clStatus l \<and> clRetryCount l1 = wrap32 (clRetryCount l + 1)
      else clStatus l1 = CallbackLogStatusFailed \<and> clRetryCount l1 = clRetryCount l"
    using refused_attempt [OF assms(1-3) Suc.prems(1)] .
  from Suc.prems(3) have le: "clRetryCount l \<le> s_maxRetries st" by simp
  then have "wrap32 (clRetryCount l + 1) = clRetryCount l + 1"
    using Suc.prems(2) assms(5) by (intro wrap32_id) (simp add: int32_range_def)
  with r le have l1: "clStatus l1 = clStatus l" "clRetryCount l1 = clRetryCount l + 1" by simp_all
  have "\<exists>l' s'. run_state (callback_attempts sv k l1) s1 = (Some l', s')
    \<and> clStatus l' = clStatus l1 \<and> clRetryCount l' = clRetryCount l1 + int k
    \<and> clNotification l' = clNotification l1"
    using Suc.prems n l1 by (intro Suc.IH) simp_all
  with a n l1 show ?case by (auto simp: algebra_simps)
qed

lemma callback_attempts_last:
  "run_state (callback_attempts sv (Suc j) l) s = (case run_state (callback_attempts sv j l) s of
      (None, s') \<Rightarrow> (None, s')
    | (Some l', s') \<Rightarrow> (case run_state (sendCallbackAndSetChangedFields sv l') s' of
        (None, s'') \<Rightarrow> (None, s'') | (Some (l'', _), s'') \<Rightarrow> (Some l'', s'')))"
proof (induction j arbitrary: l s)
  case 0
  then show ?case by (simp split: option.split prod.split)
next
  case (Suc j)
  obtain r s' where r: "run_state (sendCallbackAndSetChangedFields sv l) s = (r, s')"
    by (metis prod.collapse)
  show ?case
  proof (cases r)
    case None
    with r show ?thesis by simp
  next
    case (Some p)
    obtain l' q where "p = (l', q)" by (metis prod.collapse)
    with r Some Suc.IH [of l' s'] show ?thesis by simp
  qed
qed

text \<open>A business that refuses every call-back is asked exactly \<open>maxRetries + 2\<close> times about a new
  log: the log keeps its status for \<open>maxRetries + 1\<close> refusals, one more than a retry strategy
  allows through \<open>Next\<close>, since the count starts at 0, and the next one makes it FAILED.\<close>

theorem Callback_gives_up:
  assumes "refuses sv b cfg" "cbcRetryPolicy cfg = Some policy" "NewRetry policy = Strategy st"
    and "0 < s_maxRetries st" "s_maxRetries st < 2 ^ 31 - 1"
    and "nBizID (clNotification l) = b" "clRetryCount l = 0"
    and "clStatus l = CallbackLogStatusPending"
    and "m = nat (s_maxRetries st)"
  shows "(k \<le> m + 1 \<longrightarrow> (\<exists>l'. fst (run_state (callback_attempts sv k l) s) = Some l'
      \<and> clStatus l' = CallbackLogStatusPending \<and> clRetryCount l' = int k))
    \<and> (\<exists>l'. fst (run_state (callback_attempts sv (m + 2) l) s) = Some l'
      \<and> clStatus l' = CallbackLogStatusFailed)"
proof (intro conjI impI)
  note run = refused_attempts [OF assms(1-6)]
  assume "k \<le> m + 1"
  with assms(4,7,9) have "\<exists>l' s'. run_state (callback_attempts sv k l) s = (Some l', s')
    \<and> clStatus l' = clStatus l \<and> clRetryCount l' = clRetryCount l + int k
    \<and> clNotification l' = clNotification l"
    by (intro run) simp_all
  with assms(7,8) show "\<exists>l'. fst (run_state (callback_attempts sv k l) s) = Some l'
      \<and> clStatus l' = CallbackLogStatusPending \<and> clRetryCount l' = int k" by auto
next
  from assms(4,7,9) have "\<exists>l' s'. run_state (callback_attempts sv (m + 1) l) s = (Some l', s')
    \<and> clStatus l' = clStatus l \<and> clRetryCount l' = clRetryCount l + int (m + 1)
    \<and> clNotification l' = clNotification l"
    by (intro refused_attempts [OF assms(1-6)]) simp_all
  then obtain l1 s1 where l1: "run_state (callback_attempts sv (m + 1) l) s = (Some l1, s1)"
    "clRetryCount l1 = int m + 1" "clNotification l1 = clNotification l"
    using assms(7) by auto
  from l1(3) assms(6) have "nBizID (clNotification l1) = b" by simp
  from refused_attempt [OF assms(1-3) this] obtain l2 s2 where
    l2: "run_state (sendCallbackAndSetChangedFields sv l1) s1 = (Some (l2, True, None), s2)"
    "if s_maxRetries st \<le> 0 \<or> clRetryCount l1 \<le> s_maxRetries st
     then clStatus l2 = clStatus l1 \<and> clRetryCount l2 = wrap32 (clRetryCount l1 + 1)
     else clStatus l2 = CallbackLogStatusFailed \<and> clRetryCount l2 = clRetryCount l1" .
  from callback_attempts_last [of sv "m + 1" l s] l1 l2 assms(4,9)
  show "\<exists>l'. fst (run_state (callback_attempts sv (m + 2) l) s) = Some l'
      \<and> clStatus l' = CallbackLogStatusFailed" by simp
qed

text \<open>A business for examples, whose answer is fixed.\<close>

definition answering :: "RetryConfig \<Rightarrow> bool ret \<Rightarrow> unit callback_service" where
  "answering policy answer =
     \<lparr>cbConfig = fixed_config (\<lambda>_. None),
      cbRepo = \<lparr>crFind = \<lambda>_ _ _. io_return ([], 0, None), crUpdate = \<lambda>_. io_return None,
                crFindByNotificationIDs = \<lambda>_. io_return ([], None)\<rparr>,
      cbClock = io_return 0, cbHandle = \<lambda>_ _. io_return answer,
      cbCache = \<lambda>_ _. Some \<lparr>cbcServiceName = ''svc'', cbcRetryPolicy = Some policy\<rparr>,
      cbSetCache = \<lambda>_ s. s, cbConvert = \<lambda>_. 0, cbOrder = id\<rparr>"

definition two_retries :: RetryConfig where
  "two_retries = \<lparr>rc_Type = ''fixed'',
     rc_FixedInterval = Some \<lparr>fic_MaxRetries = 2, fic_Interval = 1000\<rparr>, rc_ExponentialBackoff = None\<rparr>"

definition pending_log :: CallbackLog where
  "pending_log = \<lparr>clID = 1, clNotification = zero_Notification, clRetryCount = 0,
     clNextRetryTime = 0, clStatus = CallbackLogStatusPending\<rparr>"

theorem Callback_settles_witness:
  "\<exists>l'. fst (run_state (sendCallbackAndSetChangedFields (answering two_retries (True, None)) pending_log) ())
     = Some (l', True, None) \<and> l' = pending_log\<lparr>clStatus := CallbackLogStatusSuccess\<rparr>"
proof -
  let ?sv = "answering two_retries (True, None)"
  have send: "run_state (sendCallback ?sv (clNotification pending_log)) () = ((True, None), ())"
    by (simp add: sendCallback_def getConfig_def answering_def)
  then obtain l' changed err where
    r: "run_state (sendCallbackAndSetChangedFields ?sv pending_log) () = (Some (l', changed, err), ())"
    by (simp add: sendCallbackAndSetChangedFields_def)
  from Callback_settles [OF r send] r show ?thesis by simp
qed

theorem Callback_gives_up_witness:
  "\<exists>l'. fst (run_state (callback_attempts (answering two_retries (False, None)) 4 pending_log) ()) = Some l'
     \<and> clStatus l' = CallbackLogStatusFailed"
proof -
  let ?cfg = "\<lparr>cbcServiceName = ''svc'', cbcRetryPolicy = Some two_retries\<rparr>"
  let ?st = "Fixed (NewFixedIntervalRetryStrategy 2 1000)"
  have "refuses (answering two_retries (False, None)) 0 ?cfg"
    by (simp add: refuses_def getConfig_def answering_def)
  moreover have "NewRetry two_retries = Strategy ?st"
    by (simp add: NewRetry_def two_retries_def)
  ultimately show ?thesis
    using Callback_gives_up [of "answering two_retries (False, None)" 0 ?cfg two_retries ?st pending_log 2]
    by (simp add: s_maxRetries_def NewFixedIntervalRetryStrategy_def pending_log_def
        zero_Notification_def numeral_eq_Suc)
qed

section \<open>The cache of configurations\<close>

text \<open>Once the service has loaded a call-back configuration it never asks for it again: from
  then on the answer is that configuration, whatever the configuration service would say, and
  nothing is changed by asking.\<close>

theorem getConfig_sticky:
  assumes "run_state (getConfig sv b) s = ((Some cfg, None), s')"
    and "\<And>m s. cbCache sv (cbSetCache sv m s) = m"
  shows "run_state (getConfig (sv\<lparr>cbConfig := other\<rparr>) b) s' = ((Some cfg, None), s')"
proof (cases "cbCache sv s b")
  case None
  then obtain c e s1 where c: "run_state (bsGetByID (cbConfig sv) b) s = ((c, e), s1)"
    by (metis prod.collapse)
  with None assms show ?thesis
    by (cases e; cases "bcCallbackConfig c") (auto simp: getConfig_def)
next
  case (Some c)
  with assms(1) show ?thesis by (simp add: getConfig_def)
qed

theorem getConfig_sticky_witness:
  "let cfg = \<lparr>cbcServiceName = ''svc'', cbcRetryPolicy = None\<rparr>;
       sv = \<lparr>cbConfig = fixed_config (\<lambda>_. Some (zero_BusinessConfig\<lparr>bcCallbackConfig := Some cfg\<rparr>)),
         cbRepo = \<lparr>crFind = \<lambda>_ _ _. io_return ([], 0, None), crUpdate = \<lambda>_. io_return None,
                crFindByNotificationIDs = \<lambda>_. io_return ([], None)\<rparr>,
         cbClock = io_return 0, cbHandle = \<lambda>_ _. io_return (True, None),
         cbCache = \<lambda>s. s, cbSetCache = \<lambda>m _. m, cbConvert = \<lambda>_. 0, cbOrder = id\<rparr>
   in fst (run_state (getConfig (sv\<lparr>cbConfig := fixed_config (\<lambda>_. None)\<rparr>) 7)
        (snd (run_state (getConfig sv 7) (\<lambda>_. None)))) = (Some cfg, None)"
proof -
  define cfg where "cfg = \<lparr>cbcServiceName = ''svc'', cbcRetryPolicy = None\<rparr>"
  define sv :: "(int64 \<Rightarrow> CallbackConfig option) callback_service" where "sv =
     \<lparr>cbConfig = fixed_config (\<lambda>_. Some (zero_BusinessConfig\<lparr>bcCallbackConfig := Some cfg\<rparr>)),
      cbRepo = \<lparr>crFind = \<lambda>_ _ _. io_return ([], 0, None), crUpdate = \<lambda>_. io_return None,
                crFindByNotificationIDs = \<lambda>_. io_return ([], None)\<rparr>,
      cbClock = io_return 0, cbHandle = \<lambda>_ _. io_return (True, None),
      cbCache = \<lambda>s. s, cbSetCache = \<lambda>m _. m, cbConvert = \<lambda>_. 0, cbOrder = id\<rparr>"
  have "run_state (getConfig sv 7) (\<lambda>_. None) = ((Some cfg, None), [7 \<mapsto> cfg])"
    by (simp add: getConfig_def sv_def fixed_config_def)
  from getConfig_sticky [OF this, of "fixed_config (\<lambda>_. None)"] this
  have "fst (run_state (getConfig (sv\<lparr>cbConfig := fixed_config (\<lambda>_. None)\<rparr>) 7)
        (snd (run_state (getConfig sv 7) (\<lambda>_. None)))) = (Some cfg, None)"
    by (simp add: sv_def)
  then show ?thesis unfolding Let_def sv_def cfg_def .
qed

section \<open>The paging loop\<close>

lemma SendCallback_loop_step:
  assumes "run_state (crFind (cbRepo sv) t b i) s = ((logs, i', None), s1)" "logs \<noteq> []"
    and "run_state (sendCallbackAndUpdateCallBackLogs sv logs) s1 = (Some None, s2)"
  shows "SendCallback_loop sv t b i s = SendCallback_loop sv t b i' s2"
  using assms by (subst SendCallback_loop.simps) simp

text \<open>The logs that are due, in the order of their identifiers, as the repository reads and
  writes them: \<open>Find\<close> takes the first ones beyond the cursor, \<open>Update\<close> of logs that succeeded
  takes these away, and nothing else touches them.\<close>

definition due_laws ::
  "'s callback_service \<Rightarrow> 's callbackLogRepository \<Rightarrow> ('s \<Rightarrow> daoCallbackLog list) \<Rightarrow> int64 \<Rightarrow> int64
     \<Rightarrow> bool" where
  "due_laws sv r due t b \<longleftrightarrow>
     (\<forall>i s. \<exists>s'. run_state (clrFind r t b i) s =
         (let page = take (nat b) (filter (\<lambda>l. i < dcID l) (due s))
          in ((page, if page = [] then 0 else dcID (last page), None), s')) \<and> due s' = due s)
     \<and> (\<forall>i s. due (snd (run_state (nrGetByID (clrNotificationRepo r) i) s)) = due s)
     \<and> (\<forall>n s. due (snd (run_state (sendCallback sv n) s)) = due s)
     \<and> (\<forall>ls s. list_all (\<lambda>l. dcStatus l = CallbackLogStatusSuccess) ls \<longrightarrow>
          (\<exists>s'. run_state (clrUpdate r ls) s = (None, s')
             \<and> due s' = filter (\<lambda>l. dcID l \<notin> set (map dcID ls)) (due s)))"

lemma load_logs:
  assumes "due_laws sv r due t b"
  shows "\<exists>logs s'. run_state (State_Monad.traverse_list (cbl_load (clrNotificationRepo r)) es) s
    = (logs, s') \<and> map clID logs = map dcID es \<and> due s' = due s"
proof (induction es arbitrary: s)
  case Nil
  then show ?case by simp
next
  case (Cons e es)
  obtain n err s1 where g: "run_state (nrGetByID (clrNotificationRepo r) (dcNotificationID e)) s = ((n, err), s1)"
    by (metis prod.collapse)
  with assms have "due s1 = due s" unfolding due_laws_def by (metis snd_conv)
  with g Cons.IH [of s1] show ?case
    by (auto simp: cbl_load_def cbl_toDomain_def)
qed

definition accepts_all :: "'s callback_service \<Rightarrow> bool" where
  "accepts_all sv \<longleftrightarrow> (\<forall>n s. fst (run_state (sendCallback sv n) s) = (True, None))"

lemma each_accepted:
  assumes "due_laws sv r due t b" "accepts_all sv"
  shows "\<exists>s'. run_state (callback_each sv ls acc) s
    = (Some (acc @ map (\<lambda>l. l\<lparr>clStatus := CallbackLogStatusSuccess\<rparr>) ls), s') \<and> due s' = due s"
proof (induction ls arbitrary: acc s)
  case Nil
  then show ?case by simp
next
  case (Cons l ls)
  obtain s1 where c: "run_state (sendCallback sv (clNotification l)) s = ((True, None), s1)"
    using assms(2) unfolding accepts_all_def by (metis prod.collapse)
  with assms(1) have "due s1 = due s" unfolding due_laws_def by (metis snd_conv)
  with c Cons.IH [of "acc @ [l\<lparr>clStatus := CallbackLogStatusSuccess\<rparr>]" s1] show ?case
    by (auto simp: sendCallbackAndSetChangedFields_def)
qed

lemma page_settled:
  assumes "due_laws sv r due t b" "accepts_all sv" "cbRepo sv = NewCallbackLogRepository r"
  shows "\<exists>s'. run_state (sendCallbackAndUpdateCallBackLogs sv logs) s = (Some None, s')
    \<and> due s' = filter (\<lambda>l. dcID l \<notin> set (map clID logs)) (due s)"
proof -
  let ?done = "map (\<lambda>l. l\<lparr>clStatus := CallbackLogStatusSuccess\<rparr>) logs"
  obtain s1 where e: "run_state (callback_each sv logs []) s = (Some ?done, s1)" "due s1 = due s"
    using each_accepted [OF assms(1,2), of logs "[]" s] by auto
  have "list_all (\<lambda>l. dcStatus l = CallbackLogStatusSuccess) (map cbl_toEntity ?done)"
    by (simp add: list_all_iff cbl_toEntity_def)
  with assms(1) obtain s2 where u: "run_state (clrUpdate r (map cbl_toEntity ?done)) s1 = (None, s2)"
    "due s2 = filter (\<lambda>l. dcID l \<notin> set (map dcID (map cbl_toEntity ?done))) (due s1)"
    unfolding due_laws_def by blast
  have "map dcID (map cbl_toEntity ?done) = map clID logs"
    by (simp add: cbl_toEntity_def)
  with u(2) e(2) have "due s2 = filter (\<lambda>l. dcID l \<notin> set (map clID logs)) (due s)" by metis
  with e u(1) assms(3) show ?thesis
    by (simp add: sendCallbackAndUpdateCallBackLogs_def NewCallbackLogRepository_def
        cblrepo_Update_def)
qed

lemma sorted_page:
  assumes "sorted_wrt (<) (map dcID ls)"
  shows "filter (\<lambda>l. dcID l \<notin> set (map dcID (take k ls))) ls = drop k ls"
proof -
  have "distinct (map dcID ls)" using assms by (simp add: strict_sorted_iff)
  then have d: "set (map dcID (take k ls)) \<inter> set (map dcID (drop k ls)) = {}"
    by (metis append_take_drop_id distinct_append map_append)
  have "filter (\<lambda>l. dcID l \<notin> set (map dcID (take k ls))) (take k ls) = []"
    by (simp add: filter_empty_conv)
  moreover have "filter (\<lambda>l. dcID l \<notin> set (map dcID (take k ls))) (drop k ls) = drop k ls"
    using d by (auto intro!: filter_True)
  ultimately show ?thesis by (metis append_Nil append_take_drop_id filter_append)
qed

lemma loop_settles:
  assumes laws: "due_laws sv r due t b" "accepts_all sv" "cbRepo sv = NewCallbackLogRepository r"
    and "0 < b" and "sorted_wrt (<) (map dcID (due s))" "list_all (\<lambda>l. i < dcID l \<and> 0 < dcID l) (due s)"
  shows "\<exists>s'. SendCallback_loop sv t b i s = Some (Some None, s') \<and> due s' = []"
  using assms(5,6)
proof (induction "length (due s)" arbitrary: i s rule: less_induct)
  case less
  let ?page = "take (nat b) (due s)"
  have "filter (\<lambda>l. i < dcID l) (due s) = due s"
    using less.prems(2) by (simp add: list_all_iff filter_id_conv)
  then obtain s1 where f: "run_state (clrFind r t b i) s =
      ((?page, if ?page = [] then 0 else dcID (last ?page), None), s1)" "due s1 = due s"
    using laws(1) unfolding due_laws_def Let_def by metis
  obtain logs s2 where ld: "run_state (State_Monad.traverse_list
      (cbl_load (clrNotificationRepo r)) ?page) s1 = (logs, s2)"
    "map clID logs = map dcID ?page" "due s2 = due s"
    using load_logs [OF laws(1), of ?page s1] f(2) by auto
  let ?next = "if int (length ?page) < b then 0 else if ?page = [] then 0 else dcID (last ?page)"
  have find: "run_state (crFind (cbRepo sv) t b i) s = ((logs, ?next, None), s2)"
    using f ld(1) laws(3) by (simp add: NewCallbackLogRepository_def cblrepo_Find_def Let_def)
  show ?case
  proof (cases "due s = []")
    case True
    with ld have "logs = []" by simp
    with find True ld(3) show ?thesis by (subst SendCallback_loop.simps) simp
  next
    case False
    with ld(2) assms(4) have "logs \<noteq> []" by auto
    obtain s3 where s3: "run_state (sendCallbackAndUpdateCallBackLogs sv logs) s2 = (Some None, s3)"
      "due s3 = filter (\<lambda>l. dcID l \<notin> set (map clID logs)) (due s2)"
      using page_settled [OF laws] by blast
    then have d: "due s3 = drop (nat b) (due s)"
      using sorted_page [OF less.prems(1)] ld(2,3) by simp
    have ap: "take (nat b) (map dcID (due s)) @ drop (nat b) (map dcID (due s)) = map dcID (due s)"
      by simp
    have sorted: "sorted_wrt (<) (map dcID (due s3))"
      using less.prems(1) d by (simp add: drop_map [symmetric] sorted_wrt_drop)
    have beyond: "dcID (last ?page) < dcID l" if "l \<in> set (due s3)" "?page \<noteq> []" for l
    proof -
      have "sorted_wrt (<) (map dcID ?page @ map dcID (due s3))"
        using less.prems(1) d by (metis append_take_drop_id map_append)
      with that show ?thesis by (simp add: sorted_wrt_append)
    qed
    have "list_all (\<lambda>l. ?next < dcID l \<and> 0 < dcID l) (due s3)"
      using beyond less.prems(2) d by (auto simp: list_all_iff dest: in_set_dropD)
    moreover have "length (due s3) < length (due s)" using d False assms(4) by simp
    ultimately have "\<exists>s'. SendCallback_loop sv t b ?next s3 = Some (Some None, s') \<and> due s' = []"
      using less.hyps sorted by blast
    with SendCallback_loop_step [OF find \<open>logs \<noteq> []\<close> s3(1)] show ?thesis by simp
  qed
qed


lemma each_failing:
  assumes "\<And>n s. snd (fst (run_state (sendCallback sv n) s)) \<noteq> None"
  shows "\<exists>s'. run_state (callback_each sv ls acc) s = (Some acc, s')"
proof (induction ls arbitrary: s)
  case Nil
  then show ?case by simp
next
  case (Cons l ls)
  obtain su e s1 where "run_state (sendCallback sv (clNotification l)) s = ((su, Some e), s1)"
    using assms by (metis not_Some_eq prod.collapse)
  with Cons [of s1] show ?case by (simp add: sendCallbackAndSetChangedFields_def)
qed


text \<open>A world that consists of the due logs.\<close>

definition log_store :: "daoCallbackLog list callbackLogRepository" where
  "log_store =
     \<lparr>clrNotificationRepo = idle_repo,
      clrFind = \<lambda>t b i. State (\<lambda>s.
        let page = take (nat b) (filter (\<lambda>l. i < dcID l) s)
        in ((page, if page = [] then 0 else dcID (last page), None), s)),
      clrFindByNotificationIDs = \<lambda>ids. State (\<lambda>s. ((filter (\<lambda>l. dcNotificationID l \<in> set ids) s, None), s)),
      clrUpdate = \<lambda>ls. State (\<lambda>s. (None, filter (\<lambda>l. dcID l \<notin> set (map dcID ls)) s))\<rparr>"

definition log_service :: "bool ret \<Rightarrow> daoCallbackLog list callback_service" where
  "log_service answer =
     \<lparr>cbConfig = fixed_config (\<lambda>_. None), cbRepo = NewCallbackLogRepository log_store,
      cbClock = io_return 0, cbHandle = \<lambda>_ _. io_return answer,
      cbCache = \<lambda>_ _. Some \<lparr>cbcServiceName = ''svc'', cbcRetryPolicy = Some two_retries\<rparr>,
      cbSetCache = \<lambda>_ s. s, cbConvert = \<lambda>_. 0, cbOrder = id\<rparr>"

definition due_row :: "int64 \<Rightarrow> daoCallbackLog" where
  "due_row i = \<lparr>dcID = i, dcNotificationID = i, dcRetryCount = 0, dcNextRetryTime = 0,
     dcStatus = CallbackLogStatusPending, dcCtime = 0, dcUtime = 0\<rparr>"

lemma log_service_send:
  "run_state (sendCallback (log_service answer) n) s = (answer, s)"
  by (simp add: sendCallback_def getConfig_def log_service_def)



end
