(* ===== verification/Interceptors.thy ===== *)
theory Interceptors
  imports Interfaces Api
begin

text \<open>
  The gRPC interceptors of \<^verbatim>\<open>internal/api/grpc/interceptor\<close> (authentication, idempotency, circuit
  breaking, degradation, deadlines) and the idempotency services of
  \<^verbatim>\<open>internal/pkg/idempotent\<close>. A context is a record of the values, the metadata and the deadline
  the code stores in it. A handler answers a response and an error; \<open>None\<close> is a panic. The JWT
  library, the circuit breaker and the Redis commands are parameters.
\<close>

section \<open>Contexts and handlers\<close>

datatype ctx_val = VInt64 int64 | VString string | VOther nat

record ctx =
  ctxValue :: "string \<Rightarrow> ctx_val option"
  ctxIncoming :: "(string \<Rightarrow> string list) option"
  ctxOutgoing :: "string \<Rightarrow> string list"
  ctxDeadline :: "gtime option"

datatype grpc_code = InvalidArgument | Internal | Unauthenticated | Unavailable

datatype rpc_error = Status grpc_code | Plain gerr

type_synonym 'r reply = "'r option \<times> rpc_error option"
type_synonym ('s, 'r) handler = "ctx \<Rightarrow> request \<Rightarrow> ('s, 'r reply option) io"

definition io_reject :: "grpc_code \<Rightarrow> ('s, 'r reply option) io" where
  "io_reject c = io_return (Some (None, Some (Status c)))"

section \<open>Authentication\<close>

definition BizIDName :: string where "BizIDName = ''biz_id''"

definition GetBizIDFromContext :: "ctx \<Rightarrow> int64 ret" where
  "GetBizIDFromContext c =
     (case ctxValue c BizIDName of
        None \<Rightarrow> (0, Some (Err ErrBizIDNotFound))
      | Some (VInt64 v) \<Rightarrow> (v, None)
      | Some _ \<Rightarrow> (0, Some (Err ErrBizIDNotFound)))"

type_synonym claims = "string \<Rightarrow> ctx_val option"

record jwt_token =
  tkClaims :: "claims option"
  tkValid :: bool

text \<open>\<open>jlParse\<close> gets the function that answers the key, which is asked whether the method is HMAC;
  \<open>jlSign\<close> signs claims with a key.\<close>

record jwt_lib =
  jlParse :: "(bool \<Rightarrow> string ret) \<Rightarrow> string \<Rightarrow> jwt_token ret"
  jlSign :: "claims \<Rightarrow> string \<Rightarrow> string ret"

definition jwt_keyfunc :: "string \<Rightarrow> bool \<Rightarrow> string ret" where
  "jwt_keyfunc key hmac = (if \<not> hmac then ('''', Some (Ext ''signing method'')) else (key, None))"

definition jwt_Decode :: "jwt_lib \<Rightarrow> string \<Rightarrow> string \<Rightarrow> claims ret" where
  "jwt_Decode lib key tokenString =
     (case jlParse lib (jwt_keyfunc key) (TrimPrefix tokenString ''Bearer '') of
        (_, Some err) \<Rightarrow> (\<lambda>_. None, Some (Wrap [err]))
      | (token, None) \<Rightarrow>
          (case tkClaims token of
             Some claims \<Rightarrow> if tkValid token then (claims, None)
                            else (\<lambda>_. None, Some (Ext ''invalid token''))
           | None \<Rightarrow> (\<lambda>_. None, Some (Ext ''invalid token''))))"

definition jwt_Encode :: "jwt_lib \<Rightarrow> string \<Rightarrow> gtime \<Rightarrow> claims \<Rightarrow> string ret" where
  "jwt_Encode lib key now customClaims =
     (let claims = [''iat'' \<mapsto> VInt64 (time_Unix_seconds now),
                    ''iss'' \<mapsto> VString ''notification-platform''] ++ customClaims;
          claims = (if claims ''exp'' = None
                    then claims(''exp'' \<mapsto> VInt64 (time_Unix_seconds (now + 24 * 60 * minute)))
                    else claims)
      in jlSign lib claims key)"

text \<open>The type assertion on the absent claim, in the branch for \<open>!ok\<close>, panics.\<close>

definition JwtAuthInterceptor :: "jwt_lib \<Rightarrow> string \<Rightarrow> ('s, 'r) handler \<Rightarrow> ('s, 'r) handler" where
  "JwtAuthInterceptor lib key handler c req =
     (case ctxIncoming c of
        None \<Rightarrow> io_reject Unauthenticated
      | Some md \<Rightarrow>
          (case md ''authorization'' of
             [] \<Rightarrow> io_reject Unauthenticated
           | tokenString # _ \<Rightarrow>
               (case jwt_Decode lib key tokenString of
                  (_, Some err) \<Rightarrow> io_reject Unauthenticated
                | (val, None) \<Rightarrow>
                    (case val BizIDName of
                       None \<Rightarrow> io_return None
                     | Some _ \<Rightarrow>
                         (case val ''Priority'' of
                            None \<Rightarrow> handler c req
                          | Some v \<Rightarrow>
                              handler (c\<lparr>ctxValue := (ctxValue c)(''Priority'' \<mapsto> v)\<rparr>) req)))))"

section \<open>Circuit breaker and degradation\<close>

record 's CircuitBreaker =
  brAllow :: "('s, gerr option) io"
  brMarkFailed :: "('s, unit) io"
  brMarkSuccess :: "('s, unit) io"

definition breaker_settle ::
  "'s CircuitBreaker \<Rightarrow> 'r reply option \<Rightarrow> ('s, 'r reply option) io" where
  "breaker_settle br r =
     (case r of
        None \<Rightarrow> io_return None
      | Some (resp, err) \<Rightarrow> do {
          _ \<leftarrow> (if err \<noteq> None then brMarkFailed br else brMarkSuccess br);
          io_return (Some (resp, err))
        })"

definition CircuitBreakerInterceptor ::
  "'s CircuitBreaker \<Rightarrow> ('s, 'r) handler \<Rightarrow> ('s, 'r) handler" where
  "CircuitBreakerInterceptor br handler c req = do {
     err \<leftarrow> brAllow br;
     if err \<noteq> None then do { _ \<leftarrow> brMarkFailed br; io_reject Unavailable }
     else do { r \<leftarrow> handler c req; breaker_settle br r }
   }"

definition DegradeInterceptor ::
  "'s CircuitBreaker \<Rightarrow> ('s, 'r) handler \<Rightarrow> ('s, 'r) handler" where
  "DegradeInterceptor br handler c req = do {
     err \<leftarrow> brAllow br;
     if err \<noteq> None then do {
       _ \<leftarrow> brMarkFailed br;
       if ctxValue c ''Priority'' \<noteq> Some (VString ''high'') then io_reject Unavailable
       else do { r \<leftarrow> handler c req; breaker_settle br r }
     }
     else do { r \<leftarrow> handler c req; breaker_settle br r }
   }"

section \<open>Deadlines\<close>

definition timeoutKey :: string where "timeoutKey = ''timeout''"

definition InjectorInterceptor :: "ctx \<Rightarrow> ctx" where
  "InjectorInterceptor c =
     (case ctxDeadline c of
        Some deadline \<Rightarrow> c\<lparr>ctxOutgoing := (ctxOutgoing c)(timeoutKey :=
          ctxOutgoing c timeoutKey @ [FormatInt (UnixMilli deadline)])\<rparr>
      | None \<Rightarrow> c)"

definition WithDeadline :: "ctx \<Rightarrow> gtime \<Rightarrow> ctx" where
  "WithDeadline c d = c\<lparr>ctxDeadline := Some (case ctxDeadline c of Some d' \<Rightarrow> min d' d | None \<Rightarrow> d)\<rparr>"

definition TimeoutInterceptor :: "('s, 'r) handler \<Rightarrow> ('s, 'r) handler" where
  "TimeoutInterceptor handler c req =
     (case ctxIncoming c of
        None \<Rightarrow> handler c req
      | Some md \<Rightarrow>
          (case md timeoutKey of
             [] \<Rightarrow> handler c req
           | timeoutStr # _ \<Rightarrow>
               (case ParseInt timeoutStr of
                  None \<Rightarrow> io_reject InvalidArgument
                | Some timeoutStamp \<Rightarrow> handler (WithDeadline c (time_UnixMilli timeoutStamp)) req)))"

section \<open>Idempotency\<close>

record 's IdempotencyService =
  idExists :: "string \<Rightarrow> ('s, bool ret) io"
  idMExists :: "string list \<Rightarrow> ('s, bool list ret) io"

text \<open>The commands: \<open>SETNX\<close>, a pipeline of them (the results of the commands and the error of the
  pipeline), \<open>BF.ADD\<close> and \<open>BF.MADD\<close>.\<close>

record 's idempotency_redis =
  irSetNX :: "string \<Rightarrow> ('s, bool ret) io"
  irPipeSetNX :: "string list \<Rightarrow> ('s, bool ret list ret) io"
  irBFAdd :: "string \<Rightarrow> string \<Rightarrow> ('s, bool ret) io"
  irBFMAdd :: "string \<Rightarrow> string list \<Rightarrow> ('s, bool list ret) io"

definition idem_getKey :: "string \<Rightarrow> string" where
  "idem_getKey key = ''idempotency:'' @ key"

definition redis_Exists :: "'s idempotency_redis \<Rightarrow> string \<Rightarrow> ('s, bool ret) io" where
  "redis_Exists c key = do {
     (result, err) \<leftarrow> irSetNX c (idem_getKey key);
     io_return (case err of Some e \<Rightarrow> (False, Some e) | None \<Rightarrow> (\<not> result, None))
   }"

fun collect_results :: "bool ret list \<Rightarrow> bool list \<Rightarrow> bool list ret" where
  "collect_results [] results = (results, None)"
| "collect_results ((_, Some e) # cmds) results = ([], Some e)"
| "collect_results ((exists, None) # cmds) results = collect_results cmds (results @ [\<not> exists])"

definition redis_MExists :: "'s idempotency_redis \<Rightarrow> string list \<Rightarrow> ('s, bool list ret) io" where
  "redis_MExists c keys = do {
     (cmds, err) \<leftarrow> irPipeSetNX c (map idem_getKey keys);
     io_return (case err of Some e \<Rightarrow> ([], Some e) | None \<Rightarrow> collect_results cmds [])
   }"

definition NewRedisIdempotencyService :: "'s idempotency_redis \<Rightarrow> 's IdempotencyService" where
  "NewRedisIdempotencyService c = \<lparr>idExists = redis_Exists c, idMExists = redis_MExists c\<rparr>"

definition bloom_Exists :: "'s idempotency_redis \<Rightarrow> string \<Rightarrow> string \<Rightarrow> ('s, bool ret) io" where
  "bloom_Exists c filterName key = do {
     (res, err) \<leftarrow> irBFAdd c filterName key;
     io_return (\<not> res, err)
   }"

definition bloom_MExists :: "'s idempotency_redis \<Rightarrow> string \<Rightarrow> string list \<Rightarrow> ('s, bool list ret) io" where
  "bloom_MExists c filterName keys =
     (if keys = [] then io_return ([], Some (Ext ''empty keys''))
      else do {
        (vals, err) \<leftarrow> irBFMAdd c filterName keys;
        io_return (case err of Some e \<Rightarrow> ([], Some e) | None \<Rightarrow> (vals, None))
      })"

definition BloomIdempotencyService :: "'s idempotency_redis \<Rightarrow> string \<Rightarrow> 's IdempotencyService" where
  "BloomIdempotencyService c name = \<lparr>idExists = bloom_Exists c name, idMExists = bloom_MExists c name\<rparr>"

definition request_key :: "int64 \<Rightarrow> string \<Rightarrow> string" where
  "request_key bizID key = FormatInt bizID @ ''-'' @ key"

definition IdempotentInterceptor ::
  "'s IdempotencyService \<Rightarrow> ('s, 'r) handler \<Rightarrow> ('s, 'r) handler" where
  "IdempotentInterceptor svc handler c req =
     (case GetBizIDFromContext c of
        (_, Some err) \<Rightarrow> io_reject InvalidArgument
      | (bizID, None) \<Rightarrow>
          (case GetIdempotencyKeys req of
             None \<Rightarrow> handler c req
           | Some None \<Rightarrow> io_return None
           | Some (Some keys) \<Rightarrow> do {
               (exists, err) \<leftarrow> idMExists svc (map (request_key bizID) keys);
               case err of
                 Some e \<Rightarrow> io_return (Some (None, Some (Plain (Ext ''idempotency check''))))
               | None \<Rightarrow> if list_ex id exists then io_reject InvalidArgument else handler c req
             }))"

section \<open>The contract of an idempotency service\<close>

text \<open>Which of the keys were there when their turn came.\<close>

fun seen_flags :: "(string \<Rightarrow> bool) \<Rightarrow> string list \<Rightarrow> bool list" where
  "seen_flags S [] = []"
| "seen_flags S (k # ks) = S k # seen_flags (S(k := True)) ks"

lemma seen_flags_any: "list_ex id (seen_flags S ks) \<longleftrightarrow> list_ex S ks \<or> \<not> distinct ks"
proof (induction ks arbitrary: S)
  case (Cons k ks)
  then show ?case by (auto simp: list_ex_iff fun_upd_def)
qed simp

lemma seen_flags_inj:
  "inj f \<Longrightarrow> seen_flags S (map f ks) = seen_flags (\<lambda>k. S (f k)) ks"
proof (induction ks arbitrary: S)
  case (Cons k ks)
  have "(\<lambda>x. (S(f k := True)) (f x)) = (\<lambda>x. S (f x))(k := True)"
    using Cons.prems by (auto simp: fun_eq_iff inj_eq)
  with Cons show ?case by simp
qed simp

lemma request_key_inject:
  "request_key b k = request_key b' k' \<longleftrightarrow> b = b' \<and> k = k'"
  by (simp add: request_key_def FormatInt_dash_inject)

text \<open>What the interceptor relies on: \<open>MExists\<close> tells for each key whether it was seen and
  remembers it.\<close>

locale idempotency =
  fixes svc :: "'s IdempotencyService" and seen :: "'s \<Rightarrow> string \<Rightarrow> bool"
  assumes mexists: "\<exists>s'. run_state (idMExists svc ks) s = ((seen_flags (seen s) ks, None), s')
    \<and> seen s' = (\<lambda>k. seen s k \<or> k \<in> set ks)"
begin

lemma once:
  assumes "GetBizIDFromContext c = (b, None)" "GetIdempotencyKeys req = Some (Some keys)"
  shows "\<exists>s1. seen s1 = (\<lambda>k. seen s k \<or> k \<in> request_key b ` set keys)
    \<and> run_state (IdempotentInterceptor svc h c req) s
      = run_state (if list_ex (\<lambda>k. seen s (request_key b k)) keys \<or> \<not> distinct keys
                   then io_reject InvalidArgument else h c req) s1"
proof -
  obtain s1 where m: "run_state (idMExists svc (map (request_key b) keys)) s
      = ((seen_flags (seen s) (map (request_key b) keys), None), s1)"
    and v: "seen s1 = (\<lambda>k. seen s k \<or> k \<in> set (map (request_key b) keys))"
    using mexists by blast
  have "inj (request_key b)" by (rule injI) (simp add: request_key_inject)
  then have "list_ex id (seen_flags (seen s) (map (request_key b) keys))
      \<longleftrightarrow> list_ex (\<lambda>k. seen s (request_key b k)) keys \<or> \<not> distinct keys"
    by (simp add: seen_flags_inj seen_flags_any)
  with assms m have "run_state (IdempotentInterceptor svc h c req) s
      = run_state (if list_ex (\<lambda>k. seen s (request_key b k)) keys \<or> \<not> distinct keys
                   then io_reject InvalidArgument else h c req) s1"
    by (simp add: IdempotentInterceptor_def)
  with v show ?thesis by (auto intro!: exI [of _ s1])
qed

end

text \<open>\<open>SETNX\<close> answers whether the key was set now; a pipeline runs its commands in order. Expiry
  is not observed.\<close>

definition setnx_law :: "'s idempotency_redis \<Rightarrow> ('s \<Rightarrow> string \<Rightarrow> bool) \<Rightarrow> bool" where
  "setnx_law c stored \<longleftrightarrow>
     (\<forall>ks s. \<exists>s'. run_state (irPipeSetNX c ks) s =
         ((map (\<lambda>b. (\<not> b, None)) (seen_flags (stored s) ks), None), s')
       \<and> stored s' = (\<lambda>k. stored s k \<or> k \<in> set ks))"

lemma collect_answers:
  "collect_results (map (\<lambda>b. (\<not> b, None)) bs) acc = (acc @ bs, None)"
  by (induction bs arbitrary: acc) simp_all

lemma redis_idempotency:
  assumes "setnx_law c stored"
  shows "idempotency (NewRedisIdempotencyService c) (\<lambda>s k. stored s (idem_getKey k))"
proof
  fix ks s
  obtain s' where p: "run_state (irPipeSetNX c (map idem_getKey ks)) s
      = ((map (\<lambda>b. (\<not> b, None)) (seen_flags (stored s) (map idem_getKey ks)), None), s')"
    "stored s' = (\<lambda>k. stored s k \<or> k \<in> set (map idem_getKey ks))"
    using assms unfolding setnx_law_def by blast
  have inj: "inj idem_getKey" by (rule injI) (simp add: idem_getKey_def)
  from p(1) have "run_state (idMExists (NewRedisIdempotencyService c) ks) s
      = ((seen_flags (\<lambda>k. stored s (idem_getKey k)) ks, None), s')"
    by (simp add: NewRedisIdempotencyService_def redis_MExists_def collect_answers
        seen_flags_inj [OF inj])
  moreover have "(\<lambda>k. stored s' (idem_getKey k)) = (\<lambda>k. stored s (idem_getKey k) \<or> k \<in> set ks)"
    using inj by (auto simp: p(2) inj_eq)
  ultimately show "\<exists>s'. run_state (idMExists (NewRedisIdempotencyService c) ks) s
      = ((seen_flags (\<lambda>k. stored s (idem_getKey k)) ks, None), s')
    \<and> (\<lambda>k. stored s' (idem_getKey k)) = (\<lambda>k. stored s (idem_getKey k) \<or> k \<in> set ks)"
    by blast
qed

text \<open>A key store in memory.\<close>

definition mem_keys :: "(string \<Rightarrow> bool) idempotency_redis" where
  "mem_keys =
     \<lparr>irSetNX = \<lambda>k. State (\<lambda>S. ((\<not> S k, None), S(k := True))),
      irPipeSetNX = \<lambda>ks. State (\<lambda>S. ((map (\<lambda>b. (\<not> b, None)) (seen_flags S ks), None),
        \<lambda>k. S k \<or> k \<in> set ks)),
      irBFAdd = \<lambda>_ k. State (\<lambda>S. ((\<not> S k, None), S(k := True))),
      irBFMAdd = \<lambda>_ ks. State (\<lambda>S. ((map Not (seen_flags S ks), None), \<lambda>k. S k \<or> k \<in> set ks))\<rparr>"

lemma mem_keys_setnx: "setnx_law mem_keys (\<lambda>S. S)"
  by (simp add: setnx_law_def mem_keys_def)

interpretation redis_service: idempotency "NewRedisIdempotencyService mem_keys" "\<lambda>S k. S (idem_getKey k)"
  by (rule redis_idempotency [OF mem_keys_setnx])

section \<open>Properties\<close>

text \<open>C24. Requests are handled once: the interceptor over Redis runs the handler exactly when none of
  the request's keys was seen for the same business and no key occurs twice; otherwise it
  answers InvalidArgument without running it. Either way all keys of the request are remembered,
  also those of a request that is rejected because of one of the others.\<close>

theorem Idempotent_once:
  assumes "setnx_law client stored"
    and "GetBizIDFromContext c = (b, None)" "GetIdempotencyKeys req = Some (Some keys)"
  shows "\<exists>s1. (\<lambda>k. stored s1 (idem_getKey k))
        = (\<lambda>k. stored s (idem_getKey k) \<or> k \<in> request_key b ` set keys)
    \<and> run_state (IdempotentInterceptor (NewRedisIdempotencyService client) h c req) s
      = run_state (if list_ex (\<lambda>k. stored s (idem_getKey (request_key b k))) keys \<or> \<not> distinct keys
                   then io_reject InvalidArgument else h c req) s1"
  by (rule idempotency.once [OF redis_idempotency [OF assms(1)] assms(2,3)])

definition demo_ctx :: ctx where
  "demo_ctx = \<lparr>ctxValue = [BizIDName \<mapsto> VInt64 7], ctxIncoming = None, ctxOutgoing = \<lambda>_. [],
     ctxDeadline = None\<rparr>"

theorem Idempotent_once_witness:
  "let req = SendNotificationRequest (Some (zero_pbNotification\<lparr>pbKey := ''k''\<rparr>));
       send = IdempotentInterceptor (NewRedisIdempotencyService mem_keys) (\<lambda>_ _. io_return (Some (Some (), None)))
   in fst (run_state (send demo_ctx req) (\<lambda>_. False)) = Some (Some (), None)
     \<and> fst (run_state (send demo_ctx req) (snd (run_state (send demo_ctx req) (\<lambda>_. False))))
        = Some (None, Some (Status InvalidArgument))"
proof -
  let ?req = "SendNotificationRequest (Some (zero_pbNotification\<lparr>pbKey := ''k''\<rparr>))"
  let ?h = "\<lambda>_ _. io_return (Some (Some (), None)) :: (string \<Rightarrow> bool, unit reply option) io"
  have b: "GetBizIDFromContext demo_ctx = (7, None)"
    by (simp add: GetBizIDFromContext_def demo_ctx_def)
  have k: "GetIdempotencyKeys ?req = Some (Some [''k''])" by simp
  note once = Idempotent_once [OF mem_keys_setnx b k, of _ ?h]
  from once [of "\<lambda>_. False"] obtain s1 where s1: "s1 (idem_getKey (request_key 7 ''k''))"
    and r: "run_state (IdempotentInterceptor (NewRedisIdempotencyService mem_keys) ?h demo_ctx ?req) (\<lambda>_. False)
      = (Some (Some (), None), s1)"
    by (auto simp: fun_eq_iff)
  from once [of s1] s1 r show ?thesis by (auto simp: io_reject_def)
qed

text \<open>\<open>BF.MADD\<close> answers for each key whether it was added now.\<close>

definition madd_law :: "'s idempotency_redis \<Rightarrow> string \<Rightarrow> ('s \<Rightarrow> string \<Rightarrow> bool) \<Rightarrow> bool" where
  "madd_law c name stored \<longleftrightarrow>
     (\<forall>ks s. \<exists>s'. run_state (irBFMAdd c name ks) s =
         ((map Not (seen_flags (stored s) ks), None), s')
       \<and> stored s' = (\<lambda>k. stored s k \<or> k \<in> set ks))"

lemma seen_flags_all: "list_ex id (map Not (seen_flags S ks)) \<longleftrightarrow> \<not> list_all S ks"
proof (induction ks arbitrary: S)
  case (Cons k ks)
  show ?case
  proof (cases "S k")
    case True
    then have "S(k := True) = S" by (simp add: fun_upd_idem)
    with True Cons show ?thesis by simp
  qed simp
qed simp

text \<open>Over the Bloom filter the check is inverted: a request passes only if all its keys were
  there before, so that every first request is rejected and its repetition is handled.\<close>

theorem Bloom_inverted:
  assumes "madd_law client name stored"
    and "GetBizIDFromContext c = (b, None)" "GetIdempotencyKeys req = Some (Some keys)" "keys \<noteq> []"
  shows "\<exists>s1. stored s1 = (\<lambda>k. stored s k \<or> k \<in> request_key b ` set keys)
    \<and> run_state (IdempotentInterceptor (BloomIdempotencyService client name) h c req) s
      = run_state (if list_all (\<lambda>k. stored s (request_key b k)) keys
                   then h c req else io_reject InvalidArgument) s1"
proof -
  let ?ks = "map (request_key b) keys"
  obtain s1 where m: "run_state (irBFMAdd client name ?ks) s
      = ((map Not (seen_flags (stored s) ?ks), None), s1)"
    and v: "stored s1 = (\<lambda>k. stored s k \<or> k \<in> set ?ks)"
    using assms(1) unfolding madd_law_def by blast
  have "run_state (IdempotentInterceptor (BloomIdempotencyService client name) h c req) s
      = run_state (if list_all (\<lambda>k. stored s (request_key b k)) keys
                   then h c req else io_reject InvalidArgument) s1"
    using assms m seen_flags_all [of "stored s" ?ks]
    by (simp add: IdempotentInterceptor_def BloomIdempotencyService_def bloom_MExists_def
        list.pred_map comp_def)
  with v show ?thesis by (auto intro!: exI [of _ s1])
qed

theorem Bloom_inverted_witness:
  "let req = SendNotificationRequest (Some (zero_pbNotification\<lparr>pbKey := ''k''\<rparr>));
       send = IdempotentInterceptor (BloomIdempotencyService mem_keys ''f'') (\<lambda>_ _. io_return (Some (Some (), None)))
   in fst (run_state (send demo_ctx req) (\<lambda>_. False)) = Some (None, Some (Status InvalidArgument))"
proof -
  let ?req = "SendNotificationRequest (Some (zero_pbNotification\<lparr>pbKey := ''k''\<rparr>))"
  have b: "GetBizIDFromContext demo_ctx = (7, None)"
    by (simp add: GetBizIDFromContext_def demo_ctx_def)
  have k: "GetIdempotencyKeys ?req = Some (Some [''k''])" by simp
  have "madd_law mem_keys ''f'' (\<lambda>S. S)" by (simp add: madd_law_def mem_keys_def)
  from Bloom_inverted [OF this b k, of "\<lambda>_. False" "\<lambda>_ _. io_return (Some (Some (), None))"]
  show ?thesis by (auto simp: io_reject_def)
qed

text \<open>A deadline crosses the network: the server runs the handler under the client's deadline,
  rounded down to the millisecond.\<close>

theorem Deadline_transport:
  assumes "ctxDeadline client = Some d" "ctxOutgoing client timeoutKey = []"
    and "ctxIncoming server = Some (ctxOutgoing (InjectorInterceptor client))"
    and "ctxDeadline server = None" "int64_range ((d - unix_epoch) div 10 ^ 6)"
  shows "\<exists>d'. TimeoutInterceptor h server req = h (server\<lparr>ctxDeadline := Some d'\<rparr>) req
    \<and> d' \<le> d \<and> d - d' < 10 ^ 6"
proof (intro exI conjI)
  let ?d = "time_UnixMilli (UnixMilli d)"
  have ms: "UnixMilli d = (d - unix_epoch) div 10 ^ 6"
    using assms(5) by (simp add: UnixMilli_def wrap64_id)
  show "TimeoutInterceptor h server req = h (server\<lparr>ctxDeadline := Some ?d\<rparr>) req"
    using assms by (simp add: TimeoutInterceptor_def InjectorInterceptor_def ParseInt_FormatInt
        WithDeadline_def ms)
  have "?d = unix_epoch + (d - unix_epoch) div 10 ^ 6 * 10 ^ 6"
    by (simp add: time_UnixMilli_def ms)
  also have "\<dots> = d - (d - unix_epoch) mod 10 ^ 6"
    using div_mult_mod_eq [of "d - unix_epoch" "10 ^ 6"] by linarith
  finally have "?d = d - (d - unix_epoch) mod 10 ^ 6" .
  moreover have "0 \<le> (d - unix_epoch) mod 10 ^ 6" "(d - unix_epoch) mod 10 ^ 6 < 10 ^ 6"
    by simp_all
  ultimately show "?d \<le> d" "d - ?d < 10 ^ 6" by linarith+
qed

theorem Deadline_transport_witness:
  "let client = demo_ctx\<lparr>ctxDeadline := Some (unix_epoch + 1500)\<rparr>;
       server = demo_ctx\<lparr>ctxIncoming := Some (ctxOutgoing (InjectorInterceptor client))\<rparr>
   in \<exists>d'. TimeoutInterceptor (\<lambda>c _. io_return (Some (Some (ctxDeadline c), None))) server OtherRequest
       = (io_return (Some (Some (Some d'), None)) :: (unit, gtime option reply option) io)
      \<and> d' \<le> unix_epoch + 1500"
proof -
  let ?client = "demo_ctx\<lparr>ctxDeadline := Some (unix_epoch + 1500)\<rparr>"
  let ?server = "demo_ctx\<lparr>ctxIncoming := Some (ctxOutgoing (InjectorInterceptor ?client))\<rparr>"
  let ?h = "\<lambda>c _. io_return (Some (Some (ctxDeadline c), None)) :: (unit, gtime option reply option) io"
  have "ctxOutgoing ?client timeoutKey = []" "ctxDeadline ?server = None"
    "int64_range ((unix_epoch + 1500 - unix_epoch) div 10 ^ 6)"
    by (simp_all add: demo_ctx_def int64_range_def)
  from Deadline_transport [OF _ this(1) _ this(2,3), of ?h OtherRequest] show ?thesis by auto
qed

section \<open>Authentication\<close>

text \<open>What a token that was signed with the key carries: the claims, as JSON keeps them.\<close>

definition jwt_law :: "jwt_lib \<Rightarrow> (claims \<Rightarrow> claims) \<Rightarrow> bool" where
  "jwt_law lib json \<longleftrightarrow>
     (\<forall>cl key t kf. jlSign lib cl key = (t, None) \<longrightarrow> kf True = (key, None) \<longrightarrow>
        take 7 t \<noteq> ''Bearer ''
        \<and> jlParse lib kf t = (\<lparr>tkClaims = Some (json cl), tkValid = True\<rparr>, None))"

lemma TrimPrefix_Bearer: "take 7 t \<noteq> ''Bearer '' \<Longrightarrow> TrimPrefix t ''Bearer '' = t"
proof -
  assume "take 7 t \<noteq> ''Bearer ''"
  moreover have "length ''Bearer '' = 7" by simp
  ultimately show ?thesis unfolding TrimPrefix_def HasPrefix_def by presburger
qed

lemma jwt_roundtrip:
  assumes "jwt_law lib json" "jwt_Encode lib key now custom = (t, None)"
  shows "\<exists>cl. jwt_Decode lib key t = (json cl, None) \<and> jwt_Decode lib key (''Bearer '' @ t) = (json cl, None)
    \<and> custom \<subseteq>\<^sub>m cl \<and> cl ''exp'' \<noteq> None"
proof -
  define cl0 where "cl0 = [''iat'' \<mapsto> VInt64 (time_Unix_seconds now),
    ''iss'' \<mapsto> VString ''notification-platform''] ++ custom"
  define cl where "cl = (if cl0 ''exp'' = None
    then cl0(''exp'' \<mapsto> VInt64 (time_Unix_seconds (now + 24 * 60 * minute))) else cl0)"
  from assms(2) have s: "jlSign lib cl key = (t, None)"
    by (simp only: jwt_Encode_def Let_def cl_def cl0_def)
  with assms(1) have "take 7 t \<noteq> ''Bearer ''"
    "jlParse lib (jwt_keyfunc key) t = (\<lparr>tkClaims = Some (json cl), tkValid = True\<rparr>, None)"
    unfolding jwt_law_def by (simp_all add: jwt_keyfunc_def)
  then have "jwt_Decode lib key t = (json cl, None)" "jwt_Decode lib key (''Bearer '' @ t) = (json cl, None)"
    by (simp_all add: jwt_Decode_def TrimPrefix_Bearer TrimPrefix_append del: append.simps)
  moreover have e: "custom ''exp'' = Some y \<Longrightarrow> cl0 ''exp'' = Some y" for y by (simp add: cl0_def)
  have "custom \<subseteq>\<^sub>m cl0" by (simp add: cl0_def)
  then have "custom \<subseteq>\<^sub>m cl" "cl ''exp'' \<noteq> None"
    using e by (auto simp: cl_def map_le_def)
  ultimately show ?thesis by blast
qed

text \<open>The interceptor never passes a business id on.\<close>

lemma JwtAuth_no_biz:
  assumes "ctxValue c BizIDName = None"
  shows "JwtAuthInterceptor lib key h c req = io_reject Unauthenticated
    \<or> JwtAuthInterceptor lib key h c req = io_return None
    \<or> (\<exists>c'. ctxValue c' BizIDName = None \<and> JwtAuthInterceptor lib key h c req = h c' req)"
proof -
  have "BizIDName \<noteq> ''Priority''" by (simp add: BizIDName_def)
  then have keep: "ctxValue (c\<lparr>ctxValue := (ctxValue c)(''Priority'' \<mapsto> v)\<rparr>) BizIDName = None" for v
    using assms by simp
  show ?thesis
  proof (cases "ctxIncoming c")
    case None
    then show ?thesis by (simp add: JwtAuthInterceptor_def)
  next
    case md: (Some md)
    show ?thesis
    proof (cases "md ''authorization''")
      case Nil
      with md show ?thesis by (simp add: JwtAuthInterceptor_def)
    next
      case tok: (Cons tok rest)
      obtain val err where d: "jwt_Decode lib key tok = (val, err)" by fastforce
      show ?thesis
      proof (cases "err = None \<and> val BizIDName \<noteq> None")
        case False
        with md tok d show ?thesis
          by (cases err) (simp_all add: JwtAuthInterceptor_def)
      next
        case True
        then obtain b where b: "err = None" "val BizIDName = Some b" by blast
        show ?thesis
        proof (cases "val ''Priority''")
          case None
          with md tok d b assms show ?thesis by (auto simp: JwtAuthInterceptor_def)
        next
          case (Some v)
          with md tok d b have "JwtAuthInterceptor lib key h c req
              = h (c\<lparr>ctxValue := (ctxValue c)(''Priority'' \<mapsto> v)\<rparr>) req"
            by (simp add: JwtAuthInterceptor_def)
          with keep [of v] show ?thesis by blast
        qed
      qed
    qed
  qed
qed

text \<open>Behind the authentication no request that needs idempotency is ever handled: the business
  id of the token does not reach the context, so the check rejects every request, whatever the
  handler; a token without the claim makes the interceptor panic.\<close>

theorem JwtAuth_blocks_sending:
  assumes "ctxValue c BizIDName = None"
  shows "JwtAuthInterceptor lib key (IdempotentInterceptor svc h) c req
    \<in> {io_reject Unauthenticated, io_return None, io_reject InvalidArgument}"
  using JwtAuth_no_biz [OF assms, of lib key "IdempotentInterceptor svc h" req]
  by (auto simp: IdempotentInterceptor_def GetBizIDFromContext_def)

text \<open>Degradation: while the breaker is open a request of high priority still reaches the
  handler and every other one is rejected; each is reported to the breaker.\<close>

theorem Degrade_priority:
  assumes "run_state (brAllow br) s = (Some e, s1)"
  shows "run_state (DegradeInterceptor br h c req) s =
    (let s2 = snd (run_state (brMarkFailed br) s1)
     in if ctxValue c ''Priority'' = Some (VString ''high'')
        then run_state (do { r \<leftarrow> h c req; breaker_settle br r }) s2
        else (Some (None, Some (Status Unavailable)), s2))"
  using assms by (simp add: DegradeInterceptor_def io_reject_def split_beta Let_def)

text \<open>A library whose tokens are the keys they were signed with, with fixed claims.\<close>

definition demo_jwt :: jwt_lib where
  "demo_jwt =
     \<lparr>jlParse = \<lambda>kf t. (case kf True of
        (k, None) \<Rightarrow> if t = k then (\<lparr>tkClaims = Some [BizIDName \<mapsto> VOther 7], tkValid = True\<rparr>, None)
                     else (\<lparr>tkClaims = None, tkValid = False\<rparr>, Some (Ext ''signature''))
      | (_, Some e) \<Rightarrow> (\<lparr>tkClaims = None, tkValid = False\<rparr>, Some e)),
      jlSign = \<lambda>_ k. (k, None)\<rparr>"

theorem JwtAuth_blocks_sending_witness:
  "let c = \<lparr>ctxValue = \<lambda>_. None, ctxIncoming = Some ((\<lambda>_. [])(''authorization'' := [''Bearer key''])),
            ctxOutgoing = \<lambda>_. [], ctxDeadline = None\<rparr>;
       req = SendNotificationRequest (Some zero_pbNotification);
       h = IdempotentInterceptor (NewRedisIdempotencyService mem_keys) (\<lambda>_ _. io_return (Some (Some (), None)))
   in JwtAuthInterceptor demo_jwt ''key'' h c req \<noteq> io_return (Some (Some (), None))"
proof -
  let ?c = "\<lparr>ctxValue = \<lambda>_. None, ctxIncoming = Some ((\<lambda>_. [])(''authorization'' := [''Bearer key''])),
            ctxOutgoing = \<lambda>_. [], ctxDeadline = None\<rparr>"
  have no_biz: "ctxValue ?c BizIDName = None" by simp
  have differ: "io_return (Some (Some (), None)) \<noteq> (m :: (string \<Rightarrow> bool, unit reply option) io)"
    if "fst (run_state m (\<lambda>_. False)) \<noteq> Some (Some (), None)" for m
    using that by (auto dest: arg_cong [of _ _ "\<lambda>m. fst (run_state m (\<lambda>_. False))"])
  have "io_return (Some (Some (), None)) \<notin> {io_reject Unauthenticated, io_return None,
      io_reject InvalidArgument :: (string \<Rightarrow> bool, unit reply option) io}"
    by (auto dest!: differ [THEN notE, rotated] simp: io_reject_def)
  with JwtAuth_blocks_sending [OF no_biz, of demo_jwt "''key''" "NewRedisIdempotencyService mem_keys"
      "\<lambda>_ _. io_return (Some (Some (), None))" "SendNotificationRequest (Some zero_pbNotification)"]
  show ?thesis unfolding Let_def by metis
qed

theorem Degrade_priority_witness:
  "fst (run_state (DegradeInterceptor
       \<lparr>brAllow = io_return (Some (Ext ''open'')), brMarkFailed = io_return (), brMarkSuccess = io_return ()\<rparr>
       (\<lambda>_ _. io_return (Some (Some (), None))) demo_ctx OtherRequest) ())
   = Some (None, Some (Status Unavailable))"
proof -
  let ?br = "\<lparr>brAllow = io_return (Some (Ext ''open'')), brMarkFailed = io_return (),
    brMarkSuccess = io_return ()\<rparr>"
  have "run_state (brAllow ?br) () = (Some (Ext ''open''), ())" by simp
  from Degrade_priority [OF this, of "\<lambda>_ _. io_return (Some (Some (), None))" demo_ctx OtherRequest]
  show ?thesis by (simp add: demo_ctx_def BizIDName_def)
qed

end
