(* ===== verification/Templates.thy ===== *)
theory Templates
  imports Interfaces
begin

text \<open>
  Channel templates, their versions and the providers of a version:
  \<^verbatim>\<open>internal/domain/template.go\<close> and the repository \<^verbatim>\<open>internal/repository/template.go\<close> over the
  data access interface of \<^verbatim>\<open>internal/repository/dao/template.go\<close>.
\<close>

section \<open>Domain\<close>

type_synonym AuditStatus = string

definition AuditStatusPending :: AuditStatus where
  [status_simps]: "AuditStatusPending = ''PENDING''"
definition AuditStatusInReview :: AuditStatus where
  [status_simps]: "AuditStatusInReview = ''IN_REVIEW''"
definition AuditStatusRejected :: AuditStatus where
  [status_simps]: "AuditStatusRejected = ''REJECTED''"
definition AuditStatusApproved :: AuditStatus where
  [status_simps]: "AuditStatusApproved = ''APPROVED''"

definition AuditStatus_IsValid :: "AuditStatus \<Rightarrow> bool" where
  "AuditStatus_IsValid a \<longleftrightarrow>
     a \<in> {AuditStatusPending, AuditStatusInReview, AuditStatusApproved, AuditStatusRejected}"

type_synonym OwnerType = string

definition OwnertypePerson :: OwnerType where [status_simps]: "OwnertypePerson = ''person''"
definition OwnertypeOrganization :: OwnerType where
  [status_simps]: "OwnertypeOrganization = ''organization''"

definition OwnerType_IsValid :: "OwnerType \<Rightarrow> bool" where
  "OwnerType_IsValid t \<longleftrightarrow> t = OwnertypePerson \<or> t = OwnertypeOrganization"

type_synonym BusinessType = int64

definition BusinessTypePromotion :: BusinessType where "BusinessTypePromotion = 1"
definition BusinessTypeNotification :: BusinessType where "BusinessTypeNotification = 2"
definition BusinessTypeVerificationCode :: BusinessType where "BusinessTypeVerificationCode = 3"

definition BusinessType_IsValid :: "BusinessType \<Rightarrow> bool" where
  "BusinessType_IsValid b \<longleftrightarrow>
     b = BusinessTypeVerificationCode \<or> b = BusinessTypePromotion \<or> b = BusinessTypeNotification"

record ChannelTemplateProvider =
  cpID :: int64
  cpTemplateID :: int64
  cpTemplateVersionID :: int64
  cpProviderID :: int64
  cpProviderName :: string
  cpProviderChannel :: Channel
  cpRequestID :: string
  cpProviderTemplateID :: string
  cpAuditStatus :: AuditStatus
  cpRejectReason :: string
  cpLastReviewSubmissionTime :: int64
  cpCtime :: int64
  cpUtime :: int64

record ChannelTemplateVersion =
  cvId :: int64
  cvChannelTemplateID :: int64
  cvName :: string
  cvSignature :: string
  cvContent :: string
  cvRemark :: string
  cvAuditId :: int64
  cvAuditorId :: int64
  cvAuditTime :: int64
  cvAuditStatus :: AuditStatus
  cvRejectReason :: string
  cvLastReviewSubmissionTime :: int64
  cvCtime :: int64
  cvUtime :: int64
  cvProviders :: "ChannelTemplateProvider list"

record ChannelTemplate =
  ctID :: int64
  ctOwnerID :: int64
  ctOwnerType :: OwnerType
  ctName :: string
  ctDescription :: string
  ctChannel :: Channel
  ctBusinessType :: BusinessType
  ctActiveVersionID :: int64
  ctCtime :: int64
  ctUtime :: int64
  ctVersions :: "ChannelTemplateVersion list"

definition zero_ChannelTemplateProvider :: ChannelTemplateProvider where
  "zero_ChannelTemplateProvider =
     \<lparr>cpID = 0, cpTemplateID = 0, cpTemplateVersionID = 0, cpProviderID = 0, cpProviderName = '''',
      cpProviderChannel = '''', cpRequestID = '''', cpProviderTemplateID = '''',
      cpAuditStatus = '''', cpRejectReason = '''', cpLastReviewSubmissionTime = 0, cpCtime = 0,
      cpUtime = 0\<rparr>"

definition zero_ChannelTemplateVersion :: ChannelTemplateVersion where
  "zero_ChannelTemplateVersion =
     \<lparr>cvId = 0, cvChannelTemplateID = 0, cvName = '''', cvSignature = '''', cvContent = '''',
      cvRemark = '''', cvAuditId = 0, cvAuditorId = 0, cvAuditTime = 0, cvAuditStatus = '''',
      cvRejectReason = '''', cvLastReviewSubmissionTime = 0, cvCtime = 0, cvUtime = 0,
      cvProviders = []\<rparr>"

definition zero_ChannelTemplate :: ChannelTemplate where
  "zero_ChannelTemplate =
     \<lparr>ctID = 0, ctOwnerID = 0, ctOwnerType = '''', ctName = '''', ctDescription = '''',
      ctChannel = '''', ctBusinessType = 0, ctActiveVersionID = 0, ctCtime = 0, ctUtime = 0,
      ctVersions = []\<rparr>"

definition Template_Validate :: "ChannelTemplate \<Rightarrow> gerr option" where
  "Template_Validate t =
     (if ctOwnerID t < 0 then Some invalid_parameter
      else if \<not> OwnerType_IsValid (ctOwnerType t) then Some invalid_parameter
      else if ctName t = '''' then Some invalid_parameter
      else if ctDescription t = '''' then Some invalid_parameter
      else if \<not> Channel_IsValid (ctChannel t) then Some invalid_parameter
      else if \<not> BusinessType_IsValid (ctBusinessType t) then Some invalid_parameter
      else None)"

definition HasPublished :: "ChannelTemplate \<Rightarrow> bool" where
  "HasPublished t \<longleftrightarrow> ctActiveVersionID t \<noteq> 0"

definition GetVersion :: "ChannelTemplate \<Rightarrow> int64 \<Rightarrow> ChannelTemplateVersion option" where
  "GetVersion t versionID = find (\<lambda>v. cvId v = versionID) (ctVersions t)"

definition ActiveVersion :: "ChannelTemplate \<Rightarrow> ChannelTemplateVersion option" where
  "ActiveVersion t =
     (if ctActiveVersionID t = 0 then None
      else find (\<lambda>v. cvId v = ctActiveVersionID t) (ctVersions t))"

definition GetProvidersByVersion :: "ChannelTemplate \<Rightarrow> int64 \<Rightarrow> ChannelTemplateProvider list" where
  "GetProvidersByVersion t versionID =
     (case GetVersion t versionID of None \<Rightarrow> [] | Some version \<Rightarrow> cvProviders version)"

definition GetProvider :: "ChannelTemplate \<Rightarrow> int64 \<Rightarrow> int64 \<Rightarrow> ChannelTemplateProvider option" where
  "GetProvider t versionID providerID =
     (case GetVersion t versionID of
        None \<Rightarrow> None
      | Some version \<Rightarrow> find (\<lambda>p. cpProviderID p = providerID) (cvProviders version))"

definition HasApprovedVersion :: "ChannelTemplate \<Rightarrow> bool" where
  "HasApprovedVersion t \<longleftrightarrow> list_ex (\<lambda>v. cvAuditStatus v = AuditStatusApproved) (ctVersions t)"

section \<open>Rows and data access\<close>

record daoTemplate =
  dmID :: int64
  dmOwnerID :: int64
  dmOwnerType :: string
  dmName :: string
  dmDescription :: string
  dmChannel :: string
  dmBusinessType :: int64
  dmActiveVersionID :: int64
  dmCtime :: int64
  dmUtime :: int64

record daoVersion =
  dvID :: int64
  dvChannelTemplateID :: int64
  dvName :: string
  dvSignature :: string
  dvContent :: string
  dvRemark :: string
  dvAuditID :: int64
  dvAuditorID :: int64
  dvAuditTime :: int64
  dvAuditStatus :: string
  dvRejectReason :: string
  dvLastReviewSubmissionTime :: int64
  dvCtime :: int64
  dvUtime :: int64

record daoTemplateProvider =
  dpID :: int64
  dpTemplateID :: int64
  dpTemplateVersionID :: int64
  dpProviderID :: int64
  dpProviderName :: string
  dpProviderChannel :: string
  dpRequestID :: string
  dpProviderTemplateID :: string
  dpAuditStatus :: string
  dpRejectReason :: string
  dpLastReviewSubmissionTime :: int64
  dpCtime :: int64
  dpUtime :: int64

record 's ChannelTemplateDAO =
  tdaoGetTemplateByOwner :: "int64 \<Rightarrow> string \<Rightarrow> ('s, daoTemplate list ret) io"
  tdaoGetTemplateByID :: "int64 \<Rightarrow> ('s, daoTemplate ret) io"
  tdaoCreateTemplate :: "daoTemplate \<Rightarrow> ('s, daoTemplate ret) io"
  tdaoUpdateTemplate :: "daoTemplate \<Rightarrow> ('s, gerr option) io"
  tdaoSetTemplateActiveVersion :: "int64 \<Rightarrow> int64 \<Rightarrow> ('s, gerr option) io"
  tdaoGetTemplateVersionByTemplateIDs :: "int64 list \<Rightarrow> ('s, daoVersion list ret) io"
  tdaoGetTemplateVersionByID :: "int64 \<Rightarrow> ('s, daoVersion ret) io"
  tdaoCreateTemplateVersion :: "daoVersion \<Rightarrow> ('s, daoVersion ret) io"
  tdaoForkTemplateVersion :: "int64 \<Rightarrow> ('s, daoVersion ret) io"
  tdaoGetProviderByVersionIDs :: "int64 list \<Rightarrow> ('s, daoTemplateProvider list ret) io"
  tdaoGetProviderByNameAndChannel ::
    "int64 \<Rightarrow> int64 \<Rightarrow> string \<Rightarrow> string \<Rightarrow> ('s, daoTemplateProvider list ret) io"
  tdaoBatchCreateTemplateProviders ::
    "daoTemplateProvider list \<Rightarrow> ('s, daoTemplateProvider list ret) io"
  tdaoGetApprovedProviders :: "int64 \<Rightarrow> int64 \<Rightarrow> ('s, daoTemplateProvider list ret) io"
  tdaoGetProviders :: "int64 \<Rightarrow> int64 \<Rightarrow> ('s, daoTemplateProvider list ret) io"
  tdaoUpdateTemplateVersion :: "daoVersion \<Rightarrow> ('s, gerr option) io"
  tdaoBatchUpdateTemplateVersionAuditInfo :: "daoVersion list \<Rightarrow> ('s, gerr option) io"
  tdaoUpdateTemplateProviderAuditInfo :: "daoTemplateProvider \<Rightarrow> ('s, gerr option) io"
  tdaoBatchUpdateTemplateProvidersAuditInfo :: "daoTemplateProvider list \<Rightarrow> ('s, gerr option) io"
  tdaoGetPendingOrInReviewProviders ::
    "int64 \<Rightarrow> int64 \<Rightarrow> int64 \<Rightarrow> ('s, daoTemplateProvider list ret) io"
  tdaoTotalPendingOrInReviewProviders :: "int64 \<Rightarrow> ('s, int64 ret) io"

section \<open>Conversions\<close>

definition toProviderDomain :: "daoTemplateProvider \<Rightarrow> ChannelTemplateProvider" where
  "toProviderDomain p =
     \<lparr>cpID = dpID p, cpTemplateID = dpTemplateID p, cpTemplateVersionID = dpTemplateVersionID p,
      cpProviderID = dpProviderID p, cpProviderName = dpProviderName p,
      cpProviderChannel = dpProviderChannel p, cpRequestID = dpRequestID p,
      cpProviderTemplateID = dpProviderTemplateID p, cpAuditStatus = dpAuditStatus p,
      cpRejectReason = dpRejectReason p, cpLastReviewSubmissionTime = dpLastReviewSubmissionTime p,
      cpCtime = dpCtime p, cpUtime = dpUtime p\<rparr>"

definition toProviderEntity :: "ChannelTemplateProvider \<Rightarrow> daoTemplateProvider" where
  "toProviderEntity p =
     \<lparr>dpID = cpID p, dpTemplateID = cpTemplateID p, dpTemplateVersionID = cpTemplateVersionID p,
      dpProviderID = cpProviderID p, dpProviderName = cpProviderName p,
      dpProviderChannel = cpProviderChannel p, dpRequestID = cpRequestID p,
      dpProviderTemplateID = cpProviderTemplateID p, dpAuditStatus = cpAuditStatus p,
      dpRejectReason = cpRejectReason p, dpLastReviewSubmissionTime = cpLastReviewSubmissionTime p,
      dpCtime = 0, dpUtime = 0\<rparr>"

definition toVersionDomain :: "daoVersion \<Rightarrow> ChannelTemplateVersion" where
  "toVersionDomain v =
     \<lparr>cvId = dvID v, cvChannelTemplateID = dvChannelTemplateID v, cvName = dvName v,
      cvSignature = dvSignature v, cvContent = dvContent v, cvRemark = dvRemark v,
      cvAuditId = dvAuditID v, cvAuditorId = dvAuditorID v, cvAuditTime = dvAuditTime v,
      cvAuditStatus = dvAuditStatus v, cvRejectReason = dvRejectReason v,
      cvLastReviewSubmissionTime = dvLastReviewSubmissionTime v, cvCtime = dvCtime v,
      cvUtime = dvUtime v, cvProviders = []\<rparr>"

text \<open>Both identifiers of the row come from the auditor.\<close>

definition toVersionEntity :: "ChannelTemplateVersion \<Rightarrow> daoVersion" where
  "toVersionEntity v =
     \<lparr>dvID = cvId v, dvChannelTemplateID = cvChannelTemplateID v, dvName = cvName v,
      dvSignature = cvSignature v, dvContent = cvContent v, dvRemark = cvRemark v,
      dvAuditID = cvAuditorId v, dvAuditorID = cvAuditorId v, dvAuditTime = cvAuditTime v,
      dvAuditStatus = cvAuditStatus v, dvRejectReason = cvRejectReason v,
      dvLastReviewSubmissionTime = cvLastReviewSubmissionTime v, dvCtime = 0, dvUtime = 0\<rparr>"

definition toTemplateDomain :: "daoTemplate \<Rightarrow> ChannelTemplate" where
  "toTemplateDomain t =
     \<lparr>ctID = dmID t, ctOwnerID = dmOwnerID t, ctOwnerType = dmOwnerType t, ctName = dmName t,
      ctDescription = dmDescription t, ctChannel = dmChannel t, ctBusinessType = dmBusinessType t,
      ctActiveVersionID = dmActiveVersionID t, ctCtime = dmCtime t, ctUtime = dmUtime t,
      ctVersions = []\<rparr>"

definition toTemplateEntity :: "ChannelTemplate \<Rightarrow> daoTemplate" where
  "toTemplateEntity t =
     \<lparr>dmID = ctID t, dmOwnerID = ctOwnerID t, dmOwnerType = ctOwnerType t, dmName = ctName t,
      dmDescription = ctDescription t, dmChannel = ctChannel t, dmBusinessType = ctBusinessType t,
      dmActiveVersionID = ctActiveVersionID t, dmCtime = 0, dmUtime = 0\<rparr>"

section \<open>The repository\<close>

record 's ChannelTemplateRepository =
  ctrGetTemplatesByOwner :: "int64 \<Rightarrow> OwnerType \<Rightarrow> ('s, ChannelTemplate list ret) io"
  ctrGetTemplateByID :: "int64 \<Rightarrow> ('s, ChannelTemplate ret) io"
  ctrCreateTemplate :: "ChannelTemplate \<Rightarrow> ('s, ChannelTemplate ret) io"
  ctrUpdateTemplate :: "ChannelTemplate \<Rightarrow> ('s, gerr option) io"
  ctrSetTemplateActiveVersion :: "int64 \<Rightarrow> int64 \<Rightarrow> ('s, gerr option) io"
  ctrGetTemplateVersionByID :: "int64 \<Rightarrow> ('s, ChannelTemplateVersion ret) io"
  ctrCreateTemplateVersion :: "ChannelTemplateVersion \<Rightarrow> ('s, ChannelTemplateVersion ret) io"
  ctrForkTemplateVersion :: "int64 \<Rightarrow> ('s, ChannelTemplateVersion ret) io"
  ctrGetProviderByNameAndChannel ::
    "int64 \<Rightarrow> int64 \<Rightarrow> string \<Rightarrow> Channel \<Rightarrow> ('s, ChannelTemplateProvider list ret) io"
  ctrBatchCreateTemplateProviders ::
    "ChannelTemplateProvider list \<Rightarrow> ('s, ChannelTemplateProvider list ret) io"
  ctrGetApprovedProviders :: "int64 \<Rightarrow> int64 \<Rightarrow> ('s, ChannelTemplateProvider list ret) io"
  ctrGetProviders :: "int64 \<Rightarrow> int64 \<Rightarrow> ('s, ChannelTemplateProvider list ret) io"
  ctrUpdateTemplateVersion :: "ChannelTemplateVersion \<Rightarrow> ('s, gerr option) io"
  ctrBatchUpdateTemplateVersionAuditInfo :: "ChannelTemplateVersion list \<Rightarrow> ('s, gerr option) io"
  ctrUpdateTemplateProviderAuditInfo :: "ChannelTemplateProvider \<Rightarrow> ('s, gerr option) io"
  ctrBatchUpdateTemplateProvidersAuditInfo ::
    "ChannelTemplateProvider list \<Rightarrow> ('s, gerr option) io"
  ctrGetPendingOrInReviewProviders ::
    "int64 \<Rightarrow> int64 \<Rightarrow> int64 \<Rightarrow> ('s, ChannelTemplateProvider list \<times> int64 \<times> gerr option) io"

text \<open>The loops that build a map from keys to slices by appending.\<close>

definition group_by :: "('a \<Rightarrow> int64) \<Rightarrow> ('a \<Rightarrow> 'b) \<Rightarrow> 'a list \<Rightarrow> int64 \<Rightarrow> 'b list" where
  "group_by k f xs = fold (\<lambda>x m. m(k x := m (k x) @ [f x])) xs (\<lambda>_. [])"

definition getTemplates ::
  "'s ChannelTemplateDAO \<Rightarrow> daoTemplate list \<Rightarrow> ('s, ChannelTemplate list ret) io" where
  "getTemplates d templates = do {
     (versions, err) \<leftarrow> tdaoGetTemplateVersionByTemplateIDs d (map dmID templates);
     case err of
       Some e \<Rightarrow> io_return ([], Some e)
     | None \<Rightarrow> do {
         (providers, err) \<leftarrow> tdaoGetProviderByVersionIDs d (map dvID versions);
         case err of
           Some e \<Rightarrow> io_return ([], Some e)
         | None \<Rightarrow> do {
             let versionToProviders = group_by dpTemplateVersionID toProviderDomain providers;
             let templateToVersions = group_by dvChannelTemplateID
               (\<lambda>v. (toVersionDomain v)\<lparr>cvProviders := versionToProviders (dvID v)\<rparr>) versions;
             io_return (map (\<lambda>t. (toTemplateDomain t)\<lparr>ctVersions := templateToVersions (dmID t)\<rparr>)
               templates, None)
           }
       }
   }"

definition ctr_GetTemplatesByOwner ::
  "'s ChannelTemplateDAO \<Rightarrow> int64 \<Rightarrow> OwnerType \<Rightarrow> ('s, ChannelTemplate list ret) io" where
  "ctr_GetTemplatesByOwner d ownerID ownerType = do {
     (templates, err) \<leftarrow> tdaoGetTemplateByOwner d ownerID ownerType;
     case err of
       Some e \<Rightarrow> io_return ([], Some e)
     | None \<Rightarrow> if templates = [] then io_return ([], None) else getTemplates d templates
   }"

definition ctr_GetTemplateByID :: "'s ChannelTemplateDAO \<Rightarrow> int64 \<Rightarrow> ('s, ChannelTemplate ret) io" where
  "ctr_GetTemplateByID d templateID = do {
     (templateEntity, err) \<leftarrow> tdaoGetTemplateByID d templateID;
     case err of
       Some e \<Rightarrow> io_return (zero_ChannelTemplate, Some e)
     | None \<Rightarrow> do {
         (templates, err) \<leftarrow> getTemplates d [templateEntity];
         io_return (case err of
             Some e \<Rightarrow> (zero_ChannelTemplate, Some e) | None \<Rightarrow> (hd templates, None))
       }
   }"

definition ctr_CreateTemplate ::
  "'s ChannelTemplateDAO \<Rightarrow> ChannelTemplate \<Rightarrow> ('s, ChannelTemplate ret) io" where
  "ctr_CreateTemplate d t = do {
     (created, err) \<leftarrow> tdaoCreateTemplate d (toTemplateEntity t);
     io_return (case err of
         Some e \<Rightarrow> (zero_ChannelTemplate, Some e) | None \<Rightarrow> (toTemplateDomain created, None))
   }"

definition ctr_UpdateTemplate :: "'s ChannelTemplateDAO \<Rightarrow> ChannelTemplate \<Rightarrow> ('s, gerr option) io" where
  "ctr_UpdateTemplate d t = tdaoUpdateTemplate d (toTemplateEntity t)"

definition ctr_GetTemplateVersionByID ::
  "'s ChannelTemplateDAO \<Rightarrow> int64 \<Rightarrow> ('s, ChannelTemplateVersion ret) io" where
  "ctr_GetTemplateVersionByID d versionID = do {
     (version, err) \<leftarrow> tdaoGetTemplateVersionByID d versionID;
     case err of
       Some e \<Rightarrow> io_return (zero_ChannelTemplateVersion, Some e)
     | None \<Rightarrow> do {
         (providers, err) \<leftarrow> tdaoGetProviderByVersionIDs d [versionID];
         io_return (case err of
             Some e \<Rightarrow> (zero_ChannelTemplateVersion, Some e)
           | None \<Rightarrow> ((toVersionDomain version)\<lparr>cvProviders := map toProviderDomain providers\<rparr>, None))
       }
   }"

definition ctr_CreateTemplateVersion ::
  "'s ChannelTemplateDAO \<Rightarrow> ChannelTemplateVersion \<Rightarrow> ('s, ChannelTemplateVersion ret) io" where
  "ctr_CreateTemplateVersion d v = do {
     (created, err) \<leftarrow> tdaoCreateTemplateVersion d (toVersionEntity v);
     io_return (case err of
         Some e \<Rightarrow> (zero_ChannelTemplateVersion, Some e) | None \<Rightarrow> (toVersionDomain created, None))
   }"

definition ctr_ForkTemplateVersion ::
  "'s ChannelTemplateDAO \<Rightarrow> int64 \<Rightarrow> ('s, ChannelTemplateVersion ret) io" where
  "ctr_ForkTemplateVersion d versionID = do {
     (v, err) \<leftarrow> tdaoForkTemplateVersion d versionID;
     case err of
       Some e \<Rightarrow> io_return (zero_ChannelTemplateVersion, Some e)
     | None \<Rightarrow> do {
         (providers, err) \<leftarrow> tdaoGetProviders d (dvChannelTemplateID v) (dvID v);
         io_return (case err of
             Some e \<Rightarrow> (zero_ChannelTemplateVersion, Some e)
           | None \<Rightarrow> ((toVersionDomain v)\<lparr>cvProviders := map toProviderDomain providers\<rparr>, None))
       }
   }"

text \<open>The queries that only convert the rows of a provider list.\<close>

definition providers_domain ::
  "('s, daoTemplateProvider list ret) io \<Rightarrow> ('s, ChannelTemplateProvider list ret) io" where
  "providers_domain query = do {
     (providers, err) \<leftarrow> query;
     io_return (case err of
         Some e \<Rightarrow> ([], Some e) | None \<Rightarrow> (map toProviderDomain providers, None))
   }"

definition ctr_GetProviderByNameAndChannel ::
  "'s ChannelTemplateDAO \<Rightarrow> int64 \<Rightarrow> int64 \<Rightarrow> string \<Rightarrow> Channel
     \<Rightarrow> ('s, ChannelTemplateProvider list ret) io" where
  "ctr_GetProviderByNameAndChannel d templateID versionID providerName channel =
     providers_domain (tdaoGetProviderByNameAndChannel d templateID versionID providerName channel)"

definition ctr_BatchCreateTemplateProviders ::
  "'s ChannelTemplateDAO \<Rightarrow> ChannelTemplateProvider list
     \<Rightarrow> ('s, ChannelTemplateProvider list ret) io" where
  "ctr_BatchCreateTemplateProviders d providers =
     (if providers = [] then io_return ([], None)
      else providers_domain (tdaoBatchCreateTemplateProviders d (map toProviderEntity providers)))"

definition ctr_GetApprovedProviders ::
  "'s ChannelTemplateDAO \<Rightarrow> int64 \<Rightarrow> int64 \<Rightarrow> ('s, ChannelTemplateProvider list ret) io" where
  "ctr_GetApprovedProviders d templateID versionID =
     providers_domain (tdaoGetApprovedProviders d templateID versionID)"

definition ctr_GetProviders ::
  "'s ChannelTemplateDAO \<Rightarrow> int64 \<Rightarrow> int64 \<Rightarrow> ('s, ChannelTemplateProvider list ret) io" where
  "ctr_GetProviders d templateID versionID =
     providers_domain (tdaoGetProviders d templateID versionID)"

definition ctr_UpdateTemplateVersion ::
  "'s ChannelTemplateDAO \<Rightarrow> ChannelTemplateVersion \<Rightarrow> ('s, gerr option) io" where
  "ctr_UpdateTemplateVersion d v = tdaoUpdateTemplateVersion d (toVersionEntity v)"

definition ctr_BatchUpdateTemplateVersionAuditInfo ::
  "'s ChannelTemplateDAO \<Rightarrow> ChannelTemplateVersion list \<Rightarrow> ('s, gerr option) io" where
  "ctr_BatchUpdateTemplateVersionAuditInfo d vs =
     tdaoBatchUpdateTemplateVersionAuditInfo d (map toVersionEntity vs)"

definition ctr_UpdateTemplateProviderAuditInfo ::
  "'s ChannelTemplateDAO \<Rightarrow> ChannelTemplateProvider \<Rightarrow> ('s, gerr option) io" where
  "ctr_UpdateTemplateProviderAuditInfo d p = tdaoUpdateTemplateProviderAuditInfo d (toProviderEntity p)"

definition ctr_BatchUpdateTemplateProvidersAuditInfo ::
  "'s ChannelTemplateDAO \<Rightarrow> ChannelTemplateProvider list \<Rightarrow> ('s, gerr option) io" where
  "ctr_BatchUpdateTemplateProvidersAuditInfo d ps =
     tdaoBatchUpdateTemplateProvidersAuditInfo d (map toProviderEntity ps)"

definition ctr_GetPendingOrInReviewProviders ::
  "'s ChannelTemplateDAO \<Rightarrow> int64 \<Rightarrow> int64 \<Rightarrow> int64
     \<Rightarrow> ('s, ChannelTemplateProvider list \<times> int64 \<times> gerr option) io" where
  "ctr_GetPendingOrInReviewProviders d offset limit utime = do {
     (providers, err) \<leftarrow> tdaoGetPendingOrInReviewProviders d offset limit utime;
     case err of
       Some e \<Rightarrow> io_return ([], 0, Some e)
     | None \<Rightarrow> do {
         (total, err) \<leftarrow> tdaoTotalPendingOrInReviewProviders d utime;
         io_return (case err of
             Some e \<Rightarrow> ([], 0, Some e) | None \<Rightarrow> (map toProviderDomain providers, total, None))
       }
   }"

definition NewChannelTemplateRepository :: "'s ChannelTemplateDAO \<Rightarrow> 's ChannelTemplateRepository" where
  "NewChannelTemplateRepository d =
     \<lparr>ctrGetTemplatesByOwner = ctr_GetTemplatesByOwner d, ctrGetTemplateByID = ctr_GetTemplateByID d,
      ctrCreateTemplate = ctr_CreateTemplate d, ctrUpdateTemplate = ctr_UpdateTemplate d,
      ctrSetTemplateActiveVersion = tdaoSetTemplateActiveVersion d,
      ctrGetTemplateVersionByID = ctr_GetTemplateVersionByID d,
      ctrCreateTemplateVersion = ctr_CreateTemplateVersion d,
      ctrForkTemplateVersion = ctr_ForkTemplateVersion d,
      ctrGetProviderByNameAndChannel = ctr_GetProviderByNameAndChannel d,
      ctrBatchCreateTemplateProviders = ctr_BatchCreateTemplateProviders d,
      ctrGetApprovedProviders = ctr_GetApprovedProviders d, ctrGetProviders = ctr_GetProviders d,
      ctrUpdateTemplateVersion = ctr_UpdateTemplateVersion d,
      ctrBatchUpdateTemplateVersionAuditInfo = ctr_BatchUpdateTemplateVersionAuditInfo d,
      ctrUpdateTemplateProviderAuditInfo = ctr_UpdateTemplateProviderAuditInfo d,
      ctrBatchUpdateTemplateProvidersAuditInfo = ctr_BatchUpdateTemplateProvidersAuditInfo d,
      ctrGetPendingOrInReviewProviders = ctr_GetPendingOrInReviewProviders d\<rparr>"

section \<open>Properties\<close>

lemma group_by_filter: "group_by k f xs i = map f (filter (\<lambda>x. k x = i) xs)"
proof -
  have "fold (\<lambda>x m. m(k x := m (k x) @ [f x])) xs m i = m i @ map f (filter (\<lambda>x. k x = i) xs)" for m
    by (induction xs arbitrary: m) auto
  then show ?thesis by (simp add: group_by_def)
qed

text \<open>A list of templates is assembled from three queries: each template gets exactly the
  versions that belong to it, in the order of the rows, and each version exactly its providers,
  and none is lost or given to another.\<close>

theorem getTemplates_assembles:
  assumes "run_state (tdaoGetTemplateVersionByTemplateIDs d (map dmID templates)) s = ((versions, None), s1)"
    and "run_state (tdaoGetProviderByVersionIDs d (map dvID versions)) s1 = ((providers, None), s2)"
  shows "run_state (getTemplates d templates) s =
    ((map (\<lambda>t. (toTemplateDomain t)\<lparr>ctVersions :=
        map (\<lambda>v. (toVersionDomain v)\<lparr>cvProviders :=
            map toProviderDomain (filter (\<lambda>p. dpTemplateVersionID p = dvID v) providers)\<rparr>)
          (filter (\<lambda>v. dvChannelTemplateID v = dmID t) versions)\<rparr>) templates, None), s2)"
  using assms by (simp add: getTemplates_def group_by_filter)

lemma find_version:
  "GetVersion t i = Some v \<Longrightarrow> v \<in> set (ctVersions t) \<and> cvId v = i"
  by (auto simp: GetVersion_def find_Some_iff)

lemma ActiveVersion_published:
  "ActiveVersion t = Some v \<Longrightarrow> HasPublished t \<and> v \<in> set (ctVersions t) \<and> cvId v = ctActiveVersionID t"
  by (auto simp: ActiveVersion_def HasPublished_def find_Some_iff split: if_splits)

lemma GetProvider_sound:
  "GetProvider t i j = Some p \<Longrightarrow> p \<in> set (GetProvidersByVersion t i) \<and> cpProviderID p = j"
  by (auto simp: GetProvider_def GetProvidersByVersion_def find_Some_iff split: option.splits)

lemma provider_roundtrip:
  "toProviderDomain (toProviderEntity p) = p\<lparr>cpCtime := 0, cpUtime := 0\<rparr>"
  by (simp add: toProviderDomain_def toProviderEntity_def)

lemma template_roundtrip:
  "toTemplateDomain (toTemplateEntity t) = t\<lparr>ctCtime := 0, ctUtime := 0, ctVersions := []\<rparr>"
  by (simp add: toTemplateDomain_def toTemplateEntity_def)

text \<open>A version that is stored and read back keeps everything but its times and providers,
  and the identifier of its audit, which is replaced by that of the auditor.\<close>

theorem version_roundtrip:
  "toVersionDomain (toVersionEntity v)
     = v\<lparr>cvAuditId := cvAuditorId v, cvCtime := 0, cvUtime := 0, cvProviders := []\<rparr>"
  by (simp add: toVersionDomain_def toVersionEntity_def)

end
