(* ===== verification/Sql.thy ===== *)
theory Sql
  imports Dao "HOL-Library.AList"
begin

text \<open>
  Conditions written as SQL text, as \<^verbatim>\<open>internal/repository/dao\<close> passes them to gorm's \<open>Where\<close>:
  the text with its placeholders, and the arguments. Assignments of \<open>Updates\<close> are a Go map, kept
  as an association list with one entry for each column. A statement is well formed for a table
  if the text has a placeholder for every argument and names columns of the table only; a
  database rejects every other statement.
\<close>

datatype sql_arg = Arg sql_val | Args "sql_val list"

type_synonym sql_where = "string \<times> sql_arg list"
type_synonym sql_sets = "(string \<times> sql_val) list"

definition arg_int :: "int64 \<Rightarrow> sql_arg" where "arg_int i = Arg (SInt i)"
definition arg_str :: "string \<Rightarrow> sql_arg" where "arg_str s = Arg (SStr s)"
definition arg_ints :: "int64 list \<Rightarrow> sql_arg" where "arg_ints is = Args (map SInt is)"

definition placeholders :: "string \<Rightarrow> nat" where
  "placeholders text = length (filter (\<lambda>c. c = CHR ''?'') text)"

definition name_char :: "char \<Rightarrow> bool" where
  "name_char c \<longleftrightarrow> c \<in> set ''abcdefghijklmnopqrstuvwxyzABCDEFGHIJKLMNOPQRSTUVWXYZ_''"

text \<open>The words of a text outside its quoted literals.\<close>

fun sql_words :: "bool \<Rightarrow> string \<Rightarrow> string \<Rightarrow> string list" where
  "sql_words quoted acc [] = (if acc = [] then [] else [rev acc])"
| "sql_words quoted acc (c # cs) =
     (if c = CHR 0x27 then (if acc = [] then [] else [rev acc]) @ sql_words (\<not> quoted) [] cs
      else if \<not> quoted \<and> name_char c then sql_words quoted (c # acc) cs
      else (if acc = [] then [] else [rev acc]) @ sql_words quoted [] cs)"

definition sql_columns :: "string \<Rightarrow> string list" where
  "sql_columns text =
     filter (\<lambda>w. w \<notin> set [''AND'', ''and'', ''OR'', ''IN'']) (sql_words False [] text)"

definition where_ok :: "string list \<Rightarrow> sql_where \<Rightarrow> bool" where
  "where_ok cols w \<longleftrightarrow>
     placeholders (fst w) = length (snd w) \<and> list_all (\<lambda>c. c \<in> set cols) (sql_columns (fst w))"

definition sets_ok :: "string list \<Rightarrow> sql_sets \<Rightarrow> bool" where
  "sets_ok cols sets \<longleftrightarrow> list_all (\<lambda>c. c \<in> set cols) (map fst sets)"

text \<open>\<open>m[k] = v\<close> on such a map, and the conditional assignments that build one.\<close>

definition set_key :: "string \<Rightarrow> sql_val \<Rightarrow> sql_sets \<Rightarrow> sql_sets" where
  "set_key k v m = AList.update k v m"

definition set_when :: "bool \<Rightarrow> string \<Rightarrow> sql_val \<Rightarrow> sql_sets \<Rightarrow> sql_sets" where
  "set_when b k v m = (if b then set_key k v m else m)"

lemma set_when_simps [simp]: "set_when True k v m = set_key k v m" "set_when False k v m = m"
  by (simp_all add: set_when_def)

lemma fst_set_key [simp]: "fst ` set (set_key k v m) = insert k (fst ` set m)"
  by (simp add: set_key_def dom_update)

lemma map_of_set_key: "map_of (set_key k v m) = (map_of m)(k \<mapsto> v)"
  by (simp add: set_key_def update_conv')

lemma map_of_set_when:
  "map_of (set_when b k v m) = (if b then (map_of m)(k \<mapsto> v) else map_of m)"
  by (simp add: set_when_def map_of_set_key)

lemma sets_ok_iff: "sets_ok cols sets \<longleftrightarrow> fst ` set sets \<subseteq> set cols"
  by (auto simp: sets_ok_def list_all_iff)

lemma sets_ok_set_key [simp]: "sets_ok cols (set_key k v m) \<longleftrightarrow> k \<in> set cols \<and> sets_ok cols m"
  by (auto simp: sets_ok_iff)

lemma sets_ok_set_when [simp]:
  "sets_ok cols (set_when b k v m) \<longleftrightarrow> (b \<longrightarrow> k \<in> set cols) \<and> sets_ok cols m"
  by (simp add: set_when_def)

text \<open>Evaluation of the texts of this program.\<close>

lemmas sql_text_simps = placeholders_def sql_columns_def name_char_def where_ok_def

end
