(* ===== verification/Invariants.thy ===== *)
theory Invariants
  imports Interfaces
begin

text \<open>
  Invariants of operations: \<open>keeps I m\<close> says that \<open>m\<close> leads from a world with \<open>I\<close> to a world with
  \<open>I\<close>, whatever its result. The collection \<open>keeps_intros\<close> has one rule for every construct the
  models are written with, so that an invariant of a component follows from the invariants of the
  operations it calls.
\<close>

named_theorems keeps_intros \<open>introduction rules for invariants of operations\<close>

definition keeps :: "('s \<Rightarrow> bool) \<Rightarrow> ('s, 'a) io \<Rightarrow> bool" where
  "keeps I m \<longleftrightarrow> (\<forall>s. I s \<longrightarrow> I (snd (run_state m s)))"

lemma keepsI: "(\<And>s. I s \<Longrightarrow> I (snd (run_state m s))) \<Longrightarrow> keeps I m"
  by (simp add: keeps_def)

lemma keepsD: "keeps I m \<Longrightarrow> run_state m s = (x, s') \<Longrightarrow> I s \<Longrightarrow> I s'"
  by (force simp: keeps_def)

lemma keeps_return [keeps_intros]: "keeps I (io_return x)"
  by (simp add: keeps_def)

lemma keeps_bind [keeps_intros]:
  "keeps I m \<Longrightarrow> (\<And>x. keeps I (f x)) \<Longrightarrow> keeps I (State_Monad.bind m f)"
  by (simp add: keeps_def split: prod.splits) (metis snd_conv)

lemma keeps_if [keeps_intros]:
  "(b \<Longrightarrow> keeps I m) \<Longrightarrow> (\<not> b \<Longrightarrow> keeps I n) \<Longrightarrow> keeps I (if b then m else n)"
  by simp

lemma keeps_case_option [keeps_intros]:
  "keeps I m \<Longrightarrow> (\<And>y. x = Some y \<Longrightarrow> keeps I (f y)) \<Longrightarrow> keeps I (case x of None \<Rightarrow> m | Some y \<Rightarrow> f y)"
  by (cases x) simp_all

lemma keeps_case_prod [keeps_intros]:
  "(\<And>a b. x = (a, b) \<Longrightarrow> keeps I (f a b)) \<Longrightarrow> keeps I (case x of (a, b) \<Rightarrow> f a b)"
  by (cases x) simp

lemma keeps_case_list [keeps_intros]:
  "keeps I m \<Longrightarrow> (\<And>y ys. x = y # ys \<Longrightarrow> keeps I (f y ys)) \<Longrightarrow>
   keeps I (case x of [] \<Rightarrow> m | y # ys \<Rightarrow> f y ys)"
  by (cases x) simp_all

lemma keeps_Let [keeps_intros]: "(\<And>x. keeps I (f x)) \<Longrightarrow> keeps I (Let v f)"
  by (simp add: Let_def)

lemma keeps_for_until [keeps_intros]:
  "(\<And>x. keeps I (f x)) \<Longrightarrow> keeps I (for_until f xs)"
  by (induction xs) (auto intro!: keeps_intros)

lemma keeps_for_each [keeps_intros]:
  "(\<And>x. keeps I (f x)) \<Longrightarrow> keeps I (for_each f xs)"
  by (induction xs) (auto intro!: keeps_intros)

lemma keeps_traverse [keeps_intros]:
  "(\<And>x. keeps I (f x)) \<Longrightarrow> keeps I (State_Monad.traverse_list f xs)"
  by (induction xs) (auto intro!: keeps_intros)

text \<open>Worlds that can be reached from a first one by operations of a set.\<close>

inductive reaches :: "('s, unit) io set \<Rightarrow> 's \<Rightarrow> 's \<Rightarrow> bool" for ops where
  start: "reaches ops s s"
| step: "reaches ops s s1 \<Longrightarrow> m \<in> ops \<Longrightarrow> run_state m s1 = ((), s2) \<Longrightarrow> reaches ops s s2"

lemma reaches_keeps:
  assumes "reaches ops s s'" "I s" "\<And>m. m \<in> ops \<Longrightarrow> keeps I m"
  shows "I s'"
  using assms(1,2)
proof (induction rule: reaches.induct)
  case (step s s1 m s2)
  with assms(3) show ?case by (blast dest: keepsD)
qed

text \<open>An operation whose result is not looked at.\<close>

definition run_only :: "('s, 'a) io \<Rightarrow> ('s, unit) io" where
  "run_only m = do { _ \<leftarrow> m; io_return () }"

lemma keeps_run_only [keeps_intros]: "keeps I m \<Longrightarrow> keeps I (run_only m)"
  by (auto simp: run_only_def intro!: keeps_intros)

lemma keeps_run_only_iff: "keeps I (run_only m) \<longleftrightarrow> keeps I m"
  by (simp add: keeps_def run_only_def split_beta)

lemma keeps_io_call [keeps_intros]:
  "keeps I m \<Longrightarrow> (\<And>x. keeps I (f x)) \<Longrightarrow> keeps I (io_call m f)"
  by (auto simp: io_call_def io_panic_def intro!: keeps_intros)

end
