(* ===== verification/TemplateDao.thy ===== *)
theory TemplateDao
  imports Templates Sql Invariants
begin

text \<open>
  \<^verbatim>\<open>internal/repository/dao/template.go\<close>: the statements on the tables of the templates, their
  versions and the providers of a version. The database is the parameter \<open>template_gorm\<close>, with the
  conditions as the texts the code writes. The only variable a transaction's closure assigns is
  \<open>created\<close> of \<open>ForkTemplateVersion\<close>: closures have the version as their result.
\<close>

datatype template_table = Templates | Versions | Providers

text \<open>The columns of the three structs, in gorm's naming (\<open>LastREeviewSubmissionTime\<close> becomes
  \<open>last_r_eeview_submission_time\<close>).\<close>

fun template_columns :: "template_table \<Rightarrow> string list" where
  "template_columns Templates =
     [''id'', ''owner_id'', ''owner_type'', ''name'', ''description'', ''channel'', ''business_type'',
      ''active_version_id'', ''ctime'', ''utime'']"
| "template_columns Versions =
     [''id'', ''channel_template_id'', ''name'', ''signature'', ''content'', ''remark'', ''audit_id'',
      ''auditor_id'', ''audit_time'', ''audit_status'', ''reject_reason'',
      ''last_r_eeview_submission_time'', ''ctime'', ''utime'']"
| "template_columns Providers =
     [''id'', ''template_id'', ''template_version_id'', ''provider_id'', ''provider_name'',
      ''provider_channel'', ''request_id'', ''provider_template_id'', ''audit_status'',
      ''reject_reason'', ''last_r_eeview_submission_time'', ''ctime'', ''utime'']"

record 's template_gorm =
  tgNow :: "('s, gtime) io"
  tgTransaction :: "('s, daoVersion ret) io \<Rightarrow> ('s, daoVersion ret) io"
  tgFindT :: "sql_where \<Rightarrow> ('s, daoTemplate list ret) io"
  tgFirstT :: "sql_where \<Rightarrow> ('s, daoTemplate ret) io"
  tgCreateT :: "daoTemplate \<Rightarrow> ('s, daoTemplate ret) io"
  tgFindV :: "sql_where \<Rightarrow> ('s, daoVersion list ret) io"
  tgFirstV :: "sql_where \<Rightarrow> ('s, daoVersion ret) io"
  tgCreateV :: "daoVersion \<Rightarrow> ('s, daoVersion ret) io"
  tgFindP :: "sql_where \<Rightarrow> (int64 \<times> int64) option \<Rightarrow> ('s, daoTemplateProvider list ret) io"
  tgCountP :: "sql_where \<Rightarrow> ('s, int64 ret) io"
  tgCreateP :: "daoTemplateProvider list \<Rightarrow> ('s, daoTemplateProvider list ret) io"
  tgUpdates :: "template_table \<Rightarrow> sql_where \<Rightarrow> sql_sets \<Rightarrow> ('s, gerr option) io"

definition zero_daoTemplate :: daoTemplate where "zero_daoTemplate = toTemplateEntity zero_ChannelTemplate"
definition zero_daoVersion :: daoVersion where "zero_daoVersion = toVersionEntity zero_ChannelTemplateVersion"

section \<open>Templates\<close>

definition td_GetTemplateByOwner ::
  "'s template_gorm \<Rightarrow> int64 \<Rightarrow> string \<Rightarrow> ('s, daoTemplate list ret) io" where
  "td_GetTemplateByOwner g ownerID ownerType = do {
     (templates, err) \<leftarrow> tgFindT g (''owner_id = ? and owner_type = ?'', [arg_int ownerID, arg_str ownerType]);
     io_return (case err of Some e \<Rightarrow> ([], Some e) | None \<Rightarrow> (templates, None))
   }"

definition td_GetTemplateByID :: "'s template_gorm \<Rightarrow> int64 \<Rightarrow> ('s, daoTemplate ret) io" where
  "td_GetTemplateByID g i = do {
     (template, err) \<leftarrow> tgFirstT g (''id = ?'', [arg_int i]);
     io_return (case err of
         Some e \<Rightarrow> (zero_daoTemplate,
           if errors_Is e ErrRecordNotFound then Some (Wrap [Err ErrTemplateNotFound]) else Some e)
       | None \<Rightarrow> (template, None))
   }"

definition td_CreateTemplate :: "'s template_gorm \<Rightarrow> daoTemplate \<Rightarrow> ('s, daoTemplate ret) io" where
  "td_CreateTemplate g template = do {
     t \<leftarrow> tgNow g;
     let now = UnixMilli t;
     (created, err) \<leftarrow> tgCreateT g (template\<lparr>dmCtime := now, dmUtime := now\<rparr>);
     io_return (case err of Some e \<Rightarrow> (zero_daoTemplate, Some e) | None \<Rightarrow> (created, None))
   }"

text \<open>The condition has a placeholder and no argument.\<close>

definition td_UpdateTemplate :: "'s template_gorm \<Rightarrow> daoTemplate \<Rightarrow> ('s, gerr option) io" where
  "td_UpdateTemplate g template =
     tgUpdates g Templates (''id = ?'', [])
       [(''name'', SStr (dmName template)), (''description'', SStr (dmDescription template)),
        (''business_type'', SInt (dmBusinessType template)), (''utime'', SInt (dmUtime template))]"

definition td_SetTemplateActiveVersion ::
  "'s template_gorm \<Rightarrow> int64 \<Rightarrow> int64 \<Rightarrow> ('s, gerr option) io" where
  "td_SetTemplateActiveVersion g templateID versionID = do {
     t \<leftarrow> tgNow g;
     tgUpdates g Templates (''id = ?'', [arg_int templateID])
       [(''active_version'', SInt versionID), (''utime'', SInt (UnixMilli t))]
   }"

section \<open>Versions\<close>

definition td_GetTemplateVersionByTemplateIDs ::
  "'s template_gorm \<Rightarrow> int64 list \<Rightarrow> ('s, daoVersion list ret) io" where
  "td_GetTemplateVersionByTemplateIDs g templateIDs =
     (if templateIDs = [] then io_return ([], None)
      else do {
        (versions, err) \<leftarrow> tgFindV g (''channel_template_id IN (?)'', [arg_ints templateIDs]);
        io_return (case err of Some e \<Rightarrow> ([], Some e) | None \<Rightarrow> (versions, None))
      })"

definition td_GetTemplateVersionByID :: "'s template_gorm \<Rightarrow> int64 \<Rightarrow> ('s, daoVersion ret) io" where
  "td_GetTemplateVersionByID g versionID = do {
     (version, err) \<leftarrow> tgFirstV g (''id = ?'', [arg_int versionID]);
     io_return (case err of
         Some e \<Rightarrow> (zero_daoVersion,
           if errors_Is e ErrRecordNotFound then Some (Wrap [Err ErrTemplateVersionNotFound]) else Some e)
       | None \<Rightarrow> (version, None))
   }"

definition td_CreateTemplateVersion :: "'s template_gorm \<Rightarrow> daoVersion \<Rightarrow> ('s, daoVersion ret) io" where
  "td_CreateTemplateVersion g version = do {
     t \<leftarrow> tgNow g;
     let now = UnixMilli t;
     (created, err) \<leftarrow> tgCreateV g (version\<lparr>dvCtime := now, dvUtime := now\<rparr>);
     io_return (case err of Some e \<Rightarrow> (zero_daoVersion, Some e) | None \<Rightarrow> (created, None))
   }"

text \<open>The copies of a version and of its providers. The copy of a provider carries the row number
  of the original where the provider's identifier belongs.\<close>

definition fork_version :: "int64 \<Rightarrow> daoVersion \<Rightarrow> daoVersion" where
  "fork_version now old =
     \<lparr>dvID = 0, dvChannelTemplateID = dvChannelTemplateID old, dvName = ''Forked'' @ dvName old,
      dvSignature = dvSignature old, dvContent = dvContent old, dvRemark = dvRemark old,
      dvAuditID = 0, dvAuditorID = 0, dvAuditTime = 0, dvAuditStatus = AuditStatusPending,
      dvRejectReason = '''', dvLastReviewSubmissionTime = 0, dvCtime = now, dvUtime = now\<rparr>"

definition fork_provider :: "int64 \<Rightarrow> daoVersion \<Rightarrow> daoTemplateProvider \<Rightarrow> daoTemplateProvider" where
  "fork_provider now fork provider =
     \<lparr>dpID = 0, dpTemplateID = dvChannelTemplateID fork, dpTemplateVersionID = dvID fork,
      dpProviderID = dpID provider, dpProviderName = dpProviderName provider,
      dpProviderChannel = dpProviderChannel provider, dpRequestID = '''', dpProviderTemplateID = '''',
      dpAuditStatus = AuditStatusPending, dpRejectReason = '''', dpLastReviewSubmissionTime = 0,
      dpCtime = now, dpUtime = now\<rparr>"

definition td_fork_tx :: "'s template_gorm \<Rightarrow> int64 \<Rightarrow> int64 \<Rightarrow> ('s, daoVersion ret) io" where
  "td_fork_tx g now versionID = do {
     (old, err) \<leftarrow> tgFirstV g (''id = ? '', [arg_int versionID]);
     case err of
       Some e \<Rightarrow> io_return (zero_daoVersion,
         if errors_Is e ErrRecordNotFound then Some (Wrap [Err ErrTemplateVersionNotFound]) else Some e)
     | None \<Rightarrow> do {
         (fork, err) \<leftarrow> tgCreateV g (fork_version now old);
         case err of
           Some e \<Rightarrow> io_return (zero_daoVersion, Some e)
         | None \<Rightarrow> do {
             (providers, err) \<leftarrow> tgFindP g (''template_id = ? AND template_version = ?'',
               [arg_int (dvChannelTemplateID old), arg_int versionID]) None;
             case err of
               Some e \<Rightarrow> io_return (fork, Some e)
             | None \<Rightarrow> do {
                 (_, err) \<leftarrow> tgCreateP g (map (fork_provider now fork) providers);
                 io_return (fork, err)
               }
           }
       }
   }"

definition td_ForkTemplateVersion :: "'s template_gorm \<Rightarrow> int64 \<Rightarrow> ('s, daoVersion ret) io" where
  "td_ForkTemplateVersion g versionID = do {
     t \<leftarrow> tgNow g;
     (created, err) \<leftarrow> tgTransaction g (td_fork_tx g (UnixMilli t) versionID);
     io_return (case err of Some e \<Rightarrow> (zero_daoVersion, Some e) | None \<Rightarrow> (created, None))
   }"

text \<open>The update of a version names the table of the providers.\<close>

definition td_UpdateTemplateVersion :: "'s template_gorm \<Rightarrow> daoVersion \<Rightarrow> ('s, gerr option) io" where
  "td_UpdateTemplateVersion g version = do {
     t \<leftarrow> tgNow g;
     tgUpdates g Providers (''id = ? '', [arg_int (dvID version)])
       [(''name'', SStr (dvName version)), (''signature'', SStr (dvSignature version)),
        (''content'', SStr (dvContent version)), (''remark'', SStr (dvRemark version)),
        (''utime'', SInt (UnixMilli t))]
   }"

text \<open>The assignments for an audit of a version, in the order the code adds them: the auditor is
  written into the column of the status.\<close>

definition version_audit_sets :: "int64 \<Rightarrow> daoVersion \<Rightarrow> sql_sets" where
  "version_audit_sets now v =
     (let m = [(''audit_status'', SStr (dvAuditStatus v)), (''utime'', SInt now)];
          m = set_when (dvAuditID v > 0) ''audit_id'' (SInt (dvAuditID v)) m;
          m = set_when (dvAuditorID v > 0) ''audit_status'' (SInt (dvAuditorID v)) m;
          m = set_when (dvAuditTime v > 0) ''audit_time'' (SInt (dvAuditTime v)) m;
          m = set_when (dvRejectReason v \<noteq> '''') ''reject_reason'' (SStr (dvRejectReason v)) m
      in set_when (dvLastReviewSubmissionTime v > 0) ''last_review_submission_time''
           (SInt (dvLastReviewSubmissionTime v)) m)"

definition update_version_audit :: "'s template_gorm \<Rightarrow> daoVersion \<Rightarrow> ('s, gerr option) io" where
  "update_version_audit g v = do {
     t \<leftarrow> tgNow g;
     tgUpdates g Providers (''id = ? '', [arg_int (dvID v)]) (version_audit_sets (UnixMilli t) v)
   }"

definition in_transaction :: "'s template_gorm \<Rightarrow> ('s, gerr option) io \<Rightarrow> ('s, gerr option) io" where
  "in_transaction g tx = do {
     (_, err) \<leftarrow> tgTransaction g (do { err \<leftarrow> tx; io_return (zero_daoVersion, err) });
     io_return err
   }"

definition td_BatchUpdateTemplateVersionAuditInfo ::
  "'s template_gorm \<Rightarrow> daoVersion list \<Rightarrow> ('s, gerr option) io" where
  "td_BatchUpdateTemplateVersionAuditInfo g versions =
     in_transaction g (for_until (update_version_audit g) versions)"

section \<open>Providers of a version\<close>

definition td_GetProviderByVersionIDs ::
  "'s template_gorm \<Rightarrow> int64 list \<Rightarrow> ('s, daoTemplateProvider list ret) io" where
  "td_GetProviderByVersionIDs g versionIDs =
     (if versionIDs = [] then io_return ([], None)
      else do {
        (providers, err) \<leftarrow> tgFindP g (''template_version_id IN (?)'', [arg_ints versionIDs]) None;
        io_return (case err of Some e \<Rightarrow> ([], Some e) | None \<Rightarrow> (providers, None))
      })"

text \<open>The providers that passed the review are meant; the ones that were not submitted are
  selected.\<close>

definition td_GetProviderByNameAndChannel ::
  "'s template_gorm \<Rightarrow> int64 \<Rightarrow> int64 \<Rightarrow> string \<Rightarrow> string \<Rightarrow> ('s, daoTemplateProvider list ret) io" where
  "td_GetProviderByNameAndChannel g templateID versionID providerName channelName =
     tgFindP g
       (''template_id = ? AND template_version_id = ? AND provider_name = ? AND provider_channel = ? AND audit_status = ?'',
        [arg_int templateID, arg_int versionID, arg_str providerName, arg_str channelName,
         arg_str AuditStatusPending]) None"

definition td_BatchCreateTemplateProviders ::
  "'s template_gorm \<Rightarrow> daoTemplateProvider list \<Rightarrow> ('s, daoTemplateProvider list ret) io" where
  "td_BatchCreateTemplateProviders g providers =
     (if providers = [] then io_return ([], None)
      else do {
        t \<leftarrow> tgNow g;
        let now = UnixMilli t;
        (created, err) \<leftarrow> tgCreateP g (map (\<lambda>p. p\<lparr>dpCtime := now, dpUtime := now\<rparr>) providers);
        io_return (case err of Some e \<Rightarrow> ([], Some e) | None \<Rightarrow> (created, None))
      })"

text \<open>The last conjunct of the condition lacks its comparison.\<close>

definition td_GetApprovedProviders ::
  "'s template_gorm \<Rightarrow> int64 \<Rightarrow> int64 \<Rightarrow> ('s, daoTemplateProvider list ret) io" where
  "td_GetApprovedProviders g templateID versionID =
     tgFindP g (''template_id = ? AND template_version_id = ? AND audit_status'',
       [arg_int templateID, arg_int versionID, arg_str AuditStatusApproved]) None"

definition td_GetProviders ::
  "'s template_gorm \<Rightarrow> int64 \<Rightarrow> int64 \<Rightarrow> ('s, daoTemplateProvider list ret) io" where
  "td_GetProviders g templateID versionID =
     tgFindP g (''template_id = ? AND template_version_id = ?'',
       [arg_int templateID, arg_int versionID]) None"

definition provider_audit_sets :: "int64 \<Rightarrow> daoTemplateProvider \<Rightarrow> sql_sets" where
  "provider_audit_sets now p =
     (let m = [(''utime'', SInt now)];
          m = set_when (dpRequestID p \<noteq> '''') ''request_id'' (SStr (dpRequestID p)) m;
          m = set_when (dpProviderTemplateID p \<noteq> '''') ''provider_template_id''
                (SStr (dpProviderTemplateID p)) m;
          m = set_when (dpAuditStatus p \<noteq> '''') ''audit_status'' (SStr (dpAuditStatus p)) m;
          m = set_when (dpRejectReason p \<noteq> '''') ''reject_reason'' (SStr (dpRejectReason p)) m
      in set_when (dpLastReviewSubmissionTime p > 0) ''last_review_submission_time''
           (SInt (dpLastReviewSubmissionTime p)) m)"

definition td_UpdateTemplateProviderAuditInfo ::
  "'s template_gorm \<Rightarrow> daoTemplateProvider \<Rightarrow> ('s, gerr option) io" where
  "td_UpdateTemplateProviderAuditInfo g p = do {
     t \<leftarrow> tgNow g;
     tgUpdates g Providers (''id = ? '', [arg_int (dpID p)]) (provider_audit_sets (UnixMilli t) p)
   }"

definition td_BatchUpdateTemplateProvidersAuditInfo ::
  "'s template_gorm \<Rightarrow> daoTemplateProvider list \<Rightarrow> ('s, gerr option) io" where
  "td_BatchUpdateTemplateProvidersAuditInfo g providers =
     (if providers = [] then io_return None
      else in_transaction g (for_until (td_UpdateTemplateProviderAuditInfo g) providers))"

text \<open>Both arguments for the status are PENDING.\<close>

definition pending_or_in_review :: "int64 \<Rightarrow> sql_where" where
  "pending_or_in_review utime =
     (''(audit_status = ? OR audit_status = ?) AND utime <= ?'',
      [arg_str AuditStatusPending, arg_str AuditStatusPending, arg_int utime])"

definition td_GetPendingOrInReviewProviders ::
  "'s template_gorm \<Rightarrow> int64 \<Rightarrow> int64 \<Rightarrow> int64 \<Rightarrow> ('s, daoTemplateProvider list ret) io" where
  "td_GetPendingOrInReviewProviders g offset limit utime =
     tgFindP g (pending_or_in_review utime) (Some (offset, limit))"

definition td_TotalPendingOrInReviewProviders :: "'s template_gorm \<Rightarrow> int64 \<Rightarrow> ('s, int64 ret) io" where
  "td_TotalPendingOrInReviewProviders g utime = tgCountP g (pending_or_in_review utime)"

definition NewChannelTemplateDAO :: "'s template_gorm \<Rightarrow> 's ChannelTemplateDAO" where
  "NewChannelTemplateDAO g =
     \<lparr>tdaoGetTemplateByOwner = td_GetTemplateByOwner g, tdaoGetTemplateByID = td_GetTemplateByID g,
      tdaoCreateTemplate = td_CreateTemplate g, tdaoUpdateTemplate = td_UpdateTemplate g,
      tdaoSetTemplateActiveVersion = td_SetTemplateActiveVersion g,
      tdaoGetTemplateVersionByTemplateIDs = td_GetTemplateVersionByTemplateIDs g,
      tdaoGetTemplateVersionByID = td_GetTemplateVersionByID g,
      tdaoCreateTemplateVersion = td_CreateTemplateVersion g,
      tdaoForkTemplateVersion = td_ForkTemplateVersion g,
      tdaoGetProviderByVersionIDs = td_GetProviderByVersionIDs g,
      tdaoGetProviderByNameAndChannel = td_GetProviderByNameAndChannel g,
      tdaoBatchCreateTemplateProviders = td_BatchCreateTemplateProviders g,
      tdaoGetApprovedProviders = td_GetApprovedProviders g, tdaoGetProviders = td_GetProviders g,
      tdaoUpdateTemplateVersion = td_UpdateTemplateVersion g,
      tdaoBatchUpdateTemplateVersionAuditInfo = td_BatchUpdateTemplateVersionAuditInfo g,
      tdaoUpdateTemplateProviderAuditInfo = td_UpdateTemplateProviderAuditInfo g,
      tdaoBatchUpdateTemplateProvidersAuditInfo = td_BatchUpdateTemplateProvidersAuditInfo g,
      tdaoGetPendingOrInReviewProviders = td_GetPendingOrInReviewProviders g,
      tdaoTotalPendingOrInReviewProviders = td_TotalPendingOrInReviewProviders g\<rparr>"

section \<open>What the database promises\<close>

text \<open>The rows of the templates are \<open>rows\<close>. A statement that is not well formed fails and changes
  nothing; only statements on the templates change their rows; a transaction keeps what its
  closure keeps and fails if the closure fails; a template that is found is one of the rows.\<close>

definition leaves :: "('s \<Rightarrow> 'r) \<Rightarrow> ('s, 'a) io \<Rightarrow> bool" where
  "leaves rows m \<longleftrightarrow> (\<forall>s. rows (snd (run_state m s)) = rows s)"

definition statement_ok :: "template_table \<Rightarrow> sql_where \<Rightarrow> sql_sets \<Rightarrow> bool" where
  "statement_ok table w sets \<longleftrightarrow>
     where_ok (template_columns table) w \<and> sets_ok (template_columns table) sets"

definition template_db_law :: "'s template_gorm \<Rightarrow> ('s \<Rightarrow> daoTemplate list) \<Rightarrow> bool" where
  "template_db_law g rows \<longleftrightarrow>
     (\<forall>table w sets s. \<not> statement_ok table w sets \<longrightarrow> fst (run_state (tgUpdates g table w sets) s) \<noteq> None)
   \<and> (\<forall>table w sets. \<not> statement_ok table w sets \<or> table \<noteq> Templates \<longrightarrow> leaves rows (tgUpdates g table w sets))
   \<and> (\<forall>w page s. \<not> where_ok (template_columns Providers) w \<longrightarrow> snd (fst (run_state (tgFindP g w page) s)) \<noteq> None)
   \<and> (\<forall>t s. \<exists>i. rows (snd (run_state (tgCreateT g t) s)) \<in> {rows s, rows s @ [t\<lparr>dmID := i\<rparr>]})
   \<and> (\<forall>w s t s'. run_state (tgFirstT g w) s = ((t, None), s') \<longrightarrow> t \<in> set (rows s))
   \<and> leaves rows (tgNow g) \<and> (\<forall>w. leaves rows (tgFindT g w)) \<and> (\<forall>w. leaves rows (tgFirstT g w))
   \<and> (\<forall>w. leaves rows (tgFindV g w)) \<and> (\<forall>w. leaves rows (tgFirstV g w)) \<and> (\<forall>v. leaves rows (tgCreateV g v))
   \<and> (\<forall>w page. leaves rows (tgFindP g w page)) \<and> (\<forall>w. leaves rows (tgCountP g w))
   \<and> (\<forall>ps. leaves rows (tgCreateP g ps))
   \<and> (\<forall>body P. keeps (\<lambda>s. P (rows s)) body \<longrightarrow> keeps (\<lambda>s. P (rows s)) (tgTransaction g body))
   \<and> (\<forall>body s. snd (fst (run_state body s)) \<noteq> None \<longrightarrow> snd (fst (run_state (tgTransaction g body) s)) \<noteq> None)"

lemma leaves_keeps: "leaves rows m \<Longrightarrow> keeps (\<lambda>s. P (rows s)) m"
  by (simp add: leaves_def keeps_def)

lemma statement_ok_texts:
  "\<not> statement_ok Templates (''id = ?'', []) sets"
  "sets_ok (template_columns Templates) [(''active_version'', x), (''utime'', y)] = False"
  "sets_ok (template_columns Providers)
     [(''name'', n), (''signature'', si), (''content'', c), (''remark'', r), (''utime'', u)] = False"
  "\<not> where_ok (template_columns Providers) (''template_id = ? AND template_version = ?'', args)"
  "\<not> where_ok (template_columns Providers)
     (''template_id = ? AND template_version_id = ? AND audit_status'', [a, b, c'])"
  by (simp_all add: statement_ok_def where_ok_def sets_ok_def sql_text_simps)

lemma version_audit_rejected:
  "dvAuditID v > 0 \<or> dvAuditTime v > 0 \<or> dvLastReviewSubmissionTime v > 0 \<Longrightarrow>
   \<not> statement_ok Providers w (version_audit_sets now v)"
  by (auto simp: statement_ok_def version_audit_sets_def Let_def)

lemma provider_audit_rejected:
  "dpLastReviewSubmissionTime p > 0 \<Longrightarrow> \<not> statement_ok Providers w (provider_audit_sets now p)"
  by (auto simp: statement_ok_def provider_audit_sets_def Let_def)

text \<open>The conjuncts of the law.\<close>

lemmas db_bad = template_db_law_def
  [THEN iffD1, THEN conjunct1, rule_format]
lemmas db_leaves_updates = template_db_law_def
  [THEN iffD1, THEN conjunct2, THEN conjunct1, rule_format]
lemmas db_bad_find = template_db_law_def
  [THEN iffD1, THEN conjunct2, THEN conjunct2, THEN conjunct1, rule_format]
lemmas db_create = template_db_law_def
  [THEN iffD1, THEN conjunct2, THEN conjunct2, THEN conjunct2, THEN conjunct1, rule_format]
lemmas db_first = template_db_law_def
  [THEN iffD1, THEN conjunct2, THEN conjunct2, THEN conjunct2, THEN conjunct2, THEN conjunct1,
   rule_format]
lemmas db_now = template_db_law_def
  [THEN iffD1, THEN conjunct2, THEN conjunct2, THEN conjunct2, THEN conjunct2, THEN conjunct2,
   THEN conjunct1, rule_format]
lemmas db_FindT = template_db_law_def
  [THEN iffD1, THEN conjunct2, THEN conjunct2, THEN conjunct2, THEN conjunct2, THEN conjunct2,
   THEN conjunct2, THEN conjunct1, rule_format]
lemmas db_FirstT = template_db_law_def
  [THEN iffD1, THEN conjunct2, THEN conjunct2, THEN conjunct2, THEN conjunct2, THEN conjunct2,
   THEN conjunct2, THEN conjunct2, THEN conjunct1, rule_format]
lemmas db_FindV = template_db_law_def
  [THEN iffD1, THEN conjunct2, THEN conjunct2, THEN conjunct2, THEN conjunct2, THEN conjunct2,
   THEN conjunct2, THEN conjunct2, THEN conjunct2, THEN conjunct1, rule_format]
lemmas db_FirstV = template_db_law_def
  [THEN iffD1, THEN conjunct2, THEN conjunct2, THEN conjunct2, THEN conjunct2, THEN conjunct2,
   THEN conjunct2, THEN conjunct2, THEN conjunct2, THEN conjunct2, THEN conjunct1, rule_format]
lemmas db_CreateV = template_db_law_def
  [THEN iffD1, THEN conjunct2, THEN conjunct2, THEN conjunct2, THEN conjunct2, THEN conjunct2,
   THEN conjunct2, THEN conjunct2, THEN conjunct2, THEN conjunct2, THEN conjunct2, THEN conjunct1,
   rule_format]
lemmas db_FindP = template_db_law_def
  [THEN iffD1, THEN conjunct2, THEN conjunct2, THEN conjunct2, THEN conjunct2, THEN conjunct2,
   THEN conjunct2, THEN conjunct2, THEN conjunct2, THEN conjunct2, THEN conjunct2, THEN conjunct2,
   THEN conjunct1, rule_format]
lemmas db_CountP = template_db_law_def
  [THEN iffD1, THEN conjunct2, THEN conjunct2, THEN conjunct2, THEN conjunct2, THEN conjunct2,
   THEN conjunct2, THEN conjunct2, THEN conjunct2, THEN conjunct2, THEN conjunct2, THEN conjunct2,
   THEN conjunct2, THEN conjunct1, rule_format]
lemmas db_CreateP = template_db_law_def
  [THEN iffD1, THEN conjunct2, THEN conjunct2, THEN conjunct2, THEN conjunct2, THEN conjunct2,
   THEN conjunct2, THEN conjunct2, THEN conjunct2, THEN conjunct2, THEN conjunct2, THEN conjunct2,
   THEN conjunct2, THEN conjunct2, THEN conjunct1, rule_format]
lemmas db_transaction = template_db_law_def
  [THEN iffD1, THEN conjunct2, THEN conjunct2, THEN conjunct2, THEN conjunct2, THEN conjunct2,
   THEN conjunct2, THEN conjunct2, THEN conjunct2, THEN conjunct2, THEN conjunct2, THEN conjunct2,
   THEN conjunct2, THEN conjunct2, THEN conjunct2, THEN conjunct1, rule_format]
lemmas db_transaction_error = template_db_law_def
  [THEN iffD1, THEN conjunct2, THEN conjunct2, THEN conjunct2, THEN conjunct2, THEN conjunct2,
   THEN conjunct2, THEN conjunct2, THEN conjunct2, THEN conjunct2, THEN conjunct2, THEN conjunct2,
   THEN conjunct2, THEN conjunct2, THEN conjunct2, THEN conjunct2, rule_format]

lemmas db_leaves = db_now db_FindT db_FirstT db_FindV db_FirstV db_CreateV db_FindP db_CountP db_CreateP

text \<open>The invariants of the rows under the operations of this theory.\<close>

lemma template_db_keeps:
  assumes law: "template_db_law g rows"
  shows "keeps (\<lambda>s. P (rows s)) (tgNow g)" "keeps (\<lambda>s. P (rows s)) (tgFindT g w)"
    "keeps (\<lambda>s. P (rows s)) (tgFirstT g w)" "keeps (\<lambda>s. P (rows s)) (tgFindV g w)"
    "keeps (\<lambda>s. P (rows s)) (tgFirstV g w)" "keeps (\<lambda>s. P (rows s)) (tgCreateV g v)"
    "keeps (\<lambda>s. P (rows s)) (tgFindP g w page)" "keeps (\<lambda>s. P (rows s)) (tgCountP g w)"
    "keeps (\<lambda>s. P (rows s)) (tgCreateP g ps)"
    "keeps (\<lambda>s. P (rows s)) (tgUpdates g Providers w sets)"
    "keeps (\<lambda>s. P (rows s)) body \<Longrightarrow> keeps (\<lambda>s. P (rows s)) (tgTransaction g body)"
  by (auto intro!: leaves_keeps [where rows = rows] db_leaves [OF law] db_leaves_updates [OF law]
      db_transaction [OF law])

lemma template_dao_keeps:
  assumes law: "template_db_law g rows"
  shows "keeps (\<lambda>s. P (rows s)) (td_GetTemplateByOwner g o' ty)" "keeps (\<lambda>s. P (rows s)) (td_GetTemplateByID g i)"
    "keeps (\<lambda>s. P (rows s)) (td_UpdateTemplate g t)" "keeps (\<lambda>s. P (rows s)) (td_SetTemplateActiveVersion g i v)"
    "keeps (\<lambda>s. P (rows s)) (td_GetTemplateVersionByTemplateIDs g is)"
    "keeps (\<lambda>s. P (rows s)) (td_GetTemplateVersionByID g i)" "keeps (\<lambda>s. P (rows s)) (td_CreateTemplateVersion g ve)"
    "keeps (\<lambda>s. P (rows s)) (td_ForkTemplateVersion g i)" "keeps (\<lambda>s. P (rows s)) (td_GetProviderByVersionIDs g is)"
    "keeps (\<lambda>s. P (rows s)) (td_GetProviderByNameAndChannel g i j na ch)"
    "keeps (\<lambda>s. P (rows s)) (td_BatchCreateTemplateProviders g ps)"
    "keeps (\<lambda>s. P (rows s)) (td_GetApprovedProviders g i j)" "keeps (\<lambda>s. P (rows s)) (td_GetProviders g i j)"
    "keeps (\<lambda>s. P (rows s)) (td_UpdateTemplateVersion g ve)"
    "keeps (\<lambda>s. P (rows s)) (td_BatchUpdateTemplateVersionAuditInfo g vs)"
    "keeps (\<lambda>s. P (rows s)) (td_UpdateTemplateProviderAuditInfo g p)"
    "keeps (\<lambda>s. P (rows s)) (td_BatchUpdateTemplateProvidersAuditInfo g ps)"
    "keeps (\<lambda>s. P (rows s)) (td_GetPendingOrInReviewProviders g off lim u)"
    "keeps (\<lambda>s. P (rows s)) (td_TotalPendingOrInReviewProviders g u)"
proof -
  note db = template_db_keeps [OF law, of P]
  have bad: "keeps (\<lambda>s. P (rows s)) (tgUpdates g table w sets)" if "\<not> statement_ok table w sets" for table w sets
    using db_leaves_updates [OF law] that by (intro leaves_keeps [where rows = rows]) simp
  show "keeps (\<lambda>s. P (rows s)) (td_GetTemplateByOwner g o' ty)" "keeps (\<lambda>s. P (rows s)) (td_GetTemplateByID g i)"
    "keeps (\<lambda>s. P (rows s)) (td_GetTemplateVersionByTemplateIDs g is)"
    "keeps (\<lambda>s. P (rows s)) (td_GetTemplateVersionByID g i)" "keeps (\<lambda>s. P (rows s)) (td_CreateTemplateVersion g ve)"
    "keeps (\<lambda>s. P (rows s)) (td_GetProviderByVersionIDs g is)"
    "keeps (\<lambda>s. P (rows s)) (td_GetProviderByNameAndChannel g i j na ch)"
    "keeps (\<lambda>s. P (rows s)) (td_BatchCreateTemplateProviders g ps)"
    "keeps (\<lambda>s. P (rows s)) (td_GetApprovedProviders g i j)" "keeps (\<lambda>s. P (rows s)) (td_GetProviders g i j)"
    "keeps (\<lambda>s. P (rows s)) (td_UpdateTemplateVersion g ve)"
    "keeps (\<lambda>s. P (rows s)) (td_GetPendingOrInReviewProviders g off lim u)"
    "keeps (\<lambda>s. P (rows s)) (td_TotalPendingOrInReviewProviders g u)"
    unfolding td_GetTemplateByOwner_def td_GetTemplateByID_def td_GetTemplateVersionByTemplateIDs_def
      td_GetTemplateVersionByID_def td_CreateTemplateVersion_def td_GetProviderByVersionIDs_def
      td_GetProviderByNameAndChannel_def td_BatchCreateTemplateProviders_def td_GetApprovedProviders_def
      td_GetProviders_def td_UpdateTemplateVersion_def td_GetPendingOrInReviewProviders_def
      td_TotalPendingOrInReviewProviders_def
    by (intro keeps_intros db)+
  show "keeps (\<lambda>s. P (rows s)) (td_UpdateTemplate g t)"
    unfolding td_UpdateTemplate_def by (rule bad) (rule statement_ok_texts)
  show "keeps (\<lambda>s. P (rows s)) (td_SetTemplateActiveVersion g i v)"
    unfolding td_SetTemplateActiveVersion_def
    by (intro keeps_intros db bad) (simp add: statement_ok_def statement_ok_texts del: template_columns.simps)
  show "keeps (\<lambda>s. P (rows s)) (td_ForkTemplateVersion g i)"
    unfolding td_ForkTemplateVersion_def td_fork_tx_def by (intro keeps_intros db)
  show upd: "keeps (\<lambda>s. P (rows s)) (td_UpdateTemplateProviderAuditInfo g p)" for p
    unfolding td_UpdateTemplateProviderAuditInfo_def by (intro keeps_intros db)
  show "keeps (\<lambda>s. P (rows s)) (td_BatchUpdateTemplateVersionAuditInfo g vs)"
    "keeps (\<lambda>s. P (rows s)) (td_BatchUpdateTemplateProvidersAuditInfo g ps)"
    unfolding td_BatchUpdateTemplateVersionAuditInfo_def td_BatchUpdateTemplateProvidersAuditInfo_def
      in_transaction_def update_version_audit_def by (intro keeps_intros db upd)+
qed

lemma run_bind_error:
  "(\<And>x s1. run_state m s = (x, s1) \<Longrightarrow> snd (fst (run_state (f x) s1)) \<noteq> None) \<Longrightarrow>
   snd (fst (run_state (State_Monad.bind m f) s)) \<noteq> None"
  by (simp split: prod.splits)

text \<open>Five operations on the templates can only fail, whatever the data: the update of a template
  (no argument for its condition), the choice of the active version and the update of a version
  (columns the table does not have), the copy of a version (a column in the condition) and the
  query for approved providers (one argument too many).\<close>

theorem Template_statements_rejected:
  assumes law: "template_db_law g rows"
  shows "fst (run_state (td_UpdateTemplate g t) s) \<noteq> None
    \<and> fst (run_state (td_SetTemplateActiveVersion g i v) s) \<noteq> None
    \<and> fst (run_state (td_UpdateTemplateVersion g ve) s) \<noteq> None
    \<and> snd (fst (run_state (td_ForkTemplateVersion g v) s)) \<noteq> None
    \<and> snd (fst (run_state (td_GetApprovedProviders g i v) s)) \<noteq> None"
proof (intro conjI)
  note ok = statement_ok_def statement_ok_texts
  show "fst (run_state (td_UpdateTemplate g t) s) \<noteq> None"
    unfolding td_UpdateTemplate_def by (rule db_bad [OF law statement_ok_texts(1)])
  have "\<not> statement_ok Templates w [(''active_version'', x), (''utime'', y)]" for w x y
    by (simp add: ok del: template_columns.simps)
  from db_bad [OF law this] show "fst (run_state (td_SetTemplateActiveVersion g i v) s) \<noteq> None"
    by (simp add: td_SetTemplateActiveVersion_def split: prod.splits)
  have "\<not> statement_ok Providers w [(''name'', n), (''signature'', si), (''content'', c), (''remark'', r), (''utime'', u)]"
    for w n si c r u by (simp add: ok del: template_columns.simps)
  from db_bad [OF law this] show "fst (run_state (td_UpdateTemplateVersion g ve) s) \<noteq> None"
    by (simp add: td_UpdateTemplateVersion_def split: prod.splits)
  show "snd (fst (run_state (td_GetApprovedProviders g i v) s)) \<noteq> None"
    unfolding td_GetApprovedProviders_def by (rule db_bad_find [OF law statement_ok_texts(5)])
  have "run_state (tgFindP g (''template_id = ? AND template_version = ?'', args) page) s \<noteq> ((x, None), s')"
    for args page s x s'
    using db_bad_find [OF law statement_ok_texts(4), of args page s] by auto
  then have "snd (fst (run_state (td_fork_tx g now v) s)) \<noteq> None" for now s
    unfolding td_fork_tx_def by (auto intro!: run_bind_error split: option.splits prod.splits)
  then have "run_state (tgTransaction g (td_fork_tx g now v)) s \<noteq> ((x, None), s')" for now s x s'
    using db_transaction_error [OF law, of "td_fork_tx g now v" s] by auto
  then show "snd (fst (run_state (td_ForkTemplateVersion g v) s)) \<noteq> None"
    by (auto simp: td_ForkTemplateVersion_def split: prod.splits option.splits)
qed

text \<open>Neither does the result of a review reach its tables once it carries an identifier or a time.\<close>

lemma Template_audit_rejected:
  assumes law: "template_db_law g rows"
  shows "dpLastReviewSubmissionTime p > 0 \<Longrightarrow> fst (run_state (td_UpdateTemplateProviderAuditInfo g p) s) \<noteq> None"
    and "dvAuditID v > 0 \<or> dvAuditTime v > 0 \<or> dvLastReviewSubmissionTime v > 0 \<Longrightarrow>
      fst (run_state (update_version_audit g v) s) \<noteq> None"
  using db_bad [OF law provider_audit_rejected] db_bad [OF law version_audit_rejected]
  by (simp_all add: td_UpdateTemplateProviderAuditInfo_def update_version_audit_def split: prod.splits)

section \<open>An example database\<close>

text \<open>Lists of rows; a query answers the rows with the number that is its first argument, or all of
  them if it is given none. The updates that are well formed match no row.\<close>

record template_tables =
  ttT :: "daoTemplate list"
  ttV :: "daoVersion list"
  ttP :: "daoTemplateProvider list"

definition find_id :: "('a \<Rightarrow> int64) \<Rightarrow> sql_where \<Rightarrow> 'a list \<Rightarrow> 'a list" where
  "find_id f w xs = (case snd w of [Arg (SInt i)] \<Rightarrow> filter (\<lambda>x. f x = i) xs | _ \<Rightarrow> xs)"

definition mem_query ::
  "template_table \<Rightarrow> sql_where \<Rightarrow> 'a \<Rightarrow> (template_tables \<Rightarrow> 'a) \<Rightarrow> (template_tables, 'a ret) io" where
  "mem_query table w z f =
     State (\<lambda>s. (if where_ok (template_columns table) w then (f s, None) else (z, Some (Ext ''bad statement'')), s))"

definition mem_first ::
  "template_table \<Rightarrow> sql_where \<Rightarrow> 'a \<Rightarrow> (template_tables \<Rightarrow> 'a list) \<Rightarrow> (template_tables, 'a ret) io" where
  "mem_first table w z f =
     State (\<lambda>s. (case f s of x # _ \<Rightarrow> if where_ok (template_columns table) w then (x, None)
         else (z, Some (Ext ''bad statement'')) | [] \<Rightarrow> (z, Some ErrRecordNotFound), s))"

definition mem_templates :: "template_tables template_gorm" where
  "mem_templates =
     \<lparr>tgNow = io_return 0,
      tgTransaction = \<lambda>body. State (\<lambda>s. case run_state body s of
        ((v, Some e), _) \<Rightarrow> ((v, Some e), s) | ((v, None), s') \<Rightarrow> ((v, None), s')),
      tgFindT = \<lambda>w. mem_query Templates w [] (\<lambda>s. find_id dmID w (ttT s)),
      tgFirstT = \<lambda>w. mem_first Templates w zero_daoTemplate (\<lambda>s. find_id dmID w (ttT s)),
      tgCreateT = \<lambda>t. State (\<lambda>s. let t' = t\<lparr>dmID := int (length (ttT s)) + 1\<rparr>
        in ((t', None), s\<lparr>ttT := ttT s @ [t']\<rparr>)),
      tgFindV = \<lambda>w. mem_query Versions w [] (\<lambda>s. find_id dvID w (ttV s)),
      tgFirstV = \<lambda>w. mem_first Versions w zero_daoVersion (\<lambda>s. find_id dvID w (ttV s)),
      tgCreateV = \<lambda>v. State (\<lambda>s. let v' = v\<lparr>dvID := int (length (ttV s)) + 1\<rparr>
        in ((v', None), s\<lparr>ttV := ttV s @ [v']\<rparr>)),
      tgFindP = \<lambda>w _. mem_query Providers w [] ttP,
      tgCountP = \<lambda>w. mem_query Providers w 0 (\<lambda>s. int (length (ttP s))),
      tgCreateP = \<lambda>ps. State (\<lambda>s. ((ps, None), s\<lparr>ttP := ttP s @ ps\<rparr>)),
      tgUpdates = \<lambda>table w sets. io_return
        (if statement_ok table w sets then None else Some (Ext ''bad statement''))\<rparr>"

lemma find_id_subset: "x \<in> set (find_id f w xs) \<Longrightarrow> x \<in> set xs"
  by (auto simp: find_id_def split: list.splits sql_arg.splits sql_val.splits)

lemma mem_query_simps [simp]:
  "leaves rows (mem_query table w z f)" "leaves rows (mem_first table w y h)"
  "\<not> where_ok (template_columns table) w \<Longrightarrow> snd (fst (run_state (mem_query table w z f) s)) \<noteq> None"
  by (simp_all add: leaves_def mem_query_def mem_first_def)

lemma mem_templates_law: "template_db_law mem_templates ttT"
proof -
  have "run_state (mem_first table w z f) s = ((x, None), s') \<Longrightarrow> x \<in> set (f s)" for table w z f s x s'
    by (auto simp: mem_first_def split: list.splits if_splits)
  note found = this
  have "t \<in> set (ttT s)" if "run_state (tgFirstT mem_templates w) s = ((t, None), s')" for w s t s'
  proof (rule find_id_subset)
    show "t \<in> set (find_id dmID w (ttT s))"
      by (rule found [of Templates w zero_daoTemplate]) (use that in \<open>simp add: mem_templates_def\<close>)
  qed
  moreover have "keeps (\<lambda>s. P (ttT s)) body \<Longrightarrow> keeps (\<lambda>s. P (ttT s)) (tgTransaction mem_templates body)" for P body
    by (auto simp: keeps_def mem_templates_def split: prod.splits option.splits)
  moreover have "snd (fst (run_state body s)) \<noteq> None \<Longrightarrow>
      snd (fst (run_state (tgTransaction mem_templates body) s)) \<noteq> None" for body s
    by (auto simp: mem_templates_def split: prod.splits)
  ultimately show ?thesis
    unfolding template_db_law_def
    by (intro conjI allI impI) (auto simp: mem_templates_def Let_def leaves_def mem_query_def mem_first_def)
qed

theorem Template_statements_rejected_witness:
  "fst (run_state (td_SetTemplateActiveVersion mem_templates 1 1)
     \<lparr>ttT = [zero_daoTemplate\<lparr>dmID := 1\<rparr>], ttV = [], ttP = []\<rparr>) \<noteq> None"
  using Template_statements_rejected [OF mem_templates_law] by blast

end
