(* ===== verification/ProviderRepo.thy ===== *)
theory ProviderRepo
  imports Sql Invariants
begin

text \<open>
  Providers: \<^verbatim>\<open>internal/repository/dao/provider.go\<close>, \<^verbatim>\<open>internal/repository/provider.go\<close> and the
  service \<^verbatim>\<open>internal/service/provider/manage/manage.go\<close>. The secret of a provider is stored
  encrypted with AES-GCM under a key that is cut or filled to 32 bytes. The ciphers, the base64
  encoding, the source of the nonces and the database are parameters.
\<close>

section \<open>Rows and encryption\<close>

record daoProvider =
  drID :: int64
  drName :: string
  drChannel :: string
  drEndpoint :: string
  drRegionID :: string
  drAPIKey :: string
  drAPISecret :: string
  drAPPID :: string
  drWeight :: int64
  drQPSLimit :: int64
  drDailyLimit :: int64
  drAuditCallbackURL :: string
  drStatus :: string
  drCtime :: int64
  drUtime :: int64

definition zero_daoProvider :: daoProvider where
  "zero_daoProvider =
     \<lparr>drID = 0, drName = '''', drChannel = '''', drEndpoint = '''', drRegionID = '''', drAPIKey = '''',
      drAPISecret = '''', drAPPID = '''', drWeight = 0, drQPSLimit = 0, drDailyLimit = 0,
      drAuditCallbackURL = '''', drStatus = '''', drCtime = 0, drUtime = 0\<rparr>"

text \<open>\<open>crSeal\<close> is \<^verbatim>\<open>Seal\<close> without the prefix (key, nonce, plain text), \<open>crOpen\<close> is \<^verbatim>\<open>Open\<close>, both after
  \<^verbatim>\<open>aes.NewCipher\<close> and \<^verbatim>\<open>NewGCM\<close>, which may fail (\<open>crCipher\<close>).\<close>

record 's crypto =
  crCipher :: "string \<Rightarrow> gerr option"
  crNonceSize :: nat
  crRandom :: "('s, string ret) io"
  crSeal :: "string \<Rightarrow> string \<Rightarrow> string \<Rightarrow> string"
  crOpen :: "string \<Rightarrow> string \<Rightarrow> string \<Rightarrow> string ret"
  crEncode :: "string \<Rightarrow> string"
  crDecode :: "string \<Rightarrow> string ret"

definition KEYSIZE :: nat where "KEYSIZE = 32"

text \<open>\<^verbatim>\<open>make\<close> and \<^verbatim>\<open>copy\<close>: a longer key is cut, a shorter one filled with zero bytes.\<close>

definition padded_key :: "string \<Rightarrow> string" where
  "padded_key encryptKey =
     take KEYSIZE encryptKey @ replicate (KEYSIZE - length encryptKey) (CHR 0x00)"

definition prov_encrypt :: "'s crypto \<Rightarrow> string \<Rightarrow> string \<Rightarrow> ('s, string ret) io" where
  "prov_encrypt c key plaintext =
     (case crCipher c key of
        Some e \<Rightarrow> io_return ('''', Some e)
      | None \<Rightarrow> do {
          (nonce, err) \<leftarrow> crRandom c;
          io_return (case err of
              Some e \<Rightarrow> ('''', Some e)
            | None \<Rightarrow> (crEncode c (nonce @ crSeal c key nonce plaintext), None))
        })"

definition prov_decrypt :: "'s crypto \<Rightarrow> string \<Rightarrow> string \<Rightarrow> string ret" where
  "prov_decrypt c key encrypted =
     (case crDecode c encrypted of
        (_, Some e) \<Rightarrow> ('''', Some e)
      | (ciphertext, None) \<Rightarrow>
          (case crCipher c key of
             Some e \<Rightarrow> ('''', Some e)
           | None \<Rightarrow>
               if length ciphertext < crNonceSize c then ('''', Some (Ext ''ciphertext too short''))
               else (case crOpen c key (take (crNonceSize c) ciphertext) (drop (crNonceSize c) ciphertext) of
                       (_, Some e) \<Rightarrow> ('''', Some e)
                     | (plaintext, None) \<Rightarrow> (plaintext, None))))"

section \<open>Data access\<close>

record 's provider_gorm =
  pgNow :: "('s, gtime) io"
  pgCreate :: "daoProvider \<Rightarrow> ('s, daoProvider ret) io"
  pgUpdates :: "sql_where \<Rightarrow> sql_sets \<Rightarrow> ('s, gerr option) io"
  pgFirst :: "int64 \<Rightarrow> ('s, daoProvider ret) io"
  pgFind :: "sql_where \<Rightarrow> ('s, daoProvider list ret) io"

record 's providerDAO =
  pdDb :: "'s provider_gorm"
  pdCrypto :: "'s crypto"
  pdKey :: string

definition NewProviderDAO :: "'s provider_gorm \<Rightarrow> 's crypto \<Rightarrow> string \<Rightarrow> 's providerDAO" where
  "NewProviderDAO db c encryptKey = \<lparr>pdDb = db, pdCrypto = c, pdKey = padded_key encryptKey\<rparr>"

text \<open>The row that is stored carries the encrypted secret, the one that is answered the plain one.\<close>

definition provdao_Create :: "'s providerDAO \<Rightarrow> daoProvider \<Rightarrow> ('s, daoProvider ret) io" where
  "provdao_Create d provider = do {
     t \<leftarrow> pgNow (pdDb d);
     let now = UnixMilli t;
     (encrypted, err) \<leftarrow> prov_encrypt (pdCrypto d) (pdKey d) (drAPISecret provider);
     case err of
       Some e \<Rightarrow> io_return (zero_daoProvider, Some e)
     | None \<Rightarrow> do {
         (created, err) \<leftarrow> pgCreate (pdDb d)
           (provider\<lparr>drCtime := now, drUtime := now, drAPISecret := encrypted\<rparr>);
         io_return (case err of
             Some e \<Rightarrow> (zero_daoProvider, Some e)
           | None \<Rightarrow> (created\<lparr>drAPISecret := drAPISecret provider\<rparr>, None))
       }
   }"

text \<open>The secret is written whenever there is a key, even if it is empty.\<close>

definition provider_sets :: "int64 \<Rightarrow> daoProvider \<Rightarrow> sql_sets" where
  "provider_sets now p =
     [(''name'', SStr (drName p)), (''channel'', SStr (drChannel p)), (''endpoint'', SStr (drEndpoint p)),
      (''api_key'', SStr (drAPIKey p)), (''weight'', SInt (drWeight p)),
      (''qps_limit'', SInt (drQPSLimit p)), (''daily_limit'', SInt (drDailyLimit p)),
      (''audit_callback_url'', SStr (drAuditCallbackURL p)), (''status'', SStr (drStatus p)),
      (''utime'', SInt now)]"

definition provdao_Update :: "'s providerDAO \<Rightarrow> daoProvider \<Rightarrow> ('s, gerr option) io" where
  "provdao_Update d provider = do {
     t \<leftarrow> pgNow (pdDb d);
     let updates = provider_sets (UnixMilli t) provider;
     if drAPIKey provider \<noteq> '''' then do {
       (encrypted, err) \<leftarrow> prov_encrypt (pdCrypto d) (pdKey d) (drAPISecret provider);
       case err of
         Some e \<Rightarrow> io_return (Some e)
       | None \<Rightarrow> pgUpdates (pdDb d) (''id = ?'', [arg_int (drID provider)])
           (set_key ''api_secret'' (SStr encrypted) updates)
     }
     else pgUpdates (pdDb d) (''id = ?'', [arg_int (drID provider)]) updates
   }"

definition decrypt_row :: "'s providerDAO \<Rightarrow> daoProvider \<Rightarrow> daoProvider ret" where
  "decrypt_row d provider =
     (if drAPISecret provider = '''' then (provider, None)
      else (case prov_decrypt (pdCrypto d) (pdKey d) (drAPISecret provider) of
              (_, Some e) \<Rightarrow> (zero_daoProvider, Some e)
            | (secret, None) \<Rightarrow> (provider\<lparr>drAPISecret := secret\<rparr>, None)))"

definition provdao_FindByID :: "'s providerDAO \<Rightarrow> int64 \<Rightarrow> ('s, daoProvider ret) io" where
  "provdao_FindByID d i = do {
     (provider, err) \<leftarrow> pgFirst (pdDb d) i;
     io_return (case err of Some e \<Rightarrow> (zero_daoProvider, Some e) | None \<Rightarrow> decrypt_row d provider)
   }"

fun decrypt_rows :: "'s providerDAO \<Rightarrow> daoProvider list \<Rightarrow> daoProvider list ret" where
  "decrypt_rows d [] = ([], None)"
| "decrypt_rows d (p # ps) =
     (case decrypt_row d p of
        (_, Some e) \<Rightarrow> ([], Some e)
      | (p', None) \<Rightarrow>
          (case decrypt_rows d ps of (_, Some e) \<Rightarrow> ([], Some e) | (ps', None) \<Rightarrow> (p' # ps', None)))"

definition active_in_channel :: "string \<Rightarrow> sql_where" where
  "active_in_channel channel =
     (''channel = ? AND status = '' @ [CHR 0x27] @ ''ACTIVE'' @ [CHR 0x27] @ '' '', [arg_str channel])"

definition provdao_FindByChannel :: "'s providerDAO \<Rightarrow> string \<Rightarrow> ('s, daoProvider list ret) io" where
  "provdao_FindByChannel d channel = do {
     (providers, err) \<leftarrow> pgFind (pdDb d) (active_in_channel channel);
     io_return (case err of Some e \<Rightarrow> ([], Some e) | None \<Rightarrow> decrypt_rows d providers)
   }"

section \<open>The repository\<close>

text \<open>Region and application identifier are not carried over, in either direction.\<close>

definition prov_toEntity :: "Provider \<Rightarrow> daoProvider" where
  "prov_toEntity p =
     zero_daoProvider
       \<lparr>drID := pID p, drName := pName p, drChannel := pChannel p, drEndpoint := pEndpoint p,
        drAPIKey := pAPIKey p, drAPISecret := pAPISecret p, drWeight := pWeight p,
        drQPSLimit := pQPSLimit p, drDailyLimit := pDailyLimit p,
        drAuditCallbackURL := pAuditCallbackURL p, drStatus := pStatus p\<rparr>"

definition zero_Provider :: Provider where
  "zero_Provider =
     \<lparr>pID = 0, pName = '''', pChannel = '''', pEndpoint = '''', pRegionID = '''', pAPIKey = '''',
      pAPISecret = '''', pAPPID = '''', pWeight = 0, pQPSLimit = 0, pDailyLimit = 0,
      pAuditCallbackURL = '''', pStatus = ''''\<rparr>"

definition prov_toDomain :: "daoProvider \<Rightarrow> Provider" where
  "prov_toDomain p =
     zero_Provider
       \<lparr>pID := drID p, pName := drName p, pChannel := drChannel p, pEndpoint := drEndpoint p,
        pAPIKey := drAPIKey p, pAPISecret := drAPISecret p, pWeight := drWeight p,
        pQPSLimit := drQPSLimit p, pDailyLimit := drDailyLimit p,
        pAuditCallbackURL := drAuditCallbackURL p, pStatus := drStatus p\<rparr>"

record 's ProviderRepository =
  prCreate :: "Provider \<Rightarrow> ('s, Provider ret) io"
  prUpdate :: "Provider \<Rightarrow> ('s, gerr option) io"
  prFindByID :: "int64 \<Rightarrow> ('s, Provider ret) io"
  prFindByChannel :: "Channel \<Rightarrow> ('s, Provider list ret) io"

definition provrepo_Create :: "'s providerDAO \<Rightarrow> Provider \<Rightarrow> ('s, Provider ret) io" where
  "provrepo_Create d provider = do {
     (created, err) \<leftarrow> provdao_Create d (prov_toEntity provider);
     io_return (case err of Some e \<Rightarrow> (zero_Provider, Some e) | None \<Rightarrow> (prov_toDomain created, None))
   }"

definition provrepo_FindByID :: "'s providerDAO \<Rightarrow> int64 \<Rightarrow> ('s, Provider ret) io" where
  "provrepo_FindByID d i = do {
     (provider, err) \<leftarrow> provdao_FindByID d i;
     io_return (case err of
         Some e \<Rightarrow> (zero_Provider,
           if errors_Is e ErrRecordNotFound then Some (Wrap [Err ErrProviderNotFound]) else Some e)
       | None \<Rightarrow> (prov_toDomain provider, None))
   }"

definition provrepo_FindByChannel :: "'s providerDAO \<Rightarrow> Channel \<Rightarrow> ('s, Provider list ret) io" where
  "provrepo_FindByChannel d channel = do {
     (providers, err) \<leftarrow> provdao_FindByChannel d channel;
     io_return (case err of Some e \<Rightarrow> ([], Some e) | None \<Rightarrow> (map prov_toDomain providers, None))
   }"

definition NewProviderRepository :: "'s providerDAO \<Rightarrow> 's ProviderRepository" where
  "NewProviderRepository d =
     \<lparr>prCreate = provrepo_Create d, prUpdate = \<lambda>p. provdao_Update d (prov_toEntity p),
      prFindByID = provrepo_FindByID d, prFindByChannel = provrepo_FindByChannel d\<rparr>"

section \<open>The service\<close>

record 's ProviderService =
  psCreate :: "Provider \<Rightarrow> ('s, Provider ret) io"
  psUpdate :: "Provider \<Rightarrow> ('s, gerr option) io"
  psGetByID :: "int64 \<Rightarrow> ('s, Provider ret) io"
  psGetByChannel :: "Channel \<Rightarrow> ('s, Provider list ret) io"

definition provsvc_Create :: "'s ProviderRepository \<Rightarrow> Provider \<Rightarrow> ('s, Provider ret) io" where
  "provsvc_Create repo provider =
     (case Provider_Validate provider of
        Some e \<Rightarrow> io_return (zero_Provider, Some e) | None \<Rightarrow> prCreate repo provider)"

definition provsvc_Update :: "'s ProviderRepository \<Rightarrow> Provider \<Rightarrow> ('s, gerr option) io" where
  "provsvc_Update repo provider =
     (case Provider_Validate provider of Some e \<Rightarrow> io_return (Some e) | None \<Rightarrow> prUpdate repo provider)"

definition provsvc_GetByID :: "'s ProviderRepository \<Rightarrow> int64 \<Rightarrow> ('s, Provider ret) io" where
  "provsvc_GetByID repo i =
     (if i \<le> 0 then io_return (zero_Provider, Some invalid_parameter) else prFindByID repo i)"

definition provsvc_GetByChannel :: "'s ProviderRepository \<Rightarrow> Channel \<Rightarrow> ('s, Provider list ret) io" where
  "provsvc_GetByChannel repo channel =
     (if \<not> Channel_IsValid channel then io_return ([], Some invalid_parameter)
      else prFindByChannel repo channel)"

definition NewProviderService :: "'s ProviderRepository \<Rightarrow> 's ProviderService" where
  "NewProviderService repo =
     \<lparr>psCreate = provsvc_Create repo, psUpdate = provsvc_Update repo, psGetByID = provsvc_GetByID repo,
      psGetByChannel = provsvc_GetByChannel repo\<rparr>"

section \<open>Secrets\<close>

text \<open>What AES-GCM and base64 promise: keys of 32 bytes are accepted, nonces have their size, and
  what was sealed and encoded is decoded and opened.\<close>

definition crypto_law :: "'s crypto \<Rightarrow> bool" where
  "crypto_law c \<longleftrightarrow> 0 < crNonceSize c
     \<and> (\<forall>key. length key = 32 \<longrightarrow> crCipher c key = None)
     \<and> (\<forall>s nonce s'. run_state (crRandom c) s = ((nonce, None), s') \<longrightarrow> length nonce = crNonceSize c)
     \<and> (\<forall>x. crDecode c (crEncode c x) = (x, None) \<and> (crEncode c x = '''' \<longrightarrow> x = ''''))
     \<and> (\<forall>key nonce m. crOpen c key nonce (crSeal c key nonce m) = (m, None))"

text \<open>A row that is created is found under the number the database gave it.\<close>

definition provider_store_law :: "'s provider_gorm \<Rightarrow> bool" where
  "provider_store_law db \<longleftrightarrow>
     (\<forall>row s row' s'. run_state (pgCreate db row) s = ((row', None), s') \<longrightarrow>
        (\<exists>i. row' = row\<lparr>drID := i\<rparr> \<and> run_state (pgFirst db i) s' = ((row', None), s')))"

lemma length_padded_key [simp]: "length (padded_key k) = 32"
  by (simp add: padded_key_def KEYSIZE_def)

lemma encrypt_decrypt:
  assumes "crypto_law c" "length key = 32"
    and "run_state (prov_encrypt c key m) s = ((x, None), s')"
  shows "prov_decrypt c key x = (m, None)" "x \<noteq> ''''"
proof -
  from assms obtain nonce where n: "run_state (crRandom c) s = ((nonce, None), s')"
    and x: "x = crEncode c (nonce @ crSeal c key nonce m)"
    by (auto simp: crypto_law_def prov_encrypt_def split: option.splits prod.splits)
  with assms(1) have len: "length nonce = crNonceSize c" "0 < crNonceSize c"
    by (auto simp: crypto_law_def)
  with x assms(1,2) show "prov_decrypt c key x = (m, None)"
    by (simp add: crypto_law_def prov_decrypt_def)
  from len have "nonce \<noteq> []" by auto
  with x assms(1) show "x \<noteq> ''''" by (auto simp: crypto_law_def)
qed

lemma provdao_roundtrip:
  assumes "crypto_law c" "provider_store_law db"
    and "run_state (provdao_Create (NewProviderDAO db c k) p) s = ((created, None), s')"
  shows "\<exists>i now. created = p\<lparr>drID := i, drCtime := now, drUtime := now\<rparr>
    \<and> run_state (provdao_FindByID (NewProviderDAO db c k) i) s' = ((created, None), s')"
proof -
  from assms(3) obtain t s1 x s2 row where
    x: "run_state (prov_encrypt c (padded_key k) (drAPISecret p)) s1 = ((x, None), s2)"
    and cr: "run_state (pgCreate db (p\<lparr>drCtime := UnixMilli t, drUtime := UnixMilli t, drAPISecret := x\<rparr>)) s2
      = ((row, None), s')"
    and created: "created = row\<lparr>drAPISecret := drAPISecret p\<rparr>"
    by (auto simp: provdao_Create_def NewProviderDAO_def Let_def split: option.splits prod.splits)
  from cr assms(2) obtain i where
    row: "row = p\<lparr>drCtime := UnixMilli t, drUtime := UnixMilli t, drAPISecret := x, drID := i\<rparr>"
    and f: "run_state (pgFirst db i) s' = ((row, None), s')"
    unfolding provider_store_law_def by metis
  from encrypt_decrypt [OF assms(1) length_padded_key x] f
  have "run_state (provdao_FindByID (NewProviderDAO db c k) i) s' = ((created, None), s')"
    by (simp add: provdao_FindByID_def NewProviderDAO_def decrypt_row_def created row)
  moreover have "created = p\<lparr>drID := i, drCtime := UnixMilli t, drUtime := UnixMilli t\<rparr>"
    by (simp add: created row)
  ultimately show ?thesis by blast
qed

text \<open>A provider that is created is read back under its number with the secret decrypted, whatever
  the length of the configured key; the region and the application identifier are lost.\<close>

theorem Provider_secret_roundtrip:
  assumes "crypto_law c" "provider_store_law db"
    and "run_state (prCreate (NewProviderRepository (NewProviderDAO db c k)) p) s = ((created, None), s')"
  shows "\<exists>i. created = p\<lparr>pID := i, pRegionID := '''', pAPPID := ''''\<rparr>
    \<and> run_state (prFindByID (NewProviderRepository (NewProviderDAO db c k)) i) s' = ((created, None), s')"
proof -
  let ?d = "NewProviderDAO db c k"
  from assms(3) obtain row where
    cr: "run_state (provdao_Create ?d (prov_toEntity p)) s = ((row, None), s')"
    and created: "created = prov_toDomain row"
    by (auto simp: NewProviderRepository_def provrepo_Create_def split: option.splits prod.splits)
  from provdao_roundtrip [OF assms(1,2) cr] obtain i now where
    row: "row = (prov_toEntity p)\<lparr>drID := i, drCtime := now, drUtime := now\<rparr>"
    and f: "run_state (provdao_FindByID ?d i) s' = ((row, None), s')" by blast
  have "created = p\<lparr>pID := i, pRegionID := '''', pAPPID := ''''\<rparr>"
    by (simp add: created row prov_toDomain_def prov_toEntity_def zero_daoProvider_def zero_Provider_def)
  moreover from f have "run_state (prFindByID (NewProviderRepository ?d) i) s' = ((created, None), s')"
    by (simp add: NewProviderRepository_def provrepo_FindByID_def created)
  ultimately show ?thesis by blast
qed

text \<open>An example: a list of rows, and a cipher that only marks its texts.\<close>

definition demo_crypto :: "'s crypto" where
  "demo_crypto =
     \<lparr>crCipher = \<lambda>key. if length key = 32 then None else Some (Ext ''key size''), crNonceSize = 1,
      crRandom = io_return (''n'', None), crSeal = \<lambda>key nonce m. ''*'' @ m,
      crOpen = \<lambda>key nonce x. (tl x, None), crEncode = \<lambda>x. x, crDecode = \<lambda>x. (x, None)\<rparr>"

definition demo_providers :: "daoProvider list provider_gorm" where
  "demo_providers =
     \<lparr>pgNow = io_return 0,
      pgCreate = \<lambda>row. do {
        rows \<leftarrow> State_Monad.get;
        let row' = row\<lparr>drID := int (length rows)\<rparr>;
        _ \<leftarrow> State_Monad.set (rows @ [row']);
        io_return (row', None)
      },
      pgUpdates = \<lambda>_ _. io_return None,
      pgFirst = \<lambda>i. do {
        rows \<leftarrow> State_Monad.get;
        io_return (if 0 \<le> i \<and> i < int (length rows) then (rows ! nat i, None)
                   else (zero_daoProvider, Some ErrRecordNotFound))
      },
      pgFind = \<lambda>_. io_return ([], None)\<rparr>"

lemma demo_crypto_law: "crypto_law demo_crypto"
  by (simp add: crypto_law_def demo_crypto_def)

lemma demo_providers_law: "provider_store_law demo_providers"
  by (auto simp: provider_store_law_def demo_providers_def Let_def State_Monad.get_def State_Monad.set_def)

theorem Provider_secret_roundtrip_witness:
  "let p = zero_Provider\<lparr>pName := ''aliyun'', pAPISecret := ''secret'', pAPPID := ''app''\<rparr>;
       repo = NewProviderRepository (NewProviderDAO demo_providers demo_crypto ''key'')
   in \<exists>s'. run_state (prFindByID repo 0) s' = ((p\<lparr>pAPPID := ''''\<rparr>, None), s')"
proof -
  let ?p = "zero_Provider\<lparr>pName := ''aliyun'', pAPISecret := ''secret'', pAPPID := ''app''\<rparr>"
  let ?repo = "NewProviderRepository (NewProviderDAO demo_providers demo_crypto ''key'')"
  have "run_state (prCreate ?repo ?p) []
    = ((?p\<lparr>pAPPID := ''''\<rparr>, None), snd (run_state (prCreate ?repo ?p) []))"
    by (simp add: NewProviderRepository_def provrepo_Create_def provdao_Create_def NewProviderDAO_def
        demo_providers_def demo_crypto_def prov_encrypt_def padded_key_def KEYSIZE_def Let_def
        prov_toDomain_def prov_toEntity_def zero_daoProvider_def zero_Provider_def
        State_Monad.get_def State_Monad.set_def)
  from Provider_secret_roundtrip [OF demo_crypto_law demo_providers_law this]
  show ?thesis by (auto simp: Let_def zero_Provider_def)
qed

end
