(* ===== verification/SmsClient.thy ===== *)
theory SmsClient
  imports Templates Invariants Dao "HOL-Library.AList"
begin

text \<open>
  The clients of the SMS providers: \<^verbatim>\<open>internal/service/provider/sms/client\<close> with the clients for
  Aliyun and Tencent Cloud. The vendors' libraries are the parameters \<open>aliyun_api\<close> and
  \<open>tencent_api\<close>; a pointer in one of their responses is an option, and reading through a nil one is
  a panic, the result \<open>None\<close> of an operation. Maps are association lists in the order in which Go
  walks through them; a nil map of parameters is not told from an empty one.
\<close>

section \<open>The interface\<close>

type_synonym sms_AuditStatus = int

definition SmsAuditPending :: sms_AuditStatus where "SmsAuditPending = 0"
definition SmsAuditApproved :: sms_AuditStatus where "SmsAuditApproved = 1"
definition SmsAuditRejected :: sms_AuditStatus where "SmsAuditRejected = 2"

definition AuditStatus_ToDomain :: "sms_AuditStatus \<Rightarrow> AuditStatus" where
  "AuditStatus_ToDomain a =
     (if a = SmsAuditPending then AuditStatusInReview
      else if a = SmsAuditApproved then AuditStatusApproved
      else if a = SmsAuditRejected then AuditStatusRejected
      else AuditStatusInReview)"

record CreateTemplateReq =
  cqTemplateName :: string
  cqTemplateContent :: string
  cqTemplateType :: int32
  cqRemark :: string

record CreateTemplateResp =
  cpsRequestID :: string
  cpsTemplateID :: string

record QueryTemplateStatusResp =
  qtRequestID :: string
  qtTemplateID :: string
  qtAuditStatus :: sms_AuditStatus
  qtReason :: string

record SendReq =
  sqPhoneNumbers :: "string list"
  sqSignName :: string
  sqTemplateID :: string
  sqTemplateParam :: "(string \<times> string) list"

record SendRespStatus =
  ssCode :: string
  ssMessage :: string

record SendResp =
  spRequestID :: string
  spPhoneNumbers :: "(string \<times> SendRespStatus) list"

record 's SmsClient =
  scCreateTemplate :: "CreateTemplateReq \<Rightarrow> ('s, CreateTemplateResp ret option) io"
  scBatchQueryTemplateStatus ::
    "string list \<Rightarrow> ('s, (string \<times> QueryTemplateStatusResp) list ret option) io"
  scSend :: "SendReq \<Rightarrow> ('s, SendResp ret option) io"

definition zero_CreateTemplateResp :: CreateTemplateResp where
  "zero_CreateTemplateResp = \<lparr>cpsRequestID = '''', cpsTemplateID = ''''\<rparr>"
definition zero_SendResp :: SendResp where "zero_SendResp = \<lparr>spRequestID = '''', spPhoneNumbers = []\<rparr>"

definition sms_ErrCreateTemplateFailed :: gerr where "sms_ErrCreateTemplateFailed = Ext ''sms: create template''"
definition sms_ErrQueryTemplateStatus :: gerr where "sms_ErrQueryTemplateStatus = Ext ''sms: query template''"
definition sms_ErrSendFailed :: gerr where "sms_ErrSendFailed = Ext ''sms: send''"
definition sms_ErrInvalidParameter :: gerr where "sms_ErrInvalidParameter = Ext ''sms: invalid parameter''"

section \<open>Aliyun\<close>

record aliyun_template =
  atTemplateCode :: "string option"
  atAuditStatus :: "string option"
  atRejectInfo :: "string option option"

record aliyun_list =
  aiCode :: "string option"
  aiTemplates :: "aliyun_template list"
  aiTotalCount :: "int32 option"

record aliyun_create =
  aeCode :: "string option"
  aeRequestId :: "string option"
  aeTemplateCode :: "string option"

record aliyun_send =
  asCode :: "string option"
  asRequestId :: "string option"
  asMessage :: "string option"

text \<open>A body that is nil is \<open>None\<close>.\<close>

record 's aliyun_api =
  alCreateSmsTemplate :: "CreateTemplateReq \<Rightarrow> ('s, aliyun_create option ret) io"
  alQuerySmsTemplateList :: "int32 \<Rightarrow> int32 \<Rightarrow> ('s, aliyun_list option ret) io"
  alSendSms :: "string \<Rightarrow> string \<Rightarrow> string \<Rightarrow> string \<Rightarrow> ('s, aliyun_send option ret) io"

definition platformTemplateType2Aliyun :: "int32 \<Rightarrow> int32 option" where
  "platformTemplateType2Aliyun = map_of [(3, 3), (2, 1), (1, 2), (0, 0)]"

definition aliyun_CreateTemplate ::
  "'s aliyun_api \<Rightarrow> CreateTemplateReq \<Rightarrow> ('s, CreateTemplateResp ret option) io" where
  "aliyun_CreateTemplate api req =
     (case platformTemplateType2Aliyun (cqTemplateType req) of
        None \<Rightarrow> io_return (Some (zero_CreateTemplateResp, Some (Wrap [sms_ErrInvalidParameter])))
      | Some templateType \<Rightarrow> do {
          (body, err) \<leftarrow> alCreateSmsTemplate api (req\<lparr>cqTemplateType := templateType\<rparr>);
          io_return (case err of
              Some e \<Rightarrow> Some (zero_CreateTemplateResp, Some (Wrap [sms_ErrCreateTemplateFailed, e]))
            | None \<Rightarrow>
                (case body of
                   None \<Rightarrow> Some (zero_CreateTemplateResp, Some (Wrap [sms_ErrCreateTemplateFailed]))
                 | Some b \<Rightarrow>
                     if aeCode b = None \<or> \<not> EqualFold_OK (the (aeCode b))
                     then Some (zero_CreateTemplateResp, Some (Wrap [sms_ErrCreateTemplateFailed]))
                     else (case (aeRequestId b, aeTemplateCode b) of
                             (Some r, Some t) \<Rightarrow> Some (\<lparr>cpsRequestID = r, cpsTemplateID = t\<rparr>, None)
                           | _ \<Rightarrow> None)))
        })"

definition aliyun_getAuditStatus :: "string \<Rightarrow> sms_AuditStatus" where
  "aliyun_getAuditStatus s =
     (if s = ''AUDIT_STATE_PASS'' then SmsAuditApproved
      else if s = ''AUDIT_STATE_NOT_PASS'' then SmsAuditRejected
      else if s = ''AUDIT_STATE_INIT'' \<or> s = ''AUDIT_STATE_CANCEL'' then SmsAuditPending
      else SmsAuditPending)"

type_synonym sms_results = "(string \<times> QueryTemplateStatusResp) list"

text \<open>One page: the results with the templates that were asked for, and whether all are found.\<close>

fun aliyun_handleResponse ::
  "aliyun_template list \<Rightarrow> string list \<Rightarrow> sms_results \<Rightarrow> (sms_results \<times> bool) option" where
  "aliyun_handleResponse [] requested results = Some (results, False)"
| "aliyun_handleResponse (t # ts) requested results =
     (case atTemplateCode t of
        None \<Rightarrow> None
      | Some code \<Rightarrow>
          if code \<notin> set requested then aliyun_handleResponse ts requested results
          else (case atAuditStatus t of
                  None \<Rightarrow> None
                | Some status \<Rightarrow>
                    let rejectReason = (case atRejectInfo t of Some (Some r) \<Rightarrow> r | _ \<Rightarrow> '''');
                        results = AList.update code
                          \<lparr>qtRequestID = code, qtTemplateID = code,
                           qtAuditStatus = aliyun_getAuditStatus status, qtReason = rejectReason\<rparr> results
                    in if length results = length requested then Some (results, True)
                       else aliyun_handleResponse ts requested results))"

text \<open>The pages. The number of templates the service reports is an \<^verbatim>\<open>int32\<close>, so the index of the
  page cannot grow without bound.\<close>

function aliyun_pages ::
  "'s aliyun_api \<Rightarrow> string list \<Rightarrow> int64 \<Rightarrow> sms_results \<Rightarrow> 's \<Rightarrow> sms_results ret option \<times> 's" where
  "aliyun_pages api requested pageIndex results s =
     (case run_state (alQuerySmsTemplateList api 50 (wrap32 pageIndex)) s of
        ((body, Some e), s1) \<Rightarrow> (Some ([], Some (Wrap [sms_ErrQueryTemplateStatus, e])), s1)
      | ((None, None), s1) \<Rightarrow> (Some ([], Some (Wrap [sms_ErrQueryTemplateStatus])), s1)
      | ((Some b, None), s1) \<Rightarrow>
          if aiCode b = None \<or> \<not> EqualFold_OK (the (aiCode b))
          then (Some ([], Some (Wrap [sms_ErrQueryTemplateStatus])), s1)
          else if aiTemplates b = [] then (Some (results, None), s1)
          else (case aliyun_handleResponse (aiTemplates b) requested results of
                  None \<Rightarrow> (None, s1)
                | Some (results, True) \<Rightarrow> (Some (results, None), s1)
                | Some (results, False) \<Rightarrow>
                    let totalCount = (case aiTotalCount b of Some n \<Rightarrow> wrap32 n | None \<Rightarrow> 0)
                    in if pageIndex * 50 \<ge> totalCount then (Some (results, None), s1)
                       else aliyun_pages api requested (pageIndex + 1) results s1))"
  by pat_completeness auto

lemma page_below:
  "\<not> (case x of Some n \<Rightarrow> wrap32 n | None \<Rightarrow> 0) \<le> (p :: int) * 50 \<Longrightarrow> nat (2 ^ 31 - (p + 1)) < nat (2 ^ 31 - p)"
proof -
  assume "\<not> (case x of Some n \<Rightarrow> wrap32 n | None \<Rightarrow> 0) \<le> p * 50"
  moreover have "(case x of Some n \<Rightarrow> wrap32 n | None \<Rightarrow> 0) < 2 ^ 31"
    using wrap32_range by (simp add: int32_range_def split: option.splits)
  ultimately show ?thesis by simp
qed

termination aliyun_pages
  by (relation "measure (\<lambda>(api, requested, pageIndex, results, s). nat (2 ^ 31 - pageIndex))")
    (simp, simp only: in_measure split_conv page_below)

declare aliyun_pages.simps [simp del]

definition aliyun_BatchQueryTemplateStatus ::
  "'s aliyun_api \<Rightarrow> string list \<Rightarrow> ('s, sms_results ret option) io" where
  "aliyun_BatchQueryTemplateStatus api templateIDs =
     (if templateIDs = [] then io_return (Some ([], None))
      else State (aliyun_pages api (remdups templateIDs) 1 []))"

text \<open>The status of the request stands for every number; the message is read once for each.\<close>

definition aliyun_Send ::
  "'s aliyun_api \<Rightarrow> ((string \<times> string) list \<Rightarrow> string) \<Rightarrow> SendReq \<Rightarrow> ('s, SendResp ret option) io" where
  "aliyun_Send api json req =
     (if sqPhoneNumbers req = [] then io_return (Some (zero_SendResp, Some (Wrap [sms_ErrInvalidParameter])))
      else do {
        let phoneNumbers = join_with '','' (sqPhoneNumbers req);
        let templateParam = (if sqTemplateParam req = [] then '''' else json (sqTemplateParam req));
        (body, err) \<leftarrow> alSendSms api phoneNumbers (sqSignName req) (sqTemplateID req) templateParam;
        io_return (case err of
            Some e \<Rightarrow> Some (zero_SendResp, Some (Wrap [sms_ErrSendFailed, e]))
          | None \<Rightarrow>
              (case body of
                 None \<Rightarrow> Some (zero_SendResp, Some (Wrap [sms_ErrSendFailed]))
               | Some b \<Rightarrow>
                   if asCode b \<noteq> Some ''OK''
                   then Some (zero_SendResp, Some (Wrap [sms_ErrSendFailed]))
                   else (case (asRequestId b, asMessage b) of
                           (Some r, Some m) \<Rightarrow>
                             Some (\<lparr>spRequestID = r,
                               spPhoneNumbers = fold (\<lambda>phone. AList.update (TrimPrefix phone ''+86'')
                                 \<lparr>ssCode = ''OK'', ssMessage = m\<rparr>) (sqPhoneNumbers req) []\<rparr>, None)
                         | _ \<Rightarrow> None)))
      })"

definition AliyunSMS ::
  "'s aliyun_api \<Rightarrow> ((string \<times> string) list \<Rightarrow> string) \<Rightarrow> 's SmsClient" where
  "AliyunSMS api json =
     \<lparr>scCreateTemplate = aliyun_CreateTemplate api,
      scBatchQueryTemplateStatus = aliyun_BatchQueryTemplateStatus api, scSend = aliyun_Send api json\<rparr>"

section \<open>Tencent Cloud\<close>

record tencent_status =
  teTemplateId :: "nat option"
  teStatusCode :: "int64 option"
  teReviewReply :: "string option"

record tencent_send_status =
  tzPhoneNumber :: "string option"
  tzCode :: "string option"
  tzMessage :: "string option"

text \<open>The response inside the response is assumed to be there, as the library promises.\<close>

record 's tencent_api =
  teAddSmsTemplate :: "string \<Rightarrow> string \<Rightarrow> nat \<Rightarrow> nat \<Rightarrow> string
    \<Rightarrow> ('s, (string option \<times> string option option) ret) io"
  teDescribeSmsTemplateList :: "nat \<Rightarrow> nat option list
    \<Rightarrow> ('s, (string option \<times> tencent_status list) ret) io"
  teSendSms :: "string list \<Rightarrow> string \<Rightarrow> string \<Rightarrow> string \<Rightarrow> string list
    \<Rightarrow> ('s, (string option \<times> tencent_send_status list) ret) io"

definition to_uint64 :: "int32 \<Rightarrow> nat" where
  "to_uint64 i = nat (i mod 2 ^ 64)"

definition tencent_CreateTemplate ::
  "'s tencent_api \<Rightarrow> CreateTemplateReq \<Rightarrow> ('s, CreateTemplateResp ret option) io" where
  "tencent_CreateTemplate api req = do {
     ((requestId, status), err) \<leftarrow> teAddSmsTemplate api (cqTemplateName req) (cqTemplateContent req)
       (to_uint64 (cqTemplateType req)) 0 (cqRemark req);
     io_return (case err of
         Some e \<Rightarrow> Some (zero_CreateTemplateResp, Some (Wrap [sms_ErrCreateTemplateFailed, e]))
       | None \<Rightarrow>
           (case (requestId, status) of
              (Some r, Some (Some t)) \<Rightarrow> Some (\<lparr>cpsRequestID = r, cpsTemplateID = t\<rparr>, None)
            | _ \<Rightarrow> None))
   }"

text \<open>The set of identifiers is made with as many nil pointers as there are templates, and the
  identifiers are appended to it.\<close>

definition tencent_id_set :: "string list \<Rightarrow> nat option list option" where
  "tencent_id_set templateIDs =
     map_option (\<lambda>ids. replicate (length templateIDs) None @ map Some ids)
       (those (map ParseUint templateIDs))"

definition auditStatusMapping :: "int64 \<Rightarrow> sms_AuditStatus" where
  "auditStatusMapping code =
     (case map_of [(0, SmsAuditApproved), (1, SmsAuditPending), (2, SmsAuditPending), (-1, SmsAuditRejected)] code of
        Some a \<Rightarrow> a | None \<Rightarrow> 0)"

fun tencent_results :: "string option \<Rightarrow> tencent_status list \<Rightarrow> sms_results \<Rightarrow> sms_results option" where
  "tencent_results requestId [] results = Some results"
| "tencent_results requestId (t # ts) results =
     (case (teTemplateId t, requestId, teStatusCode t, teReviewReply t) of
        (Some i, Some r, Some code, Some reply) \<Rightarrow>
          let templateID = format_nat i
          in tencent_results requestId ts (AList.update templateID
               \<lparr>qtRequestID = r, qtTemplateID = templateID, qtAuditStatus = auditStatusMapping code,
                qtReason = reply\<rparr> results)
      | _ \<Rightarrow> None)"

definition tencent_BatchQueryTemplateStatus ::
  "'s tencent_api \<Rightarrow> string list \<Rightarrow> ('s, sms_results ret option) io" where
  "tencent_BatchQueryTemplateStatus api templateIDs =
     (case tencent_id_set templateIDs of
        None \<Rightarrow> io_return (Some ([], Some (Wrap [sms_ErrInvalidParameter])))
      | Some ids \<Rightarrow> do {
          ((requestId, set), err) \<leftarrow> teDescribeSmsTemplateList api 0 ids;
          io_return (case err of
              Some e \<Rightarrow> Some ([], Some (Wrap [sms_ErrQueryTemplateStatus, e]))
            | None \<Rightarrow> map_option (\<lambda>results. (results, None)) (tencent_results requestId set []))
        })"

definition full_phone :: "string \<Rightarrow> string" where
  "full_phone phone = (if \<not> HasPrefix phone ''+'' then ''+86'' @ phone else phone)"

fun tencent_statuses ::
  "tencent_send_status list \<Rightarrow> (string \<times> SendRespStatus) list \<Rightarrow> (string \<times> SendRespStatus) list option" where
  "tencent_statuses [] ps = Some ps"
| "tencent_statuses (t # ts) ps =
     (case (tzPhoneNumber t, tzCode t, tzMessage t) of
        (Some phone, Some code, Some message) \<Rightarrow>
          tencent_statuses ts (AList.update (TrimPrefix phone ''+86'') \<lparr>ssCode = code, ssMessage = message\<rparr> ps)
      | _ \<Rightarrow> None)"

text \<open>The values of the parameters are sent in the order in which Go walks through the map.\<close>

definition tencent_Send :: "'s tencent_api \<Rightarrow> string \<Rightarrow> SendReq \<Rightarrow> ('s, SendResp ret option) io" where
  "tencent_Send api appID req =
     (if sqPhoneNumbers req = [] then io_return (Some (zero_SendResp, Some (Wrap [sms_ErrInvalidParameter])))
      else do {
        ((requestId, set), err) \<leftarrow> teSendSms api (map full_phone (sqPhoneNumbers req)) appID
          (sqTemplateID req) (sqSignName req) (map snd (sqTemplateParam req));
        io_return (case err of
            Some e \<Rightarrow> Some (zero_SendResp, Some (Wrap [sms_ErrSendFailed, e]))
          | None \<Rightarrow>
              if set = [] then Some (zero_SendResp, Some (Wrap [sms_ErrSendFailed]))
              else (case requestId of
                      None \<Rightarrow> None
                    | Some r \<Rightarrow>
                        map_option (\<lambda>ps. (\<lparr>spRequestID = r, spPhoneNumbers = ps\<rparr>, None))
                          (tencent_statuses set [])))
      })"

definition TencentCloudSMS :: "'s tencent_api \<Rightarrow> string \<Rightarrow> 's SmsClient" where
  "TencentCloudSMS api appID =
     \<lparr>scCreateTemplate = tencent_CreateTemplate api,
      scBatchQueryTemplateStatus = tencent_BatchQueryTemplateStatus api,
      scSend = tencent_Send api appID\<rparr>"

section \<open>Paging through a catalogue\<close>

text \<open>A service that holds the templates \<open>L\<close>, with different codes, and answers pages of fifty.\<close>

definition catalogue_law :: "'s aliyun_api \<Rightarrow> aliyun_template list \<Rightarrow> bool" where
  "catalogue_law api L \<longleftrightarrow> int (length L) < 2 ^ 31 \<and> distinct (map atTemplateCode L)
     \<and> list_all (\<lambda>t. atTemplateCode t \<noteq> None \<and> atAuditStatus t \<noteq> None) L
     \<and> (\<forall>page s. 1 \<le> page \<longrightarrow> run_state (alQuerySmsTemplateList api 50 page) s =
          ((Some \<lparr>aiCode = Some ''OK'', aiTemplates = take 50 (drop (50 * nat (page - 1)) L),
                  aiTotalCount = Some (int (length L))\<rparr>, None), s))"

definition aliyun_entry :: "aliyun_template \<Rightarrow> string \<times> QueryTemplateStatusResp" where
  "aliyun_entry t =
     (let code = the (atTemplateCode t) in
      (code, \<lparr>qtRequestID = code, qtTemplateID = code,
              qtAuditStatus = aliyun_getAuditStatus (the (atAuditStatus t)),
              qtReason = (case atRejectInfo t of Some (Some r) \<Rightarrow> r | _ \<Rightarrow> '''')\<rparr>))"

definition catalogue :: "string list \<Rightarrow> aliyun_template list \<Rightarrow> sms_results" where
  "catalogue requested L =
     map aliyun_entry (filter (\<lambda>t. the (atTemplateCode t) \<in> set requested) L)"

lemma catalogue_append: "catalogue req (xs @ ys) = catalogue req xs @ catalogue req ys"
  by (simp add: catalogue_def)

lemma keys_catalogue:
  "fst ` set (catalogue req xs) = {c \<in> set req. c \<in> the ` atTemplateCode ` set xs}"
  by (force simp: catalogue_def image_comp comp_def aliyun_entry_def Let_def)

lemma update_new_key: "k \<notin> fst ` set al \<Longrightarrow> AList.update k v al = al @ [(k, v)]"
  by (induction al) auto

lemma length_catalogue:
  assumes "distinct (map (\<lambda>t. the (atTemplateCode t)) xs)" "distinct req"
  shows "length (catalogue req xs) = length req \<longleftrightarrow> set req \<subseteq> the ` atTemplateCode ` set xs"
proof -
  have "distinct (map fst (catalogue req xs))"
    using assms(1) by (simp add: catalogue_def aliyun_entry_def Let_def comp_def distinct_map_filter)
  then have "length (catalogue req xs) = card (fst ` set (catalogue req xs))"
    by (metis distinct_card length_map set_map)
  moreover have "length req = card (set req)" using assms(2) by (simp add: distinct_card)
  moreover have "card {c \<in> set req. P c} = card (set req) \<longleftrightarrow> (\<forall>c \<in> set req. P c)" for P
  proof
    assume "card {c \<in> set req. P c} = card (set req)"
    then have "{c \<in> set req. P c} = set req" by (intro card_subset_eq) auto
    then show "\<forall>c \<in> set req. P c" by blast
  next
    assume "\<forall>c \<in> set req. P c"
    then have "{c \<in> set req. P c} = set req" by blast
    then show "card {c \<in> set req. P c} = card (set req)" by simp
  qed
  ultimately show ?thesis by (auto simp: keys_catalogue)
qed

lemma handleResponse_catalogue:
  assumes "list_all (\<lambda>t. atTemplateCode t \<noteq> None \<and> atAuditStatus t \<noteq> None) ts"
    and "distinct (map (\<lambda>t. the (atTemplateCode t)) (xs @ ts @ us))" "distinct req"
  shows "\<exists>b. aliyun_handleResponse ts req (catalogue req xs) = Some (catalogue req (xs @ ts), b)
    \<and> (b \<longrightarrow> catalogue req (xs @ ts @ us) = catalogue req (xs @ ts))"
  using assms(1,2)
proof (induction ts arbitrary: xs)
  case Nil
  show ?case by (intro exI [of _ False]) simp
next
  case (Cons t ts)
  from Cons.prems obtain code status where t: "atTemplateCode t = Some code" "atAuditStatus t = Some status"
    by auto
  from Cons.prems have dis: "distinct (map (\<lambda>t. the (atTemplateCode t)) ((xs @ [t]) @ ts @ us))" by simp
  from Cons.IH [OF _ dis] Cons.prems(1) obtain b where
    IH: "aliyun_handleResponse ts req (catalogue req (xs @ [t])) = Some (catalogue req (xs @ t # ts), b)"
    "b \<longrightarrow> catalogue req (xs @ t # ts @ us) = catalogue req (xs @ t # ts)" by auto
  show ?case
  proof (cases "code \<in> set req")
    case False
    then have "catalogue req (xs @ [t]) = catalogue req xs" using t by (simp add: catalogue_def)
    with False t IH show ?thesis by auto
  next
    case True
    have new: "code \<notin> fst ` set (catalogue req xs)"
      using dis t by (auto simp: keys_catalogue comp_def)
    have upd: "AList.update code (snd (aliyun_entry t)) (catalogue req xs) = catalogue req (xs @ [t])"
      using True t by (simp add: update_new_key [OF new]) (simp add: catalogue_def aliyun_entry_def Let_def)
    show ?thesis
    proof (cases "length (catalogue req (xs @ [t])) = length req")
      case all: True
      have "set req \<subseteq> the ` atTemplateCode ` set (xs @ [t])"
        using all dis by (subst length_catalogue [symmetric]) (simp_all add: assms(3))
      moreover have "the (atTemplateCode u) \<notin> the ` atTemplateCode ` set (xs @ [t])" if "u \<in> set (ts @ us)" for u
        using dis that by (fastforce simp: comp_def image_iff)
      ultimately have "catalogue req (ts @ us) = []"
        by (auto simp: catalogue_def filter_empty_conv)
      then have "catalogue req (xs @ t # ts @ us) = catalogue req (xs @ [t])"
        "catalogue req (xs @ t # ts) = catalogue req (xs @ [t])"
        using catalogue_append [of req "xs @ [t]" "ts @ us"] catalogue_append [of req "xs @ [t]" ts]
          catalogue_append [of req ts us] by auto
      with True t upd all show ?thesis by (intro exI [of _ True]) (simp add: aliyun_entry_def Let_def)
    next
      case False
      with True t upd IH show ?thesis by (simp add: aliyun_entry_def Let_def)
    qed
  qed
qed

lemma distinct_the:
  "list_all (\<lambda>x. f x \<noteq> None \<and> P x) xs \<Longrightarrow> distinct (map f xs) \<Longrightarrow> distinct (map (\<lambda>x. the (f x)) xs)"
  by (induction xs) (force simp: list_all_iff)+

lemma aliyun_pages_catalogue:
  assumes law: "catalogue_law api L" and req: "distinct req"
    and "1 \<le> page" "page = 1 \<or> 50 * (page - 1) < int (length L)"
  shows "aliyun_pages api req page (catalogue req (take (50 * nat (page - 1)) L)) s
    = (Some (catalogue req L, None), s)"
  using assms(3,4)
proof (induction "nat (2 ^ 31 - page)" arbitrary: page rule: less_induct)
  case less
  define k where "k = 50 * nat (page - 1)"
  define xs where "xs = take k L"
  define ts where "ts = take 50 (drop k L)"
  define us where "us = drop 50 (drop k L)"
  have L: "L = xs @ ts @ us" by (simp add: xs_def ts_def us_def del: drop_drop)
  have small: "int (length L) < 2 ^ 31" using law by (simp add: catalogue_law_def)
  with less.prems have w: "wrap32 page = page" by (intro wrap32_id) (auto simp: int32_range_def)
  from law less.prems(1) have q: "run_state (alQuerySmsTemplateList api 50 (wrap32 page)) s =
      ((Some \<lparr>aiCode = Some ''OK'', aiTemplates = ts, aiTotalCount = Some (int (length L))\<rparr>, None), s)"
    unfolding w ts_def k_def by (simp add: catalogue_law_def)
  have total: "wrap32 (int (length L)) = int (length L)"
    using small by (intro wrap32_id) (simp add: int32_range_def)
  have dis: "distinct (map (\<lambda>t. the (atTemplateCode t)) (xs @ ts @ us))"
    using law unfolding catalogue_law_def L [symmetric] by (intro distinct_the) auto
  have ok: "list_all (\<lambda>t. atTemplateCode t \<noteq> None \<and> atAuditStatus t \<noteq> None) ts"
    using law L by (auto simp: catalogue_law_def list_all_iff)
  obtain b where h: "aliyun_handleResponse ts req (catalogue req xs) = Some (catalogue req (xs @ ts), b)"
    and all: "b \<longrightarrow> catalogue req L = catalogue req (xs @ ts)"
    using handleResponse_catalogue [OF ok dis req] L by auto
  show ?case
  proof (cases "ts = []")
    case True
    then have "us = []" by (simp add: ts_def us_def)
    with True L have "xs = L" by simp
    with True q show ?thesis
      by (simp add: aliyun_pages.simps [of api req page] xs_def [symmetric] k_def [symmetric])
  next
    case ts: False
    show ?thesis
    proof (cases "b \<or> int (length L) \<le> page * 50")
      case True
      have "catalogue req (xs @ ts) = catalogue req L"
      proof (cases b)
        case False
        with True less.prems(1) have "us = []" by (simp add: us_def k_def)
        then show ?thesis using L by simp
      qed (use all in simp)
      with True ts q h total show ?thesis
        by (cases b) (simp_all add: aliyun_pages.simps [of api req page] xs_def [symmetric] k_def [symmetric])
    next
      case False
      have next_page: "take (50 * nat (page + 1 - 1)) L = xs @ ts"
        using less.prems(1) by (simp add: xs_def ts_def k_def take_add [symmetric] nat_diff_distrib algebra_simps)
      have "aliyun_pages api req (page + 1) (catalogue req (take (50 * nat (page + 1 - 1)) L)) s
          = (Some (catalogue req L, None), s)"
        using False less.prems(1) small by (intro less.hyps) auto
      with False ts q h total next_page show ?thesis
        by (simp add: aliyun_pages.simps [of api req page] xs_def [symmetric] k_def [symmetric])
    qed
  qed
qed

text \<open>C22. The paged query, with its early stop, answers exactly the templates of the catalogue that
  were asked for, each with the status and the reason of its entry, in the order of the
  catalogue, however many pages there are.\<close>

theorem Aliyun_query_complete:
  assumes "catalogue_law api L" "ids \<noteq> []"
  shows "run_state (scBatchQueryTemplateStatus (AliyunSMS api json) ids) s
    = (Some (map aliyun_entry (filter (\<lambda>t. the (atTemplateCode t) \<in> set ids) L), None), s)"
  using aliyun_pages_catalogue [OF assms(1), of "remdups ids" 1 s] assms(2)
  by (simp add: AliyunSMS_def aliyun_BatchQueryTemplateStatus_def catalogue_def)

text \<open>The pages of a list, as a service answers them.\<close>

definition demo_catalogue :: "aliyun_template list \<Rightarrow> 's aliyun_api" where
  "demo_catalogue L =
     \<lparr>alCreateSmsTemplate = \<lambda>_. io_return (None, None),
      alQuerySmsTemplateList = \<lambda>size page. io_return
        (Some \<lparr>aiCode = Some ''OK'', aiTemplates = take 50 (drop (50 * nat (page - 1)) L),
               aiTotalCount = Some (int (length L))\<rparr>, None),
      alSendSms = \<lambda>_ _ _ _. io_return (None, None)\<rparr>"

theorem Aliyun_query_complete_witness:
  "let t = \<lparr>atTemplateCode = Some ''SMS_1'', atAuditStatus = Some ''AUDIT_STATE_PASS'', atRejectInfo = None\<rparr>;
       u = t\<lparr>atTemplateCode := Some ''SMS_2''\<rparr>
   in run_state (scBatchQueryTemplateStatus (AliyunSMS (demo_catalogue [u, t]) (\<lambda>_. '''')) [''SMS_1'']) ()
      = (Some ([(''SMS_1'', \<lparr>qtRequestID = ''SMS_1'', qtTemplateID = ''SMS_1'',
                  qtAuditStatus = SmsAuditApproved, qtReason = ''''\<rparr>)], None), ())"
proof -
  let ?t = "\<lparr>atTemplateCode = Some ''SMS_1'', atAuditStatus = Some ''AUDIT_STATE_PASS'', atRejectInfo = None\<rparr>"
  have "catalogue_law (demo_catalogue [?t\<lparr>atTemplateCode := Some ''SMS_2''\<rparr>, ?t])
    [?t\<lparr>atTemplateCode := Some ''SMS_2''\<rparr>, ?t]"
    by (simp add: catalogue_law_def demo_catalogue_def)
  from Aliyun_query_complete [OF this, of "[''SMS_1'']" "\<lambda>_. ''''" "()"]
  show ?thesis by (simp add: Let_def aliyun_entry_def aliyun_getAuditStatus_def)
qed

lemma aliyun_pages_requests:
  assumes "\<And>size p s. cnt (snd (run_state (alQuerySmsTemplateList api size p) s)) = cnt s + (1 :: int)"
    and "1 \<le> page" "page \<le> 42949673"
  shows "cnt (snd (aliyun_pages api req page results s)) + page \<le> cnt s + 42949674"
  using assms
proof (induction api req page results s rule: aliyun_pages.induct)
  case (1 api req page results s)
  obtain body err s1 where q: "run_state (alQuerySmsTemplateList api 50 (wrap32 page)) s = ((body, err), s1)"
    by (metis prod.collapse)
  with 1(2) [of 50 "wrap32 page" s] have c: "cnt s1 = cnt s + 1" by simp
  show ?case
  proof (cases "\<exists>b res. err = None \<and> body = Some b \<and> \<not> (aiCode b = None \<or> \<not> EqualFold_OK (the (aiCode b)))
      \<and> aiTemplates b \<noteq> [] \<and> aliyun_handleResponse (aiTemplates b) req results = Some (res, False)
      \<and> \<not> (case aiTotalCount b of Some n \<Rightarrow> wrap32 n | None \<Rightarrow> 0) \<le> page * 50")
    case False
    then have "snd (aliyun_pages api req page results s) = s1"
      using q by (subst aliyun_pages.simps) (auto split: option.splits bool.splits)
    with c 1(4) show ?thesis by simp
  next
    case True
    then obtain b res where b: "err = None" "body = Some b"
      "\<not> (aiCode b = None \<or> \<not> EqualFold_OK (the (aiCode b)))" "aiTemplates b \<noteq> []"
      "aliyun_handleResponse (aiTemplates b) req results = Some (res, False)"
      and more: "\<not> (case aiTotalCount b of Some n \<Rightarrow> wrap32 n | None \<Rightarrow> 0) \<le> page * 50" by blast
    have "(case aiTotalCount b of Some n \<Rightarrow> wrap32 n | None \<Rightarrow> 0) < 2 ^ 31"
      using wrap32_range by (simp add: int32_range_def split: option.splits)
    with more have "page * 50 < 2 ^ 31" by simp
    then have p: "page + 1 \<le> 42949673" by simp
    moreover have "aliyun_pages api req page results s = aliyun_pages api req (page + 1) res s1"
      using q b more by (subst aliyun_pages.simps) (auto simp: Let_def)
    moreover have "cnt (snd (aliyun_pages api req (page + 1) res s1)) + (page + 1) \<le> cnt s1 + 42949674"
      using q b more 1(2,3) p by (intro 1(1)) (simp_all add: Let_def)
    ultimately show ?thesis using c by simp
  qed
qed

text \<open>The paging loop ends against every service, whatever it answers: the number of templates it
  can report is an \<^verbatim>\<open>int32\<close>, so that one query asks for at most 42949673 pages.\<close>

theorem Aliyun_query_terminates:
  assumes "\<And>size p s. cnt (snd (run_state (alQuerySmsTemplateList api size p) s)) = cnt s + (1 :: int)"
  shows "cnt (snd (run_state (scBatchQueryTemplateStatus (AliyunSMS api json) ids) s)) \<le> cnt s + 42949673"
  using aliyun_pages_requests [where cnt = cnt, OF assms, of 1 "remdups ids" "[]" s]
  by (simp add: AliyunSMS_def aliyun_BatchQueryTemplateStatus_def)

text \<open>A service that counts its requests and never has what is asked for.\<close>

definition endless_catalogue :: "int aliyun_api" where
  "endless_catalogue =
     \<lparr>alCreateSmsTemplate = \<lambda>_. io_return (None, None),
      alQuerySmsTemplateList = \<lambda>size page. do {
        n \<leftarrow> State_Monad.get;
        _ \<leftarrow> State_Monad.set (n + 1);
        io_return (Some \<lparr>aiCode = Some ''OK'',
          aiTemplates = [\<lparr>atTemplateCode = Some ''SMS_0'', atAuditStatus = None, atRejectInfo = None\<rparr>],
          aiTotalCount = Some (2 ^ 31 - 1)\<rparr>, None)
      },
      alSendSms = \<lambda>_ _ _ _. io_return (None, None)\<rparr>"

theorem Aliyun_query_terminates_witness:
  "snd (run_state (scBatchQueryTemplateStatus (AliyunSMS endless_catalogue (\<lambda>_. '''')) [''SMS_1'']) 0)
     \<le> 42949673"
  using Aliyun_query_terminates [where cnt = id and api = endless_catalogue and json = "\<lambda>_. ''''"
      and ids = "[''SMS_1'']" and s = 0]
  by (simp add: endless_catalogue_def State_Monad.get_def State_Monad.set_def)

text \<open>Tencent Cloud is asked for twice as many templates, the first half of them nil.\<close>

lemma length_those: "those xs = Some ys \<Longrightarrow> length ys = length xs"
  by (induction xs arbitrary: ys) (auto split: option.splits)

lemma tencent_id_set_nil:
  "tencent_id_set ids = Some xs \<Longrightarrow>
   length xs = 2 * length ids \<and> take (length ids) xs = replicate (length ids) None"
  by (auto simp: tencent_id_set_def dest: length_those)

lemma full_phone_clean:
  "\<not> HasPrefix phone ''+'' \<Longrightarrow> TrimPrefix (full_phone phone) ''+86'' = phone"
  unfolding full_phone_def by (simp only: TrimPrefix_append if_True not_False_eq_True)

end
