(* ===== verification/TemplateService.thy ===== *)
theory TemplateService
  imports TemplateDao ProviderRepo SmsClient
begin

text \<open>
  The management of templates, \<^verbatim>\<open>internal/service/template/manage/manage.go\<close>, with the service it
  hands audits to (\<^verbatim>\<open>internal/service/audit/audit.go\<close>) and the SMS provider that sends with a
  template (\<^verbatim>\<open>internal/service/provider/sms/provider.go\<close>). The result \<open>None\<close> of an operation is a
  panic. Marshalling the content of an audit and the orders in which Go walks through the maps of
  channels and names are parameters.
\<close>

section \<open>Audits\<close>

record AuditContent =
  acOwnerID :: int64
  acOwnerType :: string
  acName :: string
  acDescription :: string
  acChannel :: string
  acBusinessType :: string
  acVersion :: string
  acSignature :: string
  acContent :: string
  acRemark :: string
  acProviderNames :: "string list"

record Audit =
  auResourceID :: int64
  auResourceType :: string
  auContent :: string

definition ResourceTypeTemplate :: string where "ResourceTypeTemplate = ''Template''"

type_synonym 's AuditService = "Audit \<Rightarrow> ('s, int64 ret option) io"

text \<open>The only implementation panics.\<close>

definition audit_CreateAudit :: "'s AuditService" where
  "audit_CreateAudit req = io_return None"

text \<open>Texts outside ASCII, as the bytes of the source.\<close>

definition utf8 :: "nat list \<Rightarrow> string" where
  "utf8 bytes = map char_of bytes"

definition BusinessType_String :: "BusinessType \<Rightarrow> string" where
  "BusinessType_String b =
     (if b = BusinessTypePromotion then utf8 [230, 142, 168, 229, 185, 191, 232, 144, 165, 233, 148, 128]
      else if b = BusinessTypeNotification then utf8 [233, 128, 154, 231, 159, 165]
      else if b = BusinessTypeVerificationCode then utf8 [233, 170, 140, 232, 175, 129, 231, 160, 129]
      else utf8 [230, 156, 170, 231, 159, 165, 231, 177, 187, 229, 158, 139])"

section \<open>The service\<close>

record 's templateService =
  tplRepo :: "'s ChannelTemplateRepository"
  tplProviderSvc :: "'s ProviderService"
  tplAuditSvc :: "'s AuditService"
  tplSmsClients :: "string \<Rightarrow> 's SmsClient option"
  tplNow :: "('s, gtime) io"
  tplMarshal :: "AuditContent \<Rightarrow> string ret"
  tplOrder :: "string list \<Rightarrow> string list"

definition ts_GetTemplatesByOwner ::
  "'s templateService \<Rightarrow> int64 \<Rightarrow> OwnerType \<Rightarrow> ('s, ChannelTemplate list ret) io" where
  "ts_GetTemplatesByOwner t ownerID ownerType =
     (if ownerID \<le> 0 then io_return ([], Some invalid_parameter)
      else if \<not> OwnerType_IsValid ownerType then io_return ([], Some invalid_parameter)
      else do {
        (templates, err) \<leftarrow> ctrGetTemplatesByOwner (tplRepo t) ownerID ownerType;
        io_return (case err of Some e \<Rightarrow> ([], Some (Wrap [e])) | None \<Rightarrow> (templates, None))
      })"

definition ts_GetTemplateByIDAndProviderInfo ::
  "'s templateService \<Rightarrow> int64 \<Rightarrow> string \<Rightarrow> Channel \<Rightarrow> ('s, ChannelTemplate ret) io" where
  "ts_GetTemplateByIDAndProviderInfo t templateID providerName channel = do {
     (template, err) \<leftarrow> ctrGetTemplateByID (tplRepo t) templateID;
     case err of
       Some e \<Rightarrow> io_return (zero_ChannelTemplate, Some e)
     | None \<Rightarrow>
         if ctID template = 0 then io_return (zero_ChannelTemplate, Some (Err ErrTemplateNotFound))
         else do {
           (version, err) \<leftarrow> ctrGetTemplateVersionByID (tplRepo t) (ctActiveVersionID template);
           case err of
             Some e \<Rightarrow> io_return (zero_ChannelTemplate, Some e)
           | None \<Rightarrow>
               if cvAuditStatus version \<noteq> AuditStatusApproved
               then io_return (zero_ChannelTemplate, Some (Wrap [Err ErrTemplateVersionNotApprovedByPlatform]))
               else do {
                 (providers, err) \<leftarrow> ctrGetProviderByNameAndChannel (tplRepo t) templateID
                   (cvId version) providerName channel;
                 io_return (case err of
                     Some e \<Rightarrow> (zero_ChannelTemplate, Some e)
                   | None \<Rightarrow>
                       if providers = [] then (zero_ChannelTemplate, Some (Wrap [Err ErrTemplateNotFound]))
                       else (template\<lparr>ctVersions := [version\<lparr>cvProviders := providers\<rparr>]\<rparr>, None))
               }
         }
   }"

text \<open>The placeholder texts of a new version.\<close>

definition default_version :: "int64 \<Rightarrow> ChannelTemplateVersion" where
  "default_version templateID =
     zero_ChannelTemplateVersion
       \<lparr>cvChannelTemplateID := templateID,
        cvName := utf8 [231, 137, 136, 230, 156, 172, 229, 144, 141, 231, 167, 176, 239, 188, 140,
          230, 175, 148, 229, 166, 130] @ ''v1.0.0'',
        cvSignature := utf8 [230, 143, 144, 229, 137, 141, 233, 133, 141, 231, 189, 174, 229, 165, 189,
          231, 154, 132, 229, 143, 175, 231, 148, 168, 231, 154, 132, 231, 159, 173, 228, 191, 161, 231,
          173, 190, 229, 144, 141, 230, 136, 150, 232, 128, 133] @ ''Email''
          @ utf8 [230, 148, 182, 228, 187, 182, 228, 186, 186],
        cvContent := utf8 [230, 168, 161, 231, 137, 136, 229, 143, 152, 233, 135, 143, 228, 189, 191, 231,
          148, 168] @ ''${code}'' @ utf8 [230, 160, 188, 229, 188, 143, 239, 188, 140, 228, 185, 159, 229,
          143, 175, 228, 187, 165, 230, 178, 161, 230, 156, 137, 229, 143, 152, 233, 135, 143],
        cvRemark := utf8 [230, 168, 161, 231, 137, 136, 228, 189, 191, 231, 148, 168, 229, 156, 186, 230,
          153, 175, 230, 136, 150, 232, 128, 133, 231, 148, 168, 233, 128, 148, 232, 175, 180, 230, 152,
          142, 239, 188, 140, 230, 156, 137, 229, 136, 169, 228, 186, 142, 228, 190, 155, 229, 186, 148,
          229, 149, 134, 229, 174, 161, 230, 160, 184, 233, 128, 154, 232, 191, 135]\<rparr>"

definition new_template_provider :: "int64 \<Rightarrow> int64 \<Rightarrow> Provider \<Rightarrow> ChannelTemplateProvider" where
  "new_template_provider templateID versionID p =
     zero_ChannelTemplateProvider
       \<lparr>cpTemplateID := templateID, cpTemplateVersionID := versionID, cpProviderID := pID p,
        cpProviderName := pName p, cpProviderChannel := pChannel p\<rparr>"

definition create_template_failed :: "gerr list \<Rightarrow> ChannelTemplate ret" where
  "create_template_failed es = (zero_ChannelTemplate, Some (Wrap (Err ErrCreateTemplateFailed # es)))"

definition ts_CreateTemplate ::
  "'s templateService \<Rightarrow> ChannelTemplate \<Rightarrow> ('s, ChannelTemplate ret) io" where
  "ts_CreateTemplate t template0 =
     (case Template_Validate template0 of
        Some e \<Rightarrow> io_return (zero_ChannelTemplate, Some e)
      | None \<Rightarrow> do {
          let template = template0\<lparr>ctActiveVersionID := 0\<rparr>;
          (created, err) \<leftarrow> ctrCreateTemplate (tplRepo t) template;
          case err of
            Some e \<Rightarrow> io_return (create_template_failed [e])
          | None \<Rightarrow> do {
              (createdVersion, err) \<leftarrow> ctrCreateTemplateVersion (tplRepo t) (default_version (ctID created));
              case err of
                Some e \<Rightarrow> io_return (create_template_failed [e])
              | None \<Rightarrow> do {
                  (providers, err) \<leftarrow> psGetByChannel (tplProviderSvc t) (ctChannel template);
                  case err of
                    Some e \<Rightarrow> io_return (create_template_failed [e])
                  | None \<Rightarrow>
                      if providers = [] then io_return (create_template_failed [])
                      else do {
                        (createdProviders, err) \<leftarrow> ctrBatchCreateTemplateProviders (tplRepo t)
                          (map (new_template_provider (ctID created) (cvId createdVersion)) providers);
                        io_return (case err of
                            Some e \<Rightarrow> create_template_failed [e]
                          | None \<Rightarrow> (created\<lparr>ctVersions := [createdVersion
                              \<lparr>cvProviders := createdProviders\<rparr>]\<rparr>, None))
                      }
                }
            }
        })"

definition ts_UpdateTemplate :: "'s templateService \<Rightarrow> ChannelTemplate \<Rightarrow> ('s, gerr option) io" where
  "ts_UpdateTemplate t template =
     (if ctName template = '''' then io_return (Some invalid_parameter)
      else if ctDescription template = '''' then io_return (Some invalid_parameter)
      else if \<not> BusinessType_IsValid (ctBusinessType template) then io_return (Some invalid_parameter)
      else do {
        err \<leftarrow> ctrUpdateTemplate (tplRepo t) template;
        io_return (case err of Some e \<Rightarrow> Some (Wrap [Err ErrUpdateTemplateFailed, e]) | None \<Rightarrow> None)
      })"

definition ts_PublishTemplate :: "'s templateService \<Rightarrow> int64 \<Rightarrow> int64 \<Rightarrow> ('s, gerr option) io" where
  "ts_PublishTemplate t templateID versionID =
     (if templateID \<le> 0 then io_return (Some invalid_parameter)
      else if versionID \<le> 0 then io_return (Some invalid_parameter)
      else do {
        (version, err) \<leftarrow> ctrGetTemplateVersionByID (tplRepo t) versionID;
        case err of
          Some e \<Rightarrow> io_return (Some e)
        | None \<Rightarrow>
            if cvChannelTemplateID version \<noteq> templateID
            then io_return (Some (Wrap [Err ErrInvalidParameter, Err ErrTemplateAndVersionMisMatch]))
            else if cvAuditStatus version \<noteq> AuditStatusApproved
            then io_return (Some (Wrap [Err ErrInvalidParameter, Err ErrTemplateVersionNotApprovedByPlatform]))
            else do {
              (providers, err) \<leftarrow> ctrGetApprovedProviders (tplRepo t) templateID versionID;
              case err of
                Some e \<Rightarrow> io_return (Some e)
              | None \<Rightarrow>
                  if providers = [] then io_return (Some (Wrap [Err ErrTemplateVersionNotApprovedByPlatform]))
                  else do {
                    err \<leftarrow> ctrSetTemplateActiveVersion (tplRepo t) templateID versionID;
                    io_return (case err of Some e \<Rightarrow> Some (Wrap [e]) | None \<Rightarrow> None)
                  }
            }
      })"

definition ts_UpdateVersion :: "'s templateService \<Rightarrow> ChannelTemplateVersion \<Rightarrow> ('s, gerr option) io" where
  "ts_UpdateVersion t version =
     (if cvId version \<le> 0 then io_return (Some invalid_parameter)
      else do {
        (current, err) \<leftarrow> ctrGetTemplateVersionByID (tplRepo t) (cvId version);
        case err of
          Some e \<Rightarrow> io_return (Some (Wrap [Err ErrUpdateTemplateVersionFailed, e]))
        | None \<Rightarrow>
            if cvAuditStatus current \<noteq> AuditStatusPending \<and> cvAuditStatus current \<noteq> AuditStatusRejected
            then io_return (Some (Wrap [Err ErrUpdateTemplateVersionFailed, Err ErrInvalidOperation]))
            else do {
              err \<leftarrow> ctrUpdateTemplateVersion (tplRepo t)
                (zero_ChannelTemplateVersion\<lparr>cvId := cvId version, cvName := cvName version,
                   cvSignature := cvSignature version, cvContent := cvContent version,
                   cvRemark := cvRemark version\<rparr>);
              io_return (case err of
                  Some e \<Rightarrow> Some (Wrap [Err ErrUpdateTemplateVersionFailed, e]) | None \<Rightarrow> None)
            }
      })"

definition audit_content ::
  "ChannelTemplate \<Rightarrow> ChannelTemplateVersion \<Rightarrow> ChannelTemplateProvider list \<Rightarrow> AuditContent" where
  "audit_content template version providers =
     \<lparr>acOwnerID = ctOwnerID template, acOwnerType = ctOwnerType template, acName = ctName template,
      acDescription = ctDescription template, acChannel = ctChannel template,
      acBusinessType = BusinessType_String (ctBusinessType template), acVersion = cvName version,
      acSignature = cvSignature version, acContent = cvContent version, acRemark = cvRemark version,
      acProviderNames = map cpProviderName providers\<rparr>"

definition getJSONAuditContent ::
  "'s templateService \<Rightarrow> ChannelTemplate \<Rightarrow> ChannelTemplateVersion \<Rightarrow> ChannelTemplateProvider list
     \<Rightarrow> string ret" where
  "getJSONAuditContent t template version providers =
     (case tplMarshal t (audit_content template version providers) of
        (_, Some e) \<Rightarrow> ('''', Some (Wrap [e])) | (b, None) \<Rightarrow> (b, None))"

definition internal_review_failed :: "gerr \<Rightarrow> gerr option option" where
  "internal_review_failed e = Some (Some (Wrap [Err ErrSubmitVersionForInternalReviewFailed, e]))"

definition ts_SubmitForInternalReview :: "'s templateService \<Rightarrow> int64 \<Rightarrow> ('s, gerr option option) io" where
  "ts_SubmitForInternalReview t versionID =
     (if versionID \<le> 0 then io_return (Some (Some invalid_parameter))
      else do {
        (version, err) \<leftarrow> ctrGetTemplateVersionByID (tplRepo t) versionID;
        case err of
          Some e \<Rightarrow> io_return (internal_review_failed e)
        | None \<Rightarrow>
            if cvAuditStatus version = AuditStatusInReview \<or> cvAuditStatus version = AuditStatusApproved
            then io_return (Some None)
            else do {
              (template, err) \<leftarrow> ctrGetTemplateByID (tplRepo t) (cvChannelTemplateID version);
              case err of
                Some e \<Rightarrow> io_return (internal_review_failed e)
              | None \<Rightarrow> do {
                  (providers, err) \<leftarrow> ctrGetProviders (tplRepo t) (ctID template) (cvId version);
                  case err of
                    Some e \<Rightarrow> io_return (internal_review_failed e)
                  | None \<Rightarrow>
                      (case getJSONAuditContent t template version providers of
                         (_, Some e) \<Rightarrow> io_return (internal_review_failed e)
                       | (content, None) \<Rightarrow> do {
                           r \<leftarrow> tplAuditSvc t \<lparr>auResourceID = cvId version,
                             auResourceType = ResourceTypeTemplate, auContent = content\<rparr>;
                           case r of
                             None \<Rightarrow> io_return None
                           | Some (_, Some e) \<Rightarrow> io_return (internal_review_failed e)
                           | Some (auditID, None) \<Rightarrow> do {
                               now \<leftarrow> tplNow t;
                               err \<leftarrow> ctrBatchUpdateTemplateVersionAuditInfo (tplRepo t)
                                 [zero_ChannelTemplateVersion\<lparr>cvId := cvId version, cvAuditId := auditID,
                                    cvAuditStatus := AuditStatusInReview,
                                    cvLastReviewSubmissionTime := time_Unix_seconds now\<rparr>];
                               io_return (case err of
                                   Some e \<Rightarrow> internal_review_failed e | None \<Rightarrow> Some None)
                             }
                         })
                }
            }
      })"

definition ts_BatchUpdateVersionAuditStatus ::
  "'s templateService \<Rightarrow> ChannelTemplateVersion list \<Rightarrow> ('s, gerr option) io" where
  "ts_BatchUpdateVersionAuditStatus t versions =
     (if versions = [] then io_return None
      else do {
        err \<leftarrow> ctrBatchUpdateTemplateVersionAuditInfo (tplRepo t) versions;
        io_return (case err of
            Some e \<Rightarrow> Some (Wrap [Err ErrUpdateTemplateVersionAuditStatusFailed, e]) | None \<Rightarrow> None)
      })"

section \<open>The review by the providers\<close>

text \<open>The expression \<^verbatim>\<open>\$\{[^}]+\}\<close> at the start of a text: what follows the match.\<close>

definition match_placeholder :: "string \<Rightarrow> string option" where
  "match_placeholder s =
     (case s of
        c # d # rest \<Rightarrow>
          if c = CHR ''$'' \<and> d = CHR ''{'' then
            (case (takeWhile (\<lambda>x. x \<noteq> CHR ''}'') rest, dropWhile (\<lambda>x. x \<noteq> CHR ''}'') rest) of
               (name, _ # rest') \<Rightarrow> if name \<noteq> [] then Some rest' else None
             | _ \<Rightarrow> None)
          else None
      | _ \<Rightarrow> None)"

lemma match_placeholder_length: "match_placeholder s = Some rest \<Longrightarrow> length rest < length s"
proof -
  assume "match_placeholder s = Some rest"
  then obtain c d xs e where "s = c # d # xs" "dropWhile (\<lambda>x. x \<noteq> CHR ''}'') xs = e # rest"
    by (auto simp: match_placeholder_def split: list.splits if_splits)
  moreover have "length (dropWhile P xs) \<le> length xs" for P :: "char \<Rightarrow> bool" and xs
    by (rule length_dropWhile_le)
  ultimately show ?thesis by (metis length_Cons less_Suc_eq_le less_SucI not_less_eq_eq)
qed

function replace_all :: "nat \<Rightarrow> string \<Rightarrow> string" where
  "replace_all counter [] = []"
| "replace_all counter (c # cs) =
     (case match_placeholder (c # cs) of
        Some rest \<Rightarrow> ''{'' @ format_nat (counter + 1) @ ''}'' @ replace_all (counter + 1) rest
      | None \<Rightarrow> c # replace_all counter cs)"
  by pat_completeness auto
termination
  by (relation "measure (length \<circ> snd)") (auto dest: match_placeholder_length)

definition replacePlaceholders :: "string \<Rightarrow> ChannelTemplateProvider \<Rightarrow> string" where
  "replacePlaceholders content provider =
     (if cpProviderName provider \<noteq> ''tencentcloud'' then content else replace_all 0 content)"

definition getSMSClient :: "'s templateService \<Rightarrow> string \<Rightarrow> 's SmsClient option" where
  "getSMSClient t providerName = tplSmsClients t providerName"

definition provider_review_failed :: "gerr \<Rightarrow> gerr option option" where
  "provider_review_failed e = Some (Some (Wrap [Err ErrSubmitVersionForProviderReviewFailed, e]))"

definition ts_submit ::
  "'s templateService \<Rightarrow> ChannelTemplate \<Rightarrow> ChannelTemplateVersion \<Rightarrow> ChannelTemplateProvider
     \<Rightarrow> ('s, gerr option option) io" where
  "ts_submit t template version provider =
     (if cpProviderChannel provider \<noteq> ChannelSMS then io_return (Some None)
      else (case getSMSClient t (cpProviderName provider) of
              None \<Rightarrow> io_return (provider_review_failed (Ext ''no client''))
            | Some cli \<Rightarrow> do {
                r \<leftarrow> scCreateTemplate cli
                  \<lparr>cqTemplateName = cvName version,
                   cqTemplateContent = replacePlaceholders (cvContent version) provider,
                   cqTemplateType = wrap32 (ctBusinessType template), cqRemark = cvRemark version\<rparr>;
                case r of
                  None \<Rightarrow> io_return None
                | Some (_, Some e) \<Rightarrow> io_return (provider_review_failed e)
                | Some (resp, None) \<Rightarrow> do {
                    now \<leftarrow> tplNow t;
                    err \<leftarrow> ctrUpdateTemplateProviderAuditInfo (tplRepo t)
                      (zero_ChannelTemplateProvider\<lparr>cpID := cpID provider, cpRequestID := cpsRequestID resp,
                         cpProviderTemplateID := cpsTemplateID resp, cpAuditStatus := AuditStatusInReview,
                         cpLastReviewSubmissionTime := time_Unix_seconds now\<rparr>);
                    io_return (case err of Some e \<Rightarrow> provider_review_failed e | None \<Rightarrow> Some None)
                  }
              }))"

text \<open>Loops that drop the errors of their body and end with a panic only.\<close>

fun for_each_ignoring :: "('a \<Rightarrow> ('s, gerr option option) io) \<Rightarrow> 'a list \<Rightarrow> ('s, gerr option option) io" where
  "for_each_ignoring f [] = io_return (Some None)"
| "for_each_ignoring f (x # xs) = do {
     r \<leftarrow> f x;
     case r of None \<Rightarrow> io_return None | Some _ \<Rightarrow> for_each_ignoring f xs
   }"

definition ts_submitForProviderReview :: "'s templateService \<Rightarrow> int64 \<Rightarrow> ('s, gerr option option) io" where
  "ts_submitForProviderReview t versionID = do {
     (version, err) \<leftarrow> ctrGetTemplateVersionByID (tplRepo t) versionID;
     case err of
       Some e \<Rightarrow> io_return (Some (Some e))
     | None \<Rightarrow> do {
         (template, err) \<leftarrow> ctrGetTemplateByID (tplRepo t) (cvChannelTemplateID version);
         case err of
           Some e \<Rightarrow> io_return (provider_review_failed e)
         | None \<Rightarrow> do {
             (providers, err) \<leftarrow> ctrGetProviders (tplRepo t) (ctID template) versionID;
             case err of
               Some e \<Rightarrow> io_return (provider_review_failed e)
             | None \<Rightarrow> for_each_ignoring
                 (\<lambda>p. if cpAuditStatus p = AuditStatusPending \<or> cpAuditStatus p = AuditStatusRejected
                       then ts_submit t template version p else io_return (Some None)) providers
           }
       }
   }"

definition ts_BatchSubmitForProviderReview ::
  "'s templateService \<Rightarrow> int64 list \<Rightarrow> ('s, gerr option option) io" where
  "ts_BatchSubmitForProviderReview t versionIDs =
     for_each_ignoring (ts_submitForProviderReview t) versionIDs"

definition status_update_failed :: "gerr \<Rightarrow> gerr option option" where
  "status_update_failed e = Some (Some (Wrap [Err ErrUpdateTemplateProviderAuditStatusFailed, e]))"

text \<open>The last provider with an identifier stays in the map; a status without a provider is left
  out.\<close>

definition audit_updates ::
  "ChannelTemplateProvider list \<Rightarrow> sms_results \<Rightarrow> ChannelTemplateProvider list" where
  "audit_updates providers results =
     (let providerMap = map_of (rev (map (\<lambda>p. (cpProviderTemplateID p, p)) providers)) in
      List.map_filter (\<lambda>(_, r). map_option (\<lambda>p. p\<lparr>cpRequestID := qtRequestID r,
          cpAuditStatus := AuditStatus_ToDomain (qtAuditStatus r), cpRejectReason := qtReason r\<rparr>)
        (providerMap (qtTemplateID r))) results)"

definition batchQueryAndUpdateSMSProvidersAuditInfo ::
  "'s templateService \<Rightarrow> ChannelTemplateProvider list \<Rightarrow> ('s, gerr option option) io" where
  "batchQueryAndUpdateSMSProvidersAuditInfo t providers =
     (case getSMSClient t (cpProviderName (hd providers)) of
        None \<Rightarrow> io_return (status_update_failed (Ext ''no client''))
      | Some cli \<Rightarrow> do {
          r \<leftarrow> scBatchQueryTemplateStatus cli (map cpProviderTemplateID providers);
          case r of
            None \<Rightarrow> io_return None
          | Some (_, Some e) \<Rightarrow> io_return (status_update_failed e)
          | Some (results, None) \<Rightarrow> do {
              err \<leftarrow> ctrBatchUpdateTemplateProvidersAuditInfo (tplRepo t) (audit_updates providers results);
              io_return (Some err)
            }
        })"

text \<open>A loop that ends with the first error or panic.\<close>

fun for_until_panic :: "('a \<Rightarrow> ('s, gerr option option) io) \<Rightarrow> 'a list \<Rightarrow> ('s, gerr option option) io" where
  "for_until_panic f [] = io_return (Some None)"
| "for_until_panic f (x # xs) = do {
     r \<leftarrow> f x;
     case r of
       None \<Rightarrow> io_return None
     | Some (Some e) \<Rightarrow> io_return (Some (Some e))
     | Some None \<Rightarrow> for_until_panic f xs
   }"

text \<open>\<open>groupedProviders\<close>: the channels, the names within a channel, and the providers of a group in
  their order.\<close>

definition group_channels :: "ChannelTemplateProvider list \<Rightarrow> Channel list" where
  "group_channels ps = remdups (map cpProviderChannel ps)"

definition group_names :: "ChannelTemplateProvider list \<Rightarrow> Channel \<Rightarrow> string list" where
  "group_names ps channel = remdups (map cpProviderName (filter (\<lambda>p. cpProviderChannel p = channel) ps))"

definition group_of ::
  "ChannelTemplateProvider list \<Rightarrow> Channel \<Rightarrow> string \<Rightarrow> ChannelTemplateProvider list" where
  "group_of ps channel name =
     filter (\<lambda>p. cpProviderChannel p = channel \<and> cpProviderName p = name) ps"

definition ts_BatchQueryAndUpdateProviderAuditInfo ::
  "'s templateService \<Rightarrow> ChannelTemplateProvider list \<Rightarrow> ('s, gerr option option) io" where
  "ts_BatchQueryAndUpdateProviderAuditInfo t providers =
     (if providers = [] then io_return (Some None)
      else for_until_panic
        (\<lambda>channel. for_until_panic
          (\<lambda>name. if Channel_IsSMS channel
                  then batchQueryAndUpdateSMSProvidersAuditInfo t (group_of providers channel name)
                  else io_return (Some None))
          (tplOrder t (group_names providers channel)))
        (tplOrder t (group_channels providers)))"

record 's ChannelTemplateService =
  ctsGetTemplatesByOwner :: "int64 \<Rightarrow> OwnerType \<Rightarrow> ('s, ChannelTemplate list ret) io"
  ctsGetTemplateByIDAndProviderInfo :: "int64 \<Rightarrow> string \<Rightarrow> Channel \<Rightarrow> ('s, ChannelTemplate ret) io"
  ctsGetTemplateByID :: "int64 \<Rightarrow> ('s, ChannelTemplate ret) io"
  ctsCreateTemplate :: "ChannelTemplate \<Rightarrow> ('s, ChannelTemplate ret) io"
  ctsUpdateTemplate :: "ChannelTemplate \<Rightarrow> ('s, gerr option) io"
  ctsPublishTemplate :: "int64 \<Rightarrow> int64 \<Rightarrow> ('s, gerr option) io"
  ctsForkVersion :: "int64 \<Rightarrow> ('s, ChannelTemplateVersion ret) io"
  ctsUpdateVersion :: "ChannelTemplateVersion \<Rightarrow> ('s, gerr option) io"
  ctsSubmitForInternalReview :: "int64 \<Rightarrow> ('s, gerr option option) io"
  ctsBatchUpdateVersionAuditStatus :: "ChannelTemplateVersion list \<Rightarrow> ('s, gerr option) io"
  ctsBatchSubmitForProviderReview :: "int64 list \<Rightarrow> ('s, gerr option option) io"
  ctsGetPendingOrInReviewProviders ::
    "int64 \<Rightarrow> int64 \<Rightarrow> int64 \<Rightarrow> ('s, ChannelTemplateProvider list \<times> int64 \<times> gerr option) io"
  ctsBatchQueryAndUpdateProviderAuditInfo ::
    "ChannelTemplateProvider list \<Rightarrow> ('s, gerr option option) io"

definition NewTemplateService :: "'s templateService \<Rightarrow> 's ChannelTemplateService" where
  "NewTemplateService t =
     \<lparr>ctsGetTemplatesByOwner = ts_GetTemplatesByOwner t,
      ctsGetTemplateByIDAndProviderInfo = ts_GetTemplateByIDAndProviderInfo t,
      ctsGetTemplateByID = ctrGetTemplateByID (tplRepo t), ctsCreateTemplate = ts_CreateTemplate t,
      ctsUpdateTemplate = ts_UpdateTemplate t, ctsPublishTemplate = ts_PublishTemplate t,
      ctsForkVersion = ctrForkTemplateVersion (tplRepo t), ctsUpdateVersion = ts_UpdateVersion t,
      ctsSubmitForInternalReview = ts_SubmitForInternalReview t,
      ctsBatchUpdateVersionAuditStatus = ts_BatchUpdateVersionAuditStatus t,
      ctsBatchSubmitForProviderReview = ts_BatchSubmitForProviderReview t,
      ctsGetPendingOrInReviewProviders = ctrGetPendingOrInReviewProviders (tplRepo t),
      ctsBatchQueryAndUpdateProviderAuditInfo = ts_BatchQueryAndUpdateProviderAuditInfo t\<rparr>"

section \<open>Sending with a template\<close>

record 's smsProvider =
  spName :: string
  spTemplateSvc :: "'s ChannelTemplateService"
  spClient :: "'s SmsClient"

definition smsProvider_Send :: "'s smsProvider \<Rightarrow> Notification \<Rightarrow> ('s, SendResponse ret option) io" where
  "smsProvider_Send p n = do {
     (tmpl, err) \<leftarrow> ctsGetTemplateByIDAndProviderInfo (spTemplateSvc p) (tID (nTemplate n)) (spName p) ChannelSMS;
     if err \<noteq> None then io_return (Some (zero_SendResponse, Some (Err ErrSendNotificationFailed)))
     else (case ActiveVersion tmpl of
             None \<Rightarrow> io_return (Some (zero_SendResponse, Some (Wrap [Err ErrSendNotificationFailed])))
           | Some version \<Rightarrow>
               (case cvProviders version of
                  [] \<Rightarrow> io_return None
                | first # _ \<Rightarrow> do {
                    r \<leftarrow> scSend (spClient p)
                      \<lparr>sqPhoneNumbers = nReceivers n, sqSignName = cvSignature version,
                       sqTemplateID = cpProviderTemplateID first, sqTemplateParam = tParams (nTemplate n)\<rparr>;
                    io_return (case r of
                        None \<Rightarrow> None
                      | Some (_, Some e) \<Rightarrow>
                          Some (zero_SendResponse, Some (Wrap [Err ErrSendNotificationFailed, e]))
                      | Some (resp, None) \<Rightarrow>
                          if list_ex (\<lambda>(_, status). \<not> EqualFold_OK (ssCode status)) (spPhoneNumbers resp)
                          then Some (zero_SendResponse, Some (Wrap [Err ErrSendNotificationFailed]))
                          else Some (\<lparr>NotificationID = nID n, srStatus = SendStatusSucceeded\<rparr>, None))
                  }))
   }"

section \<open>Properties\<close>

text \<open>A content as a sequence of texts and named placeholders, and the same content with its
  placeholders numbered.\<close>

datatype segment = Text string | Placeholder string

fun render :: "segment \<Rightarrow> string" where
  "render (Text s) = s"
| "render (Placeholder name) = ''${'' @ name @ ''}''"

fun numbered :: "nat \<Rightarrow> segment list \<Rightarrow> string" where
  "numbered k [] = []"
| "numbered k (Text s # segs) = s @ numbered k segs"
| "numbered k (Placeholder name # segs) = ''{'' @ format_nat (k + 1) @ ''}'' @ numbered (k + 1) segs"

fun segment_ok :: "segment \<Rightarrow> bool" where
  "segment_ok (Text s) \<longleftrightarrow> CHR ''$'' \<notin> set s"
| "segment_ok (Placeholder name) \<longleftrightarrow> name \<noteq> [] \<and> CHR ''}'' \<notin> set name"

lemma replace_all_text:
  "CHR ''$'' \<notin> set s \<Longrightarrow> replace_all k (s @ rest) = s @ replace_all k rest"
proof (induction s)
  case (Cons c s)
  then have "match_placeholder (c # s @ rest) = None"
    by (auto simp: match_placeholder_def split: list.splits)
  with Cons show ?case by simp
qed simp

lemma replace_all_placeholder:
  assumes "name \<noteq> []" "CHR ''}'' \<notin> set name"
  shows "replace_all k (''${'' @ name @ ''}'' @ rest)
    = ''{'' @ format_nat (k + 1) @ ''}'' @ replace_all (k + 1) rest"
proof -
  have "takeWhile (\<lambda>x. x \<noteq> CHR ''}'') (name @ CHR ''}'' # rest) = name"
    "dropWhile (\<lambda>x. x \<noteq> CHR ''}'') (name @ CHR ''}'' # rest) = CHR ''}'' # rest"
    using assms(2) by (auto simp: takeWhile_append dropWhile_append)
  with assms(1) have "match_placeholder (CHR ''$'' # CHR ''{'' # name @ CHR ''}'' # rest) = Some rest"
    by (simp add: match_placeholder_def)
  then show ?thesis by simp
qed

lemma replace_all_segments:
  "list_all segment_ok segs \<Longrightarrow> replace_all k (concat (map render segs)) = numbered k segs"
proof (induction segs arbitrary: k)
  case (Cons seg segs)
  then show ?case
    by (cases seg) (simp_all add: replace_all_text replace_all_placeholder [simplified])
qed simp

text \<open>For Tencent Cloud the named placeholders of a content become the numbers from 1 on, in their
  order, and the text between them is kept; for every other provider the content is unchanged.\<close>

theorem Placeholders_numbered:
  assumes "list_all segment_ok segs"
  shows "replacePlaceholders (concat (map render segs)) p
    = (if cpProviderName p = ''tencentcloud'' then numbered 0 segs else concat (map render segs))"
  using replace_all_segments [OF assms] by (simp add: replacePlaceholders_def)

lemma format_small: "format_nat 1 = ''1''" "format_nat 2 = ''2''"
  by code_simp+

theorem Placeholders_numbered_witness:
  "replacePlaceholders ''Code ${code}, valid ${minutes} min''
     (zero_ChannelTemplateProvider\<lparr>cpProviderName := ''tencentcloud''\<rparr>) = ''Code {1}, valid {2} min''"
  using Placeholders_numbered [of "[Text ''Code '', Placeholder ''code'', Text '', valid '',
      Placeholder ''minutes'', Text '' min'']" "zero_ChannelTemplateProvider\<lparr>cpProviderName := ''tencentcloud''\<rparr>"]
  by (simp add: format_small [unfolded numeral_2_eq_2 One_nat_def])

text \<open>C23. A template is published only with a version of its own that the platform approved and at
  least one provider approved; whatever fails before, the active version is not set.\<close>

theorem Publish_guarded:
  assumes "run_state (ts_PublishTemplate t templateID versionID) s = (None, s')"
  shows "\<exists>version s1 p ps s2.
      run_state (ctrGetTemplateVersionByID (tplRepo t) versionID) s = ((version, None), s1)
    \<and> cvChannelTemplateID version = templateID \<and> cvAuditStatus version = AuditStatusApproved
    \<and> run_state (ctrGetApprovedProviders (tplRepo t) templateID versionID) s1 = ((p # ps, None), s2)
    \<and> run_state (ctrSetTemplateActiveVersion (tplRepo t) templateID versionID) s2 = (None, s')
    \<and> 0 < templateID \<and> 0 < versionID"
proof -
  obtain version e s1 where v: "run_state (ctrGetTemplateVersionByID (tplRepo t) versionID) s = ((version, e), s1)"
    by (metis prod.collapse)
  obtain ps e2 s2 where p: "run_state (ctrGetApprovedProviders (tplRepo t) templateID versionID) s1 = ((ps, e2), s2)"
    by (metis prod.collapse)
  obtain e3 s3 where a: "run_state (ctrSetTemplateActiveVersion (tplRepo t) templateID versionID) s2 = (e3, s3)"
    by (metis prod.collapse)
  have ok: "0 < templateID" "0 < versionID"
    using assms by (auto simp: ts_PublishTemplate_def split: if_splits)
  with assms v have "e = None" "cvChannelTemplateID version = templateID" "cvAuditStatus version = AuditStatusApproved"
    by (auto simp: ts_PublishTemplate_def split: if_splits option.splits)
  with assms v p ok have "e2 = None" "ps \<noteq> []"
    by (auto simp: ts_PublishTemplate_def split: if_splits option.splits)
  with assms v p a ok \<open>e = None\<close> \<open>cvChannelTemplateID version = templateID\<close>
    \<open>cvAuditStatus version = AuditStatusApproved\<close> have "e3 = None" "s3 = s'"
    by (auto simp: ts_PublishTemplate_def split: option.splits)
  with v p a ok \<open>e = None\<close> \<open>e2 = None\<close> \<open>ps \<noteq> []\<close> \<open>cvChannelTemplateID version = templateID\<close>
    \<open>cvAuditStatus version = AuditStatusApproved\<close>
  show ?thesis by (cases ps) auto
qed

text \<open>With the only audit service there is, a version is never submitted: past the guards the call
  panics.\<close>

lemma SubmitForInternalReview_panics:
  assumes "tplAuditSvc t = audit_CreateAudit"
    and "run_state (ts_SubmitForInternalReview t versionID) s = (Some None, s')"
    and "run_state (ctrGetTemplateVersionByID (tplRepo t) versionID) s = ((version, e), s1)"
  shows "cvAuditStatus version \<in> {AuditStatusInReview, AuditStatusApproved}"
  using assms
  by (auto simp: ts_SubmitForInternalReview_def internal_review_failed_def audit_CreateAudit_def Let_def
      split: if_splits option.splits prod.splits)

end
