(* ===== verification/TemplateFacts.thy ===== *)
theory TemplateFacts
  imports TemplateService
begin

text \<open>
  The life of a template through service, repository and database: which states can be reached.
\<close>

section \<open>The repository and the service keep the rows\<close>

abbreviation template_repo :: "'s template_gorm \<Rightarrow> 's ChannelTemplateRepository" where
  "template_repo g \<equiv> NewChannelTemplateRepository (NewChannelTemplateDAO g)"

text \<open>Every operation of the repository but the creation of a template.\<close>

lemma template_repo_keeps:
  assumes law: "template_db_law g rows"
  shows "keeps (\<lambda>s. P (rows s)) (ctrGetTemplatesByOwner (template_repo g) o' ty)"
    "keeps (\<lambda>s. P (rows s)) (ctrGetTemplateByID (template_repo g) i)"
    "keeps (\<lambda>s. P (rows s)) (ctrUpdateTemplate (template_repo g) t)"
    "keeps (\<lambda>s. P (rows s)) (ctrSetTemplateActiveVersion (template_repo g) i v)"
    "keeps (\<lambda>s. P (rows s)) (ctrGetTemplateVersionByID (template_repo g) v)"
    "keeps (\<lambda>s. P (rows s)) (ctrCreateTemplateVersion (template_repo g) ve)"
    "keeps (\<lambda>s. P (rows s)) (ctrForkTemplateVersion (template_repo g) v)"
    "keeps (\<lambda>s. P (rows s)) (ctrGetProviderByNameAndChannel (template_repo g) i v na ch)"
    "keeps (\<lambda>s. P (rows s)) (ctrBatchCreateTemplateProviders (template_repo g) ps)"
    "keeps (\<lambda>s. P (rows s)) (ctrGetApprovedProviders (template_repo g) i v)"
    "keeps (\<lambda>s. P (rows s)) (ctrGetProviders (template_repo g) i v)"
    "keeps (\<lambda>s. P (rows s)) (ctrUpdateTemplateVersion (template_repo g) ve)"
    "keeps (\<lambda>s. P (rows s)) (ctrBatchUpdateTemplateVersionAuditInfo (template_repo g) vs)"
    "keeps (\<lambda>s. P (rows s)) (ctrUpdateTemplateProviderAuditInfo (template_repo g) p)"
    "keeps (\<lambda>s. P (rows s)) (ctrBatchUpdateTemplateProvidersAuditInfo (template_repo g) ps)"
    "keeps (\<lambda>s. P (rows s)) (ctrGetPendingOrInReviewProviders (template_repo g) off lim u)"
  unfolding NewChannelTemplateRepository_def NewChannelTemplateDAO_def
    ChannelTemplateRepository.select_convs ctr_GetTemplatesByOwner_def ctr_GetTemplateByID_def
    ctr_UpdateTemplate_def ctr_GetTemplateVersionByID_def ctr_CreateTemplateVersion_def
    ctr_ForkTemplateVersion_def ctr_GetProviderByNameAndChannel_def ctr_BatchCreateTemplateProviders_def
    ctr_GetApprovedProviders_def ctr_GetProviders_def providers_domain_def ctr_UpdateTemplateVersion_def
    ctr_BatchUpdateTemplateVersionAuditInfo_def ctr_UpdateTemplateProviderAuditInfo_def
    ctr_BatchUpdateTemplateProvidersAuditInfo_def ctr_GetPendingOrInReviewProviders_def
    getTemplates_def ChannelTemplateDAO.select_convs
  by (intro keeps_intros template_dao_keeps [OF law])+

definition unpublished :: "daoTemplate list \<Rightarrow> bool" where
  "unpublished = list_all (\<lambda>t. dmActiveVersionID t = 0)"

lemma create_template_keeps:
  assumes law: "template_db_law g rows" and "ctActiveVersionID t = 0"
  shows "keeps (\<lambda>s. unpublished (rows s)) (ctrCreateTemplate (template_repo g) t)"
proof -
  have "keeps (\<lambda>s. unpublished (rows s)) (tgCreateT g row)" if "dmActiveVersionID row = 0" for row
  proof (rule keepsI)
    fix s assume "unpublished (rows s)"
    with db_create [OF law, of row s] that show "unpublished (rows (snd (run_state (tgCreateT g row) s)))"
      by (auto simp: unpublished_def)
  qed
  with assms(2) show ?thesis
    unfolding NewChannelTemplateRepository_def NewChannelTemplateDAO_def
      ChannelTemplateRepository.select_convs ctr_CreateTemplate_def td_CreateTemplate_def
      ChannelTemplateDAO.select_convs
    by (intro keeps_intros template_db_keeps [OF law]) (simp add: toTemplateEntity_def)
qed

text \<open>The other services a template service calls have nothing to do with the rows.\<close>

definition foreign_to :: "('s \<Rightarrow> 'r) \<Rightarrow> 's templateService \<Rightarrow> bool" where
  "foreign_to rows t \<longleftrightarrow>
     (\<forall>c. leaves rows (psGetByChannel (tplProviderSvc t) c)) \<and> (\<forall>a. leaves rows (tplAuditSvc t a))
   \<and> leaves rows (tplNow t)
   \<and> (\<forall>n cli. tplSmsClients t n = Some cli \<longrightarrow>
        (\<forall>req. leaves rows (scCreateTemplate cli req)) \<and> (\<forall>ids. leaves rows (scBatchQueryTemplateStatus cli ids)))"

lemma foreign_keeps:
  assumes "foreign_to rows t"
  shows "keeps (\<lambda>s. P (rows s)) (psGetByChannel (tplProviderSvc t) c)"
    "keeps (\<lambda>s. P (rows s)) (tplAuditSvc t a)" "keeps (\<lambda>s. P (rows s)) (tplNow t)"
    "getSMSClient t n = Some cli \<Longrightarrow> keeps (\<lambda>s. P (rows s)) (scCreateTemplate cli req)"
    "getSMSClient t n = Some cli \<Longrightarrow> keeps (\<lambda>s. P (rows s)) (scBatchQueryTemplateStatus cli ids)"
  using assms by (auto simp: foreign_to_def getSMSClient_def intro!: leaves_keeps [where rows = rows])

lemma keeps_for_each_ignoring [keeps_intros]:
  "(\<And>x. keeps I (f x)) \<Longrightarrow> keeps I (for_each_ignoring f xs)"
  by (induction xs) (auto intro!: keeps_intros)

lemma keeps_for_until_panic [keeps_intros]:
  "(\<And>x. keeps I (f x)) \<Longrightarrow> keeps I (for_until_panic f xs)"
  by (induction xs) (auto intro!: keeps_intros)

text \<open>The operations of the service, with any arguments.\<close>

inductive_set template_ops :: "'s templateService \<Rightarrow> ('s, unit) io set" for t where
  "run_only (ts_GetTemplatesByOwner t i ty) \<in> template_ops t"
| "run_only (ts_GetTemplateByIDAndProviderInfo t i na ch) \<in> template_ops t"
| "run_only (ctsGetTemplateByID (NewTemplateService t) i) \<in> template_ops t"
| "run_only (ts_CreateTemplate t tm) \<in> template_ops t"
| "run_only (ts_UpdateTemplate t tm) \<in> template_ops t"
| "run_only (ts_PublishTemplate t i v) \<in> template_ops t"
| "run_only (ctsForkVersion (NewTemplateService t) v) \<in> template_ops t"
| "run_only (ts_UpdateVersion t ve) \<in> template_ops t"
| "run_only (ts_SubmitForInternalReview t v) \<in> template_ops t"
| "run_only (ts_BatchUpdateVersionAuditStatus t vs) \<in> template_ops t"
| "run_only (ts_BatchSubmitForProviderReview t is) \<in> template_ops t"
| "run_only (ctsGetPendingOrInReviewProviders (NewTemplateService t) off lim u) \<in> template_ops t"
| "run_only (ts_BatchQueryAndUpdateProviderAuditInfo t ps) \<in> template_ops t"

lemma template_ops_keep:
  assumes law: "template_db_law g rows" and "tplRepo t = template_repo g" and fo: "foreign_to rows t"
    and "m \<in> template_ops t"
  shows "keeps (\<lambda>s. unpublished (rows s)) m"
proof -
  note repo = template_repo_keeps [OF law, where P = unpublished, folded assms(2)]
  note foreign = foreign_keeps [OF fo, where P = unpublished]
  have create: "ctActiveVersionID tm = 0 \<Longrightarrow> keeps (\<lambda>s. unpublished (rows s)) (ctrCreateTemplate (tplRepo t) tm)" for tm
    using create_template_keeps [OF law] assms(2) by simp
  have submit: "keeps (\<lambda>s. unpublished (rows s)) (ts_submit t tm v p)" for tm v p
    unfolding ts_submit_def by (intro keeps_intros repo foreign)
  have query: "keeps (\<lambda>s. unpublished (rows s)) (batchQueryAndUpdateSMSProvidersAuditInfo t ps)" for ps
    unfolding batchQueryAndUpdateSMSProvidersAuditInfo_def by (intro keeps_intros repo foreign)
  let ?I = "\<lambda>s. unpublished (rows s)"
  have ops: "keeps ?I (ts_GetTemplatesByOwner t i ty)" "keeps ?I (ts_GetTemplateByIDAndProviderInfo t i na ch)"
    "keeps ?I (ctsGetTemplateByID (NewTemplateService t) i)" "keeps ?I (ts_UpdateTemplate t tm)"
    "keeps ?I (ts_PublishTemplate t i v)" "keeps ?I (ctsForkVersion (NewTemplateService t) v)"
    "keeps ?I (ts_UpdateVersion t ve)" "keeps ?I (ts_SubmitForInternalReview t v)"
    "keeps ?I (ts_BatchUpdateVersionAuditStatus t vs)" "keeps ?I (ts_BatchSubmitForProviderReview t is)"
    "keeps ?I (ctsGetPendingOrInReviewProviders (NewTemplateService t) off lim u)"
    "keeps ?I (ts_BatchQueryAndUpdateProviderAuditInfo t ps)" for i ty na ch tm v ve vs "is" off lim u ps
    unfolding NewTemplateService_def ChannelTemplateService.select_convs
      ts_GetTemplatesByOwner_def ts_GetTemplateByIDAndProviderInfo_def ts_UpdateTemplate_def
      ts_PublishTemplate_def ts_UpdateVersion_def ts_SubmitForInternalReview_def
      ts_BatchUpdateVersionAuditStatus_def ts_BatchSubmitForProviderReview_def
      ts_submitForProviderReview_def ts_BatchQueryAndUpdateProviderAuditInfo_def
    by (intro keeps_intros repo foreign submit query)+
  have new: "keeps ?I (ts_CreateTemplate t tm)" for tm
    unfolding ts_CreateTemplate_def Let_def by (intro keeps_intros repo foreign create) simp
  from assms(4) show ?thesis
    by cases (simp_all only: keeps_run_only ops new)
qed

lemma publish_fails:
  assumes law: "template_db_law g rows" and repo: "tplRepo t = template_repo g"
  shows "fst (run_state (ts_PublishTemplate t templateID versionID) s) \<noteq> None"
proof -
  have "fst (run_state (ctrSetTemplateActiveVersion (tplRepo t) i v) s) \<noteq> None" for i v s
  proof -
    have "\<not> statement_ok Templates w [(''active_version'', x), (''utime'', y)]" for w x y
      by (simp add: statement_ok_def statement_ok_texts del: template_columns.simps)
    from db_bad [OF law this] show ?thesis
      by (simp add: repo NewChannelTemplateRepository_def NewChannelTemplateDAO_def
          td_SetTemplateActiveVersion_def split: prod.splits)
  qed
  then have "run_state (ctrSetTemplateActiveVersion (tplRepo t) i v) s \<noteq> (None, s1)" for i v s s1
    by (metis fst_conv)
  then show ?thesis
    by (auto simp: ts_PublishTemplate_def split: option.splits prod.splits)
qed

text \<open>C10. No template is ever published: whatever operations of the template service are carried out,
  in whatever order and with whatever arguments, and however the SMS providers and the audit
  answer, every template keeps the active version 0, and every attempt to publish ends in an
  error.\<close>

theorem Template_never_published:
  assumes law: "template_db_law g rows" and repo: "tplRepo t = template_repo g" and "foreign_to rows t"
    and "reaches (template_ops t) s s'" "unpublished (rows s)"
  shows "unpublished (rows s') \<and> fst (run_state (ts_PublishTemplate t templateID versionID) s') \<noteq> None"
proof
  show "unpublished (rows s')"
    by (rule reaches_keeps [OF assms(4), where I = "\<lambda>s. unpublished (rows s)"])
      (use assms in \<open>auto intro: template_ops_keep\<close>)
  show "fst (run_state (ts_PublishTemplate t templateID versionID) s') \<noteq> None"
    by (rule publish_fails [OF law repo])
qed

section \<open>An example\<close>

definition demo_templateService :: "template_tables templateService" where
  "demo_templateService =
     \<lparr>tplRepo = template_repo mem_templates,
      tplProviderSvc = \<lparr>psCreate = \<lambda>p. io_return (p, None), psUpdate = \<lambda>_. io_return None,
        psGetByID = \<lambda>_. io_return (zero_Provider, None),
        psGetByChannel = \<lambda>_. io_return ([zero_Provider\<lparr>pID := 5, pName := ''aliyun'',
          pChannel := ChannelSMS\<rparr>], None)\<rparr>,
      tplAuditSvc = \<lambda>_. io_return (Some (9, None)), tplSmsClients = \<lambda>_. None, tplNow = io_return 0,
      tplMarshal = \<lambda>_. (''{}'', None), tplOrder = id\<rparr>"

definition demo_template :: ChannelTemplate where
  "demo_template =
     zero_ChannelTemplate\<lparr>ctOwnerID := 1, ctOwnerType := OwnertypePerson, ctName := ''code'',
       ctDescription := ''login'', ctChannel := ChannelSMS, ctBusinessType := 3\<rparr>"

theorem Template_never_published_witness:
  "\<exists>s'. reaches (template_ops demo_templateService) \<lparr>ttT = [], ttV = [], ttP = []\<rparr> s'
     \<and> ttT s' \<noteq> [] \<and> unpublished (ttT s')
     \<and> fst (run_state (ts_PublishTemplate demo_templateService 1 1) s') \<noteq> None"
proof -
  let ?s = "\<lparr>ttT = [], ttV = [], ttP = []\<rparr>"
  let ?m = "run_only (ts_CreateTemplate demo_templateService demo_template)"
  let ?s' = "snd (run_state ?m ?s)"
  have f: "foreign_to ttT demo_templateService"
    by (simp add: foreign_to_def leaves_def demo_templateService_def)
  have r: "reaches (template_ops demo_templateService) ?s ?s'"
    by (rule reaches.step [OF reaches.start template_ops.intros(4)]) (simp add: prod_eq_iff)
  have "tplRepo demo_templateService = template_repo mem_templates" "unpublished (ttT ?s)"
    by (simp_all add: demo_templateService_def unpublished_def)
  from Template_never_published [OF mem_templates_law this(1) f r this(2)]
  have "unpublished (ttT ?s') \<and> fst (run_state (ts_PublishTemplate demo_templateService 1 1) ?s') \<noteq> None" .
  moreover have "ttT ?s' \<noteq> []"
    by (simp add: run_only_def ts_CreateTemplate_def demo_template_def demo_templateService_def Let_def
        Template_Validate_def OwnerType_IsValid_def Channel_IsValid_def BusinessType_IsValid_def
        BusinessTypeVerificationCode_def NewChannelTemplateRepository_def NewChannelTemplateDAO_def
        ctr_CreateTemplate_def td_CreateTemplate_def ctr_CreateTemplateVersion_def
        td_CreateTemplateVersion_def ctr_BatchCreateTemplateProviders_def providers_domain_def
        td_BatchCreateTemplateProviders_def mem_templates_def zero_ChannelTemplate_def)
  ultimately show ?thesis using r by blast
qed

text \<open>A repository in which version 4 of template 3 is approved.\<close>

definition approving_repo :: "template_tables ChannelTemplateRepository" where
  "approving_repo =
     (template_repo mem_templates)
       \<lparr>ctrGetTemplateVersionByID := \<lambda>v. io_return (zero_ChannelTemplateVersion\<lparr>cvId := v,
          cvChannelTemplateID := 3, cvAuditStatus := AuditStatusApproved\<rparr>, None),
        ctrGetApprovedProviders := \<lambda>_ _. io_return ([zero_ChannelTemplateProvider], None),
        ctrSetTemplateActiveVersion := \<lambda>_ _. io_return None\<rparr>"

theorem Publish_guarded_witness:
  "let t = demo_templateService\<lparr>tplRepo := approving_repo\<rparr>; s = \<lparr>ttT = [], ttV = [], ttP = []\<rparr>
   in run_state (ts_PublishTemplate t 3 4) s = (None, s)
    \<and> (\<exists>version s1. run_state (ctrGetTemplateVersionByID (tplRepo t) 4) s = ((version, None), s1)
        \<and> cvAuditStatus version = AuditStatusApproved)"
proof -
  let ?t = "demo_templateService\<lparr>tplRepo := approving_repo\<rparr>" and ?s = "\<lparr>ttT = [], ttV = [], ttP = []\<rparr>"
  have p: "run_state (ts_PublishTemplate ?t 3 4) ?s = (None, ?s)"
    by (simp add: ts_PublishTemplate_def demo_templateService_def approving_repo_def
        NewChannelTemplateRepository_def)
  from Publish_guarded [OF p] p show ?thesis by (simp only: Let_def) blast
qed

end
