(* ===== verification/Server.thy ===== *)
theory Server
  imports Interceptors SendService TxService Callback TemplateFacts
begin

text \<open>
  The gRPC server, \<^verbatim>\<open>internal/api/grpc/server.go\<close>. A handler takes the context and the request
  and answers a response and an error; \<open>None\<close> is a panic, a nil message is \<open>None\<close> inside the
  request. Error messages are not kept.
\<close>

section \<open>What the server calls\<close>

record 's SendServiceApi =
  sndSendNotification :: "Notification \<Rightarrow> ('s, SendResponse ret) io"
  sndSendNotificationAsync :: "Notification \<Rightarrow> ('s, SendResponse ret) io"
  sndBatchSendNotifications :: "Notification list \<Rightarrow> ('s, SendResponse list ret) io"
  sndBatchSendNotificationsAsync :: "Notification list \<Rightarrow> ('s, int64 list ret) io"

definition SendService_api :: "'s sendService \<Rightarrow> 's SendServiceApi" where
  "SendService_api sv =
     \<lparr>sndSendNotification = SendNotification sv, sndSendNotificationAsync = SendNotificationAsync sv,
      sndBatchSendNotifications = BatchSendNotifications sv,
      sndBatchSendNotificationsAsync = BatchSendNotificationsAsync sv\<rparr>"

record 's TxServiceApi =
  txsPrepare :: "Notification \<Rightarrow> ('s, int64 ret) io"
  txsCommit :: "int64 \<Rightarrow> string \<Rightarrow> ('s, gerr option) io"
  txsCancel :: "int64 \<Rightarrow> string \<Rightarrow> ('s, gerr option) io"

definition TxService_api :: "'s txService \<Rightarrow> 's TxServiceApi" where
  "TxService_api ts =
     \<lparr>txsPrepare = tx_Prepare_notification ts, txsCommit = tx_Commit ts, txsCancel = tx_Cancel ts\<rparr>"

record 's NotificationServer =
  gsGetByKeys :: "int64 \<Rightarrow> string list \<Rightarrow> ('s, Notification list ret) io"
  gsSendSvc :: "'s SendServiceApi"
  gsTxnSvc :: "'s TxServiceApi"
  gsTemplateSvc :: "'s ChannelTemplateService"

definition batchSizeLimit :: int where "batchSizeLimit = 100"

section \<open>Conversions\<close>

definition isSystemError :: "gerr \<Rightarrow> bool" where
  "isSystemError err \<longleftrightarrow>
     is_err err ErrDatabaseError \<or> is_err err ErrExternalServiceError
     \<or> is_err err ErrNotificationDuplicate \<or> is_err err ErrNotificationVersionMismatch"

definition convertToGRPCErrorCode :: "gerr \<Rightarrow> ErrorCode" where
  "convertToGRPCErrorCode err =
     (if is_err err ErrInvalidParameter then ErrorCode_INVALID_PARAMETER
      else if is_err err ErrTemplateNotFound then ErrorCode_TEMPLATE_NOT_FOUND
      else if is_err err ErrChannelDisabled then ErrorCode_CHANNEL_DISABLED
      else if is_err err ErrRateLimited then ErrorCode_RATE_LIMITED
      else if is_err err ErrBizIDNotFound then ErrorCode_BIZ_ID_NOT_FOUND
      else if is_err err ErrSendNotificationFailed then ErrorCode_SEND_NOTIFICATION_FAILED
      else if is_err err ErrCreateNotificationFailed then ErrorCode_CREATE_NOTIFICATION_FAILED
      else if is_err err ErrNotificationNotFound then ErrorCode_NOTIFICATION_NOT_FOUND
      else if is_err err ErrNoAvailableProvider then ErrorCode_NO_AVAILABLE_PROVIDER
      else if is_err err ErrNoAvailableChannel then ErrorCode_NO_AVAILABLE_CHANNEL
      else if is_err err ErrConfigNotFound then ErrorCode_CONFIG_NOT_FOUND
      else if is_err err ErrNoQuotaConfig then ErrorCode_NO_QUOTA_CONFIG
      else if is_err err ErrNoQuota then ErrorCode_NO_QUOTA
      else if is_err err ErrQuotaNotFound then ErrorCode_QUOTA_NOT_FOUND
      else if is_err err ErrProviderNotFound then ErrorCode_PROVIDER_NOT_FOUND
      else if is_err err ErrUnknownChannel then ErrorCode_UNKNOWN_CHANNEL
      else ErrorCode_ERROR_CODE_UNSPECIFIED)"

definition covertToGRPCSendStatus :: "SendStatus \<Rightarrow> pbSendStatus" where
  "covertToGRPCSendStatus status =
     (if status = SendStatusPrepare then SendStatus_PREPARE
      else if status = SendStatusCanceled then SendStatus_CANCELED
      else if status = SendStatusSending then SendStatus_PENDING
      else if status = SendStatusSucceeded then SendStatus_SUCCEEDED
      else if status = SendStatusFailed then SendStatus_FAILED
      else SendStatus_SEND_STATUS_UNSPECIFIED)"

definition buildGRPCSendResponse :: "SendResponse \<Rightarrow> gerr option \<Rightarrow> SendNotificationResponse" where
  "buildGRPCSendResponse res err =
     (let response = zero_response\<lparr>snrNotificationId := NotificationID res,
                       snrStatus := covertToGRPCSendStatus (srStatus res)\<rparr>
      in case err of
           None \<Rightarrow> response
         | Some e \<Rightarrow>
             (let response = response\<lparr>snrErrorCode := convertToGRPCErrorCode e\<rparr>
              in if snrStatus response \<noteq> SendStatus_FAILED
                 then response\<lparr>snrStatus := SendStatus_FAILED\<rparr> else response))"

definition buildNotification ::
  "'s NotificationServer \<Rightarrow> pbNotification option \<Rightarrow> int64 \<Rightarrow> ('s, Notification ret) io" where
  "buildNotification n noti bizID =
     (case NewNotificationFromAPI noti of
        (_, Some e) \<Rightarrow> io_return (zero_Notification, Some e)
      | (notification, None) \<Rightarrow> do {
          (tmpl, err) \<leftarrow> ctsGetTemplateByID (gsTemplateSvc n) (tID (nTemplate notification));
          io_return
            (if err \<noteq> None then (zero_Notification, Some invalid_parameter)
             else if \<not> HasPublished tmpl then (zero_Notification, Some invalid_parameter)
             else (notification\<lparr>nBizID := bizID, nTemplate := (nTemplate notification)
                     \<lparr>tVersionID := ctActiveVersionID tmpl\<rparr>\<rparr>, None))
        })"

definition buildTxNotification ::
  "'s NotificationServer \<Rightarrow> pbNotification option \<Rightarrow> int64 \<Rightarrow> ('s, Notification ret) io" where
  "buildTxNotification n notification bizID =
     (case notification of
        None \<Rightarrow> io_return (zero_Notification, Some (Ext ''no notification''))
      | Some _ \<Rightarrow> do {
          (noti, err) \<leftarrow> buildNotification n notification bizID;
          io_return (case err of
              Some e \<Rightarrow> (zero_Notification, Some e)
            | None \<Rightarrow> (noti\<lparr>nStatus := SendStatusPrepare\<rparr>, None))
        })"

section \<open>Sending\<close>

definition io_status :: "grpc_code \<Rightarrow> ('s, 'r reply option) io" where
  "io_status c = io_return (Some (None, Some (Status c)))"

definition io_answer :: "'r \<Rightarrow> ('s, 'r reply option) io" where
  "io_answer r = io_return (Some (Some r, None))"

definition failed_response :: "ErrorCode \<Rightarrow> SendNotificationResponse" where
  "failed_response code = zero_response\<lparr>snrErrorCode := code, snrStatus := SendStatus_FAILED\<rparr>"

definition server_SendNotification ::
  "'s NotificationServer \<Rightarrow> ctx \<Rightarrow> pbNotification option option
     \<Rightarrow> ('s, SendNotificationResponse reply option) io" where
  "server_SendNotification n c request =
     (case GetBizIDFromContext c of
        (_, Some _) \<Rightarrow> io_status InvalidArgument
      | (bizID, None) \<Rightarrow>
          (case request of
             None \<Rightarrow> io_return None
           | Some noti \<Rightarrow> do {
               (notification, err) \<leftarrow> buildNotification n noti bizID;
               if err \<noteq> None then io_answer (failed_response ErrorCode_INVALID_PARAMETER)
               else do {
                 (result, err) \<leftarrow> sndSendNotification (gsSendSvc n) notification;
                 case err of
                   Some e \<Rightarrow>
                     if isSystemError e then io_status Internal
                     else io_answer (failed_response (convertToGRPCErrorCode e))
                 | None \<Rightarrow> io_answer (zero_response\<lparr>snrNotificationId := NotificationID result,
                     snrStatus := covertToGRPCSendStatus (srStatus result)\<rparr>)
               }
             }))"

record SendNotificationAsyncResponse =
  snaNotificationId :: int64
  snaErrorCode :: ErrorCode

definition async_response :: "int64 \<Rightarrow> ErrorCode \<Rightarrow> SendNotificationAsyncResponse" where
  "async_response i code = \<lparr>snaNotificationId = i, snaErrorCode = code\<rparr>"

definition server_SendNotificationAsync ::
  "'s NotificationServer \<Rightarrow> ctx \<Rightarrow> pbNotification option option
     \<Rightarrow> ('s, SendNotificationAsyncResponse reply option) io" where
  "server_SendNotificationAsync n c request =
     (case GetBizIDFromContext c of
        (_, Some _) \<Rightarrow> io_status InvalidArgument
      | (bizID, None) \<Rightarrow>
          (case request of
             None \<Rightarrow> io_return None
           | Some noti \<Rightarrow> do {
               (notification, err) \<leftarrow> buildNotification n noti bizID;
               if err \<noteq> None then io_answer (async_response 0 ErrorCode_INVALID_PARAMETER)
               else do {
                 (result, err) \<leftarrow> sndSendNotificationAsync (gsSendSvc n) notification;
                 case err of
                   Some e \<Rightarrow>
                     if isSystemError e then io_status Internal
                     else io_answer (async_response 0 (convertToGRPCErrorCode e))
                 | None \<Rightarrow> io_answer (async_response (NotificationID result) ErrorCode_ERROR_CODE_UNSPECIFIED)
               }
             }))"

record SendNotificationBatchResponse =
  snbTotalCount :: int32
  snbSuccessCount :: int32
  snbResults :: "SendNotificationResponse option list"

text \<open>The loop that builds the notifications of a batch: an entry of the results is set for every
  notification that is refused, and the others are collected.\<close>

fun build_batch ::
  "'s NotificationServer \<Rightarrow> int64 \<Rightarrow> pbNotification option list
     \<Rightarrow> ('s, SendNotificationResponse option list \<times> Notification list \<times> bool) io" where
  "build_batch n bizID [] = io_return ([], [], False)"
| "build_batch n bizID (noti # notis) = do {
     (notification, err) \<leftarrow> buildNotification n noti bizID;
     (results, notifications, hasError) \<leftarrow> build_batch n bizID notis;
     io_return
       (if err \<noteq> None then (Some (failed_response ErrorCode_INVALID_PARAMETER) # results, notifications, True)
        else (None # results, notification # notifications, hasError))
   }"

text \<open>The loop over the responses of the service. Both of its conditions count the notifications
  that are being sent.\<close>

definition counts_as_success :: "Notification list \<Rightarrow> SendResponse \<Rightarrow> bool" where
  "counts_as_success notifications r \<longleftrightarrow>
     ssType (nSendStrategyConfig (hd notifications)) = SendStrategyImmediate \<and> srStatus r = SendStatusSending
   \<or> ssType (nSendStrategyConfig (hd notifications)) \<noteq> SendStrategyImmediate \<and> srStatus r = SendStatusSending"

definition batch_answer ::
  "Notification list \<Rightarrow> SendResponse list \<Rightarrow> SendNotificationResponse option list
     \<Rightarrow> SendNotificationBatchResponse option" where
  "batch_answer notifications responses results =
     (if length results < length responses then None
      else Some \<lparr>snbTotalCount = wrap32 (int (length results)),
        snbSuccessCount = wrap32 (int (length (filter (counts_as_success notifications) responses))),
        snbResults = map (\<lambda>r. Some (buildGRPCSendResponse r None)) responses
          @ drop (length responses) results\<rparr>)"

definition server_SendNotificationBatch ::
  "'s NotificationServer \<Rightarrow> ctx \<Rightarrow> pbNotification option list option
     \<Rightarrow> ('s, SendNotificationBatchResponse reply option) io" where
  "server_SendNotificationBatch n c request =
     (case GetBizIDFromContext c of
        (_, Some _) \<Rightarrow> io_status InvalidArgument
      | (bizID, None) \<Rightarrow>
          (case request of
             None \<Rightarrow> io_answer \<lparr>snbTotalCount = 0, snbSuccessCount = 0, snbResults = []\<rparr>
           | Some notis \<Rightarrow>
               if notis = [] then io_answer \<lparr>snbTotalCount = 0, snbSuccessCount = 0, snbResults = []\<rparr>
               else if int (length notis) > batchSizeLimit then io_status InvalidArgument
               else do {
                 (results, notifications, hasError) \<leftarrow> build_batch n bizID notis;
                 if hasError then io_answer \<lparr>snbTotalCount = wrap32 (int (length results)),
                   snbSuccessCount = 0, snbResults = results\<rparr>
                 else do {
                   (responses, err) \<leftarrow> sndBatchSendNotifications (gsSendSvc n) notifications;
                   case err of
                     Some e \<Rightarrow>
                       if isSystemError e then io_status Internal
                       else io_answer \<lparr>snbTotalCount = wrap32 (int (length results)), snbSuccessCount = 0,
                         snbResults = map (\<lambda>_. Some (failed_response (convertToGRPCErrorCode e))) results\<rparr>
                   | None \<Rightarrow>
                       (case batch_answer notifications responses results of
                          None \<Rightarrow> io_return None | Some r \<Rightarrow> io_answer r)
                 }
               }))"

text \<open>The asynchronous batch refuses the whole request at the first notification that is refused.\<close>

fun build_all ::
  "'s NotificationServer \<Rightarrow> int64 \<Rightarrow> pbNotification option list \<Rightarrow> ('s, Notification list ret) io" where
  "build_all n bizID [] = io_return ([], None)"
| "build_all n bizID (noti # notis) = do {
     (notification, err) \<leftarrow> buildNotification n noti bizID;
     case err of
       Some e \<Rightarrow> io_return ([], Some e)
     | None \<Rightarrow> do {
         (notifications, err) \<leftarrow> build_all n bizID notis;
         io_return (case err of Some e \<Rightarrow> ([], Some e) | None \<Rightarrow> (notification # notifications, None))
       }
   }"

definition server_SendNotificationBatchAsync ::
  "'s NotificationServer \<Rightarrow> ctx \<Rightarrow> pbNotification option list option
     \<Rightarrow> ('s, int64 list reply option) io" where
  "server_SendNotificationBatchAsync n c request =
     (case GetBizIDFromContext c of
        (_, Some _) \<Rightarrow> io_status InvalidArgument
      | (bizID, None) \<Rightarrow>
          (case request of
             None \<Rightarrow> io_answer []
           | Some notis \<Rightarrow>
               if notis = [] then io_answer []
               else if int (length notis) > batchSizeLimit then io_status InvalidArgument
               else do {
                 (notifications, err) \<leftarrow> build_all n bizID notis;
                 if err \<noteq> None then io_status InvalidArgument
                 else do {
                   (ids, err) \<leftarrow> sndBatchSendNotificationsAsync (gsSendSvc n) notifications;
                   case err of
                     Some e \<Rightarrow>
                       if isSystemError e then io_status Internal else io_status InvalidArgument
                   | None \<Rightarrow> io_answer ids
                 }
               }))"

section \<open>Transactions and queries\<close>

text \<open>The transaction handlers answer an empty response beside the error of the service.\<close>

definition plain_reply :: "gerr option \<Rightarrow> unit reply option" where
  "plain_reply err = Some (Some (), map_option Plain err)"

definition server_PrepareTx ::
  "'s NotificationServer \<Rightarrow> ctx \<Rightarrow> pbNotification option option \<Rightarrow> ('s, unit reply option) io" where
  "server_PrepareTx n c request =
     (case GetBizIDFromContext c of
        (_, Some _) \<Rightarrow> io_status InvalidArgument
      | (bizID, None) \<Rightarrow>
          (case request of
             None \<Rightarrow> io_return None
           | Some noti \<Rightarrow> do {
               (txn, err) \<leftarrow> buildTxNotification n noti bizID;
               if err \<noteq> None then io_status InvalidArgument
               else do {
                 (_, err) \<leftarrow> txsPrepare (gsTxnSvc n) txn;
                 io_return (plain_reply err)
               }
             }))"

definition server_CommitTx :: "'s NotificationServer \<Rightarrow> ctx \<Rightarrow> string \<Rightarrow> ('s, unit reply option) io" where
  "server_CommitTx n c key =
     (case GetBizIDFromContext c of
        (_, Some _) \<Rightarrow> io_status InvalidArgument
      | (bizID, None) \<Rightarrow> do {
          err \<leftarrow> txsCommit (gsTxnSvc n) bizID key;
          io_return (plain_reply err)
        })"

definition server_CancelTx :: "'s NotificationServer \<Rightarrow> ctx \<Rightarrow> string \<Rightarrow> ('s, unit reply option) io" where
  "server_CancelTx n c key =
     (case GetBizIDFromContext c of
        (_, Some _) \<Rightarrow> io_status InvalidArgument
      | (bizID, None) \<Rightarrow> do {
          err \<leftarrow> txsCancel (gsTxnSvc n) bizID key;
          io_return (plain_reply err)
        })"

definition query_response :: "Notification \<Rightarrow> SendNotificationResponse" where
  "query_response m =
     zero_response\<lparr>snrNotificationId := nID m, snrStatus := covertToGRPCSendStatus (nStatus m)\<rparr>"

text \<open>A request that is nil is refused like one without a key.\<close>

definition server_QueryNotification ::
  "'s NotificationServer \<Rightarrow> ctx \<Rightarrow> string option \<Rightarrow> ('s, SendNotificationResponse reply option) io" where
  "server_QueryNotification n c request =
     (if request = None \<or> request = Some '''' then io_status InvalidArgument
      else (case GetBizIDFromContext c of
        (_, Some _) \<Rightarrow> io_status InvalidArgument
      | (bizId, None) \<Rightarrow> do {
          (notifications, err) \<leftarrow> gsGetByKeys n bizId [the request];
          if err \<noteq> None then io_status Internal
          else (case notifications of
                  [] \<Rightarrow> io_answer zero_response
                | m # _ \<Rightarrow> io_answer (query_response m))
        }))"

definition server_BatchQueryNotifications ::
  "'s NotificationServer \<Rightarrow> ctx \<Rightarrow> string list option
     \<Rightarrow> ('s, SendNotificationResponse list reply option) io" where
  "server_BatchQueryNotifications n c request =
     (case request of
        None \<Rightarrow> io_status InvalidArgument
      | Some keys \<Rightarrow>
          if keys = [] then io_answer []
          else if int (length keys) > batchSizeLimit then io_status InvalidArgument
          else (case GetBizIDFromContext c of
            (_, Some _) \<Rightarrow> io_status InvalidArgument
          | (bizId, None) \<Rightarrow> do {
              (notifications, err) \<leftarrow> gsGetByKeys n bizId keys;
              if err \<noteq> None then io_status Internal
              else io_answer (map query_response notifications)
            }))"

section \<open>Properties\<close>

lemma SendNotification_errors:
  assumes "run_state (SendNotification sv n) s = ((r, Some e), s')"
  shows "is_err e ErrInvalidParameter \<or> is_err e ErrSendNotificationFailed"
proof -
  have "Notification_Validate now n = Some e' \<Longrightarrow> e' = invalid_parameter" for now e'
    by (auto simp: Notification_Validate_def SendStrategyConfig_Validate_def split: if_splits option.splits)
  note valid = this
  from assms show ?thesis
    by (auto simp: SendNotification_def split: option.splits prod.splits dest!: valid)
qed

lemma coded_error:
  "is_err e ErrInvalidParameter \<or> is_err e ErrSendNotificationFailed \<Longrightarrow>
   convertToGRPCErrorCode e \<noteq> ErrorCode_ERROR_CODE_UNSPECIFIED"
  by (auto simp: convertToGRPCErrorCode_def)

text \<open>C13. A response to a synchronous send that carries no error code is genuine: the notification was
  accepted by the template check and the service sent it without an error, and the response holds
  the identifier and the status of that result.\<close>

theorem Send_success_genuine:
  assumes "run_state (server_SendNotification n c (Some noti)) s = (Some (Some resp, None), s')"
    and "gsSendSvc n = SendService_api sv" "snrErrorCode resp = ErrorCode_ERROR_CODE_UNSPECIFIED"
  shows "\<exists>bizID m s1 result. GetBizIDFromContext c = (bizID, None)
    \<and> run_state (buildNotification n noti bizID) s = ((m, None), s1) \<and> nBizID m = bizID
    \<and> run_state (SendNotification sv m) s1 = ((result, None), s')
    \<and> resp = zero_response\<lparr>snrNotificationId := NotificationID result,
               snrStatus := covertToGRPCSendStatus (srStatus result)\<rparr>"
proof -
  obtain bizID where b: "GetBizIDFromContext c = (bizID, None)"
    using assms(1) by (auto simp: server_SendNotification_def io_status_def split: prod.splits option.splits)
  obtain m err s1 where m: "run_state (buildNotification n noti bizID) s = ((m, err), s1)"
    by (metis prod.collapse)
  have ok: "err = None"
    using assms(1,3) b m
    by (auto simp: server_SendNotification_def io_answer_def failed_response_def split: if_splits)
  then have biz: "nBizID m = bizID"
    using m by (auto simp: buildNotification_def split: prod.splits option.splits if_splits)
  obtain result err2 s2 where r: "run_state (SendNotification sv m) s1 = ((result, err2), s2)"
    by (metis prod.collapse)
  have "err2 = None"
  proof (rule ccontr)
    assume "err2 \<noteq> None"
    then obtain e where e: "err2 = Some e" by blast
    from coded_error [OF SendNotification_errors [OF r [unfolded e]]]
    have "convertToGRPCErrorCode e \<noteq> ErrorCode_ERROR_CODE_UNSPECIFIED" .
    with e assms b m ok r show False
      by (auto simp: server_SendNotification_def SendService_api_def io_answer_def io_status_def
          failed_response_def split: if_splits)
  qed
  with assms b m ok r biz show ?thesis
    by (auto simp: server_SendNotification_def SendService_api_def io_answer_def)
qed

text \<open>A template service that only reads: the notification a request stands for, and whether it is
  refused.\<close>

definition reads_templates :: "'s NotificationServer \<Rightarrow> (int64 \<Rightarrow> 's \<Rightarrow> ChannelTemplate ret) \<Rightarrow> bool" where
  "reads_templates n f \<longleftrightarrow>
     (\<forall>i s. run_state (ctsGetTemplateByID (gsTemplateSvc n) i) s = (f i s, s))"

definition built :: "'s NotificationServer \<Rightarrow> int64 \<Rightarrow> 's \<Rightarrow> pbNotification option \<Rightarrow> Notification ret" where
  "built n bizID s noti = fst (run_state (buildNotification n noti bizID) s)"

lemma buildNotification_reads:
  "reads_templates n f \<Longrightarrow> run_state (buildNotification n noti bizID) s = (built n bizID s noti, s)"
  by (auto simp: built_def reads_templates_def buildNotification_def split: prod.splits option.splits)

lemma build_batch_reads:
  assumes "reads_templates n f"
  shows "run_state (build_batch n bizID notis) s =
    ((map (\<lambda>m. if snd (built n bizID s m) \<noteq> None then Some (failed_response ErrorCode_INVALID_PARAMETER)
               else None) notis,
      map (\<lambda>m. fst (built n bizID s m)) (filter (\<lambda>m. snd (built n bizID s m) = None) notis),
      list_ex (\<lambda>m. snd (built n bizID s m) \<noteq> None) notis), s)"
proof (induction notis)
  case (Cons m notis)
  obtain x e where "built n bizID s m = (x, e)" by fastforce
  with Cons show ?case
    by (cases e) (simp_all add: buildNotification_reads [OF assms])
qed simp

text \<open>C12. A batch is all or nothing: if one notification is refused, no notification of the batch is
  sent, the response marks exactly the refused ones as failed and leaves a nil entry for each of
  the others; if none is refused, the service gets all of them, in the order of the request.\<close>

theorem Batch_all_or_nothing:
  assumes "reads_templates n f" "GetBizIDFromContext c = (bizID, None)"
    and "notis \<noteq> []" "int (length notis) \<le> batchSizeLimit"
  shows "run_state (server_SendNotificationBatch n c (Some notis)) s =
    (if list_ex (\<lambda>m. snd (built n bizID s m) \<noteq> None) notis
     then (Some (Some \<lparr>snbTotalCount = int (length notis), snbSuccessCount = 0,
             snbResults = map (\<lambda>m. if snd (built n bizID s m) \<noteq> None
               then Some (failed_response ErrorCode_INVALID_PARAMETER) else None) notis\<rparr>, None), s)
     else run_state (do {
         (responses, err) \<leftarrow> sndBatchSendNotifications (gsSendSvc n) (map (\<lambda>m. fst (built n bizID s m)) notis);
         case err of
           Some e \<Rightarrow>
             if isSystemError e then io_status Internal
             else io_answer \<lparr>snbTotalCount = int (length notis), snbSuccessCount = 0,
               snbResults = map (\<lambda>_. Some (failed_response (convertToGRPCErrorCode e))) notis\<rparr>
         | None \<Rightarrow>
             (case batch_answer (map (\<lambda>m. fst (built n bizID s m)) notis) responses (map (\<lambda>_. None) notis) of
                None \<Rightarrow> io_return None | Some r \<Rightarrow> io_answer r)
       }) s)"
proof -
  have len: "wrap32 (int (length notis)) = int (length notis)"
    using assms(4) by (intro wrap32_id) (simp add: batchSizeLimit_def int32_range_def)
  show ?thesis
  proof (cases "list_ex (\<lambda>m. snd (built n bizID s m) \<noteq> None) notis")
    case True
    with assms len show ?thesis
      by (simp add: server_SendNotificationBatch_def build_batch_reads io_answer_def)
  next
    case False
    then have all: "\<forall>m \<in> set notis. snd (built n bizID s m) = None" by (auto simp: list_ex_iff)
    then have bb: "run_state (build_batch n bizID notis) s
        = ((map (\<lambda>_. None) notis, map (\<lambda>m. fst (built n bizID s m)) notis, False), s)"
      using False by (simp add: build_batch_reads [OF assms(1)])
    obtain responses err s1 where r: "run_state (sndBatchSendNotifications (gsSendSvc n)
        (map (\<lambda>m. fst (built n bizID s m)) notis)) s = ((responses, err), s1)"
      by (metis prod.collapse)
    from False bb r assms(2-4) len show ?thesis
      by (cases err) (simp_all add: server_SendNotificationBatch_def comp_def)
  qed
qed

lemma GetTemplateByID_unpublished:
  assumes law: "template_db_law g rows" and "unpublished (rows s)"
    and r: "run_state (ctrGetTemplateByID (template_repo g) i) s = ((tm, None), s')"
  shows "ctActiveVersionID tm = 0"
proof -
  let ?d = "NewChannelTemplateDAO g"
  obtain row e s1 where row: "run_state (tdaoGetTemplateByID ?d i) s = ((row, e), s1)" by (metis prod.collapse)
  with r have e: "e = None"
    by (auto simp: NewChannelTemplateRepository_def ctr_GetTemplateByID_def split: option.splits)
  with row have "run_state (tgFirstT g (''id = ?'', [arg_int i])) s = ((row, None), s1)"
    by (auto simp: NewChannelTemplateDAO_def td_GetTemplateByID_def split: prod.splits option.splits if_splits)
  from db_first [OF law this] assms(2) have "dmActiveVersionID row = 0"
    by (auto simp: unpublished_def list_all_iff)
  moreover have "run_state (getTemplates ?d [row]) s1 = ((ts, None), s2) \<Longrightarrow>
      ctActiveVersionID (hd ts) = dmActiveVersionID row" for ts s2
    by (auto simp: getTemplates_def toTemplateDomain_def split: prod.splits option.splits)
  ultimately show ?thesis
    using r row e by (auto simp: NewChannelTemplateRepository_def ctr_GetTemplateByID_def
        split: prod.splits option.splits)
qed

lemma buildNotification_refuses:
  assumes law: "template_db_law g rows" and "tplRepo t = template_repo g"
    and "gsTemplateSvc n = NewTemplateService t" "unpublished (rows s)"
  shows "\<exists>e s1. run_state (buildNotification n noti bizID) s = ((zero_Notification, Some e), s1)"
proof -
  obtain m e where "NewNotificationFromAPI noti = (m, e)" by fastforce
  moreover obtain tm e2 s1 where g: "run_state (ctrGetTemplateByID (template_repo g) (tID (nTemplate m))) s
      = ((tm, e2), s1)" by (metis prod.collapse)
  moreover have "\<not> HasPublished tm" if "e2 = None"
    using GetTemplateByID_unpublished [OF law assms(4)] g that by (simp add: HasPublished_def)
  ultimately show ?thesis
    using assms(2,3) by (cases e; cases e2)
      (simp_all add: buildNotification_def NewTemplateService_def)
qed


text \<open>Of the statuses a notification can have, all but one are told apart in the API; the pending
  one is reported as unspecified, and a notification that is being sent as pending. The call-back
  for the same notification reports both the other way round.\<close>

theorem Status_in_API:
  assumes "st \<in> set [SendStatusPrepare, SendStatusCanceled, SendStatusPending, SendStatusSending,
      SendStatusSucceeded, SendStatusFailed]" "nStatus m = st"
  shows "(covertToGRPCSendStatus st = callback_getStatus m
      \<longleftrightarrow> st \<noteq> SendStatusPending \<and> st \<noteq> SendStatusSending)
    \<and> (covertToGRPCSendStatus st = SendStatus_SEND_STATUS_UNSPECIFIED \<longleftrightarrow> st = SendStatusPending)
    \<and> (callback_getStatus m = SendStatus_SEND_STATUS_UNSPECIFIED \<longleftrightarrow> st = SendStatusSending)
    \<and> covertToGRPCSendStatus SendStatusSending = callback_getStatus (m\<lparr>nStatus := SendStatusPending\<rparr>)"
  using assms by (auto simp: covertToGRPCSendStatus_def callback_getStatus_def status_simps)

section \<open>Examples\<close>

definition demo_publishing :: "template_tables ChannelTemplateService" where
  "demo_publishing =
     (NewTemplateService demo_templateService)
       \<lparr>ctsGetTemplateByID := \<lambda>i. io_return (zero_ChannelTemplate\<lparr>ctID := i, ctActiveVersionID := 8\<rparr>, None)\<rparr>"

definition accepting_service :: "'s sendService" where
  "accepting_service =
     \<lparr>svClock = io_return 5, svGenerate = \<lambda>_ _. io_return 77,
      svStrategy = \<lparr>stSend = \<lambda>n. io_return (\<lparr>NotificationID = nID n, srStatus = SendStatusSucceeded\<rparr>, None),
        stBatchSend = \<lambda>ns. io_return
          (map (\<lambda>n. \<lparr>NotificationID = nID n, srStatus = SendStatusSucceeded\<rparr>) ns, None)\<rparr>\<rparr>"

definition demo_server :: "template_tables NotificationServer" where
  "demo_server =
     \<lparr>gsGetByKeys = \<lambda>_ _. io_return ([], None), gsSendSvc = SendService_api accepting_service,
      gsTxnSvc = \<lparr>txsPrepare = \<lambda>_. io_return (1, None), txsCommit = \<lambda>_ _. io_return None,
        txsCancel = \<lambda>_ _. io_return None\<rparr>,
      gsTemplateSvc = demo_publishing\<rparr>"

definition demo_request :: pbNotification where
  "demo_request =
     zero_pbNotification\<lparr>pbKey := ''order'', pbReceivers := [''a''], pbChannel := Channel_SMS,
       pbTemplateId := ''1'', pbTemplateParams := [(''code'', ''1'')]\<rparr>"

definition no_tables :: template_tables where "no_tables = \<lparr>ttT = [], ttV = [], ttP = []\<rparr>"

lemma demo_built:
  "built demo_server 7 s (Some demo_request) =
     (zero_Notification\<lparr>nBizID := 7, nKey := ''order'', nReceivers := [''a''], nChannel := ChannelSMS,
        nTemplate := \<lparr>tID = 1, tVersionID = 8, tParams = [(''code'', ''1'')], tVersion = 0\<rparr>,
        nSendStrategyConfig := getDomainSendStrategyConfig demo_request\<rparr>, None)"
proof -
  have "ParseInt ''1'' = Some 1" by code_simp
  then show ?thesis
    by (simp add: built_def buildNotification_def NewNotificationFromAPI_def getDomainChannel_def
        demo_request_def demo_server_def demo_publishing_def HasPublished_def zero_Template_def
        Channel_SMS_def)
qed

lemma demo_reads: "reads_templates demo_server (\<lambda>i s. (zero_ChannelTemplate\<lparr>ctID := i, ctActiveVersionID := 8\<rparr>, None))"
  by (simp add: reads_templates_def demo_server_def demo_publishing_def)

lemma demo_biz: "GetBizIDFromContext demo_ctx = (7, None)"
  by (simp add: GetBizIDFromContext_def demo_ctx_def)

theorem Send_success_genuine_witness:
  "\<exists>resp s' m s1 result.
     run_state (server_SendNotification demo_server demo_ctx (Some (Some demo_request))) no_tables
       = (Some (Some resp, None), s')
   \<and> run_state (SendNotification accepting_service m) s1 = ((result, None), s')
   \<and> snrNotificationId resp = NotificationID result"
proof -
  have "pbSendStrategy demo_request = None" by (simp add: demo_request_def zero_pbNotification_def)
  then have "ssType (getDomainSendStrategyConfig demo_request) = SendStrategyImmediate"
    by (simp add: getDomainSendStrategyConfig_def)
  then have "Notification_Validate 5 (fst (built demo_server 7 no_tables (Some demo_request))) = None"
    unfolding demo_built Notification_Validate_def Channel_IsValid_def SendStrategyConfig_Validate_def
    by simp
  then have "run_state (server_SendNotification demo_server demo_ctx (Some (Some demo_request))) no_tables
    = (Some (Some (zero_response\<lparr>snrNotificationId := 77, snrStatus := SendStatus_SUCCEEDED\<rparr>), None), no_tables)"
    by (simp add: server_SendNotification_def demo_biz buildNotification_reads [OF demo_reads] demo_built)
      (simp add: demo_server_def SendService_api_def SendNotification_def accepting_service_def
        io_answer_def covertToGRPCSendStatus_def status_simps)
  note run = this
  have "gsSendSvc demo_server = SendService_api accepting_service" by (simp add: demo_server_def)
  from Send_success_genuine [OF run this] obtain m s1 result where
    r: "run_state (SendNotification accepting_service m) s1 = ((result, None), no_tables)"
    and e: "zero_response\<lparr>snrNotificationId := 77, snrStatus := SendStatus_SUCCEEDED\<rparr>
      = zero_response\<lparr>snrNotificationId := NotificationID result,
          snrStatus := covertToGRPCSendStatus (srStatus result)\<rparr>"
    by (auto simp: zero_response_def)
  from arg_cong [OF e, of snrNotificationId] have "77 = NotificationID result" by simp
  with run r show ?thesis by (intro exI conjI) auto
qed

theorem Batch_all_or_nothing_witness:
  "run_state (server_SendNotificationBatch demo_server demo_ctx (Some [Some demo_request, None])) no_tables
   = (Some (Some \<lparr>snbTotalCount = 2, snbSuccessCount = 0,
        snbResults = [None, Some (failed_response ErrorCode_INVALID_PARAMETER)]\<rparr>, None), no_tables)"
proof -
  have "built demo_server 7 s None = (zero_Notification, Some invalid_parameter)" for s
    by (simp add: built_def buildNotification_def NewNotificationFromAPI_def)
  with Batch_all_or_nothing [OF demo_reads demo_biz, of "[Some demo_request, None]" no_tables]
  show ?thesis by (simp add: batchSizeLimit_def demo_built)
qed


theorem Status_in_API_witness:
  "covertToGRPCSendStatus SendStatusPending = SendStatus_SEND_STATUS_UNSPECIFIED
   \<and> callback_getStatus (zero_Notification\<lparr>nStatus := SendStatusPending\<rparr>) \<noteq> SendStatus_SEND_STATUS_UNSPECIFIED"
  using Status_in_API [of SendStatusPending "zero_Notification\<lparr>nStatus := SendStatusPending\<rparr>"]
  by (simp add: status_simps)

end
