(* ===== verification/ConfigCache.thy ===== *)
theory ConfigCache
  imports QuotaCache Invariants "HOL-Library.AList"
begin

text \<open>
  The caches of the business configurations: \<^verbatim>\<open>internal/repository/cache/config.go\<close> (the interface),
  \<^verbatim>\<open>cache/local/config.go\<close> (go-cache in memory, kept up to date by the key events of Redis) and
  \<^verbatim>\<open>cache/redis/config.go\<close>. go-cache, the Redis client and \<^verbatim>\<open>encoding/json\<close> are parameters. A Go map
  is an association list with distinct keys; a result \<open>None\<close> of an operation is a panic. The JSON
  texts are of type \<open>'j\<close>: the code hands them on without looking at them.
\<close>

section \<open>The interface\<close>

definition ErrKeyNotFound :: gerr where "ErrKeyNotFound = Ext ''key not found''"
definition ConfigPrefix :: string where "ConfigPrefix = ''config''"
definition DefaultExpriredTime :: duration where "DefaultExpriredTime = 10 * minute"

definition ConfigKey :: "int64 \<Rightarrow> string" where
  "ConfigKey bizID = ConfigPrefix @ '':'' @ FormatInt bizID"

type_synonym config_map = "(int64 \<times> BusinessConfig) list"

record 's ConfigCache =
  ccGet :: "int64 \<Rightarrow> ('s, BusinessConfig ret option) io"
  ccSet :: "BusinessConfig \<Rightarrow> ('s, gerr option option) io"
  ccDelete :: "int64 \<Rightarrow> ('s, gerr option option) io"
  ccGetConfigs :: "int64 list \<Rightarrow> ('s, config_map ret option) io"
  ccSetConfigs :: "BusinessConfig list \<Rightarrow> ('s, gerr option option) io"

section \<open>JSON\<close>

text \<open>\<open>jsUnmarshal\<close> answers the variable as the call leaves it, also beside an error.\<close>

record 'j config_json =
  jsMarshal :: "BusinessConfig \<Rightarrow> 'j ret"
  jsUnmarshal :: "'j \<Rightarrow> BusinessConfig ret"

section \<open>The local cache\<close>

datatype cached = CachedConfig BusinessConfig | CachedOther nat

record 's go_cache =
  gcGet :: "string \<Rightarrow> ('s, cached option) io"
  gcSet :: "string \<Rightarrow> cached \<Rightarrow> duration \<Rightarrow> ('s, unit) io"
  gcDelete :: "string \<Rightarrow> ('s, unit) io"

definition ErrWrongType :: gerr where "ErrWrongType = Ext ''wrong data type''"

definition local_Get :: "'s go_cache \<Rightarrow> int64 \<Rightarrow> ('s, BusinessConfig ret option) io" where
  "local_Get c bizID = do {
     val \<leftarrow> gcGet c (ConfigKey bizID);
     io_ok (case val of
         None \<Rightarrow> (zero_BusinessConfig, Some ErrKeyNotFound)
       | Some (CachedConfig res) \<Rightarrow> (res, None)
       | Some (CachedOther _) \<Rightarrow> (zero_BusinessConfig, Some ErrWrongType))
   }"

definition local_Set :: "'s go_cache \<Rightarrow> BusinessConfig \<Rightarrow> ('s, gerr option option) io" where
  "local_Set c cfg = do {
     _ \<leftarrow> gcSet c (ConfigKey (bcID cfg)) (CachedConfig cfg) DefaultExpriredTime;
     io_ok None
   }"

definition local_Delete :: "'s go_cache \<Rightarrow> int64 \<Rightarrow> ('s, gerr option option) io" where
  "local_Delete c bizID = do { _ \<leftarrow> gcDelete c (ConfigKey bizID); io_ok None }"

fun local_collect ::
  "'s go_cache \<Rightarrow> int64 list \<Rightarrow> config_map \<Rightarrow> ('s, config_map ret option) io" where
  "local_collect c [] configMap = io_ok (configMap, None)"
| "local_collect c (bizID # ids) configMap = do {
     val \<leftarrow> gcGet c (ConfigKey bizID);
     case val of
       None \<Rightarrow> local_collect c ids configMap
     | Some (CachedConfig res) \<Rightarrow> local_collect c ids (AList.update bizID res configMap)
     | Some (CachedOther _) \<Rightarrow> io_ok (configMap, Some ErrWrongType)
   }"

definition local_GetConfigs :: "'s go_cache \<Rightarrow> int64 list \<Rightarrow> ('s, config_map ret option) io" where
  "local_GetConfigs c bizIDs = local_collect c bizIDs []"

definition local_SetConfigs :: "'s go_cache \<Rightarrow> BusinessConfig list \<Rightarrow> ('s, gerr option option) io" where
  "local_SetConfigs c cfgs = do {
     _ \<leftarrow> for_each (\<lambda>cfg. gcSet c (ConfigKey (bcID cfg)) (CachedConfig cfg) DefaultExpriredTime) cfgs;
     io_ok None
   }"

definition LocalCache :: "'s go_cache \<Rightarrow> 's ConfigCache" where
  "LocalCache c =
     \<lparr>ccGet = local_Get c, ccSet = local_Set c, ccDelete = local_Delete c,
      ccGetConfigs = local_GetConfigs c, ccSetConfigs = local_SetConfigs c\<rparr>"

section \<open>The cache in Redis\<close>

datatype 'j mget_val = MNil | MString 'j | MOther

record ('s, 'j) config_redis =
  rgGet :: "string \<Rightarrow> ('s, 'j ret) io"
  rgSet :: "string \<Rightarrow> 'j \<Rightarrow> duration \<Rightarrow> ('s, gerr option) io"
  rgDel :: "string \<Rightarrow> ('s, gerr option) io"
  rgMGet :: "string list \<Rightarrow> ('s, 'j mget_val list ret) io"
  rgExec :: "(string \<times> 'j \<times> duration) list \<Rightarrow> ('s, gerr option) io"

text \<open>The fields of the cache: a nil client or logger panics when it is used.\<close>

record ('s, 'j) redis_Cache =
  rcClient :: "('s, 'j) config_redis option"
  rcLogger :: bool
  rcJson :: "'j config_json"

text \<open>The constructor drops its arguments.\<close>

definition NewCache :: "'j config_json \<Rightarrow> ('s, 'j) config_redis \<Rightarrow> bool \<Rightarrow> ('s, 'j) redis_Cache" where
  "NewCache js client logger = \<lparr>rcClient = None, rcLogger = False, rcJson = js\<rparr>"

definition rcache_Get :: "('s, 'j) redis_Cache \<Rightarrow> int64 \<Rightarrow> ('s, BusinessConfig ret option) io" where
  "rcache_Get c bizID =
     (case rcClient c of
        None \<Rightarrow> io_panic
      | Some client \<Rightarrow> do {
          (val, err) \<leftarrow> rgGet client (ConfigKey bizID);
          io_ok (case err of
              Some e \<Rightarrow> (zero_BusinessConfig, Some (if errors_Is e redis_Nil then ErrKeyNotFound else e))
            | None \<Rightarrow>
                (case jsUnmarshal (rcJson c) val of
                   (_, Some e) \<Rightarrow> (zero_BusinessConfig, Some (Wrap [e]))
                 | (cfg, None) \<Rightarrow> (cfg, None)))
        })"

definition rcache_Set :: "('s, 'j) redis_Cache \<Rightarrow> BusinessConfig \<Rightarrow> ('s, gerr option option) io" where
  "rcache_Set c cfg =
     (case jsMarshal (rcJson c) cfg of
        (_, Some e) \<Rightarrow> io_ok (Some (Wrap [e]))
      | (data, None) \<Rightarrow>
          (case rcClient c of
             None \<Rightarrow> io_panic
           | Some client \<Rightarrow> do {
               err \<leftarrow> rgSet client (ConfigKey (bcID cfg)) data DefaultExpriredTime;
               io_ok (map_option (\<lambda>e. Wrap [e]) err)
             }))"

definition rcache_Delete :: "('s, 'j) redis_Cache \<Rightarrow> int64 \<Rightarrow> ('s, gerr option option) io" where
  "rcache_Delete c bizID =
     (case rcClient c of
        None \<Rightarrow> io_panic
      | Some client \<Rightarrow> do { err \<leftarrow> rgDel client (ConfigKey bizID); io_ok err })"

text \<open>The loop over the values: the identifiers are indexed by the position of the value, and a
  value that cannot be parsed is logged and left out. \<open>None\<close> is a panic.\<close>

fun rcache_collect ::
  "('s, 'j) redis_Cache \<Rightarrow> int64 list \<Rightarrow> 'j mget_val list \<Rightarrow> config_map \<Rightarrow> config_map option" where
  "rcache_collect c ids [] res = Some res"
| "rcache_collect c ids (MString strVal # vals) res =
     (case ids of
        [] \<Rightarrow> None
      | bizID # ids' \<Rightarrow>
          (case jsUnmarshal (rcJson c) strVal of
             (cfg, None) \<Rightarrow> rcache_collect c ids' vals (AList.update bizID cfg res)
           | (_, Some _) \<Rightarrow> if rcLogger c then rcache_collect c ids' vals res else None))"
| "rcache_collect c ids (_ # vals) res = rcache_collect c (tl ids) vals res"

definition rcache_GetConfigs :: "('s, 'j) redis_Cache \<Rightarrow> int64 list \<Rightarrow> ('s, config_map ret option) io" where
  "rcache_GetConfigs c bizIDs =
     (if bizIDs = [] then io_ok ([], None)
      else case rcClient c of
        None \<Rightarrow> io_panic
      | Some client \<Rightarrow> do {
          (vals, err) \<leftarrow> rgMGet client (map ConfigKey bizIDs);
          case err of
            Some e \<Rightarrow> io_ok ([], Some (Wrap [e]))
          | None \<Rightarrow>
              (case rcache_collect c bizIDs vals [] of
                 None \<Rightarrow> io_panic
               | Some res \<Rightarrow> io_ok (res, None))
        })"

fun rcache_pipe ::
  "'j config_json \<Rightarrow> BusinessConfig list \<Rightarrow> gerr + (string \<times> 'j \<times> duration) list" where
  "rcache_pipe js [] = Inr []"
| "rcache_pipe js (cfg # cfgs) =
     (case jsMarshal js cfg of
        (_, Some e) \<Rightarrow> Inl (Wrap [e])
      | (data, None) \<Rightarrow>
          (case rcache_pipe js cfgs of
             Inl e \<Rightarrow> Inl e
           | Inr cmds \<Rightarrow> Inr ((ConfigKey (bcID cfg), data, DefaultExpriredTime) # cmds)))"

definition rcache_SetConfigs :: "('s, 'j) redis_Cache \<Rightarrow> BusinessConfig list \<Rightarrow> ('s, gerr option option) io" where
  "rcache_SetConfigs c cfgs =
     (if cfgs = [] then io_ok None
      else case rcClient c of
        None \<Rightarrow> io_panic
      | Some client \<Rightarrow>
          (case rcache_pipe (rcJson c) cfgs of
             Inl e \<Rightarrow> io_ok (Some e)
           | Inr cmds \<Rightarrow> do {
               err \<leftarrow> rgExec client cmds;
               io_ok (map_option (\<lambda>e. Wrap [e]) err)
             }))"

definition RedisCache :: "('s, 'j) redis_Cache \<Rightarrow> 's ConfigCache" where
  "RedisCache c =
     \<lparr>ccGet = rcache_Get c, ccSet = rcache_Set c, ccDelete = rcache_Delete c,
      ccGetConfigs = rcache_GetConfigs c, ccSetConfigs = rcache_SetConfigs c\<rparr>"

section \<open>Key events\<close>

text \<open>\<^verbatim>\<open>strings.SplitN\<close> with the separator ":" and the limit 2.\<close>

fun SplitN2 :: "string \<Rightarrow> string list" where
  "SplitN2 [] = [[]]"
| "SplitN2 (c # cs) =
     (if c = CHR '':'' then [[], cs]
      else case SplitN2 cs of x # xs \<Rightarrow> (c # x) # xs | [] \<Rightarrow> [[c]])"

definition handlerConfigChange ::
  "'j config_json \<Rightarrow> ('s, 'j) config_redis \<Rightarrow> 's go_cache \<Rightarrow> string \<Rightarrow> string \<Rightarrow> ('s, unit) io" where
  "handlerConfigChange js rdb c key eventType =
     (if eventType = ''set'' then do {
        (val, _) \<leftarrow> rgGet rdb key;
        gcSet c key (CachedConfig (fst (jsUnmarshal js val))) DefaultExpriredTime
      }
      else if eventType = ''del'' then gcDelete c key
      else io_return ())"

definition local_loop_step ::
  "'j config_json \<Rightarrow> ('s, 'j) config_redis \<Rightarrow> 's go_cache \<Rightarrow> string \<times> string \<Rightarrow> ('s, unit) io" where
  "local_loop_step js rdb c msg =
     (case SplitN2 (fst msg) of
        _ # key # _ \<Rightarrow> handlerConfigChange js rdb c key (snd msg)
      | _ \<Rightarrow> io_return ())"

definition local_loop ::
  "'j config_json \<Rightarrow> ('s, 'j) config_redis \<Rightarrow> 's go_cache \<Rightarrow> (string \<times> string) list \<Rightarrow> ('s, unit) io" where
  "local_loop js rdb c msgs = for_each (local_loop_step js rdb c) msgs"

section \<open>The contract of a configuration cache\<close>

text \<open>A cache that works: \<open>view\<close> is what it holds, \<open>frame\<close> the part of the world it does not
  touch. Within the lifetime of the entries it is a map.\<close>

locale config_cache =
  fixes cache :: "'s ConfigCache"
    and view :: "'s \<Rightarrow> int64 \<Rightarrow> BusinessConfig option"
    and frame :: "'s \<Rightarrow> 'f"
  assumes get_hit: "view s i = Some c \<Longrightarrow> run_state (ccGet cache i) s = (Some (c, None), s)"
    and get_miss: "view s i = None \<Longrightarrow> \<exists>c e. run_state (ccGet cache i) s = (Some (c, Some e), s)"
    and set: "\<exists>s'. run_state (ccSet cache c) s = (Some None, s')
      \<and> view s' = (view s)(bcID c \<mapsto> c) \<and> frame s' = frame s"
    and delete: "\<exists>s'. run_state (ccDelete cache i) s = (Some None, s')
      \<and> view s' = (view s)(i := None) \<and> frame s' = frame s"
    and get_configs: "\<exists>m. run_state (ccGetConfigs cache ids) s = (Some (m, None), s)
      \<and> map_of m = view s |` set ids \<and> distinct (map fst m)"
    and set_configs: "\<exists>s'. run_state (ccSetConfigs cache cs) s = (Some None, s')
      \<and> view s' = foldl (\<lambda>v c. v(bcID c \<mapsto> c)) (view s) cs \<and> frame s' = frame s"
begin

lemma set_get:
  "fst (run_state (io_call (ccSet cache c) (\<lambda>_. ccGet cache (bcID c))) s) = Some (c, None)"
proof -
  obtain s' where "run_state (ccSet cache c) s = (Some None, s')" "view s' = (view s)(bcID c \<mapsto> c)"
    using set by blast
  then show ?thesis by (simp add: get_hit)
qed

lemma delete_get:
  "\<exists>d e. fst (run_state (io_call (ccDelete cache i) (\<lambda>_. ccGet cache i)) s) = Some (d, Some e)"
proof -
  obtain s' where "run_state (ccDelete cache i) s = (Some None, s')" "view s' = (view s)(i := None)"
    using delete by blast
  moreover from this get_miss [of s' i] show ?thesis by auto
qed

lemma get_iff: "(\<exists>c. fst (run_state (ccGet cache i) s) = Some (c, None)) \<longleftrightarrow> view s i \<noteq> None"
  using get_hit [of s i] get_miss [of s i] by (cases "view s i") auto

end

section \<open>What the caches rely on\<close>

lemma ConfigKey_inject [simp]: "ConfigKey i = ConfigKey j \<longleftrightarrow> i = j"
  by (auto simp: ConfigKey_def FormatInt_inject)

definition go_cache_law ::
  "'s go_cache \<Rightarrow> ('s \<Rightarrow> string \<Rightarrow> BusinessConfig option) \<Rightarrow> ('s \<Rightarrow> 'f) \<Rightarrow> bool" where
  "go_cache_law gc cached frame \<longleftrightarrow>
     (\<forall>k s. run_state (gcGet gc k) s = (map_option CachedConfig (cached s k), s))
   \<and> (\<forall>k c ttl s. \<exists>s'. run_state (gcSet gc k (CachedConfig c) ttl) s = ((), s')
        \<and> cached s' = (cached s)(k \<mapsto> c) \<and> frame s' = frame s)
   \<and> (\<forall>k s. \<exists>s'. run_state (gcDelete gc k) s = ((), s')
        \<and> cached s' = (cached s)(k := None) \<and> frame s' = frame s)"

definition config_redis_law ::
  "('s, 'j) config_redis \<Rightarrow> ('s \<Rightarrow> string \<Rightarrow> 'j option) \<Rightarrow> ('s \<Rightarrow> 'f) \<Rightarrow> bool" where
  "config_redis_law rd stored frame \<longleftrightarrow>
     (\<forall>k s. \<exists>v. run_state (rgGet rd k) s
        = (case stored s k of None \<Rightarrow> ((v, Some redis_Nil), s) | Some t \<Rightarrow> ((t, None), s)))
   \<and> (\<forall>k t ttl s. \<exists>s'. run_state (rgSet rd k t ttl) s = (None, s')
        \<and> stored s' = (stored s)(k \<mapsto> t) \<and> frame s' = frame s)
   \<and> (\<forall>k s. \<exists>s'. run_state (rgDel rd k) s = (None, s')
        \<and> stored s' = (stored s)(k := None) \<and> frame s' = frame s)
   \<and> (\<forall>ks s. run_state (rgMGet rd ks) s
        = ((map (\<lambda>k. case stored s k of None \<Rightarrow> MNil | Some t \<Rightarrow> MString t) ks, None), s))
   \<and> (\<forall>cmds s. \<exists>s'. run_state (rgExec rd cmds) s = (None, s')
        \<and> stored s' = foldl (\<lambda>m (k, t, _). m(k \<mapsto> t)) (stored s) cmds \<and> frame s' = frame s)"

definition json_law :: "'j config_json \<Rightarrow> bool" where
  "json_law js \<longleftrightarrow> (\<forall>c. \<exists>t. jsMarshal js c = (t, None) \<and> jsUnmarshal js t = (c, None))"

lemmas gocache_get = go_cache_law_def [THEN iffD1, THEN conjunct1, rule_format]
lemmas gocache_set = go_cache_law_def [THEN iffD1, THEN conjunct2, THEN conjunct1, rule_format]
lemmas gocache_delete = go_cache_law_def [THEN iffD1, THEN conjunct2, THEN conjunct2, rule_format]
lemmas redis_get = config_redis_law_def [THEN iffD1, THEN conjunct1, rule_format]
lemmas redis_set = config_redis_law_def [THEN iffD1, THEN conjunct2, THEN conjunct1, rule_format]
lemmas redis_del = config_redis_law_def [THEN iffD1, THEN conjunct2, THEN conjunct2, THEN conjunct1, rule_format]
lemmas redis_mget =
  config_redis_law_def [THEN iffD1, THEN conjunct2, THEN conjunct2, THEN conjunct2, THEN conjunct1, rule_format]
lemmas redis_exec =
  config_redis_law_def [THEN iffD1, THEN conjunct2, THEN conjunct2, THEN conjunct2, THEN conjunct2, rule_format]

section \<open>The local cache keeps the contract\<close>

definition local_view :: "('s \<Rightarrow> string \<Rightarrow> BusinessConfig option) \<Rightarrow> 's \<Rightarrow> int64 \<Rightarrow> BusinessConfig option" where
  "local_view cached s i = cached s (ConfigKey i)"

lemma local_collect_run:
  assumes "go_cache_law gc cached frame" "distinct (map fst m0)"
  shows "\<exists>m. run_state (local_collect gc ids m0) s = (Some (m, None), s)
    \<and> map_of m = map_of m0 ++ (local_view cached s |` set ids) \<and> distinct (map fst m)"
  using assms(2)
proof (induction ids arbitrary: m0)
  case Nil
  then show ?case by simp
next
  case (Cons i ids)
  show ?case
  proof (cases "cached s (ConfigKey i)")
    case None
    have "local_view cached s |` set (i # ids) = local_view cached s |` set ids"
      using None by (intro ext) (simp add: local_view_def restrict_map_def)
    with None Cons show ?thesis by (simp add: gocache_get [OF assms(1)])
  next
    case (Some c)
    have "map_of (AList.update i c m0) ++ (local_view cached s |` set ids)
        = map_of m0 ++ (local_view cached s |` set (i # ids))"
      using Some
      by (intro ext) (simp add: local_view_def restrict_map_def update_conv' map_add_def split: option.split)
    moreover have "distinct (map fst (AList.update i c m0))"
      using Cons.prems by (rule distinct_update)
    ultimately show ?thesis
      using Some Cons.IH [of "AList.update i c m0"] by (simp add: gocache_get [OF assms(1)])
  qed
qed

lemma local_set_all:
  assumes "go_cache_law gc cached frame"
  shows "\<exists>s'. run_state (for_each (\<lambda>cfg. gcSet gc (ConfigKey (bcID cfg)) (CachedConfig cfg) ttl) cs) s = ((), s')
    \<and> local_view cached s' = foldl (\<lambda>v c. v(bcID c \<mapsto> c)) (local_view cached s) cs \<and> frame s' = frame s"
proof (induction cs arbitrary: s)
  case Nil
  then show ?case by simp
next
  case (Cons c cs)
  obtain s1 where s1: "run_state (gcSet gc (ConfigKey (bcID c)) (CachedConfig c) ttl) s = ((), s1)"
    "cached s1 = (cached s)(ConfigKey (bcID c) \<mapsto> c)" "frame s1 = frame s"
    using gocache_set [OF assms] by blast
  then have "local_view cached s1 = (local_view cached s)(bcID c \<mapsto> c)"
    by (auto simp: local_view_def)
  with s1 Cons.IH [of s1] show ?case by simp
qed

lemma local_cache_contract:
  assumes "go_cache_law gc cached frame"
  shows "config_cache (LocalCache gc) (local_view cached) frame"
proof
  note get = gocache_get [OF assms]
  fix s i ids cs and c :: BusinessConfig
  show "local_view cached s i = Some c \<Longrightarrow> run_state (ccGet (LocalCache gc) i) s = (Some (c, None), s)"
    by (simp add: LocalCache_def local_Get_def local_view_def get)
  show "local_view cached s i = None
      \<Longrightarrow> \<exists>c e. run_state (ccGet (LocalCache gc) i) s = (Some (c, Some e), s)"
    by (simp add: LocalCache_def local_Get_def local_view_def get)
  show "\<exists>s'. run_state (ccSet (LocalCache gc) c) s = (Some None, s')
      \<and> local_view cached s' = (local_view cached s)(bcID c \<mapsto> c) \<and> frame s' = frame s"
    using gocache_set [OF assms, of "ConfigKey (bcID c)" c DefaultExpriredTime s]
    by (auto simp: LocalCache_def local_Set_def local_view_def fun_eq_iff)
  show "\<exists>s'. run_state (ccDelete (LocalCache gc) i) s = (Some None, s')
      \<and> local_view cached s' = (local_view cached s)(i := None) \<and> frame s' = frame s"
    using gocache_delete [OF assms, of "ConfigKey i" s]
    by (auto simp: LocalCache_def local_Delete_def local_view_def fun_eq_iff)
  show "\<exists>m. run_state (ccGetConfigs (LocalCache gc) ids) s = (Some (m, None), s)
      \<and> map_of m = local_view cached s |` set ids \<and> distinct (map fst m)"
    using local_collect_run [OF assms, of "[]" ids s] by (simp add: LocalCache_def local_GetConfigs_def)
  show "\<exists>s'. run_state (ccSetConfigs (LocalCache gc) cs) s = (Some None, s')
      \<and> local_view cached s' = foldl (\<lambda>v c. v(bcID c \<mapsto> c)) (local_view cached s) cs \<and> frame s' = frame s"
    using local_set_all [OF assms, of DefaultExpriredTime cs s]
    by (auto simp: LocalCache_def local_SetConfigs_def)
qed

section \<open>The cache in Redis keeps the contract when it has a client\<close>

definition redis_view ::
  "'j config_json \<Rightarrow> ('s \<Rightarrow> string \<Rightarrow> 'j option) \<Rightarrow> 's \<Rightarrow> int64 \<Rightarrow> BusinessConfig option" where
  "redis_view js stored s i =
     (case stored s (ConfigKey i) of
        None \<Rightarrow> None
      | Some t \<Rightarrow> (case jsUnmarshal js t of (c, None) \<Rightarrow> Some c | _ \<Rightarrow> None))"

abbreviation working_redis :: "'j config_json \<Rightarrow> ('s, 'j) config_redis \<Rightarrow> ('s, 'j) redis_Cache" where
  "working_redis js rd \<equiv> \<lparr>rcClient = Some rd, rcLogger = True, rcJson = js\<rparr>"

lemma map_add_restrict_insert_None:
  "v i = None \<Longrightarrow> m ++ (v |` insert i A) = m ++ (v |` A)"
  by (intro ext) (simp add: restrict_map_def map_add_def)

lemma map_add_restrict_insert_Some:
  "v i = Some c \<Longrightarrow> m ++ (v |` insert i A) = (m(i \<mapsto> c)) ++ (v |` A)"
  by (intro ext) (simp add: restrict_map_def map_add_def split: option.split)

lemma rcache_collect_run:
  assumes "distinct (map fst m0)"
  shows "\<exists>m. rcache_collect (working_redis js rd) ids
        (map (\<lambda>i. case stored s (ConfigKey i) of None \<Rightarrow> MNil | Some t \<Rightarrow> MString t) ids) m0 = Some m
    \<and> map_of m = map_of m0 ++ (redis_view js stored s |` set ids) \<and> distinct (map fst m)"
  using assms
proof (induction ids arbitrary: m0)
  case Nil
  then show ?case by simp
next
  case (Cons i ids)
  show ?case
  proof (cases "redis_view js stored s i")
    case None
    from None Cons.IH [OF Cons.prems] show ?thesis
      by (auto simp: map_add_restrict_insert_None redis_view_def split: option.splits prod.splits)
  next
    case (Some c)
    then obtain t where "stored s (ConfigKey i) = Some t" "jsUnmarshal js t = (c, None)"
      by (auto simp: redis_view_def split: option.splits prod.splits)
    moreover have "distinct (map fst (AList.update i c m0))"
      using Cons.prems by (rule distinct_update)
    ultimately show ?thesis
      using Some Cons.IH [of "AList.update i c m0"]
      by (simp add: map_add_restrict_insert_Some update_conv' del: fun_upd_apply)
  qed
qed

lemma rcache_GetConfigs_run:
  assumes "ids \<noteq> []" "run_state (rgMGet rd (map ConfigKey ids)) s = ((vs, None), s)"
    and "rcache_collect (working_redis js rd) ids vs [] = Some m"
  shows "run_state (rcache_GetConfigs (working_redis js rd) ids) s = (Some (m, None), s)"
  unfolding rcache_GetConfigs_def if_not_P [OF assms(1)] by (simp add: assms(2,3))

lemma rcache_pipe_run:
  assumes "json_law js"
  shows "\<exists>cmds. rcache_pipe js cs = Inr cmds
    \<and> (\<forall>v. (\<forall>i. redis_view js (\<lambda>_. v) () i = w i)
        \<longrightarrow> redis_view js (\<lambda>_. foldl (\<lambda>m (k, t, _). m(k \<mapsto> t)) v cmds) ()
            = foldl (\<lambda>v c. v(bcID c \<mapsto> c)) w cs)"
proof (induction cs arbitrary: w)
  case Nil
  then show ?case by auto
next
  case (Cons c cs)
  from assms obtain t where t: "jsMarshal js c = (t, None)" "jsUnmarshal js t = (c, None)"
    unfolding json_law_def by blast
  from Cons.IH [of "w(bcID c \<mapsto> c)"] obtain cmds where cmds: "rcache_pipe js cs = Inr cmds"
    "\<And>v. (\<forall>i. redis_view js (\<lambda>_. v) () i = (w(bcID c \<mapsto> c)) i)
        \<Longrightarrow> redis_view js (\<lambda>_. foldl (\<lambda>m (k, t, _). m(k \<mapsto> t)) v cmds) ()
            = foldl (\<lambda>v c. v(bcID c \<mapsto> c)) (w(bcID c \<mapsto> c)) cs" by blast
  have "redis_view js (\<lambda>_. v(ConfigKey (bcID c) \<mapsto> t)) () i = (w(bcID c \<mapsto> c)) i"
    if "\<forall>i. redis_view js (\<lambda>_. v) () i = w i" for v i
    using that [THEN spec, of i] t by (simp add: redis_view_def)
  then have "redis_view js (\<lambda>_. foldl (\<lambda>m (k, t, _). m(k \<mapsto> t)) (v(ConfigKey (bcID c) \<mapsto> t)) cmds) ()
      = foldl (\<lambda>v c. v(bcID c \<mapsto> c)) (w(bcID c \<mapsto> c)) cs"
    if "\<forall>i. redis_view js (\<lambda>_. v) () i = w i" for v
    using that by (intro cmds(2)) blast
  with t cmds(1) show ?case by (auto simp del: fun_upd_apply)
qed

lemma redis_view_state: "redis_view js stored s = redis_view js (\<lambda>_. stored s) ()"
  by (simp add: redis_view_def fun_eq_iff)

lemma redis_cache_contract:
  assumes "config_redis_law rd stored frame" "json_law js"
  shows "config_cache (RedisCache (working_redis js rd)) (redis_view js stored) frame"
proof
  fix s i ids cs and c :: BusinessConfig
  obtain v where v: "run_state (rgGet rd (ConfigKey i)) s = (case stored s (ConfigKey i) of
      None \<Rightarrow> ((v, Some redis_Nil), s) | Some t \<Rightarrow> ((t, None), s))"
    using redis_get [OF assms(1)] by blast
  show "redis_view js stored s i = Some c
      \<Longrightarrow> run_state (ccGet (RedisCache (working_redis js rd)) i) s = (Some (c, None), s)"
    using v by (auto simp: RedisCache_def rcache_Get_def redis_view_def split: option.splits prod.splits)
  show "redis_view js stored s i = None
      \<Longrightarrow> \<exists>c e. run_state (ccGet (RedisCache (working_redis js rd)) i) s = (Some (c, Some e), s)"
    using v by (auto simp: RedisCache_def rcache_Get_def redis_view_def split: option.splits prod.splits)
  obtain t where t: "jsMarshal js c = (t, None)" "jsUnmarshal js t = (c, None)"
    using assms(2) unfolding json_law_def by blast
  obtain s1 where "run_state (rgSet rd (ConfigKey (bcID c)) t DefaultExpriredTime) s = (None, s1)"
    "stored s1 = (stored s)(ConfigKey (bcID c) \<mapsto> t)" "frame s1 = frame s"
    using redis_set [OF assms(1)] by blast
  with t show "\<exists>s'. run_state (ccSet (RedisCache (working_redis js rd)) c) s = (Some None, s')
      \<and> redis_view js stored s' = (redis_view js stored s)(bcID c \<mapsto> c) \<and> frame s' = frame s"
    by (auto simp: RedisCache_def rcache_Set_def redis_view_def)
  obtain s2 where "run_state (rgDel rd (ConfigKey i)) s = (None, s2)"
    "stored s2 = (stored s)(ConfigKey i := None)" "frame s2 = frame s"
    using redis_del [OF assms(1)] by blast
  then show "\<exists>s'. run_state (ccDelete (RedisCache (working_redis js rd)) i) s = (Some None, s')
      \<and> redis_view js stored s' = (redis_view js stored s)(i := None) \<and> frame s' = frame s"
    by (auto simp: RedisCache_def rcache_Delete_def redis_view_def fun_eq_iff)
  obtain m where m: "rcache_collect (working_redis js rd) ids
        (map (\<lambda>i. case stored s (ConfigKey i) of None \<Rightarrow> MNil | Some t \<Rightarrow> MString t) ids) [] = Some m"
    "map_of m = redis_view js stored s |` set ids" "distinct (map fst m)"
    using rcache_collect_run [where ?m0.0 = "[]" and js = js and ids = ids and stored = stored and s = s
        and rd = rd] by auto
  have "run_state (ccGetConfigs (RedisCache (working_redis js rd)) ids) s = (Some (m, None), s)"
  proof (cases "ids = []")
    case True
    with m(1) show ?thesis by (simp add: RedisCache_def rcache_GetConfigs_def)
  next
    case False
    have "run_state (rgMGet rd (map ConfigKey ids)) s
      = ((map (\<lambda>i. case stored s (ConfigKey i) of None \<Rightarrow> MNil | Some t \<Rightarrow> MString t) ids, None), s)"
      unfolding redis_mget [OF assms(1)] by (simp add: o_def)
    from rcache_GetConfigs_run [OF False this m(1)] show ?thesis by (simp add: RedisCache_def)
  qed
  with m(2,3) show "\<exists>m. run_state (ccGetConfigs (RedisCache (working_redis js rd)) ids) s = (Some (m, None), s)
      \<and> map_of m = redis_view js stored s |` set ids \<and> distinct (map fst m)" by blast
  obtain cmds where cmds: "rcache_pipe js cs = Inr cmds"
    and upd: "\<And>v. (\<forall>i. redis_view js (\<lambda>_. v) () i = redis_view js stored s i)
        \<Longrightarrow> redis_view js (\<lambda>_. foldl (\<lambda>m (k, t, _). m(k \<mapsto> t)) v cmds) ()
            = foldl (\<lambda>v c. v(bcID c \<mapsto> c)) (redis_view js stored s) cs"
    using rcache_pipe_run [OF assms(2), of cs "redis_view js stored s"] by blast
  obtain s3 where s3: "run_state (rgExec rd cmds) s = (None, s3)"
    "stored s3 = foldl (\<lambda>m (k, t, _). m(k \<mapsto> t)) (stored s) cmds" "frame s3 = frame s"
    using redis_exec [OF assms(1)] by blast
  have "redis_view js stored s3 = foldl (\<lambda>v c. v(bcID c \<mapsto> c)) (redis_view js stored s) cs"
    unfolding redis_view_state [of js stored s3] s3(2)
    by (rule upd) (simp add: redis_view_def)
  with s3 cmds show "\<exists>s'. run_state (ccSetConfigs (RedisCache (working_redis js rd)) cs) s = (Some None, s')
      \<and> redis_view js stored s' = foldl (\<lambda>v c. v(bcID c \<mapsto> c)) (redis_view js stored s) cs \<and> frame s' = frame s"
    by (cases "cs = []") (auto simp: RedisCache_def rcache_SetConfigs_def)
qed

section \<open>A world with both caches\<close>

text \<open>The entries of the two caches and the rest of the world; texts are the configurations
  themselves.\<close>

type_synonym 'r config_world =
  "(string \<Rightarrow> BusinessConfig option) \<times> (string \<Rightarrow> BusinessConfig option) \<times> 'r"

definition mem_go_cache :: "'r config_world go_cache" where
  "mem_go_cache =
     \<lparr>gcGet = \<lambda>k. State (\<lambda>s. (map_option CachedConfig (fst s k), s)),
      gcSet = \<lambda>k v ttl. State (\<lambda>s. ((), case v of
          CachedConfig c \<Rightarrow> ((fst s)(k \<mapsto> c), snd s) | CachedOther _ \<Rightarrow> s)),
      gcDelete = \<lambda>k. State (\<lambda>s. ((), ((fst s)(k := None), snd s)))\<rparr>"

definition mem_json :: "BusinessConfig config_json" where
  "mem_json = \<lparr>jsMarshal = \<lambda>c. (c, None), jsUnmarshal = \<lambda>t. (t, None)\<rparr>"

definition mem_config_redis :: "('r config_world, BusinessConfig) config_redis" where
  "mem_config_redis =
     \<lparr>rgGet = \<lambda>k. State (\<lambda>s. (case fst (snd s) k of
          None \<Rightarrow> (zero_BusinessConfig, Some redis_Nil) | Some t \<Rightarrow> (t, None), s)),
      rgSet = \<lambda>k t ttl. State (\<lambda>s. (None, (fst s, (fst (snd s))(k \<mapsto> t), snd (snd s)))),
      rgDel = \<lambda>k. State (\<lambda>s. (None, (fst s, (fst (snd s))(k := None), snd (snd s)))),
      rgMGet = \<lambda>ks. State (\<lambda>s. ((map (\<lambda>k. case fst (snd s) k of
          None \<Rightarrow> MNil | Some t \<Rightarrow> MString t) ks, None), s)),
      rgExec = \<lambda>cmds. State (\<lambda>s. (None, (fst s,
          foldl (\<lambda>m (k, t, _). m(k \<mapsto> t)) (fst (snd s)) cmds, snd (snd s))))\<rparr>"

lemma mem_go_cache_law: "go_cache_law mem_go_cache fst snd"
  by (simp add: go_cache_law_def mem_go_cache_def)

lemma mem_config_redis_law:
  "config_redis_law mem_config_redis (\<lambda>s. fst (snd s)) (\<lambda>s. (fst s, snd (snd s)))"
  by (simp add: config_redis_law_def mem_config_redis_def split: option.split)

lemma mem_json_law: "json_law mem_json"
  by (simp add: json_law_def mem_json_def)

interpretation local_cache: config_cache "LocalCache mem_go_cache" "local_view fst" snd
  by (rule local_cache_contract [OF mem_go_cache_law])

interpretation redis_cache: config_cache "RedisCache (working_redis mem_json mem_config_redis)"
    "redis_view mem_json (\<lambda>s. fst (snd s))" "\<lambda>s. (fst s, snd (snd s))"
  by (rule redis_cache_contract [OF mem_config_redis_law mem_json_law])

end
