(* ===== verification/ConfigRepo.thy ===== *)
theory ConfigRepo
  imports Sql ConfigCache
begin

text \<open>
  The business configurations: \<^verbatim>\<open>internal/pkg/sqlx/json.go\<close>, \<^verbatim>\<open>internal/repository/dao/config.go\<close>,
  \<^verbatim>\<open>internal/repository/config.go\<close> (two caches before the database) and the service
  \<^verbatim>\<open>internal/service/config/config.go\<close>. The database is a parameter; \<open>brOrder\<close> is the order in
  which Go walks through a map. A result \<open>None\<close> of an operation is a panic.
\<close>

section \<open>JSON columns\<close>

record 'a JsonColumn =
  jcVal :: 'a
  jcValid :: bool

datatype driver_src = SrcNil | SrcBytes string | SrcString string | SrcOther nat

text \<open>\<open>unmarshal\<close> gets the value of the variable it writes to and answers it as it leaves it.\<close>

definition json_scan ::
  "(string \<Rightarrow> 'a \<Rightarrow> 'a ret) \<Rightarrow> driver_src \<Rightarrow> 'a JsonColumn \<Rightarrow> 'a JsonColumn ret" where
  "json_scan unmarshal src j =
     (let parse = (\<lambda>bs. case unmarshal bs (jcVal j) of
          (v, Some e) \<Rightarrow> (j\<lparr>jcVal := v\<rparr>, Some e)
        | (v, None) \<Rightarrow> (\<lparr>jcVal = v, jcValid = True\<rparr>, None))
      in case src of
           SrcNil \<Rightarrow> (j, None)
         | SrcBytes bs \<Rightarrow> parse bs
         | SrcString s \<Rightarrow> parse s
         | SrcOther _ \<Rightarrow> (j, Some (Ext ''unsupported src'')))"

text \<open>\<open>SrcNil\<close> and \<open>SrcBytes\<close> are the two values the driver gets.\<close>

definition json_value :: "('a \<Rightarrow> string ret) \<Rightarrow> 'a JsonColumn \<Rightarrow> driver_src ret" where
  "json_value marshal j =
     (if \<not> jcValid j then (SrcNil, None)
      else case marshal (jcVal j) of (res, err) \<Rightarrow> (SrcBytes res, err))"

section \<open>Data access\<close>

record daoBusinessConfig =
  dbcID :: int64
  dbcOwnerID :: int64
  dbcOwnerType :: string
  dbcChannelConfig :: "ChannelConfig JsonColumn"
  dbcTxnConfig :: "TxnConfig JsonColumn"
  dbcRateLimit :: int64
  dbcQuota :: "QuotaConfig JsonColumn"
  dbcCallbackConfig :: "CallbackConfig JsonColumn"
  dbcCtime :: int64
  dbcUtime :: int64

definition zero_ChannelConfig :: ChannelConfig where
  "zero_ChannelConfig = \<lparr>ccChannels = [], ccRetryPolicy = None\<rparr>"
definition zero_TxnConfig :: TxnConfig where
  "zero_TxnConfig = \<lparr>txcServiceName = '''', txcInitialDelay = 0, txcRetryPolicy = None\<rparr>"
definition zero_QuotaConfig :: QuotaConfig where
  "zero_QuotaConfig = \<lparr>qcMonthly = \<lparr>mcSMS = 0, mcEMAIL = 0\<rparr>\<rparr>"
definition zero_CallbackConfig :: CallbackConfig where
  "zero_CallbackConfig = \<lparr>cbcServiceName = '''', cbcRetryPolicy = None\<rparr>"

definition zero_daoBusinessConfig :: daoBusinessConfig where
  "zero_daoBusinessConfig =
     \<lparr>dbcID = 0, dbcOwnerID = 0, dbcOwnerType = '''',
      dbcChannelConfig = \<lparr>jcVal = zero_ChannelConfig, jcValid = False\<rparr>,
      dbcTxnConfig = \<lparr>jcVal = zero_TxnConfig, jcValid = False\<rparr>, dbcRateLimit = 0,
      dbcQuota = \<lparr>jcVal = zero_QuotaConfig, jcValid = False\<rparr>,
      dbcCallbackConfig = \<lparr>jcVal = zero_CallbackConfig, jcValid = False\<rparr>, dbcCtime = 0, dbcUtime = 0\<rparr>"

text \<open>\<open>cgUpsert\<close> is \<^verbatim>\<open>Create\<close> with \<^verbatim>\<open>clause.OnConflict\<close>: the columns of the conflict, the columns that
  are updated then, and the row. \<open>cgPage\<close> gets limit and offset.\<close>

record 's config_gorm =
  cgNow :: "('s, gtime) io"
  cgFind :: "sql_where \<Rightarrow> ('s, daoBusinessConfig list ret) io"
  cgFirst :: "sql_where \<Rightarrow> ('s, daoBusinessConfig ret) io"
  cgDelete :: "sql_where \<Rightarrow> ('s, gerr option) io"
  cgUpsert :: "string list \<Rightarrow> string list \<Rightarrow> daoBusinessConfig \<Rightarrow> ('s, daoBusinessConfig ret) io"
  cgPage :: "int64 \<Rightarrow> int64 \<Rightarrow> ('s, daoBusinessConfig list ret) io"

type_synonym dao_config_map = "(int64 \<times> daoBusinessConfig) list"

record 's BusinessConfigDAO =
  bdGetByIDs :: "int64 list \<Rightarrow> ('s, dao_config_map ret) io"
  bdGetByID :: "int64 \<Rightarrow> ('s, daoBusinessConfig ret) io"
  bdDeleteByID :: "int64 \<Rightarrow> ('s, gerr option) io"
  bdSaveConfig :: "daoBusinessConfig \<Rightarrow> ('s, daoBusinessConfig ret) io"
  bdFind :: "int64 \<Rightarrow> int64 \<Rightarrow> ('s, daoBusinessConfig list ret) io"

definition cdao_GetByIDs :: "'s config_gorm \<Rightarrow> int64 list \<Rightarrow> ('s, dao_config_map ret) io" where
  "cdao_GetByIDs g ids = do {
     (businessConfigs, err) \<leftarrow> cgFind g (''id in (?)'', [arg_ints ids]);
     io_return (case err of
         Some e \<Rightarrow> ([], Some e)
       | None \<Rightarrow> (foldl (\<lambda>m config. AList.update (dbcID config) config m) [] businessConfigs, None))
   }"

definition cdao_GetByID :: "'s config_gorm \<Rightarrow> int64 \<Rightarrow> ('s, daoBusinessConfig ret) io" where
  "cdao_GetByID g i = do {
     (config, err) \<leftarrow> cgFirst g (''id = ?'', [arg_int i]);
     io_return (case err of Some e \<Rightarrow> (zero_daoBusinessConfig, Some e) | None \<Rightarrow> (config, None))
   }"

definition cdao_DeleteByID :: "'s config_gorm \<Rightarrow> int64 \<Rightarrow> ('s, gerr option) io" where
  "cdao_DeleteByID g i = cgDelete g (''id = ?'', [arg_int i])"

definition config_upsert_columns :: "string list" where
  "config_upsert_columns =
     [''owner_id'', ''owner_type'', ''channel_config'', ''txn_config'', ''rate_limit'', ''quota'',
      ''callback_config'', ''utime'']"

definition cdao_SaveConfig :: "'s config_gorm \<Rightarrow> daoBusinessConfig \<Rightarrow> ('s, daoBusinessConfig ret) io" where
  "cdao_SaveConfig g config = do {
     t \<leftarrow> cgNow g;
     let now = UnixMilli t;
     (config, err) \<leftarrow> cgUpsert g [''id''] config_upsert_columns (config\<lparr>dbcCtime := now, dbcUtime := now\<rparr>);
     io_return (case err of Some e \<Rightarrow> (zero_daoBusinessConfig, Some e) | None \<Rightarrow> (config, None))
   }"

definition cdao_Find :: "'s config_gorm \<Rightarrow> int64 \<Rightarrow> int64 \<Rightarrow> ('s, daoBusinessConfig list ret) io" where
  "cdao_Find g offset limit = cgPage g limit offset"

definition NewBusinessConfigDAO :: "'s config_gorm \<Rightarrow> 's BusinessConfigDAO" where
  "NewBusinessConfigDAO g =
     \<lparr>bdGetByIDs = cdao_GetByIDs g, bdGetByID = cdao_GetByID g, bdDeleteByID = cdao_DeleteByID g,
      bdSaveConfig = cdao_SaveConfig g, bdFind = cdao_Find g\<rparr>"

section \<open>The repository\<close>

record 's businessConfigRepository =
  brDao :: "'s BusinessConfigDAO"
  brLocal :: "'s ConfigCache"
  brRedis :: "'s ConfigCache"
  brOrder :: "int64 list \<Rightarrow> int64 list"

definition column_ptr :: "'a JsonColumn \<Rightarrow> 'a option" where
  "column_ptr j = (if jcValid j then Some (jcVal j) else None)"

definition ptr_column :: "'a \<Rightarrow> 'a option \<Rightarrow> 'a JsonColumn" where
  "ptr_column zero p =
     (case p of None \<Rightarrow> \<lparr>jcVal = zero, jcValid = False\<rparr> | Some v \<Rightarrow> \<lparr>jcVal = v, jcValid = True\<rparr>)"

definition conf_toDomain :: "daoBusinessConfig \<Rightarrow> BusinessConfig" where
  "conf_toDomain c =
     \<lparr>bcID = dbcID c, bcOwnerId = dbcOwnerID c, bcOwnerType = dbcOwnerType c,
      bcChannelConfig = column_ptr (dbcChannelConfig c), bcTxnConfig = column_ptr (dbcTxnConfig c),
      bcRateLimit = dbcRateLimit c, bcQuota = column_ptr (dbcQuota c),
      bcCallbackConfig = column_ptr (dbcCallbackConfig c), bcCtime = dbcCtime c, bcUtime = dbcUtime c\<rparr>"

definition conf_toEntity :: "BusinessConfig \<Rightarrow> daoBusinessConfig" where
  "conf_toEntity c =
     \<lparr>dbcID = bcID c, dbcOwnerID = bcOwnerId c, dbcOwnerType = bcOwnerType c,
      dbcChannelConfig = ptr_column zero_ChannelConfig (bcChannelConfig c),
      dbcTxnConfig = ptr_column zero_TxnConfig (bcTxnConfig c), dbcRateLimit = bcRateLimit c,
      dbcQuota = ptr_column zero_QuotaConfig (bcQuota c),
      dbcCallbackConfig = ptr_column zero_CallbackConfig (bcCallbackConfig c),
      dbcCtime = bcCtime c, dbcUtime = bcUtime c\<rparr>"

definition diffIDs :: "int64 list \<Rightarrow> config_map \<Rightarrow> int64 list" where
  "diffIDs ids m = filter (\<lambda>i. map_of m i = None) ids"

text \<open>A walk through a map, and the values it meets.\<close>

definition walk :: "(int64 list \<Rightarrow> int64 list) \<Rightarrow> (int64 \<times> 'a) list \<Rightarrow> (int64 \<times> 'a) list" where
  "walk ord m = map (\<lambda>i. (i, the (map_of m i))) (ord (map fst m))"

text \<open>The configurations found in Redis are written to the local cache and to the result, those
  found in the database to the caches only.\<close>

definition merge_redis ::
  "'s businessConfigRepository \<Rightarrow> config_map \<Rightarrow> config_map ret \<Rightarrow> ('s, config_map option) io" where
  "merge_redis b result redis =
     (case redis of
        (_, Some e) \<Rightarrow> io_ok result
      | (redisConfigs, None) \<Rightarrow>
          (let walked = walk (brOrder b) redisConfigs;
               result = foldl (\<lambda>m (i, conf). AList.update i conf m) result walked
           in io_call (ccSetConfigs (brLocal b) (map snd walked)) (\<lambda>_. io_ok result)))"

definition load_missed ::
  "'s businessConfigRepository \<Rightarrow> config_map \<Rightarrow> int64 list \<Rightarrow> ('s, config_map ret option) io" where
  "load_missed b result missedIDS = do {
     (congifMap, err) \<leftarrow> bdGetByIDs (brDao b) missedIDS;
     case err of
       Some e \<Rightarrow> io_ok ([], Some e)
     | None \<Rightarrow>
         (let configs = map (conf_toDomain \<circ> snd) (walk (brOrder b) congifMap)
          in if configs \<noteq> []
             then io_call (ccSetConfigs (brLocal b) configs)
                    (\<lambda>_. io_call (ccSetConfigs (brRedis b) configs) (\<lambda>err. io_ok (result, err)))
             else io_ok (result, None))
   }"

definition confrepo_GetByIDs ::
  "'s businessConfigRepository \<Rightarrow> int64 list \<Rightarrow> ('s, config_map ret option) io" where
  "confrepo_GetByIDs b ids =
     io_call (ccGetConfigs (brLocal b) ids) (\<lambda>(result, err).
       let result = (if err \<noteq> None then [] else result);
           missedIDS = diffIDs ids result
       in if missedIDS = [] then io_ok (result, None)
          else io_call (ccGetConfigs (brRedis b) missedIDS) (\<lambda>redis.
                 io_call (merge_redis b result redis) (\<lambda>result.
                   load_missed b result (diffIDs ids result))))"

definition confrepo_GetByID ::
  "'s businessConfigRepository \<Rightarrow> int64 \<Rightarrow> ('s, BusinessConfig ret option) io" where
  "confrepo_GetByID b i =
     io_call (ccGet (brLocal b) i) (\<lambda>(cfg, localErr).
       if localErr = None then io_ok (cfg, None)
       else io_call (ccGet (brRedis b) i) (\<lambda>(cfg, redisErr).
         if redisErr = None
         then io_call (ccSet (brLocal b) cfg) (\<lambda>_. io_ok (cfg, None))
         else do {
           (c, err) \<leftarrow> bdGetByID (brDao b) i;
           case err of
             Some e \<Rightarrow> io_ok (zero_BusinessConfig, Some e)
           | None \<Rightarrow>
               (let domainConfig = conf_toDomain c
                in io_call (ccSet (brLocal b) domainConfig) (\<lambda>_.
                     io_call (ccSet (brRedis b) domainConfig) (\<lambda>_. io_ok (domainConfig, None))))
         }))"

definition confrepo_DeleteByID ::
  "'s businessConfigRepository \<Rightarrow> int64 \<Rightarrow> ('s, gerr option option) io" where
  "confrepo_DeleteByID b i = do {
     err \<leftarrow> bdDeleteByID (brDao b) i;
     case err of
       Some e \<Rightarrow> io_ok (Some e)
     | None \<Rightarrow> io_call (ccDelete (brRedis b) i) (\<lambda>_. io_call (ccDelete (brLocal b) i) (\<lambda>_. io_ok None))
   }"

definition confrepo_SaveConfig ::
  "'s businessConfigRepository \<Rightarrow> BusinessConfig \<Rightarrow> ('s, gerr option option) io" where
  "confrepo_SaveConfig b config = do {
     (cfg, err) \<leftarrow> bdSaveConfig (brDao b) (conf_toEntity config);
     case err of
       Some e \<Rightarrow> io_ok (Some e)
     | None \<Rightarrow>
         io_call (ccSet (brRedis b) (conf_toDomain cfg)) (\<lambda>_.
           io_call (ccSet (brLocal b) (conf_toDomain cfg)) (\<lambda>_. io_ok None))
   }"

definition confrepo_Find ::
  "'s businessConfigRepository \<Rightarrow> int64 \<Rightarrow> int64 \<Rightarrow> ('s, BusinessConfig list ret) io" where
  "confrepo_Find b offset limit = do {
     (res, err) \<leftarrow> bdFind (brDao b) offset limit;
     io_return (map conf_toDomain res, err)
   }"

definition loadCacheBatch ::
  "'s businessConfigRepository \<Rightarrow> int64 \<Rightarrow> int64 \<Rightarrow> ('s, int64 ret option) io" where
  "loadCacheBatch b offset limit = do {
     (res, err) \<leftarrow> confrepo_Find b offset limit;
     case err of
       Some e \<Rightarrow> io_ok (0, Some e)
     | None \<Rightarrow> io_call (ccSetConfigs (brLocal b) res) (\<lambda>err. io_ok (int (length res), err))
   }"

text \<open>The loop repeats a page that failed and ends after a page that is not full; it need not end:
  \<open>None\<close> is a run that does not return.\<close>

definition load_limit :: int64 where "load_limit = 10"

partial_function (option) LoadCache_loop ::
  "'s businessConfigRepository \<Rightarrow> int64 \<Rightarrow> 's \<Rightarrow> (gerr option option \<times> 's) option" where
  "LoadCache_loop b offset s =
     (case run_state (loadCacheBatch b offset load_limit) s of
        (None, s1) \<Rightarrow> Some (None, s1)
      | (Some (cnt, err), s1) \<Rightarrow>
          if err \<noteq> None then LoadCache_loop b offset s1
          else if cnt < load_limit then Some (Some None, s1)
          else LoadCache_loop b (wrap64 (offset + load_limit)) s1)"

definition LoadCache :: "'s businessConfigRepository \<Rightarrow> 's \<Rightarrow> (gerr option option \<times> 's) option" where
  "LoadCache b s = LoadCache_loop b 0 s"

section \<open>The service\<close>

definition confsvc_GetByIDs ::
  "'s businessConfigRepository \<Rightarrow> int64 list \<Rightarrow> ('s, config_map ret option) io" where
  "confsvc_GetByIDs b ids = (if ids = [] then io_ok ([], None) else confrepo_GetByIDs b ids)"

definition confsvc_GetByID ::
  "'s businessConfigRepository \<Rightarrow> int64 \<Rightarrow> ('s, BusinessConfig ret option) io" where
  "confsvc_GetByID b i =
     (if i \<le> 0 then io_ok (zero_BusinessConfig, Some (Wrap [Err ErrInvalidParameter]))
      else io_call (confrepo_GetByID b i) (\<lambda>(config, err). case err of
          Some e \<Rightarrow> io_ok (zero_BusinessConfig,
            Some (if errors_Is e ErrRecordNotFound then Wrap [Err ErrConfigNotFound] else e))
        | None \<Rightarrow> io_ok (config, None)))"

definition confsvc_DeleteByID ::
  "'s businessConfigRepository \<Rightarrow> int64 \<Rightarrow> ('s, gerr option option) io" where
  "confsvc_DeleteByID b i =
     (if i \<le> 0 then io_ok (Some (Wrap [Err ErrInvalidParameter])) else confrepo_DeleteByID b i)"

definition confsvc_SaveConfig ::
  "'s businessConfigRepository \<Rightarrow> BusinessConfig \<Rightarrow> ('s, gerr option option) io" where
  "confsvc_SaveConfig b config =
     (if bcID config \<le> 0 then io_ok (Some (Wrap [Err ErrInvalidParameter]))
      else confrepo_SaveConfig b config)"

end
