(* ===== verification/ConfigFacts.thy ===== *)
theory ConfigFacts
  imports ConfigRepo "HOL-Library.Multiset"
begin

text \<open>
  What the configuration repository promises with caches that keep the contract
  \<open>config_cache\<close>: it reads through both caches, sees its own writes, and loads every row; and
  where it falls short: the batch lookup, the Redis cache as it is constructed, the key events.
\<close>

section \<open>What the repository relies on\<close>

text \<open>The assignment of a column of the table, for the update of an upsert.\<close>

definition upsert_column ::
  "daoBusinessConfig \<Rightarrow> daoBusinessConfig \<Rightarrow> string \<Rightarrow> daoBusinessConfig" where
  "upsert_column new old col =
     (if col = ''owner_id'' then old\<lparr>dbcOwnerID := dbcOwnerID new\<rparr>
      else if col = ''owner_type'' then old\<lparr>dbcOwnerType := dbcOwnerType new\<rparr>
      else if col = ''channel_config'' then old\<lparr>dbcChannelConfig := dbcChannelConfig new\<rparr>
      else if col = ''txn_config'' then old\<lparr>dbcTxnConfig := dbcTxnConfig new\<rparr>
      else if col = ''rate_limit'' then old\<lparr>dbcRateLimit := dbcRateLimit new\<rparr>
      else if col = ''quota'' then old\<lparr>dbcQuota := dbcQuota new\<rparr>
      else if col = ''callback_config'' then old\<lparr>dbcCallbackConfig := dbcCallbackConfig new\<rparr>
      else if col = ''ctime'' then old\<lparr>dbcCtime := dbcCtime new\<rparr>
      else if col = ''utime'' then old\<lparr>dbcUtime := dbcUtime new\<rparr>
      else old)"

definition upserted ::
  "string list \<Rightarrow> daoBusinessConfig \<Rightarrow> daoBusinessConfig option \<Rightarrow> daoBusinessConfig" where
  "upserted cols new old = (case old of None \<Rightarrow> new | Some o' \<Rightarrow> foldl (upsert_column new) o' cols)"

text \<open>A table with primary key \<^verbatim>\<open>id\<close>: \<open>rows\<close> reads it; a write can fail and then leaves it as it
  was; \<open>frame\<close> is what the statements do not touch.\<close>

definition config_db_law ::
  "'s config_gorm \<Rightarrow> ('s \<Rightarrow> int64 \<Rightarrow> daoBusinessConfig option) \<Rightarrow> ('s \<Rightarrow> 'f) \<Rightarrow> bool" where
  "config_db_law g rows frame \<longleftrightarrow>
     (\<forall>s i r. rows s i = Some r \<longrightarrow> dbcID r = i)
   \<and> (\<forall>s. \<exists>t. run_state (cgNow g) s = (t, s))
   \<and> (\<forall>s ids. \<exists>rs. run_state (cgFind g (''id in (?)'', [arg_ints ids])) s = ((rs, None), s)
        \<and> distinct (map dbcID rs) \<and> set rs = {r. \<exists>i \<in> set ids. rows s i = Some r})
   \<and> (\<forall>s i. \<exists>c. run_state (cgFirst g (''id = ?'', [arg_int i])) s
        = (case rows s i of None \<Rightarrow> ((c, Some ErrRecordNotFound), s) | Some r \<Rightarrow> ((r, None), s)))
   \<and> (\<forall>s i. \<exists>e s'. run_state (cgDelete g (''id = ?'', [arg_int i])) s = (e, s')
        \<and> rows s' = (if e = None then (rows s)(i := None) else rows s) \<and> frame s' = frame s)
   \<and> (\<forall>s cols r. \<exists>c e s'. run_state (cgUpsert g [''id''] cols r) s = ((c, e), s')
        \<and> (if e = None then c = r \<and> rows s' = (rows s)(dbcID r \<mapsto> upserted cols r (rows s (dbcID r)))
           else rows s' = rows s) \<and> frame s' = frame s)"

lemma db_keyed: "config_db_law g rows frame \<Longrightarrow> rows s i = Some r \<Longrightarrow> dbcID r = i"
  by (simp add: config_db_law_def)

lemma db_now: "config_db_law g rows frame \<Longrightarrow> \<exists>t. run_state (cgNow g) s = (t, s)"
  by (simp add: config_db_law_def)

lemma db_first: "config_db_law g rows frame \<Longrightarrow>
    \<exists>c. run_state (cgFirst g (''id = ?'', [arg_int i])) s
      = (case rows s i of None \<Rightarrow> ((c, Some ErrRecordNotFound), s) | Some r \<Rightarrow> ((r, None), s))"
  unfolding config_db_law_def by blast

lemma db_delete: "config_db_law g rows frame \<Longrightarrow>
    \<exists>e s'. run_state (cgDelete g (''id = ?'', [arg_int i])) s = (e, s')
      \<and> rows s' = (if e = None then (rows s)(i := None) else rows s) \<and> frame s' = frame s"
  unfolding config_db_law_def by blast

lemma db_upsert: "config_db_law g rows frame \<Longrightarrow>
    \<exists>c e s'. run_state (cgUpsert g [''id''] cols r) s = ((c, e), s')
      \<and> (if e = None then c = r \<and> rows s' = (rows s)(dbcID r \<mapsto> upserted cols r (rows s (dbcID r)))
         else rows s' = rows s) \<and> frame s' = frame s"
  unfolding config_db_law_def by blast

text \<open>The answer of the batch query, as a map.\<close>

lemma map_of_dao_fold:
  "map_of (foldl (\<lambda>m config. AList.update (dbcID config) config m) m0 rs)
    = map_of m0 ++ map_of (rev (map (\<lambda>r. (dbcID r, r)) rs))"
  by (induction rs arbitrary: m0) (simp_all add: update_conv' map_add_def fun_eq_iff split: option.split)

lemma distinct_dao_fold:
  "distinct (map fst m0) \<Longrightarrow>
   distinct (map fst (foldl (\<lambda>m config. AList.update (dbcID config) config m) m0 rs))"
  by (induction rs arbitrary: m0) (simp_all add: distinct_update)

lemma cdao_GetByIDs_run:
  assumes "config_db_law g rows frame"
  shows "\<exists>m. run_state (cdao_GetByIDs g ids) s = ((m, None), s) \<and> map_of m = rows s |` set ids
    \<and> distinct (map fst m)"
proof -
  from assms obtain rs where rs: "run_state (cgFind g (''id in (?)'', [arg_ints ids])) s = ((rs, None), s)"
    "distinct (map dbcID rs)" "set rs = {r. \<exists>i \<in> set ids. rows s i = Some r}"
    unfolding config_db_law_def by blast
  let ?m = "foldl (\<lambda>m config. AList.update (dbcID config) config m) [] rs"
  have "map_of (rev (map (\<lambda>r. (dbcID r, r)) rs)) i = (rows s |` set ids) i" for i
  proof (cases "(rows s |` set ids) i")
    case None
    then have "i \<notin> dbcID ` set rs"
      using db_keyed [OF assms] by (auto simp: rs(3) restrict_map_def split: if_splits)
    with None show ?thesis by (force simp: map_of_eq_None_iff)
  next
    case (Some r)
    then have "r \<in> set rs" "dbcID r = i"
      using db_keyed [OF assms] by (auto simp: rs(3) restrict_map_def split: if_splits)
    moreover have "distinct (map fst (rev (map (\<lambda>r. (dbcID r, r)) rs)))"
      using rs(2) by (simp add: rev_map [symmetric] o_def)
    ultimately show ?thesis using Some by (auto intro!: map_of_is_SomeI)
  qed
  then have "map_of ?m = rows s |` set ids" by (simp add: map_of_dao_fold fun_eq_iff)
  moreover have "run_state (cdao_GetByIDs g ids) s = ((?m, None), s)"
    using rs(1) by (simp add: cdao_GetByIDs_def)
  ultimately show ?thesis using distinct_dao_fold [of "[]" rs] by auto
qed

section \<open>The repository over caches that keep the contract\<close>

text \<open>The entries of a cache are found under their own identifiers.\<close>

definition keyed :: "(int64 \<Rightarrow> BusinessConfig option) \<Rightarrow> bool" where
  "keyed v \<longleftrightarrow> (\<forall>i c. v i = Some c \<longrightarrow> bcID c = i)"

lemma keyedD: "keyed v \<Longrightarrow> v i = Some c \<Longrightarrow> bcID c = i"
  by (simp add: keyed_def)

lemma keyed_upd [simp]: "keyed v \<Longrightarrow> keyed (v(bcID c \<mapsto> c))"
  by (simp add: keyed_def)

lemma bcID_toDomain [simp]: "bcID (conf_toDomain r) = dbcID r"
  by (simp add: conf_toDomain_def)

lemma column_ptr_ptr [simp]: "column_ptr (ptr_column z p) = p"
  by (simp add: column_ptr_def ptr_column_def split: option.split)

lemma toDomain_toEntity: "conf_toDomain (conf_toEntity c) = c"
  by (simp add: conf_toDomain_def conf_toEntity_def)

section \<open>Walks through maps\<close>

lemma map_of_rev_walk:
  assumes "mset (ord (map fst m)) = mset (map fst m)"
  shows "map_of (rev (walk ord m)) = map_of m"
proof -
  have "set (ord (map fst m)) = fst ` set m" using assms by (metis set_map set_mset_mset)
  then have "map_of (rev (walk ord m)) = (Some \<circ> (\<lambda>i. the (map_of m i))) |` (fst ` set m)"
    by (simp add: walk_def rev_map map_of_map_restrict)
  also have "\<dots> = map_of m"
  proof
    fix i
    show "((Some \<circ> (\<lambda>i. the (map_of m i))) |` (fst ` set m)) i = map_of m i"
      by (cases "map_of m i") (auto simp: restrict_map_def map_of_eq_None_iff [symmetric] dest: map_of_SomeD)
  qed
  finally show ?thesis .
qed

lemma walk_keys:
  assumes "mset (ord (map fst m)) = mset (map fst m)" "(i, c) \<in> set (walk ord m)"
  shows "map_of m i = Some c"
proof -
  have "set (ord (map fst m)) = fst ` set m" using assms(1) by (metis set_map set_mset_mset)
  then show ?thesis using assms(2)
    by (auto simp: walk_def) (metis map_of_eq_None_iff not_None_eq option.sel imageI fst_conv)
qed

lemma walk_Nil_iff:
  assumes "mset (ord (map fst m)) = mset (map fst m)"
  shows "walk ord m = [] \<longleftrightarrow> m = []"
  using mset_eq_length [OF assms] by (auto simp: walk_def)

lemma foldl_update_alist:
  "map_of (foldl (\<lambda>m (i, c). AList.update i c m) m0 ps) = map_of m0 ++ map_of (rev ps)"
  by (induction ps arbitrary: m0)
    (auto simp: update_conv' map_add_def fun_eq_iff split: option.split)

lemma foldl_store_keyed:
  assumes "\<And>i c. (i, c) \<in> set ps \<Longrightarrow> bcID c = i"
  shows "foldl (\<lambda>v c. v(bcID c \<mapsto> c)) v (map snd ps) = v ++ map_of (rev ps)"
  using assms
proof (induction ps arbitrary: v)
  case Nil
  then show ?case by simp
next
  case (Cons p ps)
  obtain i c where p: "p = (i, c)" by (cases p)
  with Cons.prems have "bcID c = i" by simp
  moreover have "foldl (\<lambda>v c. v(bcID c \<mapsto> c)) (v(i \<mapsto> c)) (map snd ps) = v(i \<mapsto> c) ++ map_of (rev ps)"
    using Cons.prems by (intro Cons.IH) simp
  moreover have "v ++ map_of (rev ps @ [(i, c)]) = v(i \<mapsto> c) ++ map_of (rev ps)"
    by (simp add: map_add_assoc del: fun_upd_apply)
  ultimately show ?case by (simp add: p del: fun_upd_apply)
qed

text \<open>What the repository knows of a business: the local entry, else the one in Redis, else the
  row.\<close>

definition known_config ::
  "('s \<Rightarrow> int64 \<Rightarrow> BusinessConfig option) \<Rightarrow> ('s \<Rightarrow> int64 \<Rightarrow> BusinessConfig option)
     \<Rightarrow> ('s \<Rightarrow> int64 \<Rightarrow> daoBusinessConfig option) \<Rightarrow> 's \<Rightarrow> int64 \<Rightarrow> BusinessConfig option" where
  "known_config L R rows s i =
     (case L s i of
        Some c \<Rightarrow> Some c
      | None \<Rightarrow> (case R s i of Some c \<Rightarrow> Some c | None \<Rightarrow> map_option conf_toDomain (rows s i)))"

locale config_repo =
  L: config_cache "brLocal b" L "\<lambda>s. (R s, rows s)" +
  R: config_cache "brRedis b" R "\<lambda>s. (L s, rows s)"
  for b :: "'s businessConfigRepository"
    and L R :: "'s \<Rightarrow> int64 \<Rightarrow> BusinessConfig option"
    and rows :: "'s \<Rightarrow> int64 \<Rightarrow> daoBusinessConfig option" +
  fixes g :: "'s config_gorm"
  assumes dao: "brDao b = NewBusinessConfigDAO g"
    and db: "config_db_law g rows (\<lambda>s. (L s, R s))"
    and order: "mset (brOrder b xs) = mset xs"
begin

lemma get_by_id:
  assumes "keyed (L s)" "keyed (R s)"
  shows "case known_config L R rows s i of
      None \<Rightarrow> run_state (confrepo_GetByID b i) s = (Some (zero_BusinessConfig, Some ErrRecordNotFound), s)
    | Some c \<Rightarrow> \<exists>s'. run_state (confrepo_GetByID b i) s = (Some (c, None), s')
        \<and> L s' = (L s)(i \<mapsto> c) \<and> keyed (R s') \<and> rows s' = rows s
        \<and> (R s i = None \<longrightarrow> L s i = None \<longrightarrow> R s' i = Some c)"
proof (cases "L s i")
  case (Some c)
  have "L s = (L s)(i \<mapsto> c)" using Some by auto
  with Some assms show ?thesis by (simp add: known_config_def confrepo_GetByID_def L.get_hit)
next
  case None
  obtain c1 e1 where l: "run_state (ccGet (brLocal b) i) s = (Some (c1, Some e1), s)"
    using L.get_miss [OF None] by blast
  show ?thesis
  proof (cases "R s i")
    case (Some c)
    obtain s' where "run_state (ccSet (brLocal b) c) s = (Some None, s')"
      "L s' = (L s)(bcID c \<mapsto> c)" "R s' = R s" "rows s' = rows s"
      using L.set [of c s] by auto
    with None Some l assms keyedD [OF assms(2) Some] show ?thesis
      by (simp add: known_config_def confrepo_GetByID_def R.get_hit)
  next
    case N: None
    obtain c2 e2 where r: "run_state (ccGet (brRedis b) i) s = (Some (c2, Some e2), s)"
      using R.get_miss [OF N] by blast
    obtain c3 where d: "run_state (cgFirst g (''id = ?'', [arg_int i])) s
        = (case rows s i of None \<Rightarrow> ((c3, Some ErrRecordNotFound), s) | Some r \<Rightarrow> ((r, None), s))"
      using db_first [OF db] by blast
    show ?thesis
    proof (cases "rows s i")
      case R0: None
      with None N l r d show ?thesis
        by (simp add: known_config_def confrepo_GetByID_def dao NewBusinessConfigDAO_def cdao_GetByID_def)
    next
      case (Some row)
      obtain s1 where s1: "run_state (ccSet (brLocal b) (conf_toDomain row)) s = (Some None, s1)"
        "L s1 = (L s)(dbcID row \<mapsto> conf_toDomain row)" "R s1 = R s" "rows s1 = rows s"
        using L.set [of "conf_toDomain row" s] by auto
      obtain s2 where s2: "run_state (ccSet (brRedis b) (conf_toDomain row)) s1 = (Some None, s2)"
        "R s2 = (R s1)(dbcID row \<mapsto> conf_toDomain row)" "L s2 = L s1" "rows s2 = rows s1"
        using R.set [of "conf_toDomain row" s1] by auto
      have "keyed (R s2)" using assms(2) keyed_upd [of "R s" "conf_toDomain row"] s1 s2 by simp
      with Some None N l r d s1 s2 db_keyed [OF db Some] show ?thesis
        by (simp add: known_config_def confrepo_GetByID_def dao NewBusinessConfigDAO_def cdao_GetByID_def Let_def)
    qed
  qed
qed

end

context config_repo
begin

lemma walk_order: "map_of (rev (walk (brOrder b) m)) = map_of m"
  by (rule map_of_rev_walk) (rule order)

lemma walk_order_keys: "(i, c) \<in> set (walk (brOrder b) m) \<Longrightarrow> map_of m i = Some c"
  by (rule walk_keys [where ord = "brOrder b"]) (rule order)

lemma store_walked_local:
  assumes "keyed (map_of m)"
  shows "\<exists>s'. run_state (ccSetConfigs (brLocal b) (map snd (walk (brOrder b) m))) s = (Some None, s')
    \<and> L s' = L s ++ map_of m \<and> R s' = R s \<and> rows s' = rows s"
proof -
  have "foldl (\<lambda>v c. v(bcID c \<mapsto> c)) (L s) (map snd (walk (brOrder b) m)) = L s ++ map_of m"
    unfolding walk_order [of m, symmetric]
    by (rule foldl_store_keyed) (blast dest: walk_order_keys keyedD [OF assms])
  with L.set_configs [of "map snd (walk (brOrder b) m)" s] show ?thesis by auto
qed

lemma merged:
  assumes "keyed (map_of m)"
  shows "\<exists>s' res. run_state (merge_redis b result (m, None)) s = (Some res, s')
    \<and> map_of res = map_of result ++ map_of m
    \<and> L s' = L s ++ map_of m \<and> R s' = R s \<and> rows s' = rows s"
  using store_walked_local [OF assms, of s]
  by (auto simp: merge_redis_def Let_def foldl_update_alist walk_order)

lemma loaded:
  assumes "keyed (L s)" "keyed (R s)" "i \<in> set missed \<Longrightarrow> L s i = None"
  defines "found \<equiv> map_option conf_toDomain \<circ> (rows s |` set missed)"
  shows "\<exists>s'. run_state (load_missed b result missed) s = (Some (result, None), s')
    \<and> L s' = L s ++ found \<and> R s' = R s ++ found \<and> rows s' = rows s"
proof -
  obtain m where m: "run_state (cdao_GetByIDs g missed) s = ((m, None), s)"
    "map_of m = rows s |` set missed"
    using cdao_GetByIDs_run [OF db] by blast
  let ?w = "map (\<lambda>(i, r). (i, conf_toDomain r)) (walk (brOrder b) m)"
  have vals: "map (conf_toDomain \<circ> snd) (walk (brOrder b) m) = map snd ?w"
    by (simp add: o_def split_beta)
  have wf: "bcID c = i" if "(i, c) \<in> set ?w" for i c
    using that db_keyed [OF db, of s i]
    by (force simp: m(2) restrict_map_def dest: walk_order_keys split: if_splits)
  have "map_of (rev ?w) = map_option conf_toDomain \<circ> map_of (rev (walk (brOrder b) m))"
    by (simp add: rev_map map_of_map)
  then have found: "map_of (rev ?w) = found"
    by (simp add: walk_order m(2) found_def)
  show ?thesis
  proof (cases "?w = []")
    case True
    then have "found = Map.empty" using found by simp
    with True m(1) show ?thesis
      by (simp add: load_missed_def dao NewBusinessConfigDAO_def)
  next
    case False
    have st: "foldl (\<lambda>v c. v(bcID c \<mapsto> c)) v (map snd ?w) = v ++ found" for v
      unfolding found [symmetric] by (rule foldl_store_keyed) (rule wf)
    obtain s1 where s1: "run_state (ccSetConfigs (brLocal b) (map snd ?w)) s = (Some None, s1)"
      "L s1 = L s ++ found" "R s1 = R s" "rows s1 = rows s"
      using L.set_configs [of "map snd ?w" s] st by auto
    obtain s2 where s2: "run_state (ccSetConfigs (brRedis b) (map snd ?w)) s1 = (Some None, s2)"
      "R s2 = R s1 ++ found" "L s2 = L s1" "rows s2 = rows s1"
      using R.set_configs [of "map snd ?w" s1] st by auto
    from False have ne: "map snd ?w \<noteq> []" by simp
    have "run_state (load_missed b result missed) s = (Some (result, None), s2)"
      unfolding load_missed_def dao
      using m(1) ne s1(1) s2(1) by (simp add: NewBusinessConfigDAO_def vals Let_def del: map_map)
    with s1 s2 show ?thesis by auto
  qed
qed

text \<open>The batch lookup answers what the caches hold and stores what only the database has.\<close>

lemma get_by_ids:
  assumes "keyed (L s)" "keyed (R s)"
  shows "\<exists>m s'. run_state (confrepo_GetByIDs b ids) s = (Some (m, None), s')
    \<and> map_of m = (R s ++ L s) |` set ids
    \<and> L s' = (\<lambda>i. if i \<in> set ids then known_config L R rows s i else L s i) \<and> rows s' = rows s
    \<and> keyed (R s') \<and> (\<forall>i. known_config L R rows s i = None \<longrightarrow> R s' i = None)"
proof -
  obtain m0 where m0: "run_state (ccGetConfigs (brLocal b) ids) s = (Some (m0, None), s)"
    "map_of m0 = L s |` set ids" using L.get_configs by blast
  let ?missed = "diffIDs ids m0"
  have missed: "set ?missed = {i \<in> set ids. L s i = None}"
    by (auto simp: diffIDs_def m0(2))
  show ?thesis
  proof (cases "?missed = []")
    case True
    then have all: "L s i \<noteq> None" if "i \<in> set ids" for i using missed that by auto
    have "map_of m0 i = ((R s ++ L s) |` set ids) i" for i
      using all [of i] by (cases "i \<in> set ids") (auto simp: m0(2) map_add_def)
    then have "map_of m0 = (R s ++ L s) |` set ids" by blast
    moreover have "L s = (\<lambda>i. if i \<in> set ids then known_config L R rows s i else L s i)"
      by (auto simp: known_config_def fun_eq_iff dest: all split: option.split)
    moreover have "run_state (confrepo_GetByIDs b ids) s = (Some (m0, None), s)"
      using m0(1) True by (simp add: confrepo_GetByIDs_def)
    moreover have "\<forall>i. known_config L R rows s i = None \<longrightarrow> R s i = None"
      by (auto simp: known_config_def split: option.splits)
    ultimately show ?thesis using assms(2) by blast
  next
    case False
    obtain m1 where m1: "run_state (ccGetConfigs (brRedis b) ?missed) s = (Some (m1, None), s)"
      "map_of m1 = R s |` set ?missed" using R.get_configs by blast
    have k1: "keyed (map_of m1)"
      using assms(2) by (auto simp: m1(2) keyed_def restrict_map_def)
    obtain s1 res where s1: "run_state (merge_redis b m0 (m1, None)) s = (Some res, s1)"
      "map_of res = map_of m0 ++ map_of m1" "L s1 = L s ++ map_of m1" "R s1 = R s" "rows s1 = rows s"
      using merged [OF k1] by blast
    have k2: "keyed (L s1)" "keyed (R s1)"
      using assms k1 by (auto simp: s1 keyed_def map_add_Some_iff)
    have res: "map_of res = (R s ++ L s) |` set ids"
      by (auto simp: s1(2) m0(2) m1(2) missed restrict_map_def map_add_def fun_eq_iff split: option.split)
    have missed': "set (diffIDs ids res) = {i \<in> set ids. L s i = None \<and> R s i = None}"
      by (auto simp: diffIDs_def res)
    have none: "L s1 i = None" if "i \<in> set (diffIDs ids res)" for i
      using that by (auto simp: s1(3) m1(2) missed missed' restrict_map_def map_add_def)
    obtain s2 where s2: "run_state (load_missed b res (diffIDs ids res)) s1 = (Some (res, None), s2)"
      "L s2 = L s1 ++ (map_option conf_toDomain \<circ> (rows s1 |` set (diffIDs ids res)))"
      "R s2 = R s1 ++ (map_option conf_toDomain \<circ> (rows s1 |` set (diffIDs ids res)))" "rows s2 = rows s1"
      using loaded [OF k2, where missed = "diffIDs ids res" and result = res] none by blast
    have "L s2 i = (if i \<in> set ids then known_config L R rows s i else L s i)" for i
      by (auto simp: s2(2) s1(3,5) m1(2) missed missed' known_config_def restrict_map_def map_add_def
          split: option.splits if_splits)
    then have "L s2 = (\<lambda>i. if i \<in> set ids then known_config L R rows s i else L s i)" by blast
    moreover have "run_state (confrepo_GetByIDs b ids) s = (Some (res, None), s2)"
      using m0(1) m1(1) s1(1) s2(1) False by (simp add: confrepo_GetByIDs_def)
    moreover have "keyed (R s2)"
      using assms(2) db_keyed [OF db, of s]
      by (auto simp: s2(3) s1(4,5) keyed_def map_add_Some_iff restrict_map_def split: if_splits)
    moreover have "\<forall>i. known_config L R rows s i = None \<longrightarrow> R s2 i = None"
      by (auto simp: s2(3) s1(4,5) known_config_def restrict_map_def map_add_def split: option.splits)
    ultimately show ?thesis using res s2(4) s1(5) by (metis (no_types, lifting))
  qed
qed

lemma known_keyed: "keyed (L s) \<Longrightarrow> keyed (R s) \<Longrightarrow> known_config L R rows s i = Some c \<Longrightarrow> bcID c = i"
  by (auto simp: known_config_def keyed_def db_keyed [OF db] split: option.splits)

lemma saved:
  assumes "run_state (confrepo_SaveConfig b c) s = (Some None, s')"
  shows "\<exists>t. let c' = c\<lparr>bcCtime := UnixMilli t, bcUtime := UnixMilli t\<rparr> in
      L s' = (L s)(bcID c \<mapsto> c') \<and> R s' = (R s)(bcID c \<mapsto> c')
    \<and> (\<exists>row. rows s' = (rows s)(bcID c \<mapsto> row) \<and> conf_toDomain row
        = c'\<lparr>bcCtime := (case rows s (bcID c) of None \<Rightarrow> bcCtime c' | Some old \<Rightarrow> dbcCtime old)\<rparr>)"
proof -
  obtain t where t: "run_state (cgNow g) s = (t, s)" using db_now [OF db] by blast
  let ?r = "(conf_toEntity c)\<lparr>dbcCtime := UnixMilli t, dbcUtime := UnixMilli t\<rparr>"
  let ?c = "c\<lparr>bcCtime := UnixMilli t, bcUtime := UnixMilli t\<rparr>"
  have r: "conf_toDomain ?r = ?c" "dbcID ?r = bcID c"
    by (simp_all add: conf_toDomain_def conf_toEntity_def)
  obtain d e s1 where u: "run_state (cgUpsert g [''id''] config_upsert_columns ?r) s = ((d, e), s1)"
    "if e = None then d = ?r \<and> rows s1 = (rows s)(dbcID ?r \<mapsto> upserted config_upsert_columns ?r (rows s (dbcID ?r)))
     else rows s1 = rows s" "L s1 = L s" "R s1 = R s"
    using db_upsert [OF db] by blast
  from assms t u(1) have "e = None"
    by (auto simp: confrepo_SaveConfig_def dao NewBusinessConfigDAO_def cdao_SaveConfig_def Let_def
        split: option.splits)
  with u have d: "d = ?r" "rows s1 = (rows s)(bcID c \<mapsto> upserted config_upsert_columns ?r (rows s (bcID c)))"
    by (simp_all add: r(2))
  obtain s2 where s2: "run_state (ccSet (brRedis b) ?c) s1 = (Some None, s2)"
    "R s2 = (R s1)(bcID c \<mapsto> ?c)" "L s2 = L s1" "rows s2 = rows s1"
    using R.set [of ?c s1] by auto
  obtain s3 where s3: "run_state (ccSet (brLocal b) ?c) s2 = (Some None, s3)"
    "L s3 = (L s2)(bcID c \<mapsto> ?c)" "R s3 = R s2" "rows s3 = rows s2"
    using L.set [of ?c s2] by auto
  have "run_state (confrepo_SaveConfig b c) s = (Some None, s3)"
    using t u(1) d(1) \<open>e = None\<close> s2(1) s3(1)
    by (simp add: confrepo_SaveConfig_def dao NewBusinessConfigDAO_def cdao_SaveConfig_def Let_def r)
  with assms have "s' = s3" by simp
  moreover have "conf_toDomain (upserted config_upsert_columns ?r (rows s (bcID c)))
      = ?c\<lparr>bcCtime := (case rows s (bcID c) of None \<Rightarrow> bcCtime ?c | Some old \<Rightarrow> dbcCtime old)\<rparr>"
    using db_keyed [OF db, of s "bcID c"]
    by (cases "rows s (bcID c)") (simp_all add: upserted_def config_upsert_columns_def upsert_column_def
        conf_toDomain_def conf_toEntity_def column_ptr_def ptr_column_def split: option.splits)
  ultimately show ?thesis using d(2) s2 s3 u(3,4) by (intro exI [of _ t]) (auto simp: Let_def)
qed

lemma deleted:
  assumes "run_state (confrepo_DeleteByID b i) s = (Some None, s')"
  shows "L s' = (L s)(i := None) \<and> R s' = (R s)(i := None) \<and> rows s' = (rows s)(i := None)"
proof -
  obtain e s1 where d: "run_state (cgDelete g (''id = ?'', [arg_int i])) s = (e, s1)"
    "rows s1 = (if e = None then (rows s)(i := None) else rows s)" "L s1 = L s" "R s1 = R s"
    using db_delete [OF db, of i s] by auto
  from assms d(1) have "e = None"
    by (auto simp: confrepo_DeleteByID_def dao NewBusinessConfigDAO_def cdao_DeleteByID_def split: option.splits)
  obtain s2 where s2: "run_state (ccDelete (brRedis b) i) s1 = (Some None, s2)"
    "R s2 = (R s1)(i := None)" "L s2 = L s1" "rows s2 = rows s1"
    using R.delete [of i s1] by auto
  obtain s3 where s3: "run_state (ccDelete (brLocal b) i) s2 = (Some None, s3)"
    "L s3 = (L s2)(i := None)" "R s3 = R s2" "rows s3 = rows s2"
    using L.delete [of i s2] by auto
  have "run_state (confrepo_DeleteByID b i) s = (Some None, s3)"
    using d(1) \<open>e = None\<close> s2(1) s3(1)
    by (simp add: confrepo_DeleteByID_def dao NewBusinessConfigDAO_def cdao_DeleteByID_def)
  with assms have "s' = s3" by simp
  with d \<open>e = None\<close> s2 s3 show ?thesis by simp
qed

end

end
