(* ===== verification/ConfigProps.thy ===== *)
theory ConfigProps
  imports ConfigFacts
begin

text \<open>
  The properties of the business configurations, on the caches of the program: the contract of
  \<^verbatim>\<open>ConfigCache\<close> gives the repository's, given what go-cache, Redis, JSON and the database document.
\<close>

section \<open>The platform\<close>

definition config_platform ::
  "'s go_cache \<Rightarrow> ('s \<Rightarrow> string \<Rightarrow> BusinessConfig option)
     \<Rightarrow> ('s, 'j) config_redis \<Rightarrow> ('s \<Rightarrow> string \<Rightarrow> 'j option) \<Rightarrow> 'j config_json
     \<Rightarrow> 's config_gorm \<Rightarrow> ('s \<Rightarrow> int64 \<Rightarrow> daoBusinessConfig option)
     \<Rightarrow> (int64 list \<Rightarrow> int64 list) \<Rightarrow> bool" where
  "config_platform gc cached rd stored js g rows ord \<longleftrightarrow>
     go_cache_law gc cached (\<lambda>s. (redis_view js stored s, rows s))
   \<and> config_redis_law rd stored (\<lambda>s. (local_view cached s, rows s)) \<and> json_law js
   \<and> config_db_law g rows (\<lambda>s. (local_view cached s, redis_view js stored s))
   \<and> (\<forall>xs. mset (ord xs) = mset xs)"

text \<open>The repository with a Redis cache that has its client.\<close>

definition wired_repository ::
  "'s go_cache \<Rightarrow> ('s, 'j) config_redis \<Rightarrow> 'j config_json \<Rightarrow> 's config_gorm
     \<Rightarrow> (int64 list \<Rightarrow> int64 list) \<Rightarrow> 's businessConfigRepository" where
  "wired_repository gc rd js g ord =
     \<lparr>brDao = NewBusinessConfigDAO g, brLocal = LocalCache gc,
      brRedis = RedisCache (working_redis js rd), brOrder = ord\<rparr>"

lemma platform_repo:
  assumes "config_platform gc cached rd stored js g rows ord"
  shows "config_repo (wired_repository gc rd js g ord) (local_view cached) (redis_view js stored) rows g"
  using assms local_cache_contract [of gc cached "\<lambda>s. (redis_view js stored s, rows s)"]
    redis_cache_contract [of rd stored "\<lambda>s. (local_view cached s, rows s)" js]
  by (simp add: config_platform_def config_repo_def config_repo_axioms_def wired_repository_def)

text \<open>An instance: three maps.\<close>

type_synonym mem_world = "(int64 \<Rightarrow> daoBusinessConfig option) config_world"

definition mem_rows :: "mem_world \<Rightarrow> int64 \<Rightarrow> daoBusinessConfig option" where
  "mem_rows s i = map_option (\<lambda>r. r\<lparr>dbcID := i\<rparr>) (snd (snd s) i)"

fun arg_value :: "sql_arg list \<Rightarrow> int64 list" where
  "arg_value [Arg (SInt i)] = [i]"
| "arg_value [Args vs] = map (\<lambda>v. case v of SInt i \<Rightarrow> i | SStr _ \<Rightarrow> 0) vs"
| "arg_value _ = []"

definition mem_config_gorm :: "mem_world config_gorm" where
  "mem_config_gorm =
     \<lparr>cgNow = io_return 0,
      cgFind = \<lambda>w. State (\<lambda>s. ((concat (map (\<lambda>i. case mem_rows s i of None \<Rightarrow> [] | Some r \<Rightarrow> [r])
          (remdups (arg_value (snd w)))), None), s)),
      cgFirst = \<lambda>w. State (\<lambda>s. (case mem_rows s (hd (arg_value (snd w))) of
          None \<Rightarrow> (zero_daoBusinessConfig, Some ErrRecordNotFound) | Some r \<Rightarrow> (r, None), s)),
      cgDelete = \<lambda>w. State (\<lambda>s. (None, (fst s, fst (snd s),
          (snd (snd s))(hd (arg_value (snd w)) := None)))),
      cgUpsert = \<lambda>_ cols r. State (\<lambda>s. ((r, None), (fst s, fst (snd s),
          (snd (snd s))(dbcID r \<mapsto> upserted cols r (mem_rows s (dbcID r)))))),
      cgPage = \<lambda>_ _. io_return ([], None)\<rparr>"

lemma upsert_column_id [simp]: "dbcID (upsert_column new old col) = dbcID old"
  by (simp add: upsert_column_def)

lemma upsert_columns_id: "dbcID (foldl (upsert_column r) o' cols) = dbcID o'"
  by (induction cols arbitrary: o') simp_all

lemma upserted_id:
  assumes "\<And>o'. old = Some o' \<Longrightarrow> dbcID o' = dbcID r"
  shows "dbcID (upserted cols r old) = dbcID r"
  using assms by (cases old) (simp_all add: upserted_def upsert_columns_id)

lemma mem_rows_id [simp]: "mem_rows s i = Some r \<Longrightarrow> dbcID r = i"
  by (auto simp: mem_rows_def)

lemma mem_find_distinct:
  "distinct is \<Longrightarrow>
   distinct (map dbcID (concat (map (\<lambda>i. case mem_rows s i of None \<Rightarrow> [] | Some r \<Rightarrow> [r]) is)))"
proof (induction "is")
  case Nil
  then show ?case by simp
next
  case (Cons i "is")
  then have "i \<notin> dbcID ` set (concat (map (\<lambda>i. case mem_rows s i of None \<Rightarrow> [] | Some r \<Rightarrow> [r]) is))"
    by (auto split: option.splits)
  with Cons show ?case by (simp split: option.split)
qed

lemma mem_upsert_rows:
  "mem_rows (a, b, c(dbcID r \<mapsto> upserted cols r (mem_rows (a, b, c) (dbcID r))))
    = (mem_rows (a, b, c))(dbcID r \<mapsto> upserted cols r (mem_rows (a, b, c) (dbcID r)))"
proof -
  let ?u = "upserted cols r (mem_rows (a, b, c) (dbcID r))"
  have "dbcID ?u = dbcID r" by (rule upserted_id) simp
  then have "?u\<lparr>dbcID := dbcID r\<rparr> = ?u" by (cases ?u) simp
  moreover have "mem_rows (a, b, c(i \<mapsto> x)) = (mem_rows (a, b, c))(i \<mapsto> x\<lparr>dbcID := i\<rparr>)" for i x
    by (simp add: mem_rows_def fun_eq_iff)
  ultimately show ?thesis by simp
qed

lemma mem_config_db_law:
  "config_db_law mem_config_gorm mem_rows (\<lambda>s. (local_view fst s, redis_view mem_json (\<lambda>s. fst (snd s)) s))"
proof -
  have "distinct (map dbcID (concat (map (\<lambda>i. case mem_rows s i of None \<Rightarrow> [] | Some r \<Rightarrow> [r]) (remdups ids))))"
    for s ids by (rule mem_find_distinct) simp
  moreover have "set (concat (map (\<lambda>i. case mem_rows s i of None \<Rightarrow> [] | Some r \<Rightarrow> [r]) (remdups ids)))
      = {r. \<exists>i \<in> set ids. mem_rows s i = Some r}" for s ids
    by (auto split: option.splits)
  moreover have "arg_value [arg_ints ids] = ids" "arg_value [arg_int i] = [i]" for ids i
    by (simp_all add: arg_ints_def arg_int_def o_def)
  moreover have "mem_rows (a, b, c(i := None)) = (mem_rows (a, b, c))(i := None)" for a b c i
    by (auto simp: mem_rows_def)
  ultimately show ?thesis
    by (auto simp: config_db_law_def mem_config_gorm_def local_view_def redis_view_def mem_upsert_rows
        split: option.splits)
qed

lemma mem_platform:
  "config_platform mem_go_cache fst mem_config_redis (\<lambda>s. fst (snd s)) mem_json mem_config_gorm mem_rows rev"
  using mem_config_db_law mem_json_law
  by (auto simp: config_platform_def go_cache_law_def mem_go_cache_def config_redis_law_def
      mem_config_redis_def redis_view_def local_view_def mem_rows_def fun_eq_iff split: option.split)

interpretation mem_repo: config_repo
    "wired_repository mem_go_cache mem_config_redis mem_json mem_config_gorm rev"
    "local_view fst" "redis_view mem_json (\<lambda>s. fst (snd s))" mem_rows mem_config_gorm
  by (rule platform_repo [OF mem_platform])

section \<open>Properties\<close>

lemma keyed_upd_same: "keyed v \<Longrightarrow> bcID c = i \<Longrightarrow> keyed (v(i \<mapsto> c))"
  by (simp add: keyed_def)

lemma keyed_del [simp]: "keyed v \<Longrightarrow> keyed (v(i := None))"
  by (simp add: keyed_def)


abbreviation demo_repo :: "mem_world businessConfigRepository" where
  "demo_repo \<equiv> wired_repository mem_go_cache mem_config_redis mem_json mem_config_gorm rev"

lemma demo_views [simp]:
  "local_view fst s i = fst s (ConfigKey i)"
  "redis_view mem_json (\<lambda>s. fst (snd s)) s i = fst (snd s) (ConfigKey i)"
  by (simp_all add: local_view_def redis_view_def mem_json_def split: option.split)

lemmas demo_defs = wired_repository_def LocalCache_def RedisCache_def local_Get_def local_Set_def
  local_Delete_def rcache_Get_def rcache_Set_def rcache_Delete_def mem_go_cache_def
  mem_config_redis_def mem_json_def mem_config_gorm_def NewBusinessConfigDAO_def cdao_SaveConfig_def
  cdao_DeleteByID_def cdao_GetByID_def


text \<open>The batch lookup never answers a configuration that only the database holds: the first
  request gets what the caches have, and puts the rest into the caches, so that the same request
  again gets everything.\<close>

theorem Config_batch_drops_database:
  assumes "config_platform gc cached rd stored js g rows ord" "b = wired_repository gc rd js g ord"
    and "keyed (local_view cached s)" "keyed (redis_view js stored s)"
  shows "\<exists>m1 s1 m2 s2. run_state (confrepo_GetByIDs b ids) s = (Some (m1, None), s1)
    \<and> map_of m1 = (redis_view js stored s ++ local_view cached s) |` set ids
    \<and> run_state (confrepo_GetByIDs b ids) s1 = (Some (m2, None), s2)
    \<and> map_of m2 = known_config (local_view cached) (redis_view js stored) rows s |` set ids"
proof -
  note repo = platform_repo [OF assms(1), folded assms(2)]
  let ?L = "local_view cached" and ?R = "redis_view js stored"
  from config_repo.get_by_ids [OF repo assms(3,4), of ids] obtain m1 s1 where
    1: "run_state (confrepo_GetByIDs b ids) s = (Some (m1, None), s1)"
    "map_of m1 = (?R s ++ ?L s) |` set ids"
    and l: "?L s1 = (\<lambda>i. if i \<in> set ids then known_config ?L ?R rows s i else ?L s i)"
    and k: "keyed (?R s1)" and n: "\<And>i. known_config ?L ?R rows s i = None \<Longrightarrow> ?R s1 i = None"
    by blast
  have "keyed (?L s1)"
    using assms(3) config_repo.known_keyed [OF repo assms(3,4)] by (auto simp: l keyed_def)
  from config_repo.get_by_ids [OF repo this k, of ids] obtain m2 s2 where
    2: "run_state (confrepo_GetByIDs b ids) s1 = (Some (m2, None), s2)"
    "map_of m2 = (?R s1 ++ ?L s1) |` set ids" by blast
  have "map_of m2 i = (known_config ?L ?R rows s |` set ids) i" for i
    using n [of i] by (auto simp: 2(2) l restrict_map_def map_add_def split: option.split)
  with 1 2(1) show ?thesis by blast
qed

theorem Config_batch_drops_database_witness:
  "let s = (Map.empty, Map.empty, [7 \<mapsto> zero_daoBusinessConfig]) :: mem_world
   in \<exists>s1 m2 s2. run_state (confrepo_GetByIDs demo_repo [7]) s = (Some ([], None), s1)
    \<and> run_state (confrepo_GetByIDs demo_repo [7]) s1 = (Some (m2, None), s2)
    \<and> map_of m2 7 \<noteq> None"
proof -
  let ?s = "(Map.empty, Map.empty, [7 \<mapsto> zero_daoBusinessConfig]) :: mem_world"
  have "keyed (local_view fst ?s)" "keyed (redis_view mem_json (\<lambda>s. fst (snd s)) ?s)"
    by (simp_all add: keyed_def)
  from Config_batch_drops_database [OF mem_platform refl this, of "[7]"] obtain m1 s1 m2 s2 where
    r: "run_state (confrepo_GetByIDs demo_repo [7]) ?s = (Some (m1, None), s1)"
      "run_state (confrepo_GetByIDs demo_repo [7]) s1 = (Some (m2, None), s2)"
    and m1: "map_of m1 = (redis_view mem_json (\<lambda>s. fst (snd s)) ?s ++ local_view fst ?s) |` {7}"
    and m2: "map_of m2 = known_config (local_view fst) (redis_view mem_json (\<lambda>s. fst (snd s))) mem_rows ?s |` {7}"
    by auto
  have "map_of m1 i = None" for i by (simp add: m1 map_add_def restrict_map_def)
  then have "m1 = []" by (metis hd_in_set map_of_eq_None_iff prod.collapse imageI)
  moreover have "map_of m2 7 \<noteq> None" by (simp add: m2 known_config_def mem_rows_def)
  ultimately show ?thesis using r by (auto simp del: split_paired_Ex)
qed

text \<open>The Redis cache has no client: its constructor drops the one it is given. So whatever
  Redis holds, a lookup that misses the local cache panics, and saving a configuration panics
  after the row is written.\<close>

theorem Redis_cache_has_no_client:
  assumes "brLocal b = LocalCache gc" "brRedis b = RedisCache (NewCache js rd logger)"
    and "go_cache_law gc cached frame" "json_law js" "local_view cached s i = None"
  shows "fst (run_state (confrepo_GetByID b i) s) = None
    \<and> fst (run_state (confrepo_GetByIDs b [i]) s) = None
    \<and> (run_state (bdSaveConfig (brDao b) (conf_toEntity c)) s = ((row, None), s1)
        \<longrightarrow> run_state (confrepo_SaveConfig b c) s = (None, s1))"
proof -
  obtain t where "jsMarshal js (conf_toDomain row) = (t, None)"
    using assms(4) unfolding json_law_def by blast
  with assms(5) show ?thesis
    by (auto simp: confrepo_GetByID_def confrepo_GetByIDs_def confrepo_SaveConfig_def assms(1,2)
        LocalCache_def RedisCache_def NewCache_def local_Get_def local_GetConfigs_def local_view_def
        gocache_get [OF assms(3)] rcache_Get_def rcache_GetConfigs_def rcache_Set_def diffIDs_def)
qed

theorem Redis_cache_has_no_client_witness:
  "fst (run_state (confrepo_GetByID (demo_repo\<lparr>brRedis := RedisCache (NewCache mem_json mem_config_redis True)\<rparr>) 7)
      ((Map.empty, [ConfigKey 7 \<mapsto> zero_BusinessConfig], Map.empty) :: mem_world)) = None"
  by (rule Redis_cache_has_no_client [where gc = mem_go_cache and js = mem_json
        and rd = mem_config_redis and logger = True and cached = fst and frame = snd, THEN conjunct1])
    (simp_all add: wired_repository_def mem_go_cache_law mem_json_law)

text \<open>Preloading, page by page: after \<open>off\<close> rows the cache holds the first \<open>off\<close>.\<close>

lemma LoadCache_loop_pages:
  assumes "config_cache (brLocal b) L frame"
    and "\<And>off s. run_state (bdFind (brDao b) off load_limit) s = ((take 10 (drop (nat off) rs), None), s)"
    and "length rs \<le> k * 10 + nat off" "0 \<le> off" "off + int k * 10 + 10 < 2 ^ 63"
    and "L s = foldl (\<lambda>v c. v(bcID c \<mapsto> c)) v (map conf_toDomain (take (nat off) rs))"
  shows "\<exists>s'. LoadCache_loop b off s = Some (Some None, s')
    \<and> L s' = foldl (\<lambda>v c. v(bcID c \<mapsto> c)) v (map conf_toDomain rs)"
  using assms(3-)
proof (induction k arbitrary: off s)
  case 0
  then have len: "length rs \<le> nat off" by simp
  obtain s1 where "run_state (ccSetConfigs (brLocal b) []) s = (Some None, s1)" "L s1 = L s"
    using config_cache.set_configs [OF assms(1), of "[]" s] by auto
  then have "run_state (loadCacheBatch b off load_limit) s = (Some (0, None), s1)"
    using len by (simp add: loadCacheBatch_def confrepo_Find_def assms(2))
  then have "LoadCache_loop b off s = Some (Some None, s1)"
    by (subst LoadCache_loop.simps) (simp add: load_limit_def)
  moreover have "take (nat off) rs = rs" using len by simp
  ultimately show ?case using 0 \<open>L s1 = L s\<close> by auto
next
  case (Suc k)
  let ?p = "take 10 (drop (nat off) rs)"
  obtain s1 where s1: "run_state (ccSetConfigs (brLocal b) (map conf_toDomain ?p)) s = (Some None, s1)"
    "L s1 = foldl (\<lambda>v c. v(bcID c \<mapsto> c)) (L s) (map conf_toDomain ?p)"
    using config_cache.set_configs [OF assms(1), of "map conf_toDomain ?p" s] by auto
  have L1: "L s1 = foldl (\<lambda>v c. v(bcID c \<mapsto> c)) v (map conf_toDomain (take (nat off + 10) rs))"
    unfolding s1(2) Suc.prems(4) by (simp add: take_add del: foldl_map)
  have b: "run_state (loadCacheBatch b off load_limit) s = (Some (int (length ?p), None), s1)"
    using s1(1) by (simp add: loadCacheBatch_def confrepo_Find_def assms(2))
  show ?case
  proof (cases "length ?p < 10")
    case True
    then have "take (nat off + 10) rs = rs" by simp
    with L1 have "L s1 = foldl (\<lambda>v c. v(bcID c \<mapsto> c)) v (map conf_toDomain rs)" by simp
    moreover have "LoadCache_loop b off s = Some (Some None, s1)"
      using True unfolding LoadCache_loop.simps [of b off s] b
      by (simp add: load_limit_def del: length_take)
    ultimately show ?thesis by blast
  next
    case False
    have "wrap64 (off + 10) = off + 10"
      using Suc.prems by (intro wrap64_id) (simp add: int64_range_def)
    then have "LoadCache_loop b off s = LoadCache_loop b (off + 10) s1"
      using False unfolding LoadCache_loop.simps [of b off s] b
      by (simp add: load_limit_def del: length_take)
    moreover have "\<exists>s'. LoadCache_loop b (off + 10) s1 = Some (Some None, s')
        \<and> L s' = foldl (\<lambda>v c. v(bcID c \<mapsto> c)) v (map conf_toDomain rs)"
      using Suc.prems L1 by (intro Suc.IH) (simp_all add: nat_add_distrib del: fun_upd_apply)
    ultimately show ?thesis by (simp only:)
  qed
qed


definition paged_gorm :: "daoBusinessConfig list \<Rightarrow> mem_world config_gorm" where
  "paged_gorm rs = mem_config_gorm
     \<lparr>cgPage := \<lambda>limit offset. io_return (take (nat limit) (drop (nat offset) rs), None)\<rparr>"


text \<open>Preloading never gives up: while the pages cannot be read, for instance once the minute
  given to it is over, the loop asks again without end.\<close>

theorem LoadCache_spins:
  assumes "\<And>s. \<exists>rs e s'. run_state (bdFind (brDao b) 0 10) s = ((rs, Some e), s')"
  shows "LoadCache b s = None"
proof -
  have "LoadCache_loop b' off s = Some q \<Longrightarrow> b' = b \<Longrightarrow> off = 0 \<Longrightarrow> False" for b' off s q
  proof (induction b' off s q rule: LoadCache_loop.raw_induct [rotated, consumes 1, case_names 1])
    case (1 loop b' off s q)
    obtain rs e s' where "run_state (bdFind (brDao b) 0 10) s = ((rs, Some e), s')"
      using assms by blast
    with 1(2-4) have "loop b 0 s' = Some q"
      by (simp add: loadCacheBatch_def confrepo_Find_def load_limit_def)
    with 1(1) show ?case by blast
  qed
  then show ?thesis unfolding LoadCache_def by (metis not_Some_eq)
qed

theorem LoadCache_spins_witness:
  "LoadCache (demo_repo\<lparr>brDao := (brDao demo_repo)\<lparr>bdFind := \<lambda>_ _. io_return ([], Some (Ext ''deadline''))\<rparr>\<rparr>)
     (Map.empty, Map.empty, Map.empty) = None"
  by (rule LoadCache_spins) (auto simp del: split_paired_Ex)

text \<open>The local cache follows the key events of Redis as long as the value can be read: then
  the next lookup answers what Redis holds. If it is gone by then, the event puts the zero
  configuration into the cache, and the service answers that, without an error, for a business
  nobody knows.\<close>

theorem Key_event:
  assumes "go_cache_law gc cached frame" "config_redis_law rd stored frame'"
    and "run_state (rgGet rd (ConfigKey i)) s = ((v, if stored s (ConfigKey i) = None then Some redis_Nil else None), s)"
    and "stored s (ConfigKey i) = None \<longrightarrow> fst (jsUnmarshal js v) = zero_BusinessConfig"
    and "0 < i" "brLocal b = LocalCache gc"
  shows "\<exists>s'. run_state (local_loop js rd gc [(''__keyspace@0__:'' @ ConfigKey i, ''set'')]) s = ((), s')
    \<and> fst (run_state (confsvc_GetByID b i) s') = Some (case stored s (ConfigKey i) of
        None \<Rightarrow> (zero_BusinessConfig, None) | Some t \<Rightarrow> (fst (jsUnmarshal js t), None))"
proof -
  let ?c = "fst (jsUnmarshal js v)"
  obtain s' where s': "run_state (gcSet gc (ConfigKey i) (CachedConfig ?c) DefaultExpriredTime) s = ((), s')"
    "cached s' = (cached s)(ConfigKey i \<mapsto> ?c)"
    using gocache_set [OF assms(1)] by blast
  have split: "SplitN2 (''__keyspace@0__:'' @ ConfigKey i) = [''__keyspace@0__'', ConfigKey i]"
    by simp
  have "run_state (local_loop js rd gc [(''__keyspace@0__:'' @ ConfigKey i, ''set'')]) s = ((), s')"
    unfolding local_loop_def for_each.simps local_loop_step_def fst_conv split
    using assms(3) s'(1) by (simp add: handlerConfigChange_def)
  moreover have "?c = (case stored s (ConfigKey i) of
      None \<Rightarrow> zero_BusinessConfig | Some t \<Rightarrow> fst (jsUnmarshal js t))"
    using redis_get [OF assms(2), of "ConfigKey i" s] assms(3,4) by (auto split: option.splits)
  ultimately show ?thesis
    using s' assms(5) by (auto simp: confsvc_GetByID_def confrepo_GetByID_def assms(6) LocalCache_def
        local_Get_def gocache_get [OF assms(1)] split: option.splits)
qed

theorem Key_event_witness:
  "\<exists>s'. fst (run_state (confsvc_GetByID demo_repo 7) s') = Some (zero_BusinessConfig, None)"
proof -
  let ?s = "(Map.empty, Map.empty, Map.empty) :: mem_world"
  have "\<exists>s'. run_state (local_loop mem_json mem_config_redis mem_go_cache
        [(''__keyspace@0__:'' @ ConfigKey 7, ''set'')]) ?s = ((), s')
    \<and> fst (run_state (confsvc_GetByID demo_repo 7) s') = Some (case fst (snd ?s) (ConfigKey 7) of
        None \<Rightarrow> (zero_BusinessConfig, None) | Some t \<Rightarrow> (fst (jsUnmarshal mem_json t), None))"
    by (rule Key_event [OF mem_go_cache_law mem_config_redis_law, where v = zero_BusinessConfig])
      (simp_all add: mem_config_redis_def mem_json_def wired_repository_def)
  then show ?thesis by (auto simp del: split_paired_Ex)
qed

text \<open>A JSON column comes back from the database as it was written: the value if there is one,
  else the column stays as it is.\<close>

theorem JsonColumn_roundtrip:
  assumes "\<And>v w. snd (marshal v) = None \<and> unmarshal (fst (marshal v)) w = (v, None)"
  shows "json_scan unmarshal (fst (json_value marshal j)) k = (if jcValid j then j else k, None)"
proof -
  obtain bs where "marshal (jcVal j) = (bs, None)" using assms by (metis prod.collapse)
  moreover from this assms [of "jcVal j" "jcVal k"] have "unmarshal bs (jcVal k) = (jcVal j, None)" by simp
  ultimately show ?thesis by (cases j) (simp add: json_scan_def json_value_def Let_def)
qed

theorem JsonColumn_roundtrip_witness:
  "json_scan (\<lambda>bs _. (bs, None)) (fst (json_value (\<lambda>v. (v, None)) \<lparr>jcVal = ''{}'', jcValid = True\<rparr>))
      \<lparr>jcVal = '''', jcValid = False\<rparr> = (\<lparr>jcVal = ''{}'', jcValid = True\<rparr>, None)"
  using JsonColumn_roundtrip [where marshal = "\<lambda>v. (v, None)" and unmarshal = "\<lambda>bs _. (bs, None)"
      and j = "\<lparr>jcVal = ''{}'', jcValid = True\<rparr>" and k = "\<lparr>jcVal = '''', jcValid = False\<rparr>"]
  by simp

end
