(* ===== verification/ConfigServer.thy ===== *)
theory ConfigServer
  imports ConfigProps Interceptors
begin

text \<open>
  \<^verbatim>\<open>internal/api/grpc/config_server.go\<close>: the gRPC server for business configurations and the
  conversion of its messages. A nil message is \<open>None\<close>; the result \<open>None\<close> of an operation is a
  panic. \<^verbatim>\<open>backoff_multiplier\<close>, which the code never reads, is left out of the retry message.
\<close>

section \<open>Messages\<close>

record pbRetryConfig =
  prMaxAttempts :: int32
  prInitialBackoffMs :: int32
  prMaxBackoffMs :: int32

record pbChannelItem =
  piChannel :: string
  piPriority :: int32
  piEnabled :: bool

record pbChannelConfig =
  pcChannels :: "pbChannelItem option list"
  pcRetryPolicy :: "pbRetryConfig option"

record pbTxnConfig =
  ptServiceName :: string
  ptInitialDelay :: int32
  ptRetryPolicy :: "pbRetryConfig option"

record pbMonthlyConfig =
  pmSms :: int32
  pmEmail :: int32

record pbQuotaConfig =
  pqMonthly :: "pbMonthlyConfig option"

record pbCallbackConfig =
  pkServiceName :: string
  pkRetryPolicy :: "pbRetryConfig option"

record pbBusinessConfig =
  pbcOwnerId :: int64
  pbcOwnerType :: string
  pbcChannelConfig :: "pbChannelConfig option"
  pbcTxnConfig :: "pbTxnConfig option"
  pbcReteLimit :: int32
  pbcQuota :: "pbQuotaConfig option"
  pbcCallbackConfig :: "pbCallbackConfig option"

section \<open>Conversion\<close>

definition convertProtoRetryConfig :: "pbRetryConfig \<Rightarrow> RetryConfig" where
  "convertProtoRetryConfig r =
     \<lparr>rc_Type = ''exponential'', rc_FixedInterval = None,
      rc_ExponentialBackoff = Some
        \<lparr>ebc_InitialInterval = wrap64 (prInitialBackoffMs r * 10 ^ 6),
         ebc_MaxInterval = wrap64 (prMaxBackoffMs r * 10 ^ 6), ebc_MaxRetries = prMaxAttempts r\<rparr>\<rparr>"

text \<open>The conversion of the channel items, which panics on a nil one.\<close>

fun convert_channels :: "pbChannelItem option list \<Rightarrow> ChannelItem list \<Rightarrow> ChannelItem list option" where
  "convert_channels [] acc = Some acc"
| "convert_channels (None # cs) acc = None"
| "convert_channels (Some c # cs) acc =
     convert_channels cs
       (acc @ [\<lparr>ciChannel = piChannel c, ciPriority = piPriority c, ciEnabled = piEnabled c\<rparr>])"

definition convert_channel_config :: "pbChannelConfig option \<Rightarrow> ChannelConfig option option" where
  "convert_channel_config p =
     (case p of
        None \<Rightarrow> Some None
      | Some cc \<Rightarrow>
          (case convert_channels (pcChannels cc) [] of
             None \<Rightarrow> None
           | Some cs \<Rightarrow> Some (Some \<lparr>ccChannels = cs,
               ccRetryPolicy = map_option convertProtoRetryConfig (pcRetryPolicy cc)\<rparr>)))"

definition convert_quota :: "pbQuotaConfig option \<Rightarrow> QuotaConfig option" where
  "convert_quota q =
     (case q of
        Some qc \<Rightarrow> (case pqMonthly qc of
            Some m \<Rightarrow> Some \<lparr>qcMonthly = \<lparr>mcSMS = pmSms m, mcEMAIL = pmEmail m\<rparr>\<rparr>
          | None \<Rightarrow> None)
      | None \<Rightarrow> None)"

definition protoToDomainBusinessConfig :: "pbBusinessConfig \<Rightarrow> BusinessConfig option" where
  "protoToDomainBusinessConfig p =
     (case convert_channel_config (pbcChannelConfig p) of
        None \<Rightarrow> None
      | Some channel \<Rightarrow> Some (zero_BusinessConfig
          \<lparr>bcOwnerId := pbcOwnerId p, bcOwnerType := pbcOwnerType p, bcRateLimit := pbcReteLimit p,
           bcChannelConfig := channel,
           bcTxnConfig := map_option (\<lambda>t. \<lparr>txcServiceName = ptServiceName t,
             txcInitialDelay = ptInitialDelay t,
             txcRetryPolicy = map_option convertProtoRetryConfig (ptRetryPolicy t)\<rparr>) (pbcTxnConfig p),
           bcQuota := convert_quota (pbcQuota p),
           bcCallbackConfig := map_option (\<lambda>c. \<lparr>cbcServiceName = pkServiceName c,
             cbcRetryPolicy = map_option convertProtoRetryConfig (pkRetryPolicy c)\<rparr>)
             (pbcCallbackConfig p)\<rparr>))"

section \<open>The server\<close>

text \<open>A response is its field \<open>Success\<close>, \<open>None\<close> a nil response.\<close>

definition confserver_SaveConfig ::
  "'s businessConfigRepository \<Rightarrow> ctx \<Rightarrow> pbBusinessConfig option option
     \<Rightarrow> ('s, bool option ret option) io" where
  "confserver_SaveConfig b c request =
     (case request of
        None \<Rightarrow> io_ok (Some False, None)
      | Some None \<Rightarrow> io_ok (Some False, None)
      | Some (Some p) \<Rightarrow>
          (case GetBizIDFromContext c of
             (_, Some e) \<Rightarrow> io_ok (None, Some e)
           | (bizID, None) \<Rightarrow>
               (case protoToDomainBusinessConfig p of
                  None \<Rightarrow> io_panic
                | Some domainConfig \<Rightarrow>
                    io_call (confsvc_SaveConfig b (domainConfig\<lparr>bcID := bizID\<rparr>)) (\<lambda>err.
                      case err of
                        Some e \<Rightarrow> io_ok (Some False, Some e)
                      | None \<Rightarrow> io_ok (Some True, None)))))"

definition confserver_GetByIDs :: "ctx \<Rightarrow> int64 list \<Rightarrow> ('s, config_map ret option) io" where
  "confserver_GetByIDs c ids = io_panic"
definition confserver_GetByID :: "ctx \<Rightarrow> int64 \<Rightarrow> ('s, BusinessConfig ret option) io" where
  "confserver_GetByID c i = io_panic"
definition confserver_Delete :: "ctx \<Rightarrow> int64 \<Rightarrow> ('s, bool ret option) io" where
  "confserver_Delete c i = io_panic"

section \<open>Properties\<close>

definition config_policies :: "BusinessConfig \<Rightarrow> RetryConfig list" where
  "config_policies c = List.map_filter id
     [Option.bind (bcChannelConfig c) ccRetryPolicy, Option.bind (bcTxnConfig c) txcRetryPolicy,
      Option.bind (bcCallbackConfig c) cbcRetryPolicy]"

lemma converted_policy:
  "\<exists>st. NewRetry (convertProtoRetryConfig r) = Strategy (Exponential st)
    \<and> eb_maxRetries st = prMaxAttempts r"
  by (simp add: NewRetry_def convertProtoRetryConfig_def NewExponentialBackoffRetryStrategy_def)

lemma converted_policies:
  assumes "protoToDomainBusinessConfig p = Some c" "r \<in> set (config_policies c)"
  shows "\<exists>q. r = convertProtoRetryConfig q"
  using assms
  by (auto simp: protoToDomainBusinessConfig_def convert_channel_config_def config_policies_def
      List.map_filter_def map_option_case split: option.splits if_splits)

text \<open>C29. A business can only save its own configuration, the one of the token: a successful save
  stores the converted message under the caller's identifier, and every retry policy in it makes a
  strategy, so that no later attempt panics on a half-filled policy.\<close>

theorem SaveConfig_own_and_usable:
  assumes "run_state (confserver_SaveConfig b c (Some (Some p))) s = (Some (Some True, err), s')"
  shows "\<exists>bizID config. GetBizIDFromContext c = (bizID, None) \<and> 0 < bizID \<and> err = None
    \<and> protoToDomainBusinessConfig p = Some config
    \<and> run_state (confrepo_SaveConfig b (config\<lparr>bcID := bizID\<rparr>)) s = (Some None, s')
    \<and> list_all (\<lambda>r. \<exists>st. NewRetry r = Strategy (Exponential st)) (config_policies (config\<lparr>bcID := bizID\<rparr>))"
proof -
  from assms obtain bizID config where
    b: "GetBizIDFromContext c = (bizID, None)" and p: "protoToDomainBusinessConfig p = Some config"
    and r: "run_state (confsvc_SaveConfig b (config\<lparr>bcID := bizID\<rparr>)) s = (Some None, s')" "err = None"
    by (auto simp: confserver_SaveConfig_def split: prod.splits option.splits)
  have "config_policies (config\<lparr>bcID := bizID\<rparr>) = config_policies config"
    by (simp add: config_policies_def)
  moreover have "\<exists>st. NewRetry r = Strategy (Exponential st)" if "r \<in> set (config_policies config)" for r
    using converted_policies [OF p that] converted_policy by blast
  ultimately show ?thesis
    using b p r by (auto simp: confsvc_SaveConfig_def list_all_iff split: if_splits)
qed

theorem SaveConfig_own_and_usable_witness:
  "let p = \<lparr>pbcOwnerId = 1, pbcOwnerType = ''person'', pbcChannelConfig = None, pbcTxnConfig = None,
        pbcReteLimit = 10, pbcQuota = None, pbcCallbackConfig = Some
          \<lparr>pkServiceName = ''svc'', pkRetryPolicy = Some
             \<lparr>prMaxAttempts = 3, prInitialBackoffMs = 100, prMaxBackoffMs = 1000\<rparr>\<rparr>\<rparr>
   in \<exists>config. protoToDomainBusinessConfig p = Some config
    \<and> list_all (\<lambda>r. \<exists>st. NewRetry r = Strategy (Exponential st)) (config_policies (config\<lparr>bcID := 7\<rparr>))"
proof -
  let ?p = "\<lparr>pbcOwnerId = 1, pbcOwnerType = ''person'', pbcChannelConfig = None, pbcTxnConfig = None,
        pbcReteLimit = 10, pbcQuota = None, pbcCallbackConfig = Some
          \<lparr>pkServiceName = ''svc'', pkRetryPolicy = Some
             \<lparr>prMaxAttempts = 3, prInitialBackoffMs = 100, prMaxBackoffMs = 1000\<rparr>\<rparr>\<rparr>"
  let ?c = "\<lparr>ctxValue = [BizIDName \<mapsto> VInt64 7], ctxIncoming = None, ctxOutgoing = \<lambda>_. [], ctxDeadline = None\<rparr>"
  obtain s' where "run_state (confserver_SaveConfig demo_repo ?c (Some (Some ?p)))
      ((Map.empty, Map.empty, Map.empty) :: mem_world) = (Some (Some True, None), s')"
    by (simp add: confserver_SaveConfig_def GetBizIDFromContext_def protoToDomainBusinessConfig_def
        convert_channel_config_def convert_quota_def confsvc_SaveConfig_def confrepo_SaveConfig_def
        demo_defs Let_def zero_BusinessConfig_def)
  from SaveConfig_own_and_usable [OF this] show ?thesis by (auto simp: GetBizIDFromContext_def)
qed

end
