(* ===== verification/QuotaService.thy ===== *)
theory QuotaService
  imports ConfigProps
begin

text \<open>
  Quotas in the database and their monthly reset: \<^verbatim>\<open>internal/repository/quota.go\<close>,
  \<^verbatim>\<open>internal/service/quota/quota.go\<close> and \<^verbatim>\<open>quota_monthly_reset_cron.go\<close>, over the data access of
  \<open>Dao\<close> and the configuration repository. The reset loop need not end: \<open>None\<close> is a run that does
  not return.
\<close>

section \<open>The repository\<close>

record 's QuotaDAO =
  qdCreateOrUpdate :: "daoQuota list \<Rightarrow> ('s, gerr option) io"
  qdFind :: "int64 \<Rightarrow> string \<Rightarrow> ('s, daoQuota ret) io"

definition NewQuotaDAO :: "'s gorm \<Rightarrow> 's QuotaDAO" where
  "NewQuotaDAO g = \<lparr>qdCreateOrUpdate = qd_CreateOrUpdate g, qdFind = qd_Find g\<rparr>"

definition zero_daoQuota :: daoQuota where
  "zero_daoQuota = \<lparr>dqID = 0, dqBizID = 0, dqChannel = '''', dqQuota = 0, dqUtime = 0, dqCtime = 0\<rparr>"

definition quota_toEntity :: "Quota \<Rightarrow> daoQuota" where
  "quota_toEntity q = zero_daoQuota\<lparr>dqQuota := qQuota q, dqBizID := qBizID q, dqChannel := qChannel q\<rparr>"

definition quotarepo_CreateOrUpdate :: "'s QuotaDAO \<Rightarrow> Quota list \<Rightarrow> ('s, gerr option) io" where
  "quotarepo_CreateOrUpdate d quotas = qdCreateOrUpdate d (map quota_toEntity quotas)"

definition quotarepo_Find :: "'s QuotaDAO \<Rightarrow> int64 \<Rightarrow> Channel \<Rightarrow> ('s, Quota ret) io" where
  "quotarepo_Find d bizID channel = do {
     (found, err) \<leftarrow> qdFind d bizID channel;
     io_return (case err of
         Some e \<Rightarrow> (zero_Quota, Some e)
       | None \<Rightarrow> (\<lparr>qBizID = dqBizID found, qQuota = dqQuota found, qChannel = dqChannel found\<rparr>, None))
   }"

section \<open>The service\<close>

definition ResetQuota :: "'s QuotaDAO \<Rightarrow> BusinessConfig \<Rightarrow> ('s, gerr option) io" where
  "ResetQuota d biz =
     (case bcQuota biz of
        None \<Rightarrow> io_return (Some (Err ErrNoQuota))
      | Some q \<Rightarrow> quotarepo_CreateOrUpdate d
          [\<lparr>qBizID = bcID biz, qQuota = wrap32 (mcSMS (qcMonthly q)), qChannel = ChannelSMS\<rparr>,
           \<lparr>qBizID = bcID biz, qQuota = wrap32 (mcEMAIL (qcMonthly q)), qChannel = ChannelEmail\<rparr>])"

section \<open>The monthly reset\<close>

record 's MonthlyResetCron =
  mrBizRepo :: "'s businessConfigRepository"
  mrSvc :: "BusinessConfig \<Rightarrow> ('s, gerr option) io"
  mrBatchSize :: int64

definition NewMonthlyResetCron ::
  "'s businessConfigRepository \<Rightarrow> (BusinessConfig \<Rightarrow> ('s, gerr option) io) \<Rightarrow> 's MonthlyResetCron" where
  "NewMonthlyResetCron bizRepo svc = \<lparr>mrBizRepo = bizRepo, mrSvc = svc, mrBatchSize = 10\<rparr>"

definition reset_oneLoop :: "'s MonthlyResetCron \<Rightarrow> int64 \<Rightarrow> ('s, int64 ret) io" where
  "reset_oneLoop m offset = do {
     (bizs, err) \<leftarrow> confrepo_Find (mrBizRepo m) offset 0;
     case err of
       Some e \<Rightarrow> io_return (0, Some e)
     | None \<Rightarrow> do {
         _ \<leftarrow> for_each (\<lambda>cfg. do { _ \<leftarrow> mrSvc m cfg; io_return () }) bizs;
         io_return (int (length bizs), None)
       }
   }"

partial_function (option) reset_loop :: "'s MonthlyResetCron \<Rightarrow> int64 \<Rightarrow> 's \<Rightarrow> (gerr option \<times> 's) option" where
  "reset_loop m offset s =
     (case run_state (reset_oneLoop m offset) s of
        ((cnt, err), s1) \<Rightarrow>
          if err \<noteq> None then reset_loop m (wrap64 (offset + mrBatchSize m)) s1
          else if cnt < mrBatchSize m then Some (None, s1)
          else reset_loop m (wrap64 (offset + cnt)) s1)"

definition reset_Start :: "'s MonthlyResetCron \<Rightarrow> 's \<Rightarrow> (gerr option \<times> 's) option" where
  "reset_Start m s = reset_loop m 0 s"

section \<open>Properties\<close>

text \<open>The monthly reset resets nothing: it asks for pages of no rows, which is what the database
  answers, and ends at once without an error; the service that sets the quotas is not called.\<close>

theorem MonthlyReset_resets_nothing:
  assumes "brDao b = NewBusinessConfigDAO g"
    and "\<And>offset s. run_state (cgPage g 0 offset) s = (([], None), s)"
  shows "reset_Start (NewMonthlyResetCron b svc) s = Some (None, s)"
proof -
  have "run_state (reset_oneLoop (NewMonthlyResetCron b svc) 0) s = ((0, None), s)"
    by (simp add: reset_oneLoop_def NewMonthlyResetCron_def confrepo_Find_def assms
        NewBusinessConfigDAO_def cdao_Find_def)
  then show ?thesis
    unfolding reset_Start_def reset_loop.simps [of _ 0 s] by (simp add: NewMonthlyResetCron_def)
qed

text \<open>With a limit the loop would have set the quotas of a page; this is what \<open>ResetQuota\<close> stores,
  cut to 32 bits.\<close>

theorem MonthlyReset_resets_nothing_witness:
  "reset_Start (NewMonthlyResetCron
       (demo_repo\<lparr>brDao := NewBusinessConfigDAO (paged_gorm [zero_daoBusinessConfig])\<rparr>)
       (\<lambda>c. io_return (Some (Err ErrNoQuota)))) (Map.empty, Map.empty, Map.empty)
     = Some (None, (Map.empty, Map.empty, Map.empty))"
  by (rule MonthlyReset_resets_nothing [where g = "paged_gorm [zero_daoBusinessConfig]"])
    (simp_all add: paged_gorm_def)

text \<open>A table of quotas with one row for each business and channel.\<close>

type_synonym quota_table = "int64 \<Rightarrow> string \<Rightarrow> daoQuota option"

definition upsert_quota :: "quota_table \<Rightarrow> daoQuota \<Rightarrow> quota_table" where
  "upsert_quota m q = (\<lambda>b c. if b = dqBizID q \<and> c = dqChannel q
     then (case m b c of None \<Rightarrow> Some q
       | Some old \<Rightarrow> Some (old\<lparr>dqQuota := dqQuota q, dqUtime := dqUtime q\<rparr>))
     else m b c)"

definition quota_table_law :: "'s gorm \<Rightarrow> ('s \<Rightarrow> quota_table) \<Rightarrow> bool" where
  "quota_table_law g table \<longleftrightarrow>
     (\<forall>s b c q. table s b c = Some q \<longrightarrow> dqBizID q = b \<and> dqChannel q = c)
   \<and> (\<forall>s. \<exists>t s1. run_state (gNow g) s = (t, s1) \<and> table s1 = table s)
   \<and> (\<forall>s b c. \<exists>z. run_state (gFirstQ g [CEq ''biz_id'' (SInt b), CEq ''channel'' (SStr c)]) s
        = (case table s b c of None \<Rightarrow> ((z, Some ErrRecordNotFound), s) | Some q \<Rightarrow> ((q, None), s)))
   \<and> (\<forall>s qs. \<exists>e s1. run_state (gUpsertQuotas g qs [''quota'', ''utime'']) s = (e, s1)
        \<and> table s1 = (if e = None then foldl upsert_quota (table s) qs else table s))"

lemma quota_find:
  assumes "quota_table_law g table" "table s b c = Some q"
  shows "run_state (quotarepo_Find (NewQuotaDAO g) b c) s = ((\<lparr>qBizID = b, qQuota = dqQuota q, qChannel = c\<rparr>, None), s)"
proof -
  have "run_state (gFirstQ g [CEq ''biz_id'' (SInt b), CEq ''channel'' (SStr c)]) s = ((q, None), s)"
    using assms unfolding quota_table_law_def by (metis option.simps(5))
  moreover have "dqBizID q = b" "dqChannel q = c"
    using assms unfolding quota_table_law_def by blast+
  ultimately show ?thesis by (simp add: quotarepo_Find_def NewQuotaDAO_def qd_Find_def)
qed

text \<open>What a reset stores is what the lookup answers afterwards: the configured quota of each
  of the two channels, cut to 32 bits; no other quota changes.\<close>

theorem Reset_then_find:
  assumes "quota_table_law g table" "bcQuota biz = Some q"
    and "run_state (ResetQuota (NewQuotaDAO g) biz) s = (None, s')"
  shows "fst (run_state (quotarepo_Find (NewQuotaDAO g) (bcID biz) ChannelSMS) s')
      = (\<lparr>qBizID = bcID biz, qQuota = wrap32 (mcSMS (qcMonthly q)), qChannel = ChannelSMS\<rparr>, None)
    \<and> fst (run_state (quotarepo_Find (NewQuotaDAO g) (bcID biz) ChannelEmail) s')
      = (\<lparr>qBizID = bcID biz, qQuota = wrap32 (mcEMAIL (qcMonthly q)), qChannel = ChannelEmail\<rparr>, None)
    \<and> (b \<noteq> bcID biz \<or> c \<notin> {ChannelSMS, ChannelEmail} \<longrightarrow> table s' b c = table s b c)"
proof -
  obtain t s1 where t: "run_state (gNow g) s = (t, s1)" "table s1 = table s"
    using assms(1) unfolding quota_table_law_def by blast
  let ?row = "\<lambda>ch n. zero_daoQuota\<lparr>dqQuota := wrap32 n, dqBizID := bcID biz, dqChannel := ch,
      dqCtime := UnixMilli t, dqUtime := UnixMilli t\<rparr>"
  let ?sms = "?row ChannelSMS (mcSMS (qcMonthly q))" and ?email = "?row ChannelEmail (mcEMAIL (qcMonthly q))"
  obtain e s2 where u: "run_state (gUpsertQuotas g [?sms, ?email] [''quota'', ''utime'']) s1 = (e, s2)"
    "table s2 = (if e = None then foldl upsert_quota (table s1) [?sms, ?email] else table s1)"
    using assms(1) unfolding quota_table_law_def by blast
  have "run_state (ResetQuota (NewQuotaDAO g) biz) s = (e, s2)"
    using t(1) u(1) by (simp add: ResetQuota_def assms(2) quotarepo_CreateOrUpdate_def NewQuotaDAO_def
        qd_CreateOrUpdate_def quota_toEntity_def Let_def)
  with assms(3) u(2) t(2) have tb: "table s' = upsert_quota (upsert_quota (table s) ?sms) ?email" by simp
  have ne: "ChannelSMS \<noteq> ChannelEmail" by (simp add: ChannelSMS_def ChannelEmail_def)
  obtain q1 where "table s' (bcID biz) ChannelSMS = Some q1" "dqQuota q1 = wrap32 (mcSMS (qcMonthly q))"
    using ne by (cases "table s (bcID biz) ChannelSMS") (auto simp: tb upsert_quota_def)
  moreover obtain q2 where "table s' (bcID biz) ChannelEmail = Some q2" "dqQuota q2 = wrap32 (mcEMAIL (qcMonthly q))"
    using ne by (cases "table s (bcID biz) ChannelEmail") (auto simp: tb upsert_quota_def)
  moreover have "b \<noteq> bcID biz \<or> c \<notin> {ChannelSMS, ChannelEmail} \<longrightarrow> table s' b c = table s b c"
    by (auto simp: tb upsert_quota_def)
  ultimately show ?thesis using quota_find [OF assms(1)] by simp
qed

definition quota_gorm :: "quota_table gorm" where
  "quota_gorm =
     \<lparr>gNow = io_return 0, gTransaction = \<lambda>m. m, gUpdates = \<lambda>_ _ _. io_return (0, None),
      gCreateN = \<lambda>d. io_return (d, None), gCreateInBatchesN = \<lambda>ds _. io_return (ds, None),
      gFirstN = \<lambda>_. io_return (zero_daoNotification, Some ErrRecordNotFound),
      gFindN = \<lambda>_ _. io_return ([], None), gSelectIdsN = \<lambda>_ _. io_return ([], None),
      gCreateC = \<lambda>_. io_return None, gFindC = \<lambda>_ _. io_return ([], None),
      gCreateT = \<lambda>_. io_return (0, None),
      gFirstT = \<lambda>_. io_return (\<lparr>dtTxID = 0, dtKey = '''', dtNotificationID = 0, dtBizID = 0,
          dtStatus = '''', dtCheckCount = 0, dtNextCheckTime = 0, dtCtime = 0, dtUtime = 0\<rparr>,
          Some ErrRecordNotFound),
      gFindT = \<lambda>_ _. io_return ([], None), gExec = \<lambda>_. io_return None,
      gUpsertQuotas = \<lambda>qs _. State (\<lambda>m. (None, foldl upsert_quota m qs)),
      gFirstQ = \<lambda>w. State (\<lambda>m. (case w of
          [CEq _ (SInt b), CEq _ (SStr c)] \<Rightarrow>
            (case m b c of None \<Rightarrow> (zero_daoQuota, Some ErrRecordNotFound)
             | Some q \<Rightarrow> (q\<lparr>dqBizID := b, dqChannel := c\<rparr>, None))
        | _ \<Rightarrow> (zero_daoQuota, Some ErrRecordNotFound), m))\<rparr>"

definition stored_quota :: "quota_table \<Rightarrow> quota_table" where
  "stored_quota m b c = map_option (\<lambda>q. q\<lparr>dqBizID := b, dqChannel := c\<rparr>) (m b c)"

lemma stored_upsert: "stored_quota (upsert_quota m q) = upsert_quota (stored_quota m) q"
  by (intro ext) (auto simp: stored_quota_def upsert_quota_def split: option.split)

lemma quota_gorm_law: "quota_table_law quota_gorm stored_quota"
proof -
  have "stored_quota (foldl upsert_quota m qs) = foldl upsert_quota (stored_quota m) qs" for m qs
    by (induction qs arbitrary: m) (simp_all add: stored_upsert)
  then show ?thesis
    by (auto simp: quota_table_law_def quota_gorm_def stored_quota_def split: option.splits)
qed

theorem Reset_then_find_witness:
  "let biz = zero_BusinessConfig\<lparr>bcID := 3, bcQuota := Some \<lparr>qcMonthly = \<lparr>mcSMS = 100, mcEMAIL = 2 ^ 32 + 5\<rparr>\<rparr>\<rparr>
   in \<exists>s'. fst (run_state (quotarepo_Find (NewQuotaDAO quota_gorm) 3 ChannelEmail) s')
     = (\<lparr>qBizID = 3, qQuota = 5, qChannel = ChannelEmail\<rparr>, None)"
proof -
  let ?biz = "zero_BusinessConfig\<lparr>bcID := 3, bcQuota := Some \<lparr>qcMonthly = \<lparr>mcSMS = 100, mcEMAIL = 2 ^ 32 + 5\<rparr>\<rparr>\<rparr>"
  obtain s' where "run_state (ResetQuota (NewQuotaDAO quota_gorm) ?biz) (\<lambda>_ _. None) = (None, s')"
    by (simp add: ResetQuota_def quotarepo_CreateOrUpdate_def NewQuotaDAO_def qd_CreateOrUpdate_def
        quota_gorm_def Let_def)
  have "bcQuota ?biz = Some \<lparr>qcMonthly = \<lparr>mcSMS = 100, mcEMAIL = 2 ^ 32 + 5\<rparr>\<rparr>" by simp
  from Reset_then_find [OF quota_gorm_law this \<open>run_state _ _ = _\<close>] show ?thesis
    by (auto simp: wrap32_def)
qed

end
