(* ===== verification/HashRing.thy ===== *)
theory HashRing
  imports Strconv "HOL-Library.AList"
begin

unbundle bit_operations_syntax

text \<open>
  Consistent hashing for the gRPC balancer: \<^verbatim>\<open>internal/pkg/grpcx/balancer/hash/hash.go\<close>. Hash
  values are 32-bit words; \<open>ChecksumIEEE\<close> and \<open>sort.Search\<close> of the standard library are modelled
  as they compute. The mutex makes each method atomic: one function per method. The
  specification is the clockwise successor on the set of keys.
\<close>

section \<open>The standard library\<close>

definition crc32_bit :: "32 word \<Rightarrow> 32 word" where
  "crc32_bit c = (if c AND 1 = 1 then drop_bit 1 c XOR 0xEDB88320 else drop_bit 1 c)"

definition crc32_byte :: "32 word \<Rightarrow> char \<Rightarrow> 32 word" where
  "crc32_byte c b = (crc32_bit ^^ 8) (c XOR of_nat (of_char b))"

definition ChecksumIEEE :: "string \<Rightarrow> 32 word" where
  "ChecksumIEEE s = NOT (foldl crc32_byte (NOT 0) s)"

text \<open>\<^verbatim>\<open>sort.Search\<close>: binary search for the first index that satisfies the test.\<close>

function search_loop :: "(nat \<Rightarrow> bool) \<Rightarrow> nat \<Rightarrow> nat \<Rightarrow> nat" where
  "search_loop f i j =
     (if i < j
      then let h = (i + j) div 2 in if \<not> f h then search_loop f (h + 1) j else search_loop f i h
      else i)"
  by pat_completeness auto
termination by (relation "measure (\<lambda>(f, i, j). j - i)") auto

declare search_loop.simps [simp del]

definition sort_Search :: "nat \<Rightarrow> (nat \<Rightarrow> bool) \<Rightarrow> nat" where
  "sort_Search n f = search_loop f 0 n"

section \<open>The ring\<close>

record HashRing =
  hrNodes :: "string list"
  hrVirtualNode :: int
  hrRing :: "(32 word \<times> string) list"
  hrSortedKeys :: "32 word list"

definition NewHashRing :: "int \<Rightarrow> HashRing" where
  "NewHashRing virtualNode =
     \<lparr>hrNodes = [], hrVirtualNode = virtualNode, hrRing = [], hrSortedKeys = []\<rparr>"

definition hashKey :: "string \<Rightarrow> 32 word" where
  "hashKey key = ChecksumIEEE key"

definition virtual_key :: "string \<Rightarrow> nat \<Rightarrow> string" where
  "virtual_key node i = node @ ''#'' @ FormatInt (int i)"

fun add_virtual ::
  "string \<Rightarrow> nat list \<Rightarrow> (32 word \<times> string) list \<times> 32 word list
     \<Rightarrow> (32 word \<times> string) list \<times> 32 word list" where
  "add_virtual node [] rk = rk"
| "add_virtual node (i # is) (ring, keys) =
     (let hash = hashKey (virtual_key node i)
      in add_virtual node is (AList.update hash node ring, keys @ [hash]))"

definition AddNode :: "string \<Rightarrow> HashRing \<Rightarrow> HashRing" where
  "AddNode node h =
     (let (ring, keys) = add_virtual node [0..<nat (hrVirtualNode h)] (hrRing h, hrSortedKeys h)
      in h\<lparr>hrNodes := hrNodes h @ [node], hrRing := ring, hrSortedKeys := sort keys\<rparr>)"

definition RemoveNode :: "string \<Rightarrow> HashRing \<Rightarrow> HashRing" where
  "RemoveNode node h =
     (let newRing = filter (\<lambda>(hash, n). n \<noteq> node) (hrRing h)
      in h\<lparr>hrNodes := remove1 node (hrNodes h), hrRing := newRing,
           hrSortedKeys := sort (map fst newRing)\<rparr>)"

text \<open>A key that is not in the map would read as the empty string.\<close>

definition GetNode :: "HashRing \<Rightarrow> string \<Rightarrow> string" where
  "GetNode h key =
     (if hrSortedKeys h = [] then ''''
      else let hash = hashKey key;
               idx = sort_Search (length (hrSortedKeys h)) (\<lambda>i. hrSortedKeys h ! i \<ge> hash);
               idx = (if idx = length (hrSortedKeys h) then 0 else idx)
           in case map_of (hrRing h) (hrSortedKeys h ! idx) of Some n \<Rightarrow> n | None \<Rightarrow> '''')"

definition NodeCount :: "HashRing \<Rightarrow> nat" where
  "NodeCount h = length (hrSortedKeys h)"

section \<open>Binary search\<close>

lemma search_loop_first:
  assumes "i \<le> j" "j \<le> n" "\<And>k. k < i \<Longrightarrow> \<not> f k" "\<And>k. j \<le> k \<Longrightarrow> k < n \<Longrightarrow> f k"
    and "\<And>k l. k \<le> l \<Longrightarrow> l < n \<Longrightarrow> f k \<Longrightarrow> f l"
  shows "search_loop f i j \<le> n \<and> (\<forall>k < search_loop f i j. \<not> f k)
    \<and> (\<forall>k. search_loop f i j \<le> k \<longrightarrow> k < n \<longrightarrow> f k)"
  using assms
proof (induction f i j rule: search_loop.induct)
  case (1 f i j)
  let ?h = "(i + j) div 2"
  show ?case
  proof (cases "i < j")
    case False
    then have "search_loop f i j = i" by (simp add: search_loop.simps)
    with False "1.prems"(1-4) show ?thesis by auto
  next
    case True
    then have h: "?h < n" "i \<le> ?h" "?h < j" using "1.prems"(2) by auto
    show ?thesis
    proof (cases "f ?h")
      case f: True
      have "f k" if "?h \<le> k" "k < n" for k using "1.prems"(5) [OF that f] .
      then have "search_loop f i ?h \<le> n \<and> (\<forall>k < search_loop f i ?h. \<not> f k)
          \<and> (\<forall>k. search_loop f i ?h \<le> k \<longrightarrow> k < n \<longrightarrow> f k)"
        using f h "1.prems" by (intro "1.IH"(2) [OF True refl]) auto
      moreover have "search_loop f i j = search_loop f i ?h"
        using True f by (simp add: search_loop.simps [of f i j])
      ultimately show ?thesis by simp
    next
      case nf: False
      have "\<not> f k" if "k < ?h + 1" for k using "1.prems"(5) [of k ?h] h(1) that nf by auto
      then have "search_loop f (?h + 1) j \<le> n \<and> (\<forall>k < search_loop f (?h + 1) j. \<not> f k)
          \<and> (\<forall>k. search_loop f (?h + 1) j \<le> k \<longrightarrow> k < n \<longrightarrow> f k)"
        using nf h "1.prems" by (intro "1.IH"(1) [OF True refl]) auto
      moreover have "search_loop f i j = search_loop f (?h + 1) j"
        using True nf by (simp add: search_loop.simps [of f i j])
      ultimately show ?thesis by simp
    qed
  qed
qed

lemma sort_Search_sorted:
  fixes x :: "'a :: linorder"
  assumes "sorted xs"
  defines "r \<equiv> sort_Search (length xs) (\<lambda>i. xs ! i \<ge> x)"
  shows "r \<le> length xs" "\<And>k. k < r \<Longrightarrow> xs ! k < x" "\<And>k. r \<le> k \<Longrightarrow> k < length xs \<Longrightarrow> x \<le> xs ! k"
proof -
  let ?f = "\<lambda>i. xs ! i \<ge> x"
  have "search_loop ?f 0 (length xs) \<le> length xs \<and> (\<forall>k < search_loop ?f 0 (length xs). \<not> ?f k)
      \<and> (\<forall>k. search_loop ?f 0 (length xs) \<le> k \<longrightarrow> k < length xs \<longrightarrow> ?f k)"
  proof (rule search_loop_first)
    fix k l
    assume "k \<le> l" "l < length xs" "x \<le> xs ! k"
    then show "x \<le> xs ! l" using assms(1) by (meson order_trans sorted_nth_mono)
  qed simp_all
  then have *: "r \<le> length xs" "\<forall>k < r. \<not> ?f k" "\<forall>k. r \<le> k \<longrightarrow> k < length xs \<longrightarrow> ?f k"
    unfolding r_def sort_Search_def by blast+
  show "r \<le> length xs" by (rule *(1))
  show "xs ! k < x" if "k < r" for k using *(2) that by (blast intro: not_le [THEN iffD1])
  show "x \<le> xs ! k" if "r \<le> k" "k < length xs" for k using *(3) that by blast
qed

section \<open>The clockwise successor\<close>

definition successor :: "32 word set \<Rightarrow> 32 word \<Rightarrow> 32 word" where
  "successor A x = (if \<exists>k \<in> A. x \<le> k then Min {k \<in> A. x \<le> k} else Min A)"

text \<open>The specification: who owns a hash value, given the owners of the points of the ring.\<close>

definition owner :: "(32 word \<Rightarrow> string option) \<Rightarrow> 32 word \<Rightarrow> string" where
  "owner m x = (if dom m = {} then '''' else the (m (successor (dom m) x)))"

lemma successor_in: "A \<noteq> {} \<Longrightarrow> successor A x \<in> A"
  using Min_in [of "{k \<in> A. x \<le> k}"] Min_in [of A] by (auto simp: successor_def)

lemma successor_subset:
  assumes "A \<subseteq> B" "successor B x \<in> A"
  shows "successor A x = successor B x"
proof (cases "\<exists>k \<in> B. x \<le> k")
  case True
  then have s: "successor B x = Min {k \<in> B. x \<le> k}" by (simp add: successor_def)
  have "Min {k \<in> B. x \<le> k} \<in> {k \<in> B. x \<le> k}" using True by (intro Min_in) auto
  with s assms(2) have in_A: "successor B x \<in> {k \<in> A. x \<le> k}" by simp
  moreover have "successor B x \<le> k" if "k \<in> {k \<in> A. x \<le> k}" for k
    using that assms(1) by (auto simp: s)
  ultimately have "Min {k \<in> A. x \<le> k} = successor B x" by (intro Min_eqI) auto
  with in_A show ?thesis by (auto simp: successor_def)
next
  case False
  then have s: "successor B x = Min B" by (simp add: successor_def)
  have "Min A = Min B" using assms by (intro Min_eqI) (auto simp: s)
  moreover have "successor A x = Min A" using False assms(1) by (auto simp: successor_def)
  ultimately show ?thesis by (simp add: s)
qed

lemma successor_nth:
  fixes x :: "32 word"
  assumes "sorted xs" "xs \<noteq> []"
  defines "r \<equiv> sort_Search (length xs) (\<lambda>i. xs ! i \<ge> x)"
  shows "xs ! (if r = length xs then 0 else r) = successor (set xs) x"
proof (cases "r = length xs")
  case True
  then have "\<not> (\<exists>k \<in> set xs. x \<le> k)"
    using sort_Search_sorted(2) [OF assms(1), of _ x] by (auto simp: r_def in_set_conv_nth not_le)
  moreover have "Min (set xs) = xs ! 0"
    using assms(1,2) by (intro Min_eqI) (auto simp: in_set_conv_nth sorted_nth_mono)
  ultimately show ?thesis using True by (simp add: successor_def)
next
  case False
  then have r: "r < length xs" using sort_Search_sorted(1) [OF assms(1), of x] by (simp add: r_def)
  have le: "x \<le> xs ! r" using sort_Search_sorted(3) [OF assms(1), of x r] r by (simp add: r_def)
  have "xs ! r \<le> k" if "k \<in> set xs" "x \<le> k" for k
  proof -
    from that(1) obtain l where l: "k = xs ! l" "l < length xs" by (auto simp: in_set_conv_nth)
    with that(2) have "\<not> l < r" using sort_Search_sorted(2) [OF assms(1), of l x] by (auto simp: r_def)
    with l assms(1) show ?thesis by (simp add: sorted_nth_mono)
  qed
  then have "Min {k \<in> set xs. x \<le> k} = xs ! r" using r le by (intro Min_eqI) auto
  with False r le show ?thesis by (auto simp: successor_def)
qed

section \<open>The invariant\<close>

definition ring_inv :: "HashRing \<Rightarrow> bool" where
  "ring_inv h \<longleftrightarrow> sorted (hrSortedKeys h) \<and> set (hrSortedKeys h) = fst ` set (hrRing h)
     \<and> distinct (map fst (hrRing h))"

abbreviation points :: "HashRing \<Rightarrow> 32 word \<Rightarrow> string option" where
  "points h \<equiv> map_of (hrRing h)"

text \<open>The points a node brings with it.\<close>

definition node_points :: "string \<Rightarrow> int \<Rightarrow> 32 word set" where
  "node_points node v = (\<lambda>i. hashKey (virtual_key node i)) ` {0..<nat v}"

lemma add_virtual_effect:
  assumes "add_virtual node is (ring, keys) = (ring', keys')" "distinct (map fst ring)"
  shows "distinct (map fst ring') \<and> keys' = keys @ map (\<lambda>i. hashKey (virtual_key node i)) is
    \<and> map_of ring' = (\<lambda>k. if k \<in> (\<lambda>i. hashKey (virtual_key node i)) ` set is then Some node else map_of ring k)"
  using assms
proof (induction "is" arbitrary: ring keys)
  case Nil
  then show ?case by simp
next
  case (Cons i "is")
  let ?h = "hashKey (virtual_key node i)"
  from Cons.prems(2) have "distinct (map fst (AList.update ?h node ring))" by (rule distinct_update)
  with Cons.IH [of "AList.update ?h node ring" "keys @ [?h]"] Cons.prems(1) show ?case
    by (auto simp: Let_def update_conv' fun_eq_iff)
qed

lemma points_AddNode:
  assumes "ring_inv h"
  shows "ring_inv (AddNode node h)"
    and "points (AddNode node h) = (\<lambda>k. if k \<in> node_points node (hrVirtualNode h) then Some node else points h k)"
    and "hrVirtualNode (AddNode node h) = hrVirtualNode h"
    and "NodeCount (AddNode node h) = NodeCount h + nat (hrVirtualNode h)"
proof -
  obtain ring keys where a: "add_virtual node [0..<nat (hrVirtualNode h)] (hrRing h, hrSortedKeys h) = (ring, keys)"
    by force
  note e = add_virtual_effect [OF a]
  from assms e have d: "distinct (map fst ring)"
    and k: "keys = hrSortedKeys h @ map (\<lambda>i. hashKey (virtual_key node i)) [0..<nat (hrVirtualNode h)]"
    and m: "map_of ring = (\<lambda>k. if k \<in> node_points node (hrVirtualNode h) then Some node else points h k)"
    by (simp_all add: ring_inv_def node_points_def)
  have h': "AddNode node h = h\<lparr>hrNodes := hrNodes h @ [node], hrRing := ring, hrSortedKeys := sort keys\<rparr>"
    by (simp add: AddNode_def a)
  have "fst ` set ring = dom (map_of ring)" by (simp add: dom_map_of_conv_image_fst)
  also have "\<dots> = dom (points h) \<union> node_points node (hrVirtualNode h)"
    by (auto simp: m split: if_splits)
  also have "dom (points h) = fst ` set (hrRing h)" by (rule dom_map_of_conv_image_fst)
  finally have "set keys = fst ` set ring"
    using assms by (auto simp: k ring_inv_def node_points_def)
  with d show "ring_inv (AddNode node h)" by (simp add: h' ring_inv_def)
  show "points (AddNode node h) = (\<lambda>k. if k \<in> node_points node (hrVirtualNode h) then Some node else points h k)"
    by (simp add: h' m)
  show "hrVirtualNode (AddNode node h) = hrVirtualNode h" by (simp add: h')
  show "NodeCount (AddNode node h) = NodeCount h + nat (hrVirtualNode h)"
    by (simp add: NodeCount_def h' k)
qed

lemma points_RemoveNode:
  assumes "ring_inv h"
  shows "ring_inv (RemoveNode node h)"
    and "points (RemoveNode node h) = (\<lambda>k. if points h k = Some node then None else points h k)"
proof -
  have "map_of (filter (\<lambda>(hash, n). n \<noteq> node) r) k = (if map_of r k = Some node then None else map_of r k)"
    if "distinct (map fst r)" for r :: "(32 word \<times> string) list" and k
    using that
  proof (induction r)
    case Nil
    then show ?case by simp
  next
    case (Cons p r)
    obtain a b where p: "p = (a, b)" by (cases p)
    with Cons.prems have "map_of (filter (\<lambda>(hash, n). n \<noteq> node) r) a = None"
      by (auto simp: map_of_eq_None_iff)
    with Cons p show ?case by auto
  qed
  with assms show "points (RemoveNode node h) = (\<lambda>k. if points h k = Some node then None else points h k)"
    by (simp add: RemoveNode_def ring_inv_def fun_eq_iff Let_def)
  from assms show "ring_inv (RemoveNode node h)"
    by (simp add: RemoveNode_def ring_inv_def distinct_map_filter Let_def)
qed

lemma GetNode_owner:
  assumes "ring_inv h"
  shows "GetNode h key = owner (points h) (hashKey key)"
proof (cases "hrSortedKeys h = []")
  case True
  with assms have "hrRing h = []" by (simp add: ring_inv_def)
  with True show ?thesis by (simp add: GetNode_def owner_def)
next
  case False
  have s: "sorted (hrSortedKeys h)" and d: "set (hrSortedKeys h) = dom (points h)"
    using assms by (simp_all add: ring_inv_def dom_map_of_conv_image_fst)
  have "dom (points h) \<noteq> {}" using False d by auto
  then obtain n where "points h (successor (dom (points h)) (hashKey key)) = Some n"
    using domD [OF successor_in] by metis
  note n = this
  have o: "owner (points h) (hashKey key) = n"
    unfolding owner_def if_not_P [OF \<open>dom (points h) \<noteq> {}\<close>] n option.sel ..
  show ?thesis
    unfolding GetNode_def if_not_P [OF False] Let_def o successor_nth [OF s False, of "hashKey key"] d n
      option.case ..
qed

section \<open>Properties\<close>

datatype ring_op = Added string | Removed string

fun ring_step :: "ring_op \<Rightarrow> HashRing \<Rightarrow> HashRing" where
  "ring_step (Added n) h = AddNode n h"
| "ring_step (Removed n) h = RemoveNode n h"

definition ring_of :: "int \<Rightarrow> ring_op list \<Rightarrow> HashRing" where
  "ring_of v ops = fold ring_step ops (NewHashRing v)"

lemma ring_of_inv: "ring_inv (ring_of v ops)"
proof -
  have "ring_inv (ring_step x h)" if "ring_inv h" for x h
    using that points_AddNode(1) points_RemoveNode(1) by (cases x) simp_all
  then have "ring_inv (fold ring_step ops h)" if "ring_inv h" for h
    using that by (induction ops arbitrary: h) simp_all
  then show ?thesis by (simp add: ring_of_def NewHashRing_def ring_inv_def)
qed

lemma ring_of_Cons:
  "ring_of v (ops @ [Added n]) = AddNode n (ring_of v ops)"
  "ring_of v (ops @ [Removed n]) = RemoveNode n (ring_of v ops)"
  by (simp_all add: ring_of_def)

text \<open>C17. The packed ring refines consistent hashing: after any additions and removals, \<open>GetNode\<close>
  answers the owner of the first point at or after the hash of the key, clockwise, or the empty
  string if there is no point; collisions of points and nodes added twice included.\<close>

theorem HashRing_lookup:
  "GetNode (ring_of v ops) key
    = (let m = map_of (hrRing (ring_of v ops)) in owner m (ChecksumIEEE key))"
  by (simp only: GetNode_owner [OF ring_of_inv] hashKey_def Let_def)

text \<open>Two maps that agree at a successor in the larger of their domains have the same owner there.\<close>

lemma owner_agree:
  assumes "dom m \<subseteq> dom m'" "successor (dom m') x \<in> dom m"
    and "m' (successor (dom m') x) = m (successor (dom m') x)"
  shows "owner m' x = owner m x"
  using assms successor_subset [OF assms(1,2)] by (auto simp: owner_def)

lemma AddNode_takes_over:
  assumes inv: "ring_inv h"
  shows "GetNode (AddNode n h) key \<in> {GetNode h key, n}"
proof -
  let ?x = "hashKey key" and ?m = "points h" and ?m' = "points (AddNode n h)"
  note get = GetNode_owner [OF inv, of key] GetNode_owner [OF points_AddNode(1) [OF inv], of n key]
  note m' = points_AddNode(2) [OF inv, of n]
  have sub: "dom ?m \<subseteq> dom ?m'" by (auto simp: m')
  have new: "k \<in> dom ?m' \<Longrightarrow> ?m' k = Some n \<or> k \<in> dom ?m \<and> ?m' k = ?m k" for k
    by (auto simp: m' split: if_splits)
  let ?k = "successor (dom ?m') ?x"
  consider "dom ?m' = {}" | "dom ?m' \<noteq> {}" "?m' ?k = Some n" | "?k \<in> dom ?m" "?m' ?k = ?m ?k"
    using new [OF successor_in] by blast
  then show ?thesis
  proof cases
    case 1
    with sub show ?thesis by (simp add: get owner_def)
  next
    case 2
    then show ?thesis by (simp add: get owner_def)
  next
    case 3
    from owner_agree [OF sub 3] show ?thesis by (simp add: get)
  qed
qed

lemma RemoveNode_gives_away:
  assumes inv: "ring_inv h"
  shows "GetNode h key \<noteq> n \<Longrightarrow> GetNode (RemoveNode n h) key = GetNode h key"
    and "GetNode (RemoveNode n h) key \<noteq> n \<or> n = ''''"
proof -
  let ?x = "hashKey key" and ?m = "points h" and ?m' = "points (RemoveNode n h)"
  note get = GetNode_owner [OF inv, of key]
  note get' = GetNode_owner [OF points_RemoveNode(1) [OF inv], of n key]
  note m' = points_RemoveNode(2) [OF inv, of n]
  have sub: "dom ?m' \<subseteq> dom ?m" by (auto simp: m' split: if_splits)
  show "GetNode (RemoveNode n h) key \<noteq> n \<or> n = ''''"
  proof (cases "dom ?m' = {}")
    case False
    have "?m' k \<noteq> Some n" for k by (simp add: m')
    with domD [OF successor_in [OF False]] False show ?thesis by (metis get' owner_def option.sel)
  qed (auto simp: get' owner_def)
  show "GetNode (RemoveNode n h) key = GetNode h key" if ne: "GetNode h key \<noteq> n"
  proof (cases "dom ?m = {}")
    case True
    with sub show ?thesis by (simp add: get get' owner_def)
  next
    case False
    let ?k = "successor (dom ?m) ?x"
    obtain o' where o: "?m ?k = Some o'" using domD [OF successor_in [OF False]] by metis
    with ne False have eq: "?m' ?k = Some o'" by (simp add: get owner_def m')
    with owner_agree [OF sub, of ?x] o show ?thesis by (simp add: get get' domI)
  qed
qed

text \<open>C18. Nodes that come and go move few keys: an added node only takes keys over, and the removal of
  a node moves no key but its own, which go to other nodes.\<close>

theorem HashRing_stable:
  "GetNode (AddNode n (ring_of v ops)) key \<in> {GetNode (ring_of v ops) key, n}
   \<and> (if GetNode (ring_of v ops) key = n
      then GetNode (RemoveNode n (ring_of v ops)) key \<noteq> n \<or> n = ''''
      else GetNode (RemoveNode n (ring_of v ops)) key = GetNode (ring_of v ops) key)"
  using AddNode_takes_over [OF ring_of_inv] RemoveNode_gives_away [OF ring_of_inv] by simp

text \<open>\<open>NodeCount\<close> counts the points, not the nodes: each added node counts as many times as it has
  virtual nodes.\<close>

theorem NodeCount_counts_points:
  "NodeCount (ring_of v (map Added ns)) = length ns * nat v"
proof -
  have "NodeCount (fold ring_step (map Added ns) h) = NodeCount h + length ns * nat (hrVirtualNode h)"
    if "ring_inv h" for h
    using that by (induction ns arbitrary: h) (simp_all add: points_AddNode)
  from this [of "NewHashRing v"] show ?thesis
    by (simp add: ring_of_def NewHashRing_def ring_inv_def NodeCount_def)
qed

theorem HashRing_stable_witness:
  "let h = ring_of 100 [Added ''10.0.0.1'', Added ''10.0.0.2'']
   in GetNode (AddNode ''10.0.0.3'' h) ''key'' \<in> {GetNode h ''key'', ''10.0.0.3''}"
  using HashRing_stable [of "''10.0.0.3''" 100 "[Added ''10.0.0.1'', Added ''10.0.0.2'']" "''key''"]
  by (simp only: Let_def)

end
