(* ===== verification/Scheduler.thy ===== *)
theory Scheduler
  imports BitRing BatchSize Sender SendService NotificationRepo DaoFacts QuotaCache LoopJob Invariants
    "HOL-Library.Sublist"
begin

text \<open>
  The schedulers that send what is due: \<^verbatim>\<open>internal/service/scheduler/scheduler.go\<close> (under an
  infinite loop job), \<^verbatim>\<open>sharding_scheduler.go\<close> (under a sharded one, with the batch size of an
  adjuster and a ring of error events), and \<^verbatim>\<open>sending_timeout_task.go\<close>. Sleeps leave no trace, and
  the timeouts of contexts are outcomes of the calls.
\<close>

section \<open>The static scheduler\<close>

record 's staticScheduler =
  stsRepo :: "'s NotificationRepository"
  stsSender :: "'s NotificationSender"
  stsBatchSize :: int64

text \<open>The logger is not stored: the job gets a nil one.\<close>

definition NewScheduler :: "'s NotificationRepository \<Rightarrow> 's NotificationSender \<Rightarrow> 's staticScheduler" where
  "NewScheduler repo sender = \<lparr>stsRepo = repo, stsSender = sender, stsBatchSize = 10\<rparr>"

definition scheduler_key :: string where
  "scheduler_key = ''notificatipn_async_scheduler''"

definition processPendingNotifications :: "'s staticScheduler \<Rightarrow> ('s, gerr option) io" where
  "processPendingNotifications sc = do {
     (ns, err) \<leftarrow> FindReadyNotifications (stsRepo sc) 0 (stsBatchSize sc);
     case err of
       Some e \<Rightarrow> io_return (Some e)
     | None \<Rightarrow>
         if ns = [] then io_return None
         else do { (_, err) \<leftarrow> nsBatchSend (stsSender sc) ns; io_return err }
   }"

section \<open>The task for sends that take too long\<close>

definition sending_timeout_key :: string where
  "sending_timeout_key = ''notification_handling_sending_timeout''"

definition HandleSendingTimeout :: "'s NotificationRepository \<Rightarrow> ('s, gerr option) io" where
  "HandleSendingTimeout repo = do {
     (cnt, err) \<leftarrow> nrMarkTimeoutSendingAsFailed repo 10;
     io_return err
   }"

section \<open>The sharding scheduler\<close>

record ('s, 'a) ShardingScheduler =
  shRepo :: "'s NotificationRepository"
  shSender :: "'s NotificationSender"
  shMinLoopDuration :: duration
  shAdjust :: "'a \<Rightarrow> gtime \<Rightarrow> duration \<Rightarrow> int \<times> 'a"
  shClock :: "('s, gtime) io"

text \<open>The batch size is an unsigned 64-bit counter.\<close>

record 'a sched_state =
  lsBatchSize :: int
  lsAdjuster :: 'a
  lsErrors :: BitRing

definition uint64_of :: "int \<Rightarrow> int" where
  "uint64_of n = n mod 2 ^ 64"

definition NewShardingScheduler :: "int64 \<Rightarrow> 'a \<Rightarrow> BitRing \<Rightarrow> 'a sched_state" where
  "NewShardingScheduler batchSize adj errorEvents =
     \<lparr>lsBatchSize = uint64_of batchSize, lsAdjuster = adj, lsErrors = errorEvents\<rparr>"

definition sharding_key :: string where
  "sharding_key = ''go_notification_platform_async_sharding_scheduler''"

definition batchSendReadyNotifications ::
  "('s, 'a) ShardingScheduler \<Rightarrow> 'a sched_state \<Rightarrow> ('s, int64 ret) io" where
  "batchSendReadyNotifications sc st = do {
     (ns, err) \<leftarrow> nrFindReadNotifications (shRepo sc) 0 (wrap64 (lsBatchSize st));
     case err of
       Some e \<Rightarrow> io_return (0, Some e)
     | None \<Rightarrow>
         if ns = [] then io_return (0, None)
         else do { (_, err) \<leftarrow> nsBatchSend (shSender sc) ns; io_return (int (length ns), err) }
   }"

text \<open>One turn of the loop: whether it failed, the error that ends the loop, the state. The second
  reading of the clock is \<^verbatim>\<open>time.Since\<close>, the third belongs to the adjuster.\<close>

definition scheduler_round ::
  "('s, 'a) ShardingScheduler \<Rightarrow> 'a sched_state \<Rightarrow> ('s, bool \<times> gerr option \<times> 'a sched_state) io" where
  "scheduler_round sc st = do {
     start \<leftarrow> shClock sc;
     (cnt, err) \<leftarrow> batchSendReadyNotifications sc st;
     stop \<leftarrow> shClock sc;
     let responseTime = stop - start;
     let st = st\<lparr>lsErrors := Add (lsErrors st) (err \<noteq> None)\<rparr>;
     if IsConditionMet (lsErrors st) then io_return (err \<noteq> None, Some (Err ErrErrorConditionIsMet), st)
     else do {
       now \<leftarrow> shClock sc;
       let (newBatchSize, adj) = shAdjust sc (lsAdjuster st) now responseTime;
       io_return (err \<noteq> None, None, st\<lparr>lsBatchSize := uint64_of newBatchSize, lsAdjuster := adj\<rparr>)
     }
   }"

text \<open>The loop ends only with an error: \<open>None\<close> is a run that does not return.\<close>

partial_function (option) scheduler_loop ::
  "('s, 'a) ShardingScheduler \<Rightarrow> 'a sched_state \<Rightarrow> 's \<Rightarrow> (gerr \<times> 's) option" where
  "scheduler_loop sc st s =
     (case run_state (scheduler_round sc st) s of
        ((failed, Some e, st'), s') \<Rightarrow> Some (e, s')
      | ((failed, None, st'), s') \<Rightarrow> scheduler_loop sc st' s')"

text \<open>The first turns of the loop, with the outcomes of the turns so far.\<close>

primrec scheduler_rounds ::
  "nat \<Rightarrow> ('s, 'a) ShardingScheduler \<Rightarrow> 'a sched_state \<Rightarrow> bool list
     \<Rightarrow> ('s, gerr option \<times> 'a sched_state \<times> bool list) io" where
  "scheduler_rounds 0 sc st es = io_return (None, st, es)"
| "scheduler_rounds (Suc k) sc st es = do {
     (failed, stop, st') \<leftarrow> scheduler_round sc st;
     if stop \<noteq> None then io_return (stop, st', es @ [failed])
     else scheduler_rounds k sc st' (es @ [failed])
   }"

section \<open>When the loop ends\<close>

lemma Add_all_snoc [simp]: "Add_all br [] = br" "Add_all (Add br e) es = Add_all br (e # es)"
  by (simp_all add: Add_all_def)

text \<open>No prefix of the outcomes meets the condition.\<close>

fun quiet :: "BitRing \<Rightarrow> bool list \<Rightarrow> bool" where
  "quiet br [] = True"
| "quiet br (e # es) = (\<not> IsConditionMet (Add br e) \<and> quiet (Add br e) es)"

lemma quiet_prefixes:
  "quiet br es \<longleftrightarrow> list_all (\<lambda>p. p = [] \<or> \<not> IsConditionMet (Add_all br p)) (prefixes es)"
proof (induction es arbitrary: br)
  case Nil
  then show ?case by simp
next
  case (Cons e es)
  show ?case
  proof -
    have "quiet br (e # es) \<longleftrightarrow> \<not> IsConditionMet (Add br e)
        \<and> (\<forall>p. prefix p es \<longrightarrow> p = [] \<or> \<not> IsConditionMet (Add_all (Add br e) p))"
      by (simp add: Cons list_all_iff Ball_def)
    also have "\<dots> \<longleftrightarrow> (\<forall>p. prefix p es \<longrightarrow> \<not> IsConditionMet (Add_all (Add br e) p))"
      by (metis Add_all_snoc(1) Nil_prefix)
    also have "\<dots> \<longleftrightarrow> list_all (\<lambda>p. \<not> IsConditionMet (Add_all br (e # p))) (prefixes es)"
      by (simp add: list_all_iff Ball_def)
    also have "\<dots> \<longleftrightarrow> list_all (\<lambda>p. p = [] \<or> \<not> IsConditionMet (Add_all br p)) (prefixes (e # es))"
      by (simp add: list.pred_map o_def)
    finally show ?thesis .
  qed
qed

lemma scheduler_rounds_ring:
  assumes "run_state (scheduler_rounds k sc st es) s = ((r, st', es'), s')"
  shows "\<exists>fs. es' = es @ fs \<and>
    (r = None \<and> length fs = k \<and> quiet (lsErrors st) fs
     \<or> (\<exists>gs f. fs = gs @ [f] \<and> r = Some (Err ErrErrorConditionIsMet) \<and> quiet (lsErrors st) gs
          \<and> IsConditionMet (Add_all (lsErrors st) fs)))"
  using assms
proof (induction k arbitrary: st es s)
  case 0
  then show ?case by simp
next
  case (Suc k)
  obtain failed stop st1 s1 where r1: "run_state (scheduler_round sc st) s = ((failed, stop, st1), s1)"
    by (metis prod.collapse)
  then have errs: "lsErrors st1 = Add (lsErrors st) failed"
    and stop: "stop = (if IsConditionMet (Add (lsErrors st) failed) then Some (Err ErrErrorConditionIsMet) else None)"
    by (auto simp: scheduler_round_def Let_def split: prod.splits if_splits)
  show ?case
  proof (cases "IsConditionMet (Add (lsErrors st) failed)")
    case True
    with Suc.prems r1 stop have "r = Some (Err ErrErrorConditionIsMet)" "es' = es @ [] @ [failed]" by simp_all
    with True show ?thesis
      by (intro exI [of _ "[] @ [failed]"]) (simp add: Add_all_def)
  next
    case False
    with Suc.prems r1 stop have "run_state (scheduler_rounds k sc st1 (es @ [failed])) s1 = ((r, st', es'), s')"
      by simp
    from Suc.IH [OF this] obtain fs where fs: "es' = (es @ [failed]) @ fs"
      "r = None \<and> length fs = k \<and> quiet (lsErrors st1) fs
       \<or> (\<exists>gs f. fs = gs @ [f] \<and> r = Some (Err ErrErrorConditionIsMet) \<and> quiet (lsErrors st1) gs
            \<and> IsConditionMet (Add_all (lsErrors st1) fs))" by blast
    from fs(2) False errs have "r = None \<and> length (failed # fs) = Suc k \<and> quiet (lsErrors st) (failed # fs)
       \<or> (\<exists>gs f. failed # fs = gs @ [f] \<and> r = Some (Err ErrErrorConditionIsMet) \<and> quiet (lsErrors st) gs
            \<and> IsConditionMet (Add_all (lsErrors st) (failed # fs)))"
    proof (elim disjE exE conjE)
      fix gs f
      assume "fs = gs @ [f]" "r = Some (Err ErrErrorConditionIsMet)" "quiet (lsErrors st1) gs"
        "IsConditionMet (Add_all (lsErrors st1) fs)"
      with False errs show ?thesis by (intro disjI2 exI [of _ "failed # gs"]) simp
    qed simp
    with fs(1) show ?thesis by (intro exI [of _ "failed # fs"]) simp
  qed
qed

lemma scheduler_loop_rounds:
  "scheduler_loop sc st s = Some (e, s')
     \<longleftrightarrow> (\<exists>k st' es'. run_state (scheduler_rounds k sc st es) s = ((Some e, st', es'), s'))"
proof
  have "scheduler_loop sc st s = Some q \<Longrightarrow>
      \<exists>k st' es'. run_state (scheduler_rounds k sc st es) s = ((Some (fst q), st', es'), snd q)" for sc :: "('a, 'b) ShardingScheduler" and st s q es
  proof (induction sc st s q arbitrary: es rule: scheduler_loop.raw_induct [rotated, consumes 1, case_names 1])
    case (1 loop sc st s q)
    obtain failed stop st1 s1 where r1: "run_state (scheduler_round sc st) s = ((failed, stop, st1), s1)"
      by (metis prod.collapse)
    show ?case
    proof (cases stop)
      case (Some e)
      with 1(2) r1 have "run_state (scheduler_rounds (Suc 0) sc st es) s = ((Some (fst q), st1, es @ [failed]), snd q)"
        by auto
      then show ?thesis by blast
    next
      case None
      with 1(2) r1 have "loop sc st1 s1 = Some q" by simp
      from 1(1) [OF this, of "es @ [failed]"] obtain k st' es' where
        "run_state (scheduler_rounds k sc st1 (es @ [failed])) s1 = ((Some (fst q), st', es'), snd q)" by blast
      with r1 None have "run_state (scheduler_rounds (Suc k) sc st es) s = ((Some (fst q), st', es'), snd q)" by simp
      then show ?thesis by blast
    qed
  qed
  then show "scheduler_loop sc st s = Some (e, s') \<Longrightarrow>
      \<exists>k st' es'. run_state (scheduler_rounds k sc st es) s = ((Some e, st', es'), s')" by fastforce
next
  assume "\<exists>k st' es'. run_state (scheduler_rounds k sc st es) s = ((Some e, st', es'), s')"
  then obtain k st' es' where "run_state (scheduler_rounds k sc st es) s = ((Some e, st', es'), s')" by blast
  then show "scheduler_loop sc st s = Some (e, s')"
  proof (induction k arbitrary: st es s)
    case 0
    then show ?case by simp
  next
    case (Suc k)
    obtain failed stop st1 s1 where r1: "run_state (scheduler_round sc st) s = ((failed, stop, st1), s1)"
      by (metis prod.collapse)
    with Suc show ?case
      unfolding scheduler_loop.simps [of sc st s] by (cases stop) auto
  qed
qed

section \<open>The batch size\<close>

lemma wrap64_uint64: "0 \<le> n \<Longrightarrow> n < 2 ^ 63 \<Longrightarrow> wrap64 (uint64_of n) = n"
  by (simp add: uint64_of_def wrap64_id int64_range_def)

context adjuster
begin

lemma scheduler_round_bounded:
  assumes "shAdjust sc = adjust" "inv (lsAdjuster st)" "0 \<le> lo (lsAdjuster st)" "hi (lsAdjuster st) < 2 ^ 63"
    and "run_state (scheduler_round sc st) s = ((failed, None, st'), s')"
  shows "inv (lsAdjuster st') \<and> lo (lsAdjuster st') = lo (lsAdjuster st) \<and> hi (lsAdjuster st') = hi (lsAdjuster st)
    \<and> lo (lsAdjuster st) \<le> wrap64 (lsBatchSize st') \<and> wrap64 (lsBatchSize st') \<le> hi (lsAdjuster st)"
proof -
  from assms(1,5) obtain now rt where
    "lsAdjuster st' = snd (adjust (lsAdjuster st) now rt)"
    "lsBatchSize st' = uint64_of (fst (adjust (lsAdjuster st) now rt))"
    by (auto simp: scheduler_round_def Let_def split: prod.splits if_splits) (metis fst_conv snd_conv)+
  with assms(2-4) adjust_inv [OF assms(2), of now rt] adjust_result [OF assms(2), of now rt]
    adjust_config [OF assms(2), of now rt] bounds [of "snd (adjust (lsAdjuster st) now rt)"]
  show ?thesis by (simp add: wrap64_uint64)
qed

lemma scheduler_rounds_bounded:
  assumes "shAdjust sc = adjust" "inv (lsAdjuster st)" "0 \<le> lo (lsAdjuster st)" "hi (lsAdjuster st) < 2 ^ 63"
    and "run_state (scheduler_rounds (Suc k) sc st es) s = ((None, st', es'), s')"
  shows "lo (lsAdjuster st) \<le> wrap64 (lsBatchSize st') \<and> wrap64 (lsBatchSize st') \<le> hi (lsAdjuster st)"
  using assms(2-)
proof (induction k arbitrary: st es s)
  case 0
  obtain failed stop st1 s1 where "run_state (scheduler_round sc st) s = ((failed, stop, st1), s1)"
    by (metis prod.collapse)
  with 0 scheduler_round_bounded [OF assms(1) 0(1-3), of s] show ?case by (auto split: if_splits)
next
  case (Suc k)
  obtain failed stop st1 s1 where r1: "run_state (scheduler_round sc st) s = ((failed, stop, st1), s1)"
    by (metis prod.collapse)
  with Suc.prems(4) have "stop = None"
    "run_state (scheduler_rounds (Suc k) sc st1 (es @ [failed])) s1 = ((None, st', es'), s')"
    by (auto split: if_splits)
  with r1 Suc.IH [of st1 "es @ [failed]" s1] Suc.prems(2,3)
    scheduler_round_bounded [OF assms(1) Suc.prems(1-3), of s failed st1 s1]
  show ?case by simp
qed

end

section \<open>Properties of the loop\<close>

text \<open>C9. The sharding scheduler gives its tables up exactly when its own record of outcomes says
  so: the loop returns if and only if after some number of turns the condition of the error ring
  (the last \<open>consecutive\<close> turns all failed, or the failure rate of the last \<open>size\<close> turns is above
  the threshold) holds for the outcomes of the turns, it returns at the first such turn, and
  always with \<open>ErrErrorConditionIsMet\<close>.\<close>

theorem Scheduler_stops:
  assumes "lsErrors st = NewBitRing sz t c"
  shows "scheduler_loop sc st s = Some (e, s') \<longleftrightarrow>
    (\<exists>k st' es. run_state (scheduler_rounds k sc st []) s = ((Some e, st', es), s')
       \<and> e = Err ErrErrorConditionIsMet
       \<and> trigger (br_size (lsErrors st)) (br_consecutive (lsErrors st)) (br_threshold (lsErrors st)) es
       \<and> list_all (\<lambda>p. p = es \<or> \<not> trigger (br_size (lsErrors st)) (br_consecutive (lsErrors st))
             (br_threshold (lsErrors st)) p) (prefixes es))" (is "_ \<longleftrightarrow> (\<exists>k st' es. _ \<and> _ \<and> ?T es \<and> _)")
proof -
  have met: "IsConditionMet (Add_all (lsErrors st) es) = ?T es" for es
    unfolding assms by (rule IsConditionMet_trigger)
  have nil: "\<not> ?T []" by (simp add: trigger_def last_n_def)
  have "e = Err ErrErrorConditionIsMet \<and> ?T es \<and> list_all (\<lambda>p. p = es \<or> \<not> ?T p) (prefixes es)"
    if "run_state (scheduler_rounds k sc st []) s = ((Some e, st', es), s')" for k st' es
  proof -
    from scheduler_rounds_ring [OF that] obtain gs f where "es = gs @ [f]" "e = Err ErrErrorConditionIsMet"
      "quiet (lsErrors st) gs" "?T es" by (auto simp: met)
    moreover from this nil have "list_all (\<lambda>p. \<not> ?T p) (prefixes gs)"
      by (auto simp: quiet_prefixes met list_all_iff)
    ultimately show ?thesis by (auto simp: prefixes_snoc list_all_iff)
  qed
  then show ?thesis
    unfolding scheduler_loop_rounds [of sc st s e s' "[]"] by blast
qed

text \<open>A scheduler for examples: no notification is ever due, or the query always fails.\<close>

definition demo_scheduler :: "gerr option \<Rightarrow> (unit, RingBufferAdjuster) ShardingScheduler" where
  "demo_scheduler err =
     \<lparr>shRepo = idle_repo\<lparr>nrFindReadNotifications := \<lambda>_ _. io_return ([], err)\<rparr>,
      shSender = \<lparr>nsSend = \<lambda>_. io_return (zero_SendResponse, None), nsBatchSend = \<lambda>_. io_return ([], None)\<rparr>,
      shMinLoopDuration = 0, shAdjust = ra_Adjust, shClock = io_return 5\<rparr>"

definition demo_loop_state :: "RingBufferAdjuster sched_state" where
  "demo_loop_state =
     NewShardingScheduler 20 (the (NewRingBufferAdjuster 500 10 100 5 0 2)) (NewBitRing 4 1 2)"

lemma batch_send_find_error:
  assumes "run_state (nrFindReadNotifications (shRepo sc) 0 (wrap64 (lsBatchSize st))) s = ((ns, Some e), s')"
  shows "run_state (batchSendReadyNotifications sc st) s = ((0, Some e), s')"
  using assms by (simp add: batchSendReadyNotifications_def)

lemma round_find_error:
  assumes "\<And>k s. \<exists>ns e. fst (run_state (nrFindReadNotifications (shRepo sc) 0 k) s) = (ns, Some e)"
  shows "\<exists>stop st' s'. run_state (scheduler_round sc st) s = ((True, stop, st'), s')"
proof -
  obtain t s1 where "run_state (shClock sc) s = (t, s1)" by (metis prod.collapse)
  moreover obtain ns e s2 where
    "run_state (nrFindReadNotifications (shRepo sc) 0 (wrap64 (lsBatchSize st))) s1 = ((ns, Some e), s2)"
    using assms [of "wrap64 (lsBatchSize st)" s1] by (metis prod.collapse)
  ultimately show ?thesis
    by (simp add: scheduler_round_def batch_send_find_error Let_def split: prod.split)
qed

lemma rounds_find_error:
  assumes "\<And>k s. \<exists>ns e. fst (run_state (nrFindReadNotifications (shRepo sc) 0 k) s) = (ns, Some e)"
    and "run_state (scheduler_rounds k sc st es) s = ((stop, st', es'), s')"
  shows "\<exists>j. es' = es @ replicate j True"
  using assms(2)
proof (induction k arbitrary: st es s)
  case 0
  then show ?case by (auto intro: exI [of _ 0])
next
  case (Suc k)
  obtain r st1 s1 where r: "run_state (scheduler_round sc st) s = ((True, r, st1), s1)"
    using round_find_error [OF assms(1)] by blast
  show ?case
  proof (cases r)
    case None
    with r Suc.prems have "run_state (scheduler_rounds k sc st1 (es @ [True])) s1 = ((stop, st', es'), s')" by simp
    from Suc.IH [OF this] obtain j where "es' = es @ replicate (Suc j) True" by auto
    then show ?thesis by blast
  next
    case (Some e)
    with r Suc.prems have "es' = es @ replicate (Suc 0) True" by simp
    then show ?thesis by blast
  qed
qed

lemma trigger_all_events:
  assumes "0 < c" "c \<le> n"
  shows "trigger n c t (replicate c True)"
  using assms by (auto simp: trigger_def Let_def list_all_iff)

text \<open>C40. A scheduler that cannot read what is due gives its table up: if every query for ready
  notifications fails, the loop returns, whatever the sizes and the threshold of the ring were
  configured to, and so another instance can take the table over.\<close>

theorem Scheduler_gives_up:
  assumes "lsErrors st = NewBitRing sz t c"
    and "\<And>k s. \<exists>ns e. fst (run_state (nrFindReadNotifications (shRepo sc) 0 k) s) = (ns, Some e)"
  shows "\<exists>s'. scheduler_loop sc st s = Some (Err ErrErrorConditionIsMet, s')"
proof -
  let ?n = "br_size (lsErrors st)" and ?c = "br_consecutive (lsErrors st)"
  have c: "0 < ?c" "?c \<le> ?n"
    by (auto simp: assms(1) NewBitRing_def Let_def defaultSize_def defaultConsecutive_def)
  obtain stop st' es s' where r: "run_state (scheduler_rounds ?c sc st []) s = ((stop, st', es), s')"
    by (metis prod.collapse)
  obtain j where j: "es = replicate j True" using rounds_find_error [OF assms(2) r] by auto
  have "stop = Some (Err ErrErrorConditionIsMet)"
  proof (rule ccontr)
    assume "stop \<noteq> Some (Err ErrErrorConditionIsMet)"
    with scheduler_rounds_ring [OF r] have "quiet (lsErrors st) es" "length es = ?c" by auto
    with j c have "\<not> IsConditionMet (Add_all (lsErrors st) (replicate ?c True))"
      unfolding quiet_prefixes list_all_iff by (metis in_set_prefixes length_0_conv length_replicate
        not_less_zero prefix_order.refl)
    then show False
      using trigger_all_events [OF c] by (simp add: assms(1) IsConditionMet_trigger)
  qed
  with r show ?thesis
    using scheduler_loop_rounds [of sc st s "Err ErrErrorConditionIsMet" s' "[]"] by blast
qed

theorem Scheduler_gives_up_witness:
  "\<exists>s'. scheduler_loop (demo_scheduler (Some (Err ErrDatabaseError))) demo_loop_state ()
     = Some (Err ErrErrorConditionIsMet, s')"
  by (rule Scheduler_gives_up [of _ 4 1 2]) (simp_all add: demo_loop_state_def NewShardingScheduler_def demo_scheduler_def)

theorem Scheduler_stops_witness:
  "scheduler_loop (demo_scheduler (Some (Err ErrDatabaseError))) demo_loop_state ()
     = Some (Err ErrErrorConditionIsMet, ()) \<longleftrightarrow>
    (\<exists>k st' es. run_state (scheduler_rounds k (demo_scheduler (Some (Err ErrDatabaseError))) demo_loop_state []) ()
         = ((Some (Err ErrErrorConditionIsMet), st', es), ())
       \<and> trigger 4 2 1 es \<and> list_all (\<lambda>p. p = es \<or> \<not> trigger 4 2 1 p) (prefixes es))"
  by (subst Scheduler_stops [of _ 4 1 2]) (simp_all add: demo_loop_state_def NewShardingScheduler_def NewBitRing_def)

text \<open>C30. The batch size stays in the configured range: from its first turn on, a sharding
  scheduler with a ring buffer adjuster asks for at least the minimum and at most the maximum
  number of notifications, whatever the clock, the repository and the sender do.\<close>

theorem Scheduler_batch_bounded:
  assumes "NewRingBufferAdjuster i lo hi step cd bs = Some adj"
    and "0 \<le> lo" "lo \<le> hi" "hi < 2 ^ 62" "0 \<le> step" "step < 2 ^ 62"
    and "shAdjust sc = ra_Adjust"
    and "run_state (scheduler_rounds (Suc k) sc (NewShardingScheduler b adj ring) es) s = ((None, st', es'), s')"
  shows "lo \<le> wrap64 (lsBatchSize st') \<and> wrap64 (lsBatchSize st') \<le> hi"
  using ring_adjuster.scheduler_rounds_bounded [OF assms(7), of "NewShardingScheduler b adj ring" k es s st' es' s']
    New_ra_inv [OF assms(1-6)] assms(2-4,8)
  by (simp add: NewShardingScheduler_def)

lemma demo_quiet: "\<not> IsConditionMet (Add (NewBitRing 4 1 2) False)"
  by code_simp

theorem Scheduler_batch_bounded_witness:
  "10 \<le> wrap64 (lsBatchSize (fst (snd (fst (run_state (scheduler_rounds 1 (demo_scheduler None) demo_loop_state []) ())))))
   \<and> wrap64 (lsBatchSize (fst (snd (fst (run_state (scheduler_rounds 1 (demo_scheduler None) demo_loop_state []) ()))))) \<le> 100"
proof -
  have a: "NewRingBufferAdjuster 500 10 100 5 0 2 = Some (the (NewRingBufferAdjuster 500 10 100 5 0 2))"
    by (simp add: NewRingBufferAdjuster_def NewTimeDurationRingBuffer_def)
  obtain stop st' es s' where r: "run_state (scheduler_rounds (Suc 0) (demo_scheduler None) demo_loop_state []) ()
      = ((stop, st', es), s')" by (metis prod.collapse)
  moreover from r have "stop = None"
    by (auto simp: scheduler_round_def batchSendReadyNotifications_def demo_scheduler_def Let_def
        demo_loop_state_def NewShardingScheduler_def demo_quiet split: prod.splits if_splits)
  ultimately show ?thesis
    using Scheduler_batch_bounded [OF a, of "demo_scheduler None" 0 20 "NewBitRing 4 1 2" "[]"]
    by (simp add: demo_loop_state_def demo_scheduler_def)
qed

section \<open>What a round records\<close>

text \<open>The queries of the platform on the table of notifications: they change nothing; the lookup by
  numbers answers the rows with those numbers.\<close>

definition find_law :: "'s gorm \<Rightarrow> ('s \<Rightarrow> tables) \<Rightarrow> bool" where
  "find_law g view \<longleftrightarrow>
     (\<forall>conds page s. view (snd (run_state (gFindN g conds page) s)) = view s)
   \<and> (\<forall>ids s. fst (run_state (gFindN g [CIn ''id'' (map SInt ids)] None) s)
        = (filter (\<lambda>r. dnID r \<in> set ids) (tbN (view s)), None))"

lemma mem_gorm_finds: "find_law mem_gorm (\<lambda>tb. tb)"
proof -
  have "row_matches n_col [CIn ''id'' (map SInt ids)] = (\<lambda>r. dnID r \<in> set ids)" for ids
    by (auto simp: row_matches_def n_col_def fun_eq_iff)
  then show ?thesis by (simp add: find_law_def mem_gorm_def)
qed

lemma dao_map_None:
  "foldl (\<lambda>m n. m(dnID n \<mapsto> n)) m ns i = None \<longleftrightarrow> m i = None \<and> i \<notin> dnID ` set ns"
  by (induction ns arbitrary: m) auto

lemma stored_is_found:
  "i \<in> dnID ` set ns \<Longrightarrow> (map_option f \<circ> foldl (\<lambda>m n. m(dnID n \<mapsto> n)) Map.empty ns) i \<noteq> None"
  using dao_map_None [of Map.empty ns i] by simp

lemma getUpdated_found:
  "r \<in> set rs \<Longrightarrow> m (NotificationID r) \<noteq> None \<Longrightarrow> getUpdatedNotifications rs m \<noteq> []"
  by (induction rs) (auto split: option.splits)

lemma keeps_send_tasks:
  assumes "\<And>n. keeps I (sdChannel sd n)"
  shows "keeps I (send_tasks sd ns is a b)"
  by (induction "is" arbitrary: a b) (auto simp: Let_def intro!: keeps_intros assms)

text \<open>The repository of the platform and what it does to the table of notifications.\<close>

locale platform_sender =
  fixes g :: "'s gorm" and view :: "'s \<Rightarrow> tables"
    and repo :: "'s NotificationRepository" and q :: "'s QuotaCache" and c :: Codec
  assumes engine: "sql_engine g view" and finds: "find_law g view"
    and repo: "repo = NewNotificationRepository (NewNotificationDAO g) q c"
    and quota: "view (snd (run_state (qcMutiIncr q items) s)) = view s"
begin

lemma find_keeps: "keeps (\<lambda>s. P (view s)) (gFindN g conds page)"
  using finds by (intro keepsI) (simp add: find_law_def)

lemma now_keeps: "keeps (\<lambda>s. P (view s)) (gNow g)"
  using engine by (intro keepsI) (simp add: sql_engine_def frame_law_def)

lemma ready_keeps: "keeps (\<lambda>s. P (view s)) (nrFindReadNotifications repo off k)"
  by (auto simp: repo NewNotificationRepository_def Let_def repo_FindReadNotifications_def
      NewNotificationDAO_def dao_FindReadyNotifications_def intro!: keeps_intros find_keeps now_keeps)

lemma batch_get_run:
  "\<exists>s'. run_state (nrBatchGetByID repo ids) s
      = ((map_option (toDomain c) \<circ> foldl (\<lambda>m n. m(dnID n \<mapsto> n)) Map.empty
           (filter (\<lambda>r. dnID r \<in> set ids) (tbN (view s))), None), s')
    \<and> view s' = view s"
proof -
  obtain x s' where "run_state (gFindN g [CIn ''id'' (map SInt ids)] None) s = (x, s')" by (metis prod.collapse)
  moreover from this finds have "x = (filter (\<lambda>r. dnID r \<in> set ids) (tbN (view s)), None)" "view s' = view s"
    unfolding find_law_def by (metis fst_conv, metis snd_conv)
  ultimately show ?thesis
    by (simp add: repo NewNotificationRepository_def Let_def repo_BatchGetByID_def
        NewNotificationDAO_def dao_BatchGetByIDs_def)
qed

lemma batch_update_run:
  "\<exists>err s'. run_state (nrBatchUpdateStatusSucceededOrFailed repo succeeded failed) s = (err, s')
    \<and> view s' = view s \<and> (succeeded = [] \<or> err \<noteq> None)"
proof -
  obtain e s1 where d: "run_state (dao_BatchUpdateStatusSucceedOrFailed g (map (toEntity c) succeeded)
      (map (toEntity c) failed)) s = (e, s1)" by (metis prod.collapse)
  from BatchUpdate_unchanged [OF engine d] have v: "view s1 = view s" "e = None \<longleftrightarrow> succeeded = []" by auto
  obtain e2 s2 where "run_state (qcMutiIncr q (getItems failed)) s1 = (e2, s2)" by (metis prod.collapse)
  moreover from this have "view s2 = view s1" using quota by (metis snd_conv)
  ultimately show ?thesis
    using d v by (cases e) (simp_all add: repo NewNotificationRepository_def Let_def
        repo_BatchUpdateStatusSucceededOrFailed_def NewNotificationDAO_def)
qed

lemma batch_get_keeps: "keeps (\<lambda>s. P (view s)) (nrBatchGetByID repo ids)"
proof (rule keepsI)
  fix s assume "P (view s)"
  moreover obtain x s' where "run_state (nrBatchGetByID repo ids) s = (x, s')" "view s' = view s"
    using batch_get_run [of ids s] by blast
  ultimately show "P (view (snd (run_state (nrBatchGetByID repo ids) s)))" by simp
qed

lemma batch_update_keeps: "keeps (\<lambda>s. P (view s)) (nrBatchUpdateStatusSucceededOrFailed repo a b)"
proof (rule keepsI)
  fix s assume "P (view s)"
  moreover obtain x s' where "run_state (nrBatchUpdateStatusSucceededOrFailed repo a b) s = (x, s')"
    "view s' = view s"
    using batch_update_run [of a b s] by blast
  ultimately show "P (view (snd (run_state (nrBatchUpdateStatusSucceededOrFailed repo a b) s)))" by simp
qed

lemma BatchSend_keeps:
  assumes "\<And>n. keeps (\<lambda>s. P (view s)) (sdChannel sd n)"
    and "\<And>ns. keeps (\<lambda>s. P (view s)) (csSendCallbackByNotifications (sdCallback sd) ns)"
    and "sdRepo sd = repo"
  shows "keeps (\<lambda>s. P (view s)) (sender_BatchSend sd submit sched ns)"
  unfolding sender_BatchSend_def batchUpdateStatus_def Let_def assms(3)
  by (intro keeps_intros keeps_send_tasks assms(1,2) batch_get_keeps batch_update_keeps)

lemma round_keeps:
  assumes "shRepo sc = repo" "\<And>ns. keeps (\<lambda>s. P (view s)) (nsBatchSend (shSender sc) ns)"
    and "keeps (\<lambda>s. P (view s)) (shClock sc)"
  shows "keeps (\<lambda>s. P (view s)) (scheduler_round sc st)"
  unfolding scheduler_round_def batchSendReadyNotifications_def Let_def assms(1)
  by (intro keeps_intros ready_keeps assms(2,3))

lemma rounds_keep:
  assumes "shRepo sc = repo" "\<And>ns. keeps (\<lambda>s. P (view s)) (nsBatchSend (shSender sc) ns)"
    and "keeps (\<lambda>s. P (view s)) (shClock sc)"
  shows "keeps (\<lambda>s. P (view s)) (scheduler_rounds k sc st es)"
  by (induction k arbitrary: st es) (auto intro!: keeps_intros round_keeps [OF assms])

lemma accepted_is_error:
  assumes "steady_channel (sdChannel sd) outcome" "sdRepo sd = repo"
    and "\<And>n. keeps (\<lambda>s. tbN (view s) = N) (sdChannel sd n)" "tbN (view s) = N"
    and "mset sched = mset [0..<length ns]" "\<And>i. submit i = None"
    and "n \<in> set ns" "outcome n = None" "nID n \<in> dnID ` set N"
  obtains e s' where "run_state (sender_BatchSend sd submit sched ns) s = (([], Some (Wrap [e])), s')"
proof -
  have nf: "find (\<lambda>i. submit i \<noteq> None) [0..<length ns] = None"
    using assms(6) by (simp add: find_None_iff)
  obtain a b s1 where t: "run_state (send_tasks sd ns sched [] []) s = ((a, b), s1)" by (metis prod.collapse)
  let ?sent = "map (nth ns) sched"
  from send_tasks_lists [OF assms(1), of ns sched "[]" "[]" s] t
  have a: "a = map (response_of outcome) (filter (\<lambda>n. outcome n = None) ?sent)" by simp
  have "set sched = {0..<length ns}" using assms(5) by (metis set_mset_mset set_upt)
  with assms(7) have "n \<in> set ?sent" by (auto simp: in_set_conv_nth)
  with a assms(8) have r: "response_of outcome n \<in> set a" by simp
  from keepsD [OF keeps_send_tasks [OF assms(3)] t assms(4)] have N: "tbN (view s1) = N" .
  let ?ids = "map NotificationID a @ map NotificationID b"
  have id: "NotificationID (response_of outcome n) = nID n" by (simp add: response_of_def)
  from imageI [OF r, of NotificationID] id have "nID n \<in> set ?ids" by simp
  moreover obtain row where row: "row \<in> set N" "dnID row = nID n" using assms(9) by force
  ultimately have "row \<in> set (filter (\<lambda>r. dnID r \<in> set ?ids) N)"
    by (simp del: set_map set_append map_append)
  from imageI [OF this, of dnID] row(2)
  have "nID n \<in> dnID ` set (filter (\<lambda>r. dnID r \<in> set ?ids) N)" by (simp only:)
  note found = stored_is_found [OF this, of "toDomain c"]
  obtain m s2 where g: "run_state (nrBatchGetByID repo ?ids) s1 = ((m, None), s2)"
    and m: "m (NotificationID (response_of outcome n)) \<noteq> None"
    using batch_get_run [of ?ids s1] found unfolding N id by blast
  let ?a = "getUpdatedNotifications a m" and ?b = "getUpdatedNotifications b m"
  have ne: "?a \<noteq> []" by (rule getUpdated_found [of _ a m, OF r m])
  then obtain e s3 where u: "run_state (nrBatchUpdateStatusSucceededOrFailed repo ?a ?b) s2 = (Some e, s3)"
    using batch_update_run [of ?a ?b s2] by auto
  from ne have "length ?a > 0" by simp
  with u have up: "run_state (batchUpdateStatus sd ?a ?b) s2 = (Some (Wrap [e]), s3)"
    by (simp add: batchUpdateStatus_def assms(2))
  from assms(7) have "ns \<noteq> []" by auto
  with nf t g up have "run_state (sender_BatchSend sd submit sched ns) s = (([], Some (Wrap [e])), s3)"
    by (simp add: sender_BatchSend_def Let_def assms(2) del: map_append)
  then show thesis by (rule that)
qed

end

text \<open>The database in memory with any codec and any Redis that runs empty scripts on itself.\<close>

definition no_redis :: "'s Redis" where
  "no_redis =
     \<lparr>rdDecrBy = \<lambda>_ _. io_return (0, None), rdGet = \<lambda>_. io_return ('''', Some redis_Nil),
      rdMSet = \<lambda>_. io_return (Some (Ext ''marshal'')), rdEval = \<lambda>_ _ _. io_return (RNil, Some redis_Nil)\<rparr>"

lemma no_redis_law: "redis_empty_script no_redis"
  by (simp add: redis_empty_script_def no_redis_def)

lemma platform_sender_redis:
  assumes "sql_engine g view" "find_law g view" "redis_empty_script rd"
  shows "platform_sender g view (NewNotificationRepository (NewNotificationDAO g) (NewQuotaCache rd) c)
    (NewQuotaCache rd) c"
  using assms by (simp add: platform_sender_def NewQuotaCache_def MutiIncr_empty)

interpretation mem_sender: platform_sender mem_gorm "\<lambda>tb. tb"
    "NewNotificationRepository (NewNotificationDAO mem_gorm) (NewQuotaCache no_redis) c" "NewQuotaCache no_redis" c
  for c
  by (rule platform_sender_redis [OF mem_gorm_engine mem_gorm_finds no_redis_law])


text \<open>A batch in which a stored notification was accepted by the channel is reported as failed:
  the sender returns an error and no responses although the messages are out.\<close>

theorem Sent_batch_reported_failed:
  assumes "sql_engine g view" "find_law g view" "redis_empty_script rd"
    and "sdRepo sd = NewNotificationRepository (NewNotificationDAO g) (NewQuotaCache rd) c"
    and "steady_channel (sdChannel sd) outcome"
    and "\<And>n. keeps (\<lambda>s. tbN (view s) = N) (sdChannel sd n)" "tbN (view s) = N"
    and "mset sched = mset [0..<length ns]" "\<And>i. submit i = None"
    and "n \<in> set ns" "outcome n = None" "nID n \<in> dnID ` set N"
  shows "\<exists>e. fst (run_state (sender_BatchSend sd submit sched ns) s) = ([], Some (Wrap [e]))"
proof -
  obtain e s' where "run_state (sender_BatchSend sd submit sched ns) s = (([], Some (Wrap [e])), s')"
    using platform_sender.accepted_is_error [OF platform_sender_redis [OF assms(1-3), of c] assms(5,4,6-12)] .
  then show ?thesis by simp
qed

text \<open>An example: one row, sent by a channel that accepts everything.\<close>

definition demo_tables :: tables where
  "demo_tables = \<lparr>tbN = [zero_daoNotification\<lparr>dnID := 5, dnStatus := SendStatusPending\<rparr>], tbC = [], tbT = []\<rparr>"

definition mem_sender_repo :: "tables NotificationRepository" where
  "mem_sender_repo = NewNotificationRepository (NewNotificationDAO mem_gorm) (NewQuotaCache no_redis) test_codec"

definition accepting_sender :: "tables sender" where
  "accepting_sender = \<lparr>sdRepo = mem_sender_repo, sdCallback = idle_callback,
     sdChannel = \<lambda>n. io_return (zero_SendResponse, None)\<rparr>"

definition demo_table_scheduler :: "(tables, RingBufferAdjuster) ShardingScheduler" where
  "demo_table_scheduler =
     \<lparr>shRepo = mem_sender_repo,
      shSender = NewSender mem_sender_repo idle_callback (\<lambda>n. io_return (zero_SendResponse, None))
        (\<lambda>_. None) (\<lambda>ns. [0..<length ns]),
      shMinLoopDuration = 0, shAdjust = ra_Adjust, shClock = io_return 5\<rparr>"


theorem Sent_batch_reported_failed_witness:
  "\<exists>e. fst (run_state (sender_BatchSend accepting_sender (\<lambda>_. None) [0] [zero_Notification\<lparr>nID := 5\<rparr>]) demo_tables)
     = ([], Some (Wrap [e]))"
  by (rule Sent_batch_reported_failed [OF mem_gorm_engine mem_gorm_finds no_redis_law, of accepting_sender test_codec
        "\<lambda>_. None" "tbN demo_tables" _ _ _ _ "zero_Notification\<lparr>nID := 5\<rparr>"])
    (simp_all add: accepting_sender_def mem_sender_repo_def demo_tables_def zero_Notification_def
      steady_channel_def keeps_return)

end
