(* ===== verification/Monitor.thy ===== *)
theory Monitor
  imports Interfaces
begin

text \<open>
  \<^verbatim>\<open>internal/pkg/database/monitor/monitor.go\<close>: the heartbeat of the database. A goroutine pings the
  database at every tick and is the only one that writes the three atomic variables, so that a
  tick is one step; the answer of the ping is an input. The counters are 32-bit, but are reset
  when they reach three. The readers of the health are the connection pool and the consumer.
\<close>

definition defaultFailCount :: int32 where "defaultFailCount = 3"
definition defaultSuccessCount :: int32 where "defaultSuccessCount = 3"

record Heartbeat =
  hbHealth :: bool
  hbFailCounter :: int32
  hbSuccessCounter :: int32

definition NewHeartbeatDBMonitor :: Heartbeat where
  "NewHeartbeatDBMonitor = \<lparr>hbHealth = True, hbFailCounter = 0, hbSuccessCounter = 0\<rparr>"

definition Health :: "Heartbeat \<Rightarrow> bool" where
  "Health h = hbHealth h"

text \<open>Errors of calls are taken and ignored.\<close>

definition Report :: "gerr option \<Rightarrow> Heartbeat \<Rightarrow> Heartbeat" where
  "Report err h = h"

definition healthOneLoop :: "gerr option \<Rightarrow> Heartbeat \<Rightarrow> gerr option \<times> Heartbeat" where
  "healthOneLoop ping h =
     (case ping of
        Some err \<Rightarrow>
          let h = h\<lparr>hbSuccessCounter := 0\<rparr>;
              h = h\<lparr>hbFailCounter := wrap32 (hbFailCounter h + 1)\<rparr>
          in (Some err, if hbFailCounter h \<ge> defaultFailCount
                        then h\<lparr>hbHealth := False, hbFailCounter := 0\<rparr> else h)
      | None \<Rightarrow>
          let h = h\<lparr>hbFailCounter := 0\<rparr>;
              h = h\<lparr>hbSuccessCounter := wrap32 (hbSuccessCounter h + 1)\<rparr>
          in (None, if hbSuccessCounter h \<ge> defaultSuccessCount
                    then h\<lparr>hbHealth := True, hbSuccessCounter := 0\<rparr> else h))"

text \<open>What the goroutine waits for: the end of its context, or the next tick and the answer of its
  ping.\<close>

datatype hb_event = CtxDone | Tick "gerr option"

fun HealthCheck :: "hb_event list \<Rightarrow> Heartbeat \<Rightarrow> Heartbeat" where
  "HealthCheck [] h = h"
| "HealthCheck (CtxDone # es) h = h"
| "HealthCheck (Tick ping # es) h = HealthCheck es (snd (healthOneLoop ping h))"

section \<open>Contract\<close>

text \<open>The health is that of the last three equal answers in a row, and good before there were any.
  Answers are listed from the newest to the oldest; \<open>True\<close> is a success.\<close>

fun verdict :: "bool list \<Rightarrow> bool" where
  "verdict (a # b # c # es) = (if a = b \<and> b = c then a else verdict (b # c # es))"
| "verdict _ = True"

definition pings :: "hb_event list \<Rightarrow> bool list" where
  "pings es = map (\<lambda>e. e = Tick None) (takeWhile (\<lambda>e. e \<noteq> CtxDone) es)"

text \<open>The counters hold the lengths of the last runs of equal answers, modulo three.\<close>

definition run_of :: "bool \<Rightarrow> bool list \<Rightarrow> nat" where
  "run_of a es = length (takeWhile (\<lambda>x. x = a) es)"

definition hb_inv :: "bool list \<Rightarrow> Heartbeat \<Rightarrow> bool" where
  "hb_inv es h \<longleftrightarrow> hbHealth h = verdict es
     \<and> hbSuccessCounter h = int (run_of True es mod 3) \<and> hbFailCounter h = int (run_of False es mod 3)"

lemma run_of_simps [simp]: "run_of a [] = 0" "run_of a (b # es) = (if b = a then Suc (run_of a es) else 0)"
  by (simp_all add: run_of_def)

lemma verdict_run: "verdict (a # es) = (if run_of a es \<ge> 2 then a else verdict es)"
proof (cases es)
  case (Cons b es')
  then show ?thesis by (cases es'; cases a; cases b) (auto simp: numeral_2_eq_2)
qed simp

lemma run_long: "run_of a es \<ge> 3 \<Longrightarrow> verdict es = a"
  by (cases es) (simp_all add: verdict_run del: verdict.simps split: if_splits)

lemma verdict_full: "Suc (run_of a es) mod 3 = 0 \<Longrightarrow> verdict (a # es) = a"
  by (cases "run_of a es \<ge> 2") (auto simp: verdict_run less_2_cases_iff not_le)

lemma verdict_kept: "Suc (run_of a es) mod 3 \<noteq> 0 \<Longrightarrow> verdict (a # es) = verdict es"
proof -
  assume "Suc (run_of a es) mod 3 \<noteq> 0"
  then have "run_of a es < 2 \<or> run_of a es \<ge> 3" by (cases "run_of a es = 2") auto
  then show ?thesis using run_long [of a es] by (auto simp: verdict_run)
qed

lemma counter_step: "(int (n mod 3) + 1 \<ge> 3) = (Suc n mod 3 = 0)"
  "Suc n mod 3 \<noteq> 0 \<Longrightarrow> int (Suc n mod 3) = int (n mod 3) + 1" "wrap32 (int (n mod 3) + 1) = int (n mod 3) + 1"
proof -
  have "n mod 3 = 0 \<or> n mod 3 = 1 \<or> n mod 3 = 2" by linarith
  then show "(int (n mod 3) + 1 \<ge> 3) = (Suc n mod 3 = 0)"
    "Suc n mod 3 \<noteq> 0 \<Longrightarrow> int (Suc n mod 3) = int (n mod 3) + 1" "wrap32 (int (n mod 3) + 1) = int (n mod 3) + 1"
    by (auto simp: mod_Suc wrap32_def)
qed

lemma step_inv:
  assumes "hb_inv es h"
  shows "hb_inv ((ping = None) # es) (snd (healthOneLoop ping h))"
  using assms verdict_full [of "ping = None" es] verdict_kept [of "ping = None" es]
  by (cases ping) (auto simp: hb_inv_def healthOneLoop_def Let_def defaultFailCount_def
      defaultSuccessCount_def counter_step simp del: verdict.simps)

lemma HealthCheck_inv: "hb_inv hist h \<Longrightarrow> hb_inv (rev (pings es) @ hist) (HealthCheck es h)"
proof (induction es arbitrary: hist h)
  case (Cons e es)
  show ?case
  proof (cases e)
    case (Tick ping)
    have "(e = Tick None) = (ping = None)" using Tick by simp
    with Tick Cons.IH [OF step_inv [OF Cons.prems, of ping]] show ?thesis by (simp add: pings_def)
  qed (use Cons.prems in \<open>simp add: pings_def\<close>)
qed (simp add: pings_def)

text \<open>C8. The heartbeat keeps its contract: after any sequence of pings, the database counts as healthy
  exactly if the last three equal answers in a row were successes, or there were none yet. So one
  or two lost pings never switch it, whatever came before, and three failures always do.\<close>

theorem Monitor_hysteresis:
  "Health (HealthCheck es NewHeartbeatDBMonitor) = verdict (rev (pings es))"
  using HealthCheck_inv [of "[]" NewHeartbeatDBMonitor es]
  by (simp add: hb_inv_def NewHeartbeatDBMonitor_def Health_def)

end
