(* ===== verification/Failover.thy ===== *)
theory Failover
  imports Monitor Interceptors Dao Invariants
begin

text \<open>
  What happens to statements while the database is down: the connection pools of
  \<^verbatim>\<open>internal/pkg/database/connpool\<close> and the producer and consumer of
  \<^verbatim>\<open>internal/event/failover\<close>. Statements that cannot be executed are put into a Kafka topic, from
  which the consumer is to execute them later. The pools of \<^verbatim>\<open>database/sql\<close>, the Kafka client and
  \<^verbatim>\<open>encoding/json\<close> are parameters; \<open>'h\<close> is what the pool answers (a statement, a result, rows).
  Sleeps leave no trace.
\<close>

section \<open>Connection pools\<close>

record ('s, 'h) ConnPool =
  cpPrepareContext :: "ctx \<Rightarrow> string \<Rightarrow> ('s, 'h option ret) io"
  cpExecContext :: "ctx \<Rightarrow> string \<Rightarrow> sql_val list \<Rightarrow> ('s, 'h option ret) io"
  cpQueryContext :: "ctx \<Rightarrow> string \<Rightarrow> sql_val list \<Rightarrow> ('s, 'h option ret) io"
  cpQueryRowContext :: "ctx \<Rightarrow> string \<Rightarrow> sql_val list \<Rightarrow> ('s, 'h option) io"

text \<open>Two pools, one for the requests of high priority.\<close>

record ('s, 'h) IsolationConnPool =
  icCore :: "('s, 'h) ConnPool"
  icNoneCore :: "('s, 'h) ConnPool"

definition getDB :: "('s, 'h) IsolationConnPool \<Rightarrow> ctx \<Rightarrow> ('s, 'h) ConnPool" where
  "getDB i c = (if ctxValue c ''Priority'' = Some (VString ''high'') then icCore i else icNoneCore i)"

definition isolation_PrepareContext ::
  "('s, 'h) IsolationConnPool \<Rightarrow> ctx \<Rightarrow> string \<Rightarrow> ('s, 'h option ret) io" where
  "isolation_PrepareContext i c query = cpPrepareContext (getDB i c) c query"

definition isolation_ExecContext ::
  "('s, 'h) IsolationConnPool \<Rightarrow> ctx \<Rightarrow> string \<Rightarrow> sql_val list \<Rightarrow> ('s, 'h option ret) io" where
  "isolation_ExecContext i c query args = cpExecContext (getDB i c) c query args"

definition isolation_QueryContext ::
  "('s, 'h) IsolationConnPool \<Rightarrow> ctx \<Rightarrow> string \<Rightarrow> sql_val list \<Rightarrow> ('s, 'h option ret) io" where
  "isolation_QueryContext i c query args = cpQueryContext (getDB i c) c query args"

definition isolation_QueryRowContext ::
  "('s, 'h) IsolationConnPool \<Rightarrow> ctx \<Rightarrow> string \<Rightarrow> sql_val list \<Rightarrow> ('s, 'h option) io" where
  "isolation_QueryRowContext i c query args = cpQueryRowContext (getDB i c) c query args"

section \<open>Events\<close>

record ConnPoolEvent =
  cpeSQL :: string
  cpeArgs :: "sql_val list"

record event_json =
  ejMarshal :: "ConnPoolEvent \<Rightarrow> string ret"
  ejUnmarshal :: "string \<Rightarrow> ConnPoolEvent ret"

definition FailoverTopic :: string where "FailoverTopic = ''fail_over_event''"

text \<open>A message of Kafka; a key that is not set is empty.\<close>

record kafka_message =
  kmTopic :: string
  kmPartition :: int64
  kmOffset :: int64
  kmKey :: string
  kmValue :: string

text \<open>What the producer waits for: the end of the context, the report about its message, or an
  event of another type.\<close>

datatype delivery = CtxEnded gerr | Delivered "gerr option" | OtherEvent

record 's kafka_producer =
  kpProduce :: "kafka_message \<Rightarrow> ('s, gerr option) io"
  kpDelivery :: "ctx \<Rightarrow> ('s, delivery) io"

definition PartitionAny :: int64 where "PartitionAny = -1"

definition Produce ::
  "event_json \<Rightarrow> 's kafka_producer \<Rightarrow> ctx \<Rightarrow> ConnPoolEvent \<Rightarrow> ('s, gerr option option) io" where
  "Produce js p c evt =
     (case ejMarshal js evt of
        (_, Some e) \<Rightarrow> io_ok (Some (Wrap [e]))
      | (evtStr, None) \<Rightarrow> do {
          err \<leftarrow> kpProduce p \<lparr>kmTopic = FailoverTopic, kmPartition = PartitionAny, kmOffset = 0,
                   kmKey = '''', kmValue = evtStr\<rparr>;
          case err of
            Some e \<Rightarrow> io_ok (Some (Wrap [e]))
          | None \<Rightarrow> do {
              d \<leftarrow> kpDelivery p c;
              case d of
                CtxEnded e \<Rightarrow> io_ok (Some e)
              | Delivered (Some e) \<Rightarrow> io_ok (Some (Wrap [e]))
              | Delivered None \<Rightarrow> io_ok None
              | OtherEvent \<Rightarrow> io_panic
            }
        })"

section \<open>The pool that fails over\<close>

record 's DBMonitor =
  dmHealth :: "('s, bool) io"
  dmReport :: "gerr option \<Rightarrow> ('s, unit) io"

text \<open>The heartbeat behind this interface, kept somewhere in the world.\<close>

definition heartbeat_monitor ::
  "('s \<Rightarrow> Heartbeat) \<Rightarrow> (Heartbeat \<Rightarrow> 's \<Rightarrow> 's) \<Rightarrow> 's DBMonitor" where
  "heartbeat_monitor get put =
     \<lparr>dmHealth = State (\<lambda>s. (Health (get s), s)),
      dmReport = \<lambda>err. State (\<lambda>s. ((), put (Report err (get s)) s))\<rparr>"

record ('s, 'h) DBWithFailOver =
  dfDb :: "('s, 'h) ConnPool"
  dfMonitor :: "'s DBMonitor"
  dfProducer :: "ctx \<Rightarrow> ConnPoolEvent \<Rightarrow> ('s, gerr option option) io"

definition failover_PrepareContext ::
  "('s, 'h) DBWithFailOver \<Rightarrow> ctx \<Rightarrow> string \<Rightarrow> ('s, 'h option ret) io" where
  "failover_PrepareContext d c query = do {
     healthy \<leftarrow> dmHealth (dfMonitor d);
     if \<not> healthy then io_return (None, Some (Err ErrDatabaseError))
     else cpPrepareContext (dfDb d) c query
   }"

definition failover_ExecContext ::
  "('s, 'h) DBWithFailOver \<Rightarrow> ctx \<Rightarrow> string \<Rightarrow> sql_val list \<Rightarrow> ('s, 'h option ret option) io" where
  "failover_ExecContext d c query args = do {
     healthy \<leftarrow> dmHealth (dfMonitor d);
     if \<not> healthy then
       io_call (dfProducer d c \<lparr>cpeSQL = query, cpeArgs = args\<rparr>) (\<lambda>err.
         io_ok (None, Some (if err \<noteq> None then Ext ''failover'' else Err ErrToAsync)))
     else do { r \<leftarrow> cpExecContext (dfDb d) c query args; io_ok r }
   }"

definition failover_QueryContext ::
  "('s, 'h) DBWithFailOver \<Rightarrow> ctx \<Rightarrow> string \<Rightarrow> sql_val list \<Rightarrow> ('s, 'h option ret) io" where
  "failover_QueryContext d c query args = do {
     healthy \<leftarrow> dmHealth (dfMonitor d);
     if \<not> healthy then io_return (None, Some (Err ErrDatabaseError))
     else cpQueryContext (dfDb d) c query args
   }"

text \<open>The guard of the last one is commented out.\<close>

definition failover_QueryRowContext ::
  "('s, 'h) DBWithFailOver \<Rightarrow> ctx \<Rightarrow> string \<Rightarrow> sql_val list \<Rightarrow> ('s, 'h option) io" where
  "failover_QueryRowContext d c query args = cpQueryRowContext (dfDb d) c query args"

section \<open>The consumer\<close>

datatype kafka_event = NoEvent | KMessage kafka_message | KError gerr | KOther

record 's kafka_consumer =
  kcAssignment :: "('s, nat list ret) io"
  kcPause :: "nat list \<Rightarrow> ('s, gerr option) io"
  kcResume :: "nat list \<Rightarrow> ('s, gerr option) io"
  kcPoll :: "int \<Rightarrow> ('s, kafka_event) io"
  kcCommitMessage :: "kafka_message \<Rightarrow> ('s, gerr option) io"
  kcClose :: "('s, gerr option) io"

record ('s, 'h) ConnPoolEventConsumer =
  ceConsumer :: "'s kafka_consumer"
  ceDb :: "('s, 'h) ConnPool"
  ceMonitor :: "'s DBMonitor"
  ceJson :: event_json

definition kafka_poll :: int where "kafka_poll = 1000"

text \<open>The event is read from the key of the message.\<close>

definition processMessage ::
  "('s, 'h) ConnPoolEventConsumer \<Rightarrow> ctx \<Rightarrow> kafka_message \<Rightarrow> ('s, gerr option) io" where
  "processMessage con c msg =
     (case ejUnmarshal (ceJson con) (kmKey msg) of
        (_, Some e) \<Rightarrow> io_return (Some (Wrap [e]))
      | (event, None) \<Rightarrow> do {
          (_, err) \<leftarrow> cpExecContext (ceDb con) c (cpeSQL event) (cpeArgs event);
          io_return (case err of Some e \<Rightarrow> Some (Wrap [e]) | None \<Rightarrow> None)
        })"

definition Consume :: "('s, 'h) ConnPoolEventConsumer \<Rightarrow> ctx \<Rightarrow> ('s, gerr option) io" where
  "Consume con c = do {
     healthy \<leftarrow> dmHealth (ceMonitor con);
     if \<not> healthy then do {
       (assigned, err) \<leftarrow> kcAssignment (ceConsumer con);
       case err of
         Some e \<Rightarrow> io_return (Some (Wrap [e]))
       | None \<Rightarrow>
           if length assigned > 0 then do {
             err \<leftarrow> kcPause (ceConsumer con) assigned;
             case err of
               Some e \<Rightarrow> io_return (Some (Wrap [e]))
             | None \<Rightarrow> do {
                 err \<leftarrow> kcResume (ceConsumer con) assigned;
                 io_return (case err of Some e \<Rightarrow> Some (Wrap [e]) | None \<Rightarrow> None)
               }
           }
           else io_return None
     }
     else do {
       ev \<leftarrow> kcPoll (ceConsumer con) kafka_poll;
       case ev of
         NoEvent \<Rightarrow> io_return None
       | KMessage e \<Rightarrow> do {
           err \<leftarrow> processMessage con c e;
           case err of
             Some err \<Rightarrow> io_return (Some err)
           | None \<Rightarrow> do {
               err \<leftarrow> kcCommitMessage (ceConsumer con) e;
               io_return (case err of Some e \<Rightarrow> Some (Wrap [e]) | None \<Rightarrow> None)
             }
         }
       | KError e \<Rightarrow> io_return (Some (Wrap [e]))
       | KOther \<Rightarrow> io_return None
     }
   }"

text \<open>The goroutine of \<open>Start\<close> with the number of turns before its context ends; errors are logged.\<close>

primrec consumer_Start :: "nat \<Rightarrow> ('s, 'h) ConnPoolEventConsumer \<Rightarrow> ctx \<Rightarrow> ('s, unit) io" where
  "consumer_Start 0 con c = io_return ()"
| "consumer_Start (Suc k) con c = do { _ \<leftarrow> Consume con c; consumer_Start k con c }"

definition consumer_Stop :: "('s, 'h) ConnPoolEventConsumer \<Rightarrow> ('s, gerr option) io" where
  "consumer_Stop con = kcClose (ceConsumer con)"

section \<open>What the failover relies on\<close>

text \<open>Of Kafka: a message that is produced is in the topic with its key, or not at all; a poll
  answers a message of the topic; nothing but producing changes the topic, nothing but committing
  what is committed, and neither changes the data behind \<open>data\<close>. Of the pool: it changes neither.
  Of \<^verbatim>\<open>encoding/json\<close>: an empty text is an error.\<close>

definition kafka_law ::
  "'s kafka_producer \<Rightarrow> 's kafka_consumer \<Rightarrow> ('s \<Rightarrow> kafka_message list) \<Rightarrow> ('s \<Rightarrow> 'c) \<Rightarrow> ('s \<Rightarrow> 'd) \<Rightarrow> bool" where
  "kafka_law p k topic committed data \<longleftrightarrow>
     (\<forall>s m. let s' = snd (run_state (kpProduce p m) s) in committed s' = committed s \<and> data s' = data s
        \<and> set (map kmKey (topic s')) \<subseteq> insert (kmKey m) (set (map kmKey (topic s))))
   \<and> (\<forall>s c. let s' = snd (run_state (kpDelivery p c) s) in
        committed s' = committed s \<and> data s' = data s \<and> topic s' = topic s)
   \<and> (\<forall>s. let s' = snd (run_state (kcAssignment k) s) in
        committed s' = committed s \<and> data s' = data s \<and> topic s' = topic s)
   \<and> (\<forall>s ps. let s' = snd (run_state (kcPause k ps) s) in
        committed s' = committed s \<and> data s' = data s \<and> topic s' = topic s)
   \<and> (\<forall>s ps. let s' = snd (run_state (kcResume k ps) s) in
        committed s' = committed s \<and> data s' = data s \<and> topic s' = topic s)
   \<and> (\<forall>s n. let (ev, s') = run_state (kcPoll k n) s in
        committed s' = committed s \<and> data s' = data s \<and> topic s' = topic s
        \<and> (case ev of KMessage m \<Rightarrow> kmKey m \<in> set (map kmKey (topic s)) | _ \<Rightarrow> True))
   \<and> (\<forall>s m. let s' = snd (run_state (kcCommitMessage k m) s) in data s' = data s \<and> topic s' = topic s)"

definition pool_law :: "('s, 'h) ConnPool \<Rightarrow> ('s \<Rightarrow> 't) \<Rightarrow> bool" where
  "pool_law db kept \<longleftrightarrow> (\<forall>c q args s. kept (snd (run_state (cpExecContext db c q args) s)) = kept s)"

definition monitor_law :: "'s DBMonitor \<Rightarrow> bool" where
  "monitor_law m \<longleftrightarrow> (\<forall>s. snd (run_state (dmHealth m) s) = s)"

definition event_json_law :: "event_json \<Rightarrow> bool" where
  "event_json_law js \<longleftrightarrow> snd (ejUnmarshal js '''') \<noteq> None"

definition keyless :: "kafka_message list \<Rightarrow> bool" where
  "keyless ms \<longleftrightarrow> list_all (\<lambda>m. kmKey m = '''') ms"

lemma keyless_keys: "keyless ms \<longleftrightarrow> set (map kmKey ms) \<subseteq> {''''}"
  by (auto simp: keyless_def list_all_iff)

lemma kafka_produce: "kafka_law p k topic committed data \<Longrightarrow> run_state (kpProduce p m) s = (x, s') \<Longrightarrow>
    committed s' = committed s \<and> data s' = data s
    \<and> set (map kmKey (topic s')) \<subseteq> insert (kmKey m) (set (map kmKey (topic s)))"
  unfolding kafka_law_def Let_def by (metis snd_conv)

lemma kafka_delivery: "kafka_law p k topic committed data \<Longrightarrow> run_state (kpDelivery p c) s = (x, s') \<Longrightarrow>
    committed s' = committed s \<and> data s' = data s \<and> topic s' = topic s"
  unfolding kafka_law_def Let_def by (metis snd_conv)

lemma kafka_assignment: "kafka_law p k topic committed data \<Longrightarrow> run_state (kcAssignment k) s = (x, s') \<Longrightarrow>
    committed s' = committed s \<and> data s' = data s \<and> topic s' = topic s"
  unfolding kafka_law_def Let_def by (metis snd_conv)

lemma kafka_pause: "kafka_law p k topic committed data \<Longrightarrow> run_state (kcPause k ps) s = (x, s') \<Longrightarrow>
    committed s' = committed s \<and> data s' = data s \<and> topic s' = topic s"
  unfolding kafka_law_def Let_def by (metis snd_conv)

lemma kafka_resume: "kafka_law p k topic committed data \<Longrightarrow> run_state (kcResume k ps) s = (x, s') \<Longrightarrow>
    committed s' = committed s \<and> data s' = data s \<and> topic s' = topic s"
  unfolding kafka_law_def Let_def by (metis snd_conv)

lemma kafka_poll_event: "kafka_law p k topic committed data \<Longrightarrow> run_state (kcPoll k n) s = (ev, s') \<Longrightarrow>
    committed s' = committed s \<and> data s' = data s \<and> topic s' = topic s
    \<and> (case ev of KMessage m \<Rightarrow> kmKey m \<in> set (map kmKey (topic s)) | _ \<Rightarrow> True)"
proof -
  assume law: "kafka_law p k topic committed data" and r: "run_state (kcPoll k n) s = (ev, s')"
  from law have "let (ev, s') = run_state (kcPoll k n) s in
      committed s' = committed s \<and> data s' = data s \<and> topic s' = topic s
      \<and> (case ev of KMessage m \<Rightarrow> kmKey m \<in> set (map kmKey (topic s)) | _ \<Rightarrow> True)"
    unfolding kafka_law_def by blast
  with r show ?thesis by simp
qed

lemma monitor_run: "monitor_law m \<Longrightarrow> \<exists>h. run_state (dmHealth m) s = (h, s)"
  unfolding monitor_law_def by (metis prod.collapse)

lemma heartbeat_monitor_law: "monitor_law (heartbeat_monitor get put)"
  by (simp add: monitor_law_def heartbeat_monitor_def)

lemma Consume_unhealthy:
  assumes law: "kafka_law p (ceConsumer con) topic committed data"
    and h: "run_state (dmHealth (ceMonitor con)) s = (False, s)" and r: "run_state (Consume con c) s = (e, s')"
  shows "topic s' = topic s \<and> committed s' = committed s \<and> data s' = data s"
proof -
  obtain ps err s1 where a: "run_state (kcAssignment (ceConsumer con)) s = ((ps, err), s1)" by (metis prod.collapse)
  obtain e2 s2 where b: "run_state (kcPause (ceConsumer con) ps) s1 = (e2, s2)" by (metis prod.collapse)
  obtain e3 s3 where d: "run_state (kcResume (ceConsumer con) ps) s2 = (e3, s3)" by (metis prod.collapse)
  have "s' \<in> {s1, s2, s3}"
    using h a b d r by (auto simp: Consume_def split: option.splits if_splits)
  with kafka_assignment [OF law a] kafka_pause [OF law b] kafka_resume [OF law d] show ?thesis by auto
qed

lemma Consume_healthy:
  assumes law: "kafka_law p (ceConsumer con) topic committed data" and js: "event_json_law (ceJson con)"
    and k: "keyless (topic s)"
    and h: "run_state (dmHealth (ceMonitor con)) s = (True, s)" and r: "run_state (Consume con c) s = (e, s')"
  shows "topic s' = topic s \<and> committed s' = committed s \<and> data s' = data s"
proof -
  obtain ev s1 where p: "run_state (kcPoll (ceConsumer con) kafka_poll) s = (ev, s1)" by (metis prod.collapse)
  note poll = kafka_poll_event [OF law p]
  have "s' = s1"
  proof (cases ev)
    case (KMessage m)
    with poll k have "kmKey m = ''''" by (auto simp: keyless_keys)
    then obtain x err where "ejUnmarshal (ceJson con) (kmKey m) = (x, Some err)"
      using js unfolding event_json_law_def by (metis not_Some_eq prod.collapse)
    then have "processMessage con c m = io_return (Some (Wrap [err]))" by (simp add: processMessage_def)
    with KMessage h p r show ?thesis by (simp add: Consume_def)
  qed (use h p r in \<open>simp_all add: Consume_def\<close>)
  with poll show ?thesis by simp
qed

lemma Consume_harmless:
  assumes "kafka_law p (ceConsumer con) topic committed data" "event_json_law (ceJson con)"
    and "monitor_law (ceMonitor con)" "keyless (topic s)" "run_state (Consume con c) s = (e, s')"
  shows "topic s' = topic s \<and> committed s' = committed s \<and> data s' = data s"
proof -
  obtain h where "run_state (dmHealth (ceMonitor con)) s = (h, s)" using monitor_run [OF assms(3)] by blast
  then show ?thesis
    using Consume_unhealthy [OF assms(1) _ assms(5)] Consume_healthy [OF assms(1,2,4) _ assms(5)]
    by (cases h) simp_all
qed

lemma Produce_keyless:
  assumes law: "kafka_law p k topic committed data" and r: "run_state (Produce js p c evt) s = (e, s')"
  shows "committed s' = committed s \<and> data s' = data s \<and> (keyless (topic s) \<longrightarrow> keyless (topic s'))"
proof (cases "ejMarshal js evt")
  case (Pair evtStr err)
  let ?m = "\<lparr>kmTopic = FailoverTopic, kmPartition = PartitionAny, kmOffset = 0, kmKey = '''', kmValue = evtStr\<rparr>"
  obtain e1 s1 where a: "run_state (kpProduce p ?m) s = (e1, s1)" by (metis prod.collapse)
  obtain d s2 where b: "run_state (kpDelivery p c) s1 = (d, s2)" by (metis prod.collapse)
  have "s' \<in> {s, s1, s2}"
    using r a b Pair by (auto simp: Produce_def split: option.splits delivery.splits)
  moreover have "keyless (topic s) \<Longrightarrow> keyless (topic s1)"
    using kafka_produce [OF law a] unfolding keyless_keys by (simp del: set_map) blast
  ultimately show ?thesis using kafka_produce [OF law a] kafka_delivery [OF law b] by auto
qed

lemma Exec_down:
  assumes "kafka_law p k topic committed data" "dfProducer d = Produce js p"
    and "monitor_law (dfMonitor d)" "\<not> fst (run_state (dmHealth (dfMonitor d)) s)"
    and "run_state (failover_ExecContext d c q args) s = (r, s')"
  shows "committed s' = committed s \<and> data s' = data s \<and> (keyless (topic s) \<longrightarrow> keyless (topic s'))"
proof -
  have h: "run_state (dmHealth (dfMonitor d)) s = (False, s)"
    using monitor_run [OF assms(3), of s] assms(4) by auto
  obtain e s1 where p: "run_state (Produce js p c \<lparr>cpeSQL = q, cpeArgs = args\<rparr>) s = (e, s1)" by (metis prod.collapse)
  with h assms(2,5) have "s' = s1" by (auto simp: failover_ExecContext_def split: option.splits)
  with Produce_keyless [OF assms(1) p] show ?thesis by simp
qed

lemma Exec_keyless:
  assumes "kafka_law p k topic committed data" "dfProducer d = Produce js p"
    and "monitor_law (dfMonitor d)" "pool_law (dfDb d) topic" "keyless (topic s)"
    and "run_state (failover_ExecContext d c q args) s = (r, s')"
  shows "keyless (topic s')"
proof (cases "fst (run_state (dmHealth (dfMonitor d)) s)")
  case True
  then have h: "run_state (dmHealth (dfMonitor d)) s = (True, s)"
    using monitor_run [OF assms(3), of s] by auto
  obtain x s1 where p: "run_state (cpExecContext (dfDb d) c q args) s = (x, s1)" by (metis prod.collapse)
  with h assms(6) have "s' = s1" by (auto simp: failover_ExecContext_def)
  moreover from p assms(4) have "topic s1 = topic s" unfolding pool_law_def by (metis snd_conv)
  ultimately show ?thesis using assms(5) by simp
next
  case False
  with Exec_down [OF assms(1-3) False assms(6)] assms(5) show ?thesis by simp
qed

section \<open>What becomes of the statements\<close>

text \<open>One ping of the heartbeat, and what can happen: statements through the pool, turns of the
  consumer, pings with any answer.\<close>

definition heartbeat_ping ::
  "('s \<Rightarrow> Heartbeat) \<Rightarrow> (Heartbeat \<Rightarrow> 's \<Rightarrow> 's) \<Rightarrow> gerr option \<Rightarrow> ('s, unit) io" where
  "heartbeat_ping get put ping = State (\<lambda>s. ((), put (snd (healthOneLoop ping (get s))) s))"

inductive_set failover_ops ::
  "('s, 'h) DBWithFailOver \<Rightarrow> ('s, 'h) ConnPoolEventConsumer \<Rightarrow> ('s \<Rightarrow> Heartbeat)
     \<Rightarrow> (Heartbeat \<Rightarrow> 's \<Rightarrow> 's) \<Rightarrow> ('s, unit) io set" for d con get put where
  "run_only (failover_ExecContext d c q args) \<in> failover_ops d con get put"
| "run_only (Consume con c) \<in> failover_ops d con get put"
| "heartbeat_ping get put ping \<in> failover_ops d con get put"

lemma keyless_stays:
  assumes law: "kafka_law p (ceConsumer con) topic committed data" and js: "event_json_law (ceJson con)"
    and mon: "ceMonitor con = heartbeat_monitor get put" "dfMonitor d = heartbeat_monitor get put"
    and prod: "dfProducer d = Produce (ceJson con) p" and pool: "pool_law (dfDb d) topic"
    and put: "\<And>h s. topic (put h s) = topic s" and m: "m \<in> failover_ops d con get put"
  shows "keeps (\<lambda>s. keyless (topic s)) m"
  using m
proof cases
  case (1 c q args)
  have "monitor_law (dfMonitor d)" by (simp add: mon heartbeat_monitor_law)
  from Exec_keyless [OF law prod this pool _ prod.collapse [symmetric]]
  have "keeps (\<lambda>s. keyless (topic s)) (failover_ExecContext d c q args)" by (rule keepsI)
  with 1 show ?thesis by (simp add: keeps_run_only)
next
  case (2 c)
  have "monitor_law (ceMonitor con)" by (simp add: mon heartbeat_monitor_law)
  from Consume_harmless [OF law js this _ prod.collapse [symmetric]]
  have "keeps (\<lambda>s. keyless (topic s)) (Consume con c)" by (intro keepsI) simp
  with 2 show ?thesis by (simp add: keeps_run_only)
next
  case (3 ping)
  then show ?thesis by (simp add: keeps_def heartbeat_ping_def put)
qed

text \<open>C21. No statement that was deferred is ever executed. The pool answers \<open>ErrToAsync\<close> while the
  database is down and puts the statement into the topic; but the consumer reads the key of the
  message, which the producer leaves empty. So after any sequence of statements, turns of the
  consumer and pings, a turn of the consumer changes no data and commits no message, and neither
  does a statement while the heartbeat is bad.\<close>

theorem Failed_over_writes_lost:
  assumes "kafka_law p (ceConsumer con) topic committed data" "event_json_law (ceJson con)"
    and "ceMonitor con = heartbeat_monitor get put" "dfMonitor d = heartbeat_monitor get put"
    and "dfProducer d = Produce (ceJson con) p" "pool_law (dfDb d) topic"
    and "\<And>h s. topic (put h s) = topic s"
    and "keyless (topic s0)" "reaches (failover_ops d con get put) s0 s"
  shows "data (snd (run_state (Consume con c) s)) = data s
    \<and> committed (snd (run_state (Consume con c) s)) = committed s
    \<and> (\<not> Health (get s) \<longrightarrow> data (snd (run_state (failover_ExecContext d c q args) s)) = data s)"
proof -
  have "keeps (\<lambda>s. keyless (topic s)) m" if "m \<in> failover_ops d con get put" for m
    using keyless_stays [OF assms(1-7) that] .
  from reaches_keeps [where I = "\<lambda>s. keyless (topic s)", OF assms(9,8) this]
  have k: "keyless (topic s)" .
  obtain e s1 where c: "run_state (Consume con c) s = (e, s1)" by (metis prod.collapse)
  obtain r s2 where x: "run_state (failover_ExecContext d c q args) s = (r, s2)" by (metis prod.collapse)
  have mon: "monitor_law (ceMonitor con)" "monitor_law (dfMonitor d)"
    by (simp_all add: assms(3,4) heartbeat_monitor_law)
  have "fst (run_state (dmHealth (dfMonitor d)) s) = Health (get s)"
    by (simp add: assms(4) heartbeat_monitor_def)
  with Exec_down [OF assms(1,5) mon(2) _ x] Consume_harmless [OF assms(1,2) mon(1) k c] c x
  show ?thesis by simp
qed

text \<open>An example: a topic, what is committed, the statements executed and the heartbeat.\<close>

record failover_world =
  fwTopic :: "kafka_message list"
  fwPos :: nat
  fwCommitted :: "int64 list"
  fwData :: "string list"
  fwHeartbeat :: Heartbeat

definition demo_producer :: "failover_world kafka_producer" where
  "demo_producer =
     \<lparr>kpProduce = \<lambda>m. State (\<lambda>s. (None, s\<lparr>fwTopic := fwTopic s @ [m]\<rparr>)),
      kpDelivery = \<lambda>_. io_return (Delivered None)\<rparr>"

definition demo_kafka :: "failover_world kafka_consumer" where
  "demo_kafka =
     \<lparr>kcAssignment = io_return ([0], None), kcPause = \<lambda>_. io_return None, kcResume = \<lambda>_. io_return None,
      kcPoll = \<lambda>_. State (\<lambda>s. if fwPos s < length (fwTopic s)
        then (KMessage (fwTopic s ! fwPos s), s\<lparr>fwPos := fwPos s + 1\<rparr>) else (NoEvent, s)),
      kcCommitMessage = \<lambda>m. State (\<lambda>s. (None, s\<lparr>fwCommitted := kmOffset m # fwCommitted s\<rparr>)),
      kcClose = io_return None\<rparr>"

definition demo_pool :: "(failover_world, unit) ConnPool" where
  "demo_pool =
     \<lparr>cpPrepareContext = \<lambda>_ _. io_return (Some (), None),
      cpExecContext = \<lambda>_ q _. State (\<lambda>s. ((Some (), None), s\<lparr>fwData := q # fwData s\<rparr>)),
      cpQueryContext = \<lambda>_ _ _. io_return (Some (), None), cpQueryRowContext = \<lambda>_ _ _. io_return (Some ())\<rparr>"

definition demo_event_json :: event_json where
  "demo_event_json =
     \<lparr>ejMarshal = \<lambda>e. (''{'' @ cpeSQL e, None),
      ejUnmarshal = \<lambda>t. (\<lparr>cpeSQL = drop 1 t, cpeArgs = []\<rparr>, if t = '''' then Some (Ext ''unexpected end'') else None)\<rparr>"

definition demo_monitor :: "failover_world DBMonitor" where
  "demo_monitor = heartbeat_monitor fwHeartbeat (\<lambda>h s. s\<lparr>fwHeartbeat := h\<rparr>)"

definition demo_failover :: "(failover_world, unit) DBWithFailOver" where
  "demo_failover = \<lparr>dfDb = demo_pool, dfMonitor = demo_monitor, dfProducer = Produce demo_event_json demo_producer\<rparr>"

definition demo_consumer :: "(failover_world, unit) ConnPoolEventConsumer" where
  "demo_consumer = \<lparr>ceConsumer = demo_kafka, ceDb = demo_pool, ceMonitor = demo_monitor, ceJson = demo_event_json\<rparr>"

lemma demo_kafka_law: "kafka_law demo_producer demo_kafka fwTopic fwCommitted fwData"
  by (simp add: kafka_law_def demo_producer_def demo_kafka_def Let_def)

theorem Failed_over_writes_lost_witness:
  "let s = \<lparr>fwTopic = [], fwPos = 0, fwCommitted = [], fwData = [], fwHeartbeat = NewHeartbeatDBMonitor\<lparr>hbHealth := False\<rparr>\<rparr>;
       (r, s1) = run_state (failover_ExecContext demo_failover demo_ctx ''UPDATE t'' []) s;
       s2 = s1\<lparr>fwHeartbeat := NewHeartbeatDBMonitor\<rparr>
   in r = Some (None, Some (Err ErrToAsync)) \<and> fwTopic s2 \<noteq> []
    \<and> fwData (snd (run_state (Consume demo_consumer demo_ctx) s2)) = []
    \<and> fwCommitted (snd (run_state (Consume demo_consumer demo_ctx) s2)) = []"
proof -
  let ?s = "\<lparr>fwTopic = [], fwPos = 0, fwCommitted = [], fwData = [], fwHeartbeat = NewHeartbeatDBMonitor\<lparr>hbHealth := False\<rparr>\<rparr>"
  let ?x = "run_state (failover_ExecContext demo_failover demo_ctx ''UPDATE t'' []) ?s"
  let ?s2 = "(snd ?x)\<lparr>fwHeartbeat := NewHeartbeatDBMonitor\<rparr>"
  have x: "?x = (Some (None, Some (Err ErrToAsync)), ?s\<lparr>fwTopic := [\<lparr>kmTopic = FailoverTopic,
      kmPartition = PartitionAny, kmOffset = 0, kmKey = '''', kmValue = ''{UPDATE t''\<rparr>]\<rparr>)"
    by (simp add: failover_ExecContext_def demo_failover_def demo_monitor_def heartbeat_monitor_def Health_def
        Produce_def demo_event_json_def demo_producer_def)
  have "reaches (failover_ops demo_failover demo_consumer fwHeartbeat (\<lambda>h s. s\<lparr>fwHeartbeat := h\<rparr>)) ?s2 ?s2"
    by (rule reaches.start)
  from Failed_over_writes_lost [OF _ _ _ _ _ _ _ _ this, of demo_producer fwTopic fwCommitted fwData demo_ctx]
  have "fwData (snd (run_state (Consume demo_consumer demo_ctx) ?s2)) = fwData ?s2
    \<and> fwCommitted (snd (run_state (Consume demo_consumer demo_ctx) ?s2)) = fwCommitted ?s2"
    using demo_kafka_law x
    by (simp add: demo_consumer_def demo_failover_def demo_monitor_def event_json_law_def demo_event_json_def
        pool_law_def demo_pool_def keyless_def)
  with x show ?thesis by simp
qed

section \<open>Isolation\<close>

text \<open>Requests of high priority and all others never use the same pool: what the other pool is makes
  no difference.\<close>

theorem Isolation_separates:
  assumes "ctxValue c ''Priority'' = Some (VString ''high'')" "ctxValue c' ''Priority'' \<noteq> Some (VString ''high'')"
  shows "isolation_ExecContext i c q args = isolation_ExecContext (i\<lparr>icNoneCore := other\<rparr>) c q args
    \<and> isolation_ExecContext i c' q args = isolation_ExecContext (i\<lparr>icCore := other\<rparr>) c' q args"
  using assms by (simp add: isolation_ExecContext_def getDB_def)

end
