(* ===== verification/Observability.thy ===== *)
theory Observability
  imports Interfaces Invariants
begin

text \<open>
  The decorators that measure and trace: \<^verbatim>\<open>internal/service/sender/metrics_sender.go\<close> and
  \<^verbatim>\<open>tracing_sender.go\<close>, \<^verbatim>\<open>internal/service/provider/metrics\<close> and \<^verbatim>\<open>tracing\<close>. The world of a
  decorated operation is the world of the operation and the list of the calls on the Prometheus and
  OpenTelemetry libraries so far, which these libraries only record. A result \<open>None\<close> is a panic.
\<close>

section \<open>Metrics and spans\<close>

datatype attr_val = AString string | AInt int64

text \<open>A duration is observed in seconds, divided by a number where the code divides it; any other value
  of a histogram is a sample. \<open>SpanStatus True\<close> is the status Ok, and \<open>Logged True\<close> an entry of the level
  Info, \<open>Logged False\<close> one of the level Error.\<close>

datatype observation =
    Counted string "string list" int
  | Observed string "string list" int nat
  | Sampled string "string list" int
  | SpanStarted string "(string \<times> attr_val) list"
  | SpanAttributes "(string \<times> attr_val) list"
  | SpanError "gerr option"
  | SpanStatus bool
  | SpanEnded
  | Logged bool string "(string \<times> attr_val) list"

type_synonym 's observed = "'s \<times> observation list"

definition observe :: "observation \<Rightarrow> ('s observed, unit option) io" where
  "observe ob = State (\<lambda>(s, obs). (Some (), (s, obs @ [ob])))"

definition undecorated :: "('s, 'a) io \<Rightarrow> ('s observed, 'a option) io" where
  "undecorated m = State (\<lambda>(s, obs). let (x, s') = run_state m s in (Some x, (s', obs)))"

definition time_Now :: "('s \<Rightarrow> gtime) \<Rightarrow> ('s observed, gtime option) io" where
  "time_Now clock = State (\<lambda>(s, obs). (Some (clock s), (s, obs)))"

text \<open>A vector of metrics has a fixed list of label names; values for more or fewer labels panic.\<close>

record metric_vec =
  mvName :: string
  mvLabels :: "string list"

definition vec_Add :: "metric_vec \<Rightarrow> string list \<Rightarrow> int \<Rightarrow> ('s observed, unit option) io" where
  "vec_Add v labels n =
     (if length labels = length (mvLabels v) then observe (Counted (mvName v) labels n) else io_panic)"

definition vec_Inc :: "metric_vec \<Rightarrow> string list \<Rightarrow> ('s observed, unit option) io" where
  "vec_Inc v labels = vec_Add v labels 1"

definition vec_Observe :: "metric_vec \<Rightarrow> string list \<Rightarrow> int \<Rightarrow> nat \<Rightarrow> ('s observed, unit option) io" where
  "vec_Observe v labels d n =
     (if length labels = length (mvLabels v) then observe (Observed (mvName v) labels d n) else io_panic)"

definition vec_Sample :: "metric_vec \<Rightarrow> string list \<Rightarrow> int \<Rightarrow> ('s observed, unit option) io" where
  "vec_Sample v labels n =
     (if length labels = length (mvLabels v) then observe (Sampled (mvName v) labels n) else io_panic)"

text \<open>Registering a name a second time panics. The registry is the set of the names.\<close>

fun MustRegister :: "metric_vec list \<Rightarrow> string set \<Rightarrow> string set option" where
  "MustRegister [] registry = Some registry"
| "MustRegister (v # vs) registry =
     (if mvName v \<in> registry then None else MustRegister vs (insert (mvName v) registry))"

lemma run_observe [simp]: "run_state (observe ob) (s, obs) = (Some (), (s, obs @ [ob]))"
  by (simp add: observe_def)

lemma run_undecorated [simp]:
  "run_state (undecorated m) (s, obs) = (let (x, s') = run_state m s in (Some x, (s', obs)))"
  by (simp add: undecorated_def)

lemma run_time_Now [simp]: "run_state (time_Now clock) (s, obs) = (Some (clock s), (s, obs))"
  by (simp add: time_Now_def)

text \<open>A decorator is transparent if it answers what the operation answers and leaves its world in
  the same state; it may add to the observations, and does not panic.\<close>

definition transparent :: "('s, 'a) io \<Rightarrow> ('s observed, 'a option) io \<Rightarrow> bool" where
  "transparent m m' \<longleftrightarrow> (\<forall>s obs. \<exists>new. run_state m' (s, obs)
     = (Some (fst (run_state m s)), (snd (run_state m s), obs @ new)))"

lemma transparentI:
  "(\<And>s obs x s'. run_state m s = (x, s') \<Longrightarrow> \<exists>new. run_state m' (s, obs) = (Some x, (s', obs @ new)))
   \<Longrightarrow> transparent m m'"
  by (simp add: transparent_def)

lemma transparent_run:
  "transparent m m' \<Longrightarrow> run_state m s = (x, s') \<Longrightarrow> \<exists>new. run_state m' (s, obs) = (Some x, (s', obs @ new))"
  unfolding transparent_def by (metis fst_conv snd_conv)

section \<open>Metrics of the sender\<close>

definition send_duration_vec :: metric_vec where
  "send_duration_vec = \<lparr>mvName = ''notification_send_duration_seconds'', mvLabels = [''channel'', ''status'']\<rparr>"
definition send_counter_vec :: metric_vec where
  "send_counter_vec = \<lparr>mvName = ''notification_send_total'', mvLabels = [''channel'']\<rparr>"
definition batch_send_counter_vec :: metric_vec where
  "batch_send_counter_vec = \<lparr>mvName = ''notification_batch_send_total'', mvLabels = [''channel'']\<rparr>"
definition send_status_vec :: metric_vec where
  "send_status_vec = \<lparr>mvName = ''notification_sent_status_total'', mvLabels = [''channel'', ''status'']\<rparr>"
definition metricsBatchTag :: string where
  "metricsBatchTag = ''batch''"

record 's MetricsSender =
  msSender :: "'s NotificationSender"
  msDuration :: metric_vec
  msSendCounter :: metric_vec
  msBatchCounter :: metric_vec
  msStatus :: metric_vec

definition NewMetricsSender ::
  "'s NotificationSender \<Rightarrow> string set \<Rightarrow> ('s MetricsSender \<times> string set) option" where
  "NewMetricsSender sender registry =
     (case MustRegister [send_duration_vec, send_counter_vec, batch_send_counter_vec, send_status_vec] registry of
        None \<Rightarrow> None
      | Some registry' \<Rightarrow> Some (\<lparr>msSender = sender, msDuration = send_duration_vec,
          msSendCounter = send_counter_vec, msBatchCounter = batch_send_counter_vec,
          msStatus = send_status_vec\<rparr>, registry'))"

definition metrics_Send ::
  "('s \<Rightarrow> gtime) \<Rightarrow> 's MetricsSender \<Rightarrow> Notification \<Rightarrow> ('s observed, SendResponse ret option) io" where
  "metrics_Send clock m n =
     io_call (time_Now clock) (\<lambda>startTime.
     io_call (vec_Inc (msSendCounter m) [nChannel n]) (\<lambda>_.
     io_call (undecorated (nsSend (msSender m) n)) (\<lambda>(resp, err).
     io_call (time_Now clock) (\<lambda>now.
     io_call (vec_Inc (msStatus m) [nChannel n, srStatus resp]) (\<lambda>_.
     io_call (vec_Observe (msDuration m) [nChannel n, srStatus resp] (now - startTime) 1) (\<lambda>_.
     io_ok (resp, err)))))))"

definition status_counts :: "SendResponse list \<Rightarrow> nat \<times> nat" where
  "status_counts responses =
     foldl (\<lambda>(succeeded, failed) resp.
       if srStatus resp = SendStatusSucceeded then (succeeded + 1, failed) else (succeeded, failed + 1))
       (0, 0) responses"

definition metrics_BatchSend ::
  "('s \<Rightarrow> gtime) \<Rightarrow> 's MetricsSender \<Rightarrow> Notification list
     \<Rightarrow> ('s observed, SendResponse list ret option) io" where
  "metrics_BatchSend clock m ns =
     (if ns = [] then io_ok ([], None)
      else let channel = nChannel (ns ! 0) in
        io_call (time_Now clock) (\<lambda>startTime.
        io_call (vec_Inc (msBatchCounter m) [channel]) (\<lambda>_.
        io_call (undecorated (nsBatchSend (msSender m) ns)) (\<lambda>(responses, err).
        io_call (if err = None \<and> length responses > 0
                 then let (succeeded, failed) = status_counts responses in
                   io_call (vec_Add (msStatus m) [channel, SendStatusSucceeded] (int succeeded)) (\<lambda>_.
                     vec_Add (msStatus m) [channel, SendStatusFailed] (int failed))
                 else io_ok ()) (\<lambda>_.
        io_call (time_Now clock) (\<lambda>now.
        io_call (vec_Observe (msDuration m) [channel, metricsBatchTag] (now - startTime) (length ns)) (\<lambda>_.
        io_ok (responses, err))))))))"

section \<open>Tracing of the sender\<close>

text \<open>A tracer is there or nil. The constructor of the tracing sender leaves it nil.\<close>

record 's TracingSender =
  tsSender :: "'s NotificationSender"
  tsTracer :: bool

definition NewTracingSender :: "'s NotificationSender \<Rightarrow> 's TracingSender" where
  "NewTracingSender sender = \<lparr>tsSender = sender, tsTracer = False\<rparr>"

definition tracer_Start ::
  "bool \<Rightarrow> string \<Rightarrow> (string \<times> attr_val) list \<Rightarrow> ('s observed, unit option) io" where
  "tracer_Start tracer name attrs = (if tracer then observe (SpanStarted name attrs) else io_panic)"

text \<open>A span is ended by a deferred call, and by the error or the attributes of the answer before.\<close>

definition span_error :: "gerr \<Rightarrow> ('s observed, unit option) io" where
  "span_error err = io_call (observe (SpanError (Some err))) (\<lambda>_. observe (SpanStatus False))"

definition tracing_Send ::
  "'s TracingSender \<Rightarrow> Notification \<Rightarrow> ('s observed, SendResponse ret option) io" where
  "tracing_Send t n =
     io_call (tracer_Start (tsTracer t) ''NotificationSender.Send''
       [(''notification.id'', AString (FormatInt (nID n))), (''notification.bizId'', AString (FormatInt (nBizID n))),
        (''notification.key'', AString (nKey n)), (''notification.channel'', AString (nChannel n))]) (\<lambda>_.
     io_call (undecorated (nsSend (tsSender t) n)) (\<lambda>(response, err).
     io_call (case err of
         Some e \<Rightarrow> span_error e
       | None \<Rightarrow> observe (SpanAttributes
           [(''notification.id'', AString (FormatInt (NotificationID response))),
            (''notification.status'', AString (srStatus response))])) (\<lambda>_.
     io_call (observe SpanEnded) (\<lambda>_. io_ok (response, err)))))"

fun strings_Join :: "string list \<Rightarrow> string \<Rightarrow> string" where
  "strings_Join [] sep = ''''"
| "strings_Join [a] sep = a"
| "strings_Join (a # as) sep = a @ sep @ strings_Join as sep"

definition tracing_BatchSend ::
  "'s TracingSender \<Rightarrow> Notification list \<Rightarrow> ('s observed, SendResponse list ret option) io" where
  "tracing_BatchSend t ns =
     io_call (tracer_Start (tsTracer t) ''NotificationSender.BatchSend''
       [(''notification.count'', AInt (int (length ns)))]) (\<lambda>_.
     io_call (if length ns > 0
              then observe (SpanAttributes
                [(''notification.bizId'', AString (FormatInt (nBizID (ns ! 0)))),
                 (''notification.keys'', AString (strings_Join (map nKey ns) '',''))])
              else io_ok ()) (\<lambda>_.
     io_call (undecorated (nsBatchSend (tsSender t) ns)) (\<lambda>(responses, err).
     io_call (case err of
         Some e \<Rightarrow> span_error e
       | None \<Rightarrow> let (succeeded, failed) = status_counts responses in
           observe (SpanAttributes [(''notification.succeeded'', AInt (int succeeded)),
             (''notification.failed'', AInt (int failed))])) (\<lambda>_.
     io_call (observe SpanEnded) (\<lambda>_. io_ok (responses, err))))))"

section \<open>Metrics and tracing of a provider\<close>

definition provider_duration_vec :: metric_vec where
  "provider_duration_vec =
     \<lparr>mvName = ''provider_send_duration_seconds'', mvLabels = [''provider'', ''channel'', ''status'']\<rparr>"
definition provider_counter_vec :: metric_vec where
  "provider_counter_vec = \<lparr>mvName = ''provider_send_count'', mvLabels = [''provider'', ''channel'']\<rparr>"
definition provider_status_vec :: metric_vec where
  "provider_status_vec =
     \<lparr>mvName = ''provider_send_status_total'', mvLabels = [''provider'', ''channel'', ''status'']\<rparr>"

record 's MetricsProvider =
  mpProvider :: "Notification \<Rightarrow> ('s, SendResponse ret) io"
  mpDuration :: metric_vec
  mpSendCounter :: metric_vec
  mpStatusCounter :: metric_vec
  mpName :: string

definition NewMetricsProvider ::
  "string \<Rightarrow> (Notification \<Rightarrow> ('s, SendResponse ret) io) \<Rightarrow> string set
     \<Rightarrow> ('s MetricsProvider \<times> string set) option" where
  "NewMetricsProvider name p registry =
     (case MustRegister [provider_duration_vec, provider_counter_vec, provider_status_vec] registry of
        None \<Rightarrow> None
      | Some registry' \<Rightarrow> Some (\<lparr>mpProvider = p, mpDuration = provider_duration_vec,
          mpSendCounter = provider_counter_vec, mpStatusCounter = provider_status_vec, mpName = name\<rparr>, registry'))"

definition metrics_provider_Send ::
  "('s \<Rightarrow> gtime) \<Rightarrow> 's MetricsProvider \<Rightarrow> Notification \<Rightarrow> ('s observed, SendResponse ret option) io" where
  "metrics_provider_Send clock p n =
     io_call (time_Now clock) (\<lambda>startTime.
     io_call (vec_Inc (mpSendCounter p) [mpName p, nChannel n]) (\<lambda>_.
     io_call (undecorated (mpProvider p n)) (\<lambda>(resp, err).
     io_call (time_Now clock) (\<lambda>now.
     io_call (vec_Inc (mpStatusCounter p) [mpName p, nChannel n, srStatus resp]) (\<lambda>_.
     io_call (vec_Observe (mpDuration p) [mpName p, nChannel n, srStatus resp] (now - startTime) 1) (\<lambda>_.
     io_ok (resp, err)))))))"

record 's TracingProvider =
  tpProvider :: "Notification \<Rightarrow> ('s, SendResponse ret) io"
  tpTracer :: bool
  tpName :: string

definition NewTracingProvider ::
  "(Notification \<Rightarrow> ('s, SendResponse ret) io) \<Rightarrow> string \<Rightarrow> 's TracingProvider" where
  "NewTracingProvider p name = \<lparr>tpProvider = p, tpTracer = True, tpName = name\<rparr>"

definition tracing_provider_Send ::
  "'s TracingProvider \<Rightarrow> Notification \<Rightarrow> ('s observed, SendResponse ret option) io" where
  "tracing_provider_Send p n =
     io_call (tracer_Start (tpTracer p) ''Provider.Send''
       [(''provider.name'', AString (tpName p)), (''notification.id'', AInt (nID n)),
        (''notification.bizID'', AInt (nBizID n)), (''notification.key'', AString (nKey n)),
        (''notification.channel'', AString (nChannel n))]) (\<lambda>_.
     io_call (undecorated (tpProvider p n)) (\<lambda>(response, err).
     io_call (case err of
         Some e \<Rightarrow> span_error e
       | None \<Rightarrow> observe (SpanAttributes [(''notification.id'', AInt (NotificationID response)),
           (''notification.status'', AString (srStatus response))])) (\<lambda>_.
     io_call (observe SpanEnded) (\<lambda>_. io_ok (response, err)))))"

section \<open>Transparency\<close>

lemmas vec_defs = vec_Inc_def vec_Add_def vec_Observe_def send_duration_vec_def send_counter_vec_def
  batch_send_counter_vec_def send_status_vec_def provider_duration_vec_def provider_counter_vec_def
  provider_status_vec_def

lemma NewMetricsSender_fields:
  "NewMetricsSender sender registry = Some (m, registry') \<Longrightarrow>
     m = \<lparr>msSender = sender, msDuration = send_duration_vec, msSendCounter = send_counter_vec,
          msBatchCounter = batch_send_counter_vec, msStatus = send_status_vec\<rparr>"
  by (simp add: NewMetricsSender_def split: option.splits)

lemma NewMetricsProvider_fields:
  "NewMetricsProvider name p registry = Some (m, registry') \<Longrightarrow>
     m = \<lparr>mpProvider = p, mpDuration = provider_duration_vec, mpSendCounter = provider_counter_vec,
          mpStatusCounter = provider_status_vec, mpName = name\<rparr>"
  by (simp add: NewMetricsProvider_def split: option.splits)

lemma metrics_Send_run:
  assumes "NewMetricsSender sender registry = Some (m, registry')"
    and "run_state (nsSend sender n) s = ((resp, err), s')"
  shows "run_state (metrics_Send clock m n) (s, obs) = (Some (resp, err), (s', obs @
    [Counted ''notification_send_total'' [nChannel n] 1,
     Counted ''notification_sent_status_total'' [nChannel n, srStatus resp] 1,
     Observed ''notification_send_duration_seconds'' [nChannel n, srStatus resp] (clock s' - clock s) 1]))"
  using assms(2) unfolding NewMetricsSender_fields [OF assms(1)]
  by (simp add: metrics_Send_def vec_defs)

lemma metrics_BatchSend_transparent:
  assumes "NewMetricsSender sender registry = Some (m, registry')" "ns \<noteq> []"
  shows "transparent (nsBatchSend sender ns) (metrics_BatchSend clock m ns)"
proof (rule transparentI)
  fix s obs x s'
  assume "run_state (nsBatchSend sender ns) s = (x, s')"
  then show "\<exists>new. run_state (metrics_BatchSend clock m ns) (s, obs) = (Some x, (s', obs @ new))"
    using assms(2) unfolding NewMetricsSender_fields [OF assms(1)]
    by (cases x) (auto simp: metrics_BatchSend_def vec_defs Let_def split: prod.splits)
qed

text \<open>The decorators that work are transparent: measuring the sends of a sender or a provider, and
  tracing a provider, change neither an answer nor an effect, whatever is decorated. So they can be
  stacked in any order.\<close>

theorem Decorators_transparent:
  assumes "NewMetricsSender sender registry = Some (m, registry1)"
    and "NewMetricsProvider name p registry1 = Some (mp, registry2)"
  shows "transparent (nsSend sender n) (metrics_Send clock m n)
    \<and> (ns \<noteq> [] \<longrightarrow> transparent (nsBatchSend sender ns) (metrics_BatchSend clock m ns))
    \<and> transparent (p n) (metrics_provider_Send clock mp n)
    \<and> transparent (p n) (tracing_provider_Send (NewTracingProvider p name) n)"
proof (intro conjI impI)
  show "transparent (nsSend sender n) (metrics_Send clock m n)"
    by (rule transparentI) (use metrics_Send_run [OF assms(1)] in fast)
  show "transparent (p n) (metrics_provider_Send clock mp n)"
    unfolding NewMetricsProvider_fields [OF assms(2)]
    by (rule transparentI) (auto simp: metrics_provider_Send_def vec_defs split: prod.split)
  show "transparent (p n) (tracing_provider_Send (NewTracingProvider p name) n)"
    by (rule transparentI) (auto simp: tracing_provider_Send_def NewTracingProvider_def tracer_Start_def
        span_error_def split: option.split prod.split)
qed (rule metrics_BatchSend_transparent [OF assms(1)])

section \<open>What is counted\<close>

definition counted :: "string \<Rightarrow> string list \<Rightarrow> observation list \<Rightarrow> int" where
  "counted name labels obs =
     sum_list (map (\<lambda>ob. case ob of Counted n ls k \<Rightarrow> if n = name \<and> ls = labels then k else 0 | _ \<Rightarrow> 0) obs)"

lemma counted_simps [simp]:
  "counted name labels [] = 0" "counted name labels (obs @ obs') = counted name labels obs + counted name labels obs'"
  "counted name labels (ob # obs) = (case ob of Counted n ls k \<Rightarrow> if n = name \<and> ls = labels then k else 0 | _ \<Rightarrow> 0)
     + counted name labels obs"
  by (simp_all add: counted_def)

lemma status_counts_filter:
  "status_counts rs = (length (filter (\<lambda>r. srStatus r = SendStatusSucceeded) rs),
                       length (filter (\<lambda>r. srStatus r \<noteq> SendStatusSucceeded) rs))"
proof -
  have "foldl (\<lambda>(a, b) r. if srStatus r = SendStatusSucceeded then (a + 1, b) else (a, b + 1)) (a, b) rs
      = (a + length (filter (\<lambda>r. srStatus r = SendStatusSucceeded) rs),
         b + length (filter (\<lambda>r. srStatus r \<noteq> SendStatusSucceeded) rs))" for a b
    by (induction rs arbitrary: a b) auto
  then show ?thesis by (simp add: status_counts_def)
qed

text \<open>C31. The metrics of a batch are the responses it answered: without an error, the two status counters of
  its channel grow by the numbers of the succeeded and of the other responses, which add up to all of
  them; with an error they stay.\<close>

theorem Batch_metrics_exact:
  assumes "NewMetricsSender sender registry = Some (m, registry')" "ns \<noteq> []"
    and "run_state (nsBatchSend sender ns) s = ((responses, err), s')"
    and "run_state (metrics_BatchSend clock m ns) (s, obs) = (x, (s'', obs'))"
  shows "let grown = (\<lambda>st. counted ''notification_sent_status_total'' [nChannel (hd ns), st] obs'
                        - counted ''notification_sent_status_total'' [nChannel (hd ns), st] obs)
    in if err = None
       then grown SendStatusSucceeded = int (length (filter (\<lambda>r. srStatus r = SendStatusSucceeded) responses))
          \<and> grown SendStatusSucceeded + grown SendStatusFailed = int (length responses)
       else grown SendStatusSucceeded = 0 \<and> grown SendStatusFailed = 0"
proof -
  have "SendStatusSucceeded \<noteq> SendStatusFailed" by (simp add: SendStatusSucceeded_def SendStatusFailed_def)
  moreover have "hd ns = ns ! 0" using assms(2) by (simp add: hd_conv_nth)
  ultimately show ?thesis
    using assms(2,3,4) sum_length_filter_compl [of "\<lambda>r. srStatus r = SendStatusSucceeded" responses]
    unfolding NewMetricsSender_fields [OF assms(1)]
    by (auto simp: metrics_BatchSend_def vec_defs Let_def status_counts_filter split: if_splits prod.splits)
qed

text \<open>Two constructors do not work. A sender is traced with a tracer that is nil, so that the first
  send panics; and a second provider cannot be measured, because its metrics have the names of the
  first one's.\<close>

theorem Decorators_broken:
  "run_state (tracing_Send (NewTracingSender sender) n) (s, obs) = (None, (s, obs))
   \<and> run_state (tracing_BatchSend (NewTracingSender sender) ns) (s, obs) = (None, (s, obs))
   \<and> Option.bind (NewMetricsProvider name1 p1 registry) (\<lambda>(_, registry). NewMetricsProvider name2 p2 registry) = None"
  by (auto simp: tracing_Send_def tracing_BatchSend_def NewTracingSender_def tracer_Start_def
      NewMetricsProvider_def vec_defs)

text \<open>Examples for both: a sender that lets the second of two notifications fail.\<close>

definition demo_decorated :: "unit NotificationSender" where
  "demo_decorated = \<lparr>nsSend = \<lambda>n. io_return (zero_SendResponse\<lparr>srStatus := SendStatusSucceeded\<rparr>, None),
     nsBatchSend = \<lambda>ns. io_return ([zero_SendResponse\<lparr>srStatus := SendStatusSucceeded\<rparr>,
       zero_SendResponse\<lparr>srStatus := SendStatusFailed\<rparr>], None)\<rparr>"

lemma demo_metrics:
  "\<exists>m. NewMetricsSender sender {} = Some (m, mvName ` {send_duration_vec, send_counter_vec, batch_send_counter_vec, send_status_vec})"
  by (auto simp: NewMetricsSender_def vec_defs)

theorem Batch_metrics_exact_witness:
  "\<exists>m registry obs'. NewMetricsSender demo_decorated {} = Some (m, registry)
    \<and> run_state (metrics_BatchSend (\<lambda>_. 0) m [zero_Notification\<lparr>nChannel := ''SMS''\<rparr>, zero_Notification]) ((), [])
        = (Some (fst (run_state (nsBatchSend demo_decorated []) ())), ((), obs'))
    \<and> counted ''notification_sent_status_total'' [''SMS'', SendStatusSucceeded] obs' = 1"
proof -
  let ?ns = "[zero_Notification\<lparr>nChannel := ''SMS''\<rparr>, zero_Notification]"
  obtain m registry where m: "NewMetricsSender demo_decorated {} = Some (m, registry)"
    using demo_metrics by blast
  have r: "run_state (nsBatchSend demo_decorated ?ns) () = run_state (nsBatchSend demo_decorated []) ()"
    by (simp add: demo_decorated_def)
  obtain responses err where b: "run_state (nsBatchSend demo_decorated []) () = ((responses, err), ())"
    by (metis old.unit.exhaust prod.collapse)
  obtain obs' where o: "run_state (metrics_BatchSend (\<lambda>_. 0) m ?ns) ((), []) = (Some (responses, err), ((), obs'))"
    using transparent_run [OF metrics_BatchSend_transparent [OF m] r [unfolded b]] by blast
  from Batch_metrics_exact [OF m _ r [unfolded b] o] b m o show ?thesis
    by (auto simp: demo_decorated_def SendStatusSucceeded_def SendStatusFailed_def Let_def)
qed

theorem Decorators_transparent_witness:
  "\<exists>m registry. NewMetricsSender demo_decorated {} = Some (m, registry)
    \<and> transparent (nsSend demo_decorated zero_Notification) (metrics_Send (\<lambda>_. 0) m zero_Notification)
    \<and> transparent (nsBatchSend demo_decorated [zero_Notification]) (metrics_BatchSend (\<lambda>_. 0) m [zero_Notification])"
proof -
  obtain m where m: "NewMetricsSender demo_decorated {} =
      Some (m, mvName ` {send_duration_vec, send_counter_vec, batch_send_counter_vec, send_status_vec})"
    using demo_metrics by blast
  obtain mp registry where "NewMetricsProvider ''ali'' (nsSend demo_decorated)
      (mvName ` {send_duration_vec, send_counter_vec, batch_send_counter_vec, send_status_vec}) = Some (mp, registry)"
    by (simp add: NewMetricsProvider_def vec_defs)
  from Decorators_transparent [OF m this, of zero_Notification "\<lambda>_. 0" "[zero_Notification]"] m show ?thesis
    by blast
qed

end
