(* ===== verification/GrpcObservers.thy ===== *)
theory GrpcObservers
  imports Observability Interceptors
begin

text \<open>
  The interceptors that observe: \<^verbatim>\<open>internal/api/grpc/interceptor/tracing/tracing.go\<close>,
  \<^verbatim>\<open>interceptor/metrics/metrics.go\<close> and \<^verbatim>\<open>interceptor/log/log.go\<close>. They wrap a handler, over the world of \<open>Observability\<close>. The
  context with the span that the tracer answers is a parameter. A panic of the handler goes through
  them; the deferred end of the span is still recorded.
\<close>

definition handled :: "('s, 'a option) io \<Rightarrow> ('s observed, 'a option) io" where
  "handled m = State (\<lambda>(s, obs). let (x, s') = run_state m s in (x, (s', obs)))"

lemma run_handled [simp]:
  "run_state (handled m) (s, obs) = (let (x, s') = run_state m s in (x, (s', obs)))"
  by (simp add: handled_def)

section \<open>Status codes\<close>

text \<open>\<open>status.FromError\<close> and \<open>status.Code\<close>: an error that is no status has the code Unknown.\<close>

fun code_number :: "rpc_error option \<Rightarrow> int64" where
  "code_number None = 0"
| "code_number (Some (Plain e)) = 2"
| "code_number (Some (Status InvalidArgument)) = 3"
| "code_number (Some (Status Internal)) = 13"
| "code_number (Some (Status Unavailable)) = 14"
| "code_number (Some (Status Unauthenticated)) = 16"

fun code_String :: "rpc_error option \<Rightarrow> string" where
  "code_String None = ''OK''"
| "code_String (Some (Plain e)) = ''Unknown''"
| "code_String (Some (Status InvalidArgument)) = ''InvalidArgument''"
| "code_String (Some (Status Internal)) = ''Internal''"
| "code_String (Some (Status Unavailable)) = ''Unavailable''"
| "code_String (Some (Status Unauthenticated)) = ''Unauthenticated''"

section \<open>Tracing\<close>

definition LastIndex :: "string \<Rightarrow> char \<Rightarrow> int" where
  "LastIndex s c =
     (case filter (\<lambda>i. s ! i = c) [0..<length s] of [] \<Rightarrow> -1 | is \<Rightarrow> int (last is))"

definition extractNames :: "string \<Rightarrow> string \<times> string" where
  "extractNames fullMethod0 =
     (let fullMethod = TrimPrefix fullMethod0 ''/'';
          i = LastIndex fullMethod (CHR ''/'')
      in if i \<ge> 0 then (take (nat i) fullMethod, drop (nat i + 1) fullMethod)
         else (''unknown'', fullMethod))"

definition relevantKeys :: "string list" where
  "relevantKeys = [''user-id'', ''request-id'', ''trace-id'', ''x-api-key'']"

definition isTracingRelevantMetadata :: "string \<Rightarrow> bool" where
  "isTracingRelevantMetadata k = (k \<in> set relevantKeys)"

text \<open>The keys of the metadata are visited in the order \<open>keys\<close>.\<close>

fun metadata_attributes ::
  "(string \<Rightarrow> string list) \<Rightarrow> string list \<Rightarrow> ('s observed, unit option) io" where
  "metadata_attributes md [] = io_ok ()"
| "metadata_attributes md (k # ks) =
     (case md k of
        v # _ \<Rightarrow>
          if isTracingRelevantMetadata k
          then io_call (observe (SpanAttributes [(''rpc.metadata.'' @ k, AString v)]))
                 (\<lambda>_. metadata_attributes md ks)
          else metadata_attributes md ks
      | [] \<Rightarrow> metadata_attributes md ks)"

definition span_result :: "rpc_error option \<Rightarrow> ('s observed, unit option) io" where
  "span_result err =
     (if err \<noteq> None
      then io_call (observe (SpanStatus False)) (\<lambda>_.
        observe (SpanAttributes [(''rpc.grpc.status.code'', AInt (code_number err))]))
      else observe (SpanStatus True))"

text \<open>What is deferred runs also when the rest panics.\<close>

definition deferring :: "('s, 'a option) io \<Rightarrow> ('s, unit option) io \<Rightarrow> ('s, 'a option) io" where
  "deferring m d = do { x \<leftarrow> m; _ \<leftarrow> d; io_return x }"

definition TracingInterceptor ::
  "(ctx \<Rightarrow> ctx) \<Rightarrow> string list \<Rightarrow> string \<Rightarrow> ('s, 'r) handler \<Rightarrow> ctx \<Rightarrow> request
     \<Rightarrow> ('s observed, 'r reply option) io" where
  "TracingInterceptor span_ctx keys fullMethod handler c req =
     (let (serviceName, methodName) = extractNames fullMethod in
      io_call (observe (SpanStarted (serviceName @ ''/'' @ methodName)
        [(''rpc.system'', AString ''grpc''), (''rpc.service'', AString serviceName),
         (''rpc.method'', AString methodName)])) (\<lambda>_.
      deferring
        (let c = span_ctx c in
         io_call (case ctxIncoming c of
             Some md \<Rightarrow> metadata_attributes md keys
           | None \<Rightarrow> io_ok ()) (\<lambda>_.
         io_call (handled (handler c req)) (\<lambda>(resp, err).
         io_call (span_result err) (\<lambda>_. io_ok (resp, err)))))
        (observe SpanEnded)))"

section \<open>Metrics\<close>

definition api_duration_vec :: metric_vec where
  "api_duration_vec = \<lparr>mvName = ''grpc_server_handling_seconds'', mvLabels = [''method'', ''status_code'']\<rparr>"
definition request_counter_vec :: metric_vec where
  "request_counter_vec = \<lparr>mvName = ''grpc_server_request_total'', mvLabels = [''method'']\<rparr>"
definition error_counter_vec :: metric_vec where
  "error_counter_vec = \<lparr>mvName = ''grpc_server_errors_total'', mvLabels = [''method'', ''status'']\<rparr>"

record MetricsBuilder =
  mbDuration :: metric_vec
  mbRequests :: metric_vec
  mbErrors :: metric_vec

definition NewMetricsBuilder :: "string set \<Rightarrow> (MetricsBuilder \<times> string set) option" where
  "NewMetricsBuilder registry =
     (case MustRegister [api_duration_vec, request_counter_vec, error_counter_vec] registry of
        None \<Rightarrow> None
      | Some registry' \<Rightarrow> Some (\<lparr>mbDuration = api_duration_vec, mbRequests = request_counter_vec,
          mbErrors = error_counter_vec\<rparr>, registry'))"

text \<open>An error is counted in the vector of the requests.\<close>

definition MetricsInterceptor ::
  "('s \<Rightarrow> gtime) \<Rightarrow> MetricsBuilder \<Rightarrow> string \<Rightarrow> ('s, 'r) handler \<Rightarrow> ctx \<Rightarrow> request
     \<Rightarrow> ('s observed, 'r reply option) io" where
  "MetricsInterceptor clock b fullMethod handler c req =
     io_call (time_Now clock) (\<lambda>startTime.
     io_call (vec_Inc (mbRequests b) [fullMethod]) (\<lambda>_.
     io_call (handled (handler c req)) (\<lambda>(resp, err).
     io_call (time_Now clock) (\<lambda>now.
     let statusCode = code_String err in
     io_call (if code_number err \<noteq> 0 then vec_Inc (mbRequests b) [fullMethod, statusCode] else io_ok ()) (\<lambda>_.
     io_call (vec_Observe (mbDuration b) [fullMethod, statusCode] (now - startTime) 1) (\<lambda>_.
     io_ok (resp, err)))))))"

section \<open>Logging\<close>

text \<open>The requests and the responses are logged as JSON; \<open>reqJSON\<close> and \<open>respJSON\<close> marshal them. The
  error itself, a field of the entry of an error, is left out.\<close>

definition LogInterceptor ::
  "('s \<Rightarrow> gtime) \<Rightarrow> (request \<Rightarrow> string) \<Rightarrow> ('r option \<Rightarrow> string) \<Rightarrow> string \<Rightarrow> ('s, 'r) handler \<Rightarrow> ctx
     \<Rightarrow> request \<Rightarrow> ('s observed, 'r reply option) io" where
  "LogInterceptor clock reqJSON respJSON fullMethod handler c req =
     io_call (time_Now clock) (\<lambda>startTime.
     io_call (observe (Logged True ''gRPC request''
       [(''method'', AString fullMethod), (''request'', AString (reqJSON req)), (''start_time'', AInt startTime)])) (\<lambda>_.
     io_call (handled (handler c req)) (\<lambda>(resp, err).
     io_call (time_Now clock) (\<lambda>now.
     let fields = [(''method'', AString fullMethod), (''status_code'', AString (code_String err)),
           (''response'', AString (respJSON resp)), (''duration'', AInt (now - startTime))] in
     io_call (if err \<noteq> None then observe (Logged False ''gRPC response with error'' fields)
              else observe (Logged True ''gRPC response'' fields)) (\<lambda>_.
     io_ok (resp, err))))))"

section \<open>Properties\<close>

lemma LastIndex_last:
  assumes "CHR ''/'' \<notin> set m"
  shows "LastIndex (svc @ CHR ''/'' # m) (CHR ''/'') = int (length svc)"
proof -
  let ?s = "svc @ CHR ''/'' # m"
  have "[0..<length ?s] = [0..<length svc] @ length svc # [Suc (length svc)..<length ?s]"
    using upt_add_eq_append [of 0 "length svc" "Suc (length m)"] by (simp add: upt_conv_Cons del: upt_Suc)
  moreover have "filter (\<lambda>i. ?s ! i = CHR ''/'') [Suc (length svc)..<length ?s] = []"
  proof -
    have "?s ! i \<noteq> CHR ''/''" if "Suc (length svc) \<le> i" "i < length ?s" for i
    proof -
      have "?s ! i = m ! (i - Suc (length svc))" using that by (simp add: nth_append nth_Cons')
      moreover have "m ! (i - Suc (length svc)) \<in> set m" using that by simp
      ultimately show ?thesis using assms by metis
    qed
    then show ?thesis by (auto simp: filter_empty_conv simp del: upt_Suc)
  qed
  ultimately have f: "filter (\<lambda>i. ?s ! i = CHR ''/'') [0..<length ?s]
      = filter (\<lambda>i. ?s ! i = CHR ''/'') [0..<length svc] @ [length svc]" by simp
  show ?thesis
    unfolding LastIndex_def f by (cases "filter (\<lambda>i. ?s ! i = CHR ''/'') [0..<length svc]") simp_all
qed

text \<open>The service and the method are read off the full name of a gRPC method, also when the name of the
  service has slashes of its own.\<close>

theorem extractNames_roundtrip:
  assumes "CHR ''/'' \<notin> set m"
  shows "extractNames (''/'' @ svc @ ''/'' @ m) = (svc, m)"
  using LastIndex_last [OF assms, of svc] by (simp add: extractNames_def TrimPrefix_def HasPrefix_def)

theorem extractNames_roundtrip_witness:
  "extractNames ''/notification.v1.NotificationService/SendNotification''
     = (''notification.v1.NotificationService'', ''SendNotification'')"
  using extractNames_roundtrip [of "''SendNotification''" "''notification.v1.NotificationService''"] by simp

lemma metadata_attributes_run:
  "\<exists>new. run_state (metadata_attributes md ks) (s, obs) = (Some (), (s, obs @ new))"
proof (induction ks arbitrary: obs)
  case (Cons k ks)
  obtain new where "run_state (metadata_attributes md ks) (s, obs) = (Some (), (s, obs @ new))"
    using Cons by blast
  moreover obtain new' where "run_state (metadata_attributes md ks)
      (s, obs @ [SpanAttributes [(''rpc.metadata.'' @ k, AString (hd (md k)))]])
      = (Some (), (s, (obs @ [SpanAttributes [(''rpc.metadata.'' @ k, AString (hd (md k)))]]) @ new'))"
    using Cons by blast
  ultimately show ?case by (auto split: list.split)
qed simp

text \<open>Tracing is transparent: the handler runs with the context of the span, its answer, error or panic
  is passed on, and a span that was started is ended.\<close>

theorem TracingInterceptor_transparent:
  assumes "run_state (handler (span_ctx c) req) s = (x, s')"
  shows "\<exists>new. run_state (TracingInterceptor span_ctx keys fullMethod handler c req) (s, obs)
      = (x, (s', obs @ new @ [SpanEnded]))"
proof -
  obtain svc m where names: "extractNames fullMethod = (svc, m)" by force
  let ?start = "SpanStarted (svc @ ''/'' @ m) [(''rpc.system'', AString ''grpc''),
      (''rpc.service'', AString svc), (''rpc.method'', AString m)]"
  obtain new where md: "run_state (case ctxIncoming (span_ctx c) of Some md \<Rightarrow> metadata_attributes md keys
      | None \<Rightarrow> io_ok ()) (s, obs @ [?start]) = (Some (), (s, (obs @ [?start]) @ new))"
    using metadata_attributes_run [of _ keys s "obs @ [?start]"]
    by (cases "ctxIncoming (span_ctx c)") auto
  show ?thesis
    using assms md
    by (auto simp: TracingInterceptor_def names deferring_def Let_def span_result_def split: prod.splits option.splits)
qed

text \<open>Logging is transparent, and every request that is answered leaves one entry for the request and one
  for the response, the latter an error exactly if the handler answered one.\<close>

theorem LogInterceptor_transparent:
  assumes "run_state (handler c req) s = (x, s')"
  shows "\<exists>request response. run_state (LogInterceptor clock reqJSON respJSON fullMethod handler c req) (s, obs)
      = (x, (s', obs @ Logged True ''gRPC request'' request
          # (case x of None \<Rightarrow> [] | Some (resp, err) \<Rightarrow>
               [Logged (err = None) (if err = None then ''gRPC response'' else ''gRPC response with error'') response])))"
  using assms by (auto simp: LogInterceptor_def Let_def split: prod.splits option.splits)

text \<open>C35. The metrics interceptor crashes on every error: an answer without one is passed on, but to count an
  error it gives two labels to a vector that has one, so that the client gets a panic instead of the
  status.\<close>

theorem MetricsInterceptor_panics_on_errors:
  assumes "NewMetricsBuilder registry = Some (b, registry')"
  shows "fst (run_state (MetricsInterceptor clock b fullMethod handler c req) (s, obs))
    = (case fst (run_state (handler c req) s) of
         Some (resp, None) \<Rightarrow> Some (resp, None) | _ \<Rightarrow> None)"
proof -
  have b: "b = \<lparr>mbDuration = api_duration_vec, mbRequests = request_counter_vec, mbErrors = error_counter_vec\<rparr>"
    using assms by (simp add: NewMetricsBuilder_def split: option.splits)
  have "code_number (Some e) \<noteq> 0" for e
    by (cases "Some e" rule: code_number.cases) simp_all
  then show ?thesis
    by (auto simp: b MetricsInterceptor_def vec_Inc_def vec_Add_def vec_Observe_def api_duration_vec_def
        request_counter_vec_def error_counter_vec_def Let_def split: prod.splits option.splits)
qed

theorem MetricsInterceptor_panics_on_errors_witness:
  "\<exists>b registry. NewMetricsBuilder {} = Some (b, registry)
     \<and> fst (run_state (MetricsInterceptor (\<lambda>_. 0) b ''/s/m'' (\<lambda>_ _. io_reject InvalidArgument) demo_ctx
          (SendNotificationRequest None)) ((), [])) = (None :: unit reply option)"
proof -
  obtain b registry where b: "NewMetricsBuilder {} = Some (b, registry)"
    by (simp add: NewMetricsBuilder_def api_duration_vec_def request_counter_vec_def error_counter_vec_def)
  from MetricsInterceptor_panics_on_errors [OF b, of "\<lambda>_. 0" "''/s/m''" "\<lambda>_ _. io_reject InvalidArgument"
      demo_ctx "SendNotificationRequest None" "()" "[]"] b
  show ?thesis by (simp add: io_reject_def)
qed

end
