(* ===== verification/RedisHooks.thy ===== *)
theory RedisHooks
  imports Observability QuotaCache
begin

text \<open>
  The hooks of the Redis client: \<^verbatim>\<open>internal/pkg/redis/metrics/metrics.go\<close> and
  \<^verbatim>\<open>internal/pkg/redis/tracing/tracing.go\<close>. A hook wraps the next operation of the client, which is a
  parameter; the context that the tracer answers is left out, as the operations do not look at it.
  A command carries its error after it was processed.
\<close>

record redis_cmd =
  rcName :: string
  rcArgs :: "string option list"
  rcErr :: "gerr option"
  rcString :: string

type_synonym ('s, 'c) dial = "string \<Rightarrow> string \<Rightarrow> ('s observed, 'c option ret option) io"
type_synonym 's process = "redis_cmd \<Rightarrow> ('s observed, (redis_cmd \<times> gerr option) option) io"
type_synonym 's pipeline = "redis_cmd list \<Rightarrow> ('s observed, (redis_cmd list \<times> gerr option) option) io"

definition is_redis_error :: "gerr option \<Rightarrow> bool" where
  "is_redis_error err = (case err of Some e \<Rightarrow> \<not> errors_Is e redis_Nil | None \<Rightarrow> False)"

section \<open>Metrics\<close>

definition statusSuccess :: string where "statusSuccess = ''success''"
definition statusError :: string where "statusError = ''error''"

definition commandCounter :: metric_vec where
  "commandCounter = \<lparr>mvName = ''redis_commands_total'', mvLabels = [''command'', ''status'']\<rparr>"
definition commandDuration :: metric_vec where
  "commandDuration = \<lparr>mvName = ''redis_command_duration_seconds'', mvLabels = [''command'']\<rparr>"
definition pipelineCounter :: metric_vec where
  "pipelineCounter = \<lparr>mvName = ''redis_pipeline_commands_total'', mvLabels = [''status'']\<rparr>"
definition pipelineCommandsCounter :: metric_vec where
  "pipelineCommandsCounter = \<lparr>mvName = ''redis_pipline_commands_count_total'', mvLabels = []\<rparr>"
definition pipelineDuration :: metric_vec where
  "pipelineDuration = \<lparr>mvName = ''redis_pipeline_duration_seconds'', mvLabels = []\<rparr>"
definition connectionCounter :: metric_vec where
  "connectionCounter = \<lparr>mvName = ''redis_connections_total'', mvLabels = [''status'']\<rparr>"

definition metrics_DialHook :: "('s, 'c) dial \<Rightarrow> ('s, 'c) dial" where
  "metrics_DialHook next network addr =
     io_call (next network addr) (\<lambda>(conn, err).
     io_call (vec_Inc connectionCounter [if err \<noteq> None then statusError else statusSuccess]) (\<lambda>_.
     io_ok (conn, err)))"

definition metrics_ProcessHook :: "('s \<Rightarrow> gtime) \<Rightarrow> 's process \<Rightarrow> 's process" where
  "metrics_ProcessHook clock next cmd =
     io_call (time_Now clock) (\<lambda>startTime.
     io_call (next cmd) (\<lambda>(cmd', err).
     io_call (time_Now clock) (\<lambda>now.
     io_call (vec_Observe commandDuration [rcName cmd] (now - startTime) 1) (\<lambda>_.
     io_call (vec_Inc commandCounter [rcName cmd, if is_redis_error err then statusError else statusSuccess]) (\<lambda>_.
     io_ok (cmd', err))))))"

definition pipeline_status :: "redis_cmd list \<Rightarrow> gerr option \<Rightarrow> string" where
  "pipeline_status cmds err =
     (let status = (if list_ex (\<lambda>cmd. is_redis_error (rcErr cmd)) cmds then statusError else statusSuccess)
      in if status = statusSuccess \<and> err \<noteq> None then statusError else status)"

definition metrics_ProcessPipelineHook :: "('s \<Rightarrow> gtime) \<Rightarrow> 's pipeline \<Rightarrow> 's pipeline" where
  "metrics_ProcessPipelineHook clock next cmds =
     (if cmds = [] then next cmds
      else io_call (time_Now clock) (\<lambda>startTime.
        io_call (next cmds) (\<lambda>(cmds', err).
        io_call (time_Now clock) (\<lambda>now.
        io_call (vec_Observe pipelineDuration [] (now - startTime) 1) (\<lambda>_.
        io_call (vec_Add pipelineCommandsCounter [] (int (length cmds'))) (\<lambda>_.
        io_call (vec_Inc pipelineCounter [pipeline_status cmds' err]) (\<lambda>_.
        io_ok (cmds', err))))))))"

section \<open>Tracing\<close>

text \<open>The hook of the connection answers no error.\<close>

definition tracing_DialHook :: "('s, 'c) dial \<Rightarrow> ('s, 'c) dial" where
  "tracing_DialHook next network addr =
     io_call (observe (SpanStarted (''Redis CONNECT '' @ addr) [])) (\<lambda>_.
     io_call (observe (SpanAttributes [(''db.system'', AString ''redis''), (''db.operation'', AString ''connect''),
       (''net.transport'', AString ''tcp''), (''net.peer.name'', AString addr)])) (\<lambda>_.
     io_call (next network addr) (\<lambda>(conn, err).
     io_call (case err of
         Some e \<Rightarrow> io_call (observe (SpanStatus False)) (\<lambda>_. observe (SpanError (Some e)))
       | None \<Rightarrow> observe (SpanStatus True)) (\<lambda>_.
     io_call (observe SpanEnded) (\<lambda>_. io_ok (conn, None))))))"

definition show_arg :: "string option \<Rightarrow> string" where
  "show_arg arg = (case arg of Some a \<Rightarrow> a | None \<Rightarrow> ''<nil>'')"

definition lenResult :: nat where "lenResult = 100"

definition tracing_ProcessHook :: "'s process \<Rightarrow> 's process" where
  "tracing_ProcessHook next cmd =
     (let cmdName = rcName cmd;
          attributes = [(''db.system'', AString ''redis''), (''db.operation'', AString cmdName)]
            @ (if length (rcArgs cmd) > 0
               then [(''db.statement'', AString (strings_Join (map show_arg (rcArgs cmd)) '' ''))] else [])
      in io_call (observe (SpanStarted (''Redis PROCESS '' @ cmdName) [])) (\<lambda>_.
         io_call (observe (SpanAttributes attributes)) (\<lambda>_.
         io_call (next cmd) (\<lambda>(cmd', err).
         io_call (if is_redis_error err
                  then io_call (observe (SpanStatus False)) (\<lambda>_. observe (SpanError err))
                  else observe (SpanStatus True)) (\<lambda>_.
         io_call (if err = None
                  then let result = rcString cmd';
                           result = (if length result > lenResult
                                     then take lenResult result @ ''...(truncated)'' else result)
                    in observe (SpanAttributes [(''db.result'', AString result)])
                  else io_ok ()) (\<lambda>_.
         io_call (observe SpanEnded) (\<lambda>_. io_ok (cmd', err))))))))"

fun record_errors :: "gerr option \<Rightarrow> redis_cmd list \<Rightarrow> ('s observed, unit option) io" where
  "record_errors err [] = io_ok ()"
| "record_errors err (cmd # cmds) =
     (if is_redis_error (rcErr cmd)
      then io_call (observe (SpanError err)) (\<lambda>_. record_errors err cmds)
      else record_errors err cmds)"

text \<open>A duration is an attribute in milliseconds.\<close>

definition tracing_ProcessPipelineHook :: "('s \<Rightarrow> gtime) \<Rightarrow> 's pipeline \<Rightarrow> 's pipeline" where
  "tracing_ProcessPipelineHook clock next cmds =
     (if cmds = [] then next cmds
      else io_call (observe (SpanStarted (''Redis PIPELINE ('' @ FormatInt (int (length cmds)) @ '' commands)'') [])) (\<lambda>_.
        io_call (observe (SpanAttributes [(''db.system'', AString ''redis''),
          (''db.operation'', AString ''pipeline''), (''net.redis.num_commands'', AInt (int (length cmds))),
          (''net.redis.commands'', AString (strings_Join (map rcName cmds) '' ''))])) (\<lambda>_.
        io_call (time_Now clock) (\<lambda>startTime.
        io_call (next cmds) (\<lambda>(cmds', err).
        io_call (time_Now clock) (\<lambda>now.
        io_call (record_errors err cmds') (\<lambda>_.
        io_call (if list_ex (\<lambda>cmd. is_redis_error (rcErr cmd)) cmds' \<or> err \<noteq> None
                 then io_call (if err \<noteq> None then observe (SpanError err) else io_ok ()) (\<lambda>_.
                   observe (SpanStatus False))
                 else observe (SpanStatus True)) (\<lambda>_.
        io_call (observe (SpanAttributes [(''db.redis.pipeline_duration_ms'', AInt ((now - startTime) sdiv 10 ^ 6))])) (\<lambda>_.
        io_call (observe SpanEnded) (\<lambda>_. io_ok (cmds', err)))))))))))"

section \<open>The client\<close>

text \<open>The client of the platform: the tracing hook is added first, so it is the outer one.\<close>

definition client_dial :: "('s, 'c) dial \<Rightarrow> ('s, 'c) dial" where
  "client_dial dial = tracing_DialHook (metrics_DialHook dial)"

definition client_process :: "('s \<Rightarrow> gtime) \<Rightarrow> 's process \<Rightarrow> 's process" where
  "client_process clock process = tracing_ProcessHook (metrics_ProcessHook clock process)"

definition client_pipeline :: "('s \<Rightarrow> gtime) \<Rightarrow> 's pipeline \<Rightarrow> 's pipeline" where
  "client_pipeline clock pipeline =
     tracing_ProcessPipelineHook clock (metrics_ProcessPipelineHook clock pipeline)"

lemmas redis_vec_defs = vec_Inc_def vec_Add_def vec_Observe_def commandCounter_def commandDuration_def
  pipelineCounter_def pipelineCommandsCounter_def pipelineDuration_def connectionCounter_def

lemma record_errors_run:
  "\<exists>new. run_state (record_errors err cmds) (s, obs) = (Some (), (s, obs @ new))"
proof (induction cmds arbitrary: obs)
  case (Cons cmd cmds)
  from Cons [of obs] Cons [of "obs @ [SpanError err]"] show ?case by auto
qed simp

text \<open>C33. With both hooks a command and a pipeline answer what they answer without, and a connection never
  fails: the tracing hook drops the error of the dialer and hands out the connection that is not
  there, while the metrics count the failure.\<close>

theorem Redis_hooks:
  "transparent (process cmd) (client_process clock (\<lambda>cmd. undecorated (process cmd)) cmd)
   \<and> transparent (pipeline cmds) (client_pipeline clock (\<lambda>cmds. undecorated (pipeline cmds)) cmds)
   \<and> (\<exists>new. run_state (client_dial (\<lambda>n a. undecorated (dial n a)) network addr) (s, obs)
      = (Some (fst (fst (run_state (dial network addr) s)), None),
         (snd (run_state (dial network addr) s), obs @ new)))"
proof (intro conjI)
  show "transparent (process cmd) (client_process clock (\<lambda>cmd. undecorated (process cmd)) cmd)"
    by (rule transparentI) (auto simp: client_process_def tracing_ProcessHook_def metrics_ProcessHook_def
        redis_vec_defs Let_def)
  show "transparent (pipeline cmds) (client_pipeline clock (\<lambda>cmds. undecorated (pipeline cmds)) cmds)"
  proof (rule transparentI)
    fix s obs x s'
    assume p: "run_state (pipeline cmds) s = (x, s')"
    obtain cmds' err where x: "x = (cmds', err)" by force
    have "\<exists>new. run_state (record_errors err cmds') (s', obs) = (Some (), (s', obs @ new))" for obs
      by (rule record_errors_run)
    then obtain f where "run_state (record_errors err cmds') (s', obs) = (Some (), (s', obs @ f obs))" for obs
      by metis
    with p x show "\<exists>new. run_state (client_pipeline clock (\<lambda>cmds. undecorated (pipeline cmds)) cmds) (s, obs)
        = (Some x, (s', obs @ new))"
      by (auto simp: client_pipeline_def tracing_ProcessPipelineHook_def metrics_ProcessPipelineHook_def
          redis_vec_defs Let_def)
  qed
  show "\<exists>new. run_state (client_dial (\<lambda>n a. undecorated (dial n a)) network addr) (s, obs)
      = (Some (fst (fst (run_state (dial network addr) s)), None),
         (snd (run_state (dial network addr) s), obs @ new))"
    by (auto simp: client_dial_def tracing_DialHook_def metrics_DialHook_def redis_vec_defs
        split: prod.split option.split)
qed

text \<open>A pipeline counts as failed if a command failed otherwise than by a missing key, or the pipeline as
  a whole ended with any error, even one for a missing key.\<close>

lemma pipeline_status_error:
  "pipeline_status cmds err = statusError \<longleftrightarrow> list_ex (\<lambda>cmd. is_redis_error (rcErr cmd)) cmds \<or> err \<noteq> None"
  by (auto simp: pipeline_status_def statusError_def statusSuccess_def Let_def)

end
