(* ===== verification/GormPlugins.thy ===== *)
theory GormPlugins
  imports Observability Dao
begin

text \<open>
  The plugins of gorm: \<^verbatim>\<open>internal/pkg/database/metrics/metrics.go\<close> and
  \<^verbatim>\<open>internal/pkg/database/tracing/tracing.go\<close>. A plugin registers a call-back before and one after
  each kind of operation; the two share the settings of the statement. \<open>gorm_db\<close> holds what the
  call-backs read of a \<^verbatim>\<open>*gorm.DB\<close>. Upper case is that of ASCII.
\<close>

datatype gorm_setting = SetTime gtime | SetString string | SetSpan | SetOther

record gorm_db =
  gdSettings :: "string \<Rightarrow> gorm_setting option"
  gdSchemaTable :: "string option"
  gdTable :: string
  gdSQL :: string
  gdSlice :: bool
  gdDialector :: string
  gdError :: "gerr option"
  gdRowsAffected :: int64

definition db_Set :: "string \<Rightarrow> gorm_setting \<Rightarrow> gorm_db \<Rightarrow> gorm_db" where
  "db_Set k v db = db\<lparr>gdSettings := (gdSettings db)(k \<mapsto> v)\<rparr>"

text \<open>Where a call-back is registered: the processor, before or after what, and under which name.\<close>

record gorm_callback =
  gcProcessor :: string
  gcBefore :: bool
  gcAnchor :: string
  gcName :: string

definition before_and_after :: "string \<Rightarrow> string \<Rightarrow> gorm_callback list" where
  "before_and_after plugin op =
     [\<lparr>gcProcessor = op, gcBefore = True, gcAnchor = ''gorm:'' @ op, gcName = plugin @ '':before_'' @ op\<rparr>,
      \<lparr>gcProcessor = op, gcBefore = False, gcAnchor = ''gorm:'' @ op, gcName = plugin @ '':after_'' @ op\<rparr>]"

definition gorm_operations :: "string list" where
  "gorm_operations = [''query'', ''create'', ''update'', ''delete'', ''raw'']"

definition metrics_Initialize :: "(gorm_callback \<Rightarrow> ('s, gerr option) io) \<Rightarrow> ('s, gerr option) io" where
  "metrics_Initialize register =
     for_until register (concat (map (before_and_after ''metrics'') gorm_operations))"

definition tracing_Initialize :: "(gorm_callback \<Rightarrow> ('s, gerr option) io) \<Rightarrow> ('s, gerr option) io" where
  "tracing_Initialize register =
     for_until register (concat (map (before_and_after ''tracing'') gorm_operations))"

section \<open>Metrics\<close>

definition requestCount :: metric_vec where
  "requestCount = \<lparr>mvName = ''gorm_requests_total'', mvLabels = [''operation'', ''table'']\<rparr>"
definition responseTime_vec :: metric_vec where
  "responseTime_vec = \<lparr>mvName = ''gorm_response_time_seconds'', mvLabels = [''operation'', ''table'', ''status'']\<rparr>"
definition errorCount :: metric_vec where
  "errorCount = \<lparr>mvName = ''gorm_errors_total'', mvLabels = [''operation'', ''table'', ''error_type'']\<rparr>"
definition rowsAffected_vec :: metric_vec where
  "rowsAffected_vec = \<lparr>mvName = ''gorm_rows_affected'', mvLabels = [''operation'', ''table'']\<rparr>"

definition getTableAndOperation :: "gorm_db \<Rightarrow> string \<times> string" where
  "getTableAndOperation db =
     (let unknownStr = ''unknown'';
          tableName = (case gdSchemaTable db of
              Some t \<Rightarrow> t
            | None \<Rightarrow> if gdTable db \<noteq> '''' then gdTable db else unknownStr);
          sql = gdSQL db;
          operation = (if sql = '''' then unknownStr
            else if length sql \<ge> 6 \<and> take 6 sql = ''SELECT'' then ''select''
            else if length sql \<ge> 6 \<and> take 6 sql = ''UPDATE'' then ''update''
            else if length sql \<ge> 6 \<and> take 6 sql = ''DELETE'' then ''delete''
            else if length sql \<ge> 6 \<and> take 6 sql = ''INSERT'' then ''insert''
            else unknownStr)
      in (tableName, operation))"

definition startTimer ::
  "('s \<Rightarrow> gtime) \<Rightarrow> string \<Rightarrow> gorm_db \<Rightarrow> ('s observed, gorm_db option) io" where
  "startTimer clock operation0 db =
     (let (table, op) = getTableAndOperation db;
          operation = (if op \<noteq> ''unknown'' then op else operation0)
      in io_call (vec_Inc requestCount [operation, table]) (\<lambda>_.
         io_call (time_Now clock) (\<lambda>startTime.
         io_ok (db_Set ''metrics:table'' (SetString table) (db_Set ''metrics:operation'' (SetString operation)
           (db_Set ''metrics:start_time'' (SetTime startTime) db))))))"

definition stopTimer :: "('s \<Rightarrow> gtime) \<Rightarrow> gorm_db \<Rightarrow> ('s observed, gorm_db option) io" where
  "stopTimer clock db =
     (case gdSettings db ''metrics:start_time'' of
        Some (SetTime startTime) \<Rightarrow>
          io_call (time_Now clock) (\<lambda>now.
          case (gdSettings db ''metrics:operation'', gdSettings db ''metrics:table'') of
            (Some (SetString operation), Some (SetString table)) \<Rightarrow>
              io_call (case gdError db of
                  Some e \<Rightarrow> vec_Inc errorCount [operation, table,
                    if errors_Is e ErrRecordNotFound then ''record_not_found'' else ''unknown_error'']
                | None \<Rightarrow> io_ok ()) (\<lambda>_.
              io_call (vec_Observe responseTime_vec
                [operation, table, if gdError db \<noteq> None then ''error'' else ''success''] (now - startTime) 1) (\<lambda>_.
              io_call (if gdRowsAffected db > 0
                       then vec_Sample rowsAffected_vec [operation, table] (gdRowsAffected db) else io_ok ()) (\<lambda>_.
              io_ok db)))
          | _ \<Rightarrow> io_panic)
      | _ \<Rightarrow> io_ok db)"

definition metrics_before :: "('s \<Rightarrow> gtime) \<Rightarrow> string \<Rightarrow> gorm_db \<Rightarrow> ('s observed, gorm_db option) io" where
  "metrics_before clock op =
     startTimer clock (if op = ''query'' then ''select'' else if op = ''create'' then ''insert'' else op)"

definition metrics_after :: "('s \<Rightarrow> gtime) \<Rightarrow> string \<Rightarrow> gorm_db \<Rightarrow> ('s observed, gorm_db option) io" where
  "metrics_after clock op = stopTimer clock"

section \<open>Tracing\<close>

definition ToUpper :: "string \<Rightarrow> string" where
  "ToUpper s = map (\<lambda>c. let n = of_char c :: nat in if 97 \<le> n \<and> n \<le> 122 then char_of (n - 32) else c) s"

definition span_operation :: "gorm_db \<Rightarrow> string" where
  "span_operation db =
     (let sql = gdSQL db; upper = ToUpper sql in
      if gdSlice db \<and> sql \<noteq> '''' \<and> HasPrefix upper ''SELECT'' then ''SELECT''
      else if gdSlice db \<and> sql \<noteq> '''' \<and> HasPrefix upper ''INSERT'' then ''INSERT''
      else if sql \<noteq> '''' \<and> HasPrefix upper ''UPDATE'' then ''UPDATE''
      else if sql \<noteq> '''' \<and> HasPrefix upper ''DELETE'' then ''DELETE''
      else ''UNKNOWN'')"

definition setSpanAttributes :: "gorm_db \<Rightarrow> ('s observed, unit option) io" where
  "setSpanAttributes db =
     observe (SpanAttributes
       ([(''db.system'', AString ''mysql''), (''db.name'', AString (gdDialector db))]
        @ (case gdSchemaTable db of
             Some t \<Rightarrow> [(''db.table'', AString t)]
           | None \<Rightarrow> if gdTable db \<noteq> '''' then [(''db.table'', AString (gdTable db))] else [])
        @ [(''db.operation'', AString (span_operation db))]
        @ (if gdSQL db \<noteq> '''' then [(''db.statement'', AString (gdSQL db))] else [])
        @ (if gdRowsAffected db > 0 then [(''db.rows_affected'', AInt (gdRowsAffected db))] else [])))"

definition gorm_span_name :: "string \<Rightarrow> gorm_db \<Rightarrow> string" where
  "gorm_span_name op db =
     (if op = ''query'' then gdTable db @ '' SELECT''
      else if op = ''create'' then gdTable db @ '' INSERT''
      else if op = ''update'' then gdTable db @ '' UPDATE''
      else if op = ''delete'' then gdTable db @ '' DELETE''
      else if gdTable db \<noteq> '''' then gdTable db @ '' RAW'' else ''SQL RAW'')"

definition tracing_before :: "string \<Rightarrow> gorm_db \<Rightarrow> ('s observed, gorm_db option) io" where
  "tracing_before op db =
     io_call (observe (SpanStarted (gorm_span_name op db) [])) (\<lambda>_. io_ok (db_Set ''tracing:span'' SetSpan db))"

text \<open>Only a query takes a missing record for a success.\<close>

definition tracing_after :: "string \<Rightarrow> gorm_db \<Rightarrow> ('s observed, gorm_db option) io" where
  "tracing_after op db =
     (case gdSettings db ''tracing:span'' of
        Some SetSpan \<Rightarrow>
          io_call (setSpanAttributes db) (\<lambda>_.
          io_call (observe (SpanStatus (case gdError db of
              None \<Rightarrow> True
            | Some e \<Rightarrow> op = ''query'' \<and> errors_Is e ErrRecordNotFound))) (\<lambda>_.
          io_call (observe SpanEnded) (\<lambda>_. io_ok db)))
      | _ \<Rightarrow> io_ok db)"

section \<open>Properties\<close>

text \<open>An operation with both plugins (tracing was added first): the call-backs, the statement, which may
  do anything to the database and to all of the statement but its settings, and the call-backs.\<close>

definition gorm_operation ::
  "('s \<Rightarrow> gtime) \<Rightarrow> string \<Rightarrow> (gorm_db \<Rightarrow> ('s, gorm_db) io) \<Rightarrow> gorm_db \<Rightarrow> ('s observed, gorm_db option) io" where
  "gorm_operation clock op body db =
     io_call (tracing_before op db) (\<lambda>db.
     io_call (metrics_before clock op db) (\<lambda>db.
     io_call (undecorated (body db)) (\<lambda>db.
     io_call (tracing_after op db) (metrics_after clock op))))"

definition keeps_settings :: "(gorm_db \<Rightarrow> ('s, gorm_db) io) \<Rightarrow> bool" where
  "keeps_settings body \<longleftrightarrow> (\<forall>db s. gdSettings (fst (run_state (body db) s)) = gdSettings db)"

lemma tracing_after_run:
  assumes "gdSettings db ''tracing:span'' = Some SetSpan"
  shows "\<exists>a. run_state (tracing_after op db) (s, obs)
      = (Some db, (s, obs @ [SpanAttributes a, SpanStatus (case gdError db of None \<Rightarrow> True
          | Some e \<Rightarrow> op = ''query'' \<and> errors_Is e ErrRecordNotFound), SpanEnded]))"
  using assms by (simp add: tracing_after_def setSpanAttributes_def)

lemma stopTimer_run:
  assumes "gdSettings db ''metrics:start_time'' = Some (SetTime t)"
    "gdSettings db ''metrics:operation'' = Some (SetString label)"
    "gdSettings db ''metrics:table'' = Some (SetString table)"
  shows "run_state (stopTimer clock db) (s, obs) = (Some db, (s, obs
    @ (case gdError db of
         Some e \<Rightarrow> [Counted ''gorm_errors_total'' [label, table,
           if errors_Is e ErrRecordNotFound then ''record_not_found'' else ''unknown_error''] 1]
       | None \<Rightarrow> [])
    @ [Observed ''gorm_response_time_seconds'' [label, table, if gdError db \<noteq> None then ''error'' else ''success'']
        (clock s - t) 1]
    @ (if gdRowsAffected db > 0 then [Sampled ''gorm_rows_affected'' [label, table] (gdRowsAffected db)] else [])))"
  using assms by (auto simp: stopTimer_def vec_Inc_def vec_Add_def vec_Observe_def vec_Sample_def errorCount_def
      responseTime_vec_def rowsAffected_vec_def split: option.split)

text \<open>What one operation leaves behind: the span and the request, the end of the span, and the numbers.\<close>

definition operation_record ::
  "('s \<Rightarrow> gtime) \<Rightarrow> string \<Rightarrow> gorm_db \<Rightarrow> 's \<Rightarrow> gorm_db \<Rightarrow> 's \<Rightarrow> observation list \<Rightarrow> bool" where
  "operation_record clock op db s db' s' new \<longleftrightarrow>
     (let label = (if op = ''query'' then ''select'' else if op = ''create'' then ''insert'' else op);
          table = fst (getTableAndOperation db)
      in \<exists>attrs. new =
        [SpanStarted (gorm_span_name op db) [], Counted ''gorm_requests_total'' [label, table] 1,
         SpanAttributes attrs,
         SpanStatus (case gdError db' of None \<Rightarrow> True | Some e \<Rightarrow> op = ''query'' \<and> errors_Is e ErrRecordNotFound),
         SpanEnded]
        @ (case gdError db' of
             Some e \<Rightarrow> [Counted ''gorm_errors_total'' [label, table,
               if errors_Is e ErrRecordNotFound then ''record_not_found'' else ''unknown_error''] 1]
           | None \<Rightarrow> [])
        @ [Observed ''gorm_response_time_seconds''
            [label, table, if gdError db' \<noteq> None then ''error'' else ''success''] (clock s' - clock s) 1]
        @ (if gdRowsAffected db' > 0
           then [Sampled ''gorm_rows_affected'' [label, table] (gdRowsAffected db')] else []))"


definition demo_statement :: gorm_db where
  "demo_statement = \<lparr>gdSettings = \<lambda>_. None, gdSchemaTable = Some ''notifications'', gdTable = '''', gdSQL = '''',
     gdSlice = False, gdDialector = ''mysql'', gdError = None, gdRowsAffected = 0\<rparr>"

definition demo_update :: "gorm_db \<Rightarrow> (gtime, gorm_db) io" where
  "demo_update db = State (\<lambda>t. (db\<lparr>gdSQL := ''UPDATE notifications'', gdRowsAffected := 2\<rparr>, t + 5))"


text \<open>A query for a single row, and an insert of one, have no operation in the trace.\<close>

lemma single_row_unknown:
  "\<not> gdSlice db \<Longrightarrow> HasPrefix (gdSQL db) ''SELECT'' \<or> HasPrefix (gdSQL db) ''INSERT'' \<Longrightarrow>
   span_operation db = ''UNKNOWN''"
  by (auto simp: span_operation_def HasPrefix_def ToUpper_def Let_def take_map)

end
