(* ===== verification/Web.thy ===== *)
theory Web
  imports TemplateFacts
begin

text \<open>
  The management of templates over HTTP: \<^verbatim>\<open>internal/web/template/handler.go\<close> with its view objects
  (\<^verbatim>\<open>vo.go\<close>, \<^verbatim>\<open>result.go\<close>) and the wrappers of \<^verbatim>\<open>internal/pkg/ginx\<close>. gin is a parameter: it binds
  the request, answering 400 itself when it cannot, and writes the response. The routes of
  \<^verbatim>\<open>PublicRoutes\<close> are the constructors of \<open>http_request\<close>. A result \<open>None\<close> is a panic.
\<close>

section \<open>View objects\<close>

record ProviderVO =
  poID :: int64
  poTemplateID :: int64
  poTemplateVersionID :: int64
  poProviderID :: int64
  poProviderName :: string
  poProviderChannel :: string
  poRequestID :: string
  poProviderTemplateID :: string
  poAuditStatus :: string
  poRejectReason :: string
  poLastReviewSubmissionTime :: int64
  poCtime :: int64
  poUtime :: int64

record VersionVO =
  voID :: int64
  voChannelTemplateID :: int64
  voName :: string
  voSignature :: string
  voContent :: string
  voRemark :: string
  voAuditID :: int64
  voAuditorID :: int64
  voAuditTime :: int64
  voAuditStatus :: string
  voRejectReason :: string
  voLastReviewSubmissionTime :: int64
  voCtime :: int64
  voUtime :: int64
  voProviders :: "ProviderVO list"

record TemplateVO =
  toID :: int64
  toOwnerID :: int64
  toOwnerType :: string
  toName :: string
  toDescription :: string
  toChannel :: string
  toBusinessType :: int64
  toActiveVersionID :: int64
  toCtime :: int64
  toUtime :: int64
  toVersions :: "VersionVO list"

definition toProviderVO :: "ChannelTemplateProvider \<Rightarrow> ProviderVO" where
  "toProviderVO src =
     \<lparr>poID = cpID src, poTemplateID = cpTemplateID src, poTemplateVersionID = cpTemplateVersionID src,
      poProviderID = cpProviderID src, poProviderName = cpProviderName src,
      poProviderChannel = cpProviderChannel src, poRequestID = cpRequestID src,
      poProviderTemplateID = cpProviderTemplateID src, poAuditStatus = cpAuditStatus src,
      poRejectReason = cpRejectReason src, poLastReviewSubmissionTime = cpLastReviewSubmissionTime src,
      poCtime = cpCtime src, poUtime = cpUtime src\<rparr>"

definition toVersionVO :: "ChannelTemplateVersion \<Rightarrow> VersionVO" where
  "toVersionVO src =
     \<lparr>voID = cvId src, voChannelTemplateID = cvChannelTemplateID src, voName = cvName src,
      voSignature = cvSignature src, voContent = cvContent src, voRemark = cvRemark src,
      voAuditID = cvAuditId src, voAuditorID = cvAuditorId src, voAuditTime = cvAuditTime src,
      voAuditStatus = cvAuditStatus src, voRejectReason = cvRejectReason src,
      voLastReviewSubmissionTime = cvLastReviewSubmissionTime src, voCtime = cvCtime src,
      voUtime = cvUtime src, voProviders = map toProviderVO (cvProviders src)\<rparr>"

definition toTemplateVO :: "ChannelTemplate \<Rightarrow> TemplateVO" where
  "toTemplateVO src =
     \<lparr>toID = ctID src, toOwnerID = ctOwnerID src, toOwnerType = ctOwnerType src, toName = ctName src,
      toDescription = ctDescription src, toChannel = ctChannel src, toBusinessType = ctBusinessType src,
      toActiveVersionID = ctActiveVersionID src, toCtime = ctCtime src, toUtime = ctUtime src,
      toVersions = map toVersionVO (ctVersions src)\<rparr>"

section \<open>Results and responses\<close>

datatype web_data =
    NoData
  | ListTemplatesResp "TemplateVO list"
  | CreateTemplateResp TemplateVO
  | ForkVersionResp VersionVO

record web_result =
  wrCode :: int
  wrMsg :: string
  wrData :: web_data

definition SYSTEMERRORCODE :: int where "SYSTEMERRORCODE = 506001"

definition systemErrorResult :: web_result where
  "systemErrorResult =
     \<lparr>wrCode = SYSTEMERRORCODE,
      wrMsg = utf8 [231, 179, 187, 231, 187, 159, 233, 148, 153, 232, 175, 175], wrData = NoData\<rparr>"

definition ok_result :: "web_data \<Rightarrow> web_result" where
  "ok_result d = \<lparr>wrCode = 0, wrMsg = '''', wrData = d\<rparr>"

definition ok_message :: web_result where
  "ok_message = \<lparr>wrCode = 0, wrMsg = ''OK'', wrData = NoData\<rparr>"

definition ErrUnauthorized :: gerr where "ErrUnauthorized = Ext ''unauthorized''"
definition ErrNoResponse :: gerr where "ErrNoResponse = Ext ''no response''"

datatype http_response = NoResponse | WithStatus int | PureJSON int web_result

definition ginx_respond :: "web_result \<Rightarrow> gerr option \<Rightarrow> http_response" where
  "ginx_respond res err =
     (case err of
        Some e \<Rightarrow>
          if errors_Is e ErrNoResponse then NoResponse
          else if errors_Is e ErrUnauthorized then WithStatus 401
          else PureJSON 500 res
      | None \<Rightarrow> PureJSON 200 res)"

definition ginx_W :: "('s, (web_result \<times> gerr option) option) io \<Rightarrow> ('s, http_response option) io" where
  "ginx_W fn = io_call fn (\<lambda>(res, err). io_ok (ginx_respond res err))"

definition ginx_B ::
  "('q \<Rightarrow> ('s, (web_result \<times> gerr option) option) io) \<Rightarrow> 'q ret \<Rightarrow> ('s, http_response option) io" where
  "ginx_B fn bound =
     (case bound of
        (_, Some e) \<Rightarrow> io_ok (WithStatus 400)
      | (req, None) \<Rightarrow> io_call (fn req) (\<lambda>(res, err). io_ok (ginx_respond res err)))"

section \<open>Handlers\<close>

record WebCreateTemplateReq =
  crOwnerID :: int64
  crOwnerType :: string
  crName :: string
  crDescription :: string
  crChannel :: string
  crBusinessType :: int64

record UpdateTemplateReq =
  urTemplateID :: int64
  urName :: string
  urDescription :: string
  urBusinessType :: int64

record UpdateVersionReq =
  uvVersionID :: int64
  uvName :: string
  uvSignature :: string
  uvContent :: string
  uvRemark :: string

type_synonym 's web_handler = "('s, (web_result \<times> gerr option) option) io"

definition web_ListTemplates :: "'s ChannelTemplateService \<Rightarrow> int64 \<times> string \<Rightarrow> 's web_handler" where
  "web_ListTemplates svc req = do {
     (templates, err) \<leftarrow> ctsGetTemplatesByOwner svc (fst req) (snd req);
     case err of
       Some e \<Rightarrow> io_ok (systemErrorResult, Some e)
     | None \<Rightarrow> io_ok (ok_result (ListTemplatesResp (map toTemplateVO templates)), None)
   }"

definition created_template :: "WebCreateTemplateReq \<Rightarrow> ChannelTemplate" where
  "created_template req =
     zero_ChannelTemplate\<lparr>ctOwnerID := crOwnerID req, ctOwnerType := crOwnerType req, ctName := crName req,
       ctDescription := crDescription req, ctChannel := crChannel req, ctBusinessType := crBusinessType req\<rparr>"

definition web_CreateTemplate :: "'s ChannelTemplateService \<Rightarrow> WebCreateTemplateReq \<Rightarrow> 's web_handler" where
  "web_CreateTemplate svc req = do {
     (created, err) \<leftarrow> ctsCreateTemplate svc (created_template req);
     case err of
       Some e \<Rightarrow> io_ok (systemErrorResult, Some e)
     | None \<Rightarrow> io_ok (ok_result (CreateTemplateResp (toTemplateVO created)), None)
   }"

definition web_UpdateTemplate :: "'s ChannelTemplateService \<Rightarrow> UpdateTemplateReq \<Rightarrow> 's web_handler" where
  "web_UpdateTemplate svc req = do {
     err \<leftarrow> ctsUpdateTemplate svc (zero_ChannelTemplate\<lparr>ctID := urTemplateID req, ctName := urName req,
       ctDescription := urDescription req, ctBusinessType := urBusinessType req\<rparr>);
     case err of Some e \<Rightarrow> io_ok (systemErrorResult, Some e) | None \<Rightarrow> io_ok (ok_message, None)
   }"

definition web_PublishTemplate :: "'s ChannelTemplateService \<Rightarrow> int64 \<times> int64 \<Rightarrow> 's web_handler" where
  "web_PublishTemplate svc req = do {
     err \<leftarrow> ctsPublishTemplate svc (fst req) (snd req);
     case err of Some e \<Rightarrow> io_ok (systemErrorResult, Some e) | None \<Rightarrow> io_ok (ok_message, None)
   }"

definition web_ForkVersion :: "'s ChannelTemplateService \<Rightarrow> int64 \<Rightarrow> 's web_handler" where
  "web_ForkVersion svc versionID = do {
     (version, err) \<leftarrow> ctsForkVersion svc versionID;
     case err of
       Some e \<Rightarrow> io_ok (systemErrorResult, Some e)
     | None \<Rightarrow> io_ok (ok_result (ForkVersionResp (toVersionVO version)), err)
   }"

text \<open>A version that does not exist is no error.\<close>

definition web_UpdateVersion :: "'s ChannelTemplateService \<Rightarrow> UpdateVersionReq \<Rightarrow> 's web_handler" where
  "web_UpdateVersion svc req = do {
     err \<leftarrow> ctsUpdateVersion svc (zero_ChannelTemplateVersion\<lparr>cvId := uvVersionID req, cvName := uvName req,
       cvSignature := uvSignature req, cvContent := uvContent req, cvRemark := uvRemark req\<rparr>);
     case err of
       Some e \<Rightarrow> if \<not> is_err e ErrTemplateVersionNotFound then io_ok (systemErrorResult, Some e)
                 else io_ok (ok_message, None)
     | None \<Rightarrow> io_ok (ok_message, None)
   }"

definition web_SubmitForInternalReview :: "'s ChannelTemplateService \<Rightarrow> int64 \<Rightarrow> 's web_handler" where
  "web_SubmitForInternalReview svc versionID =
     io_call (ctsSubmitForInternalReview svc versionID) (\<lambda>err.
       case err of Some e \<Rightarrow> io_ok (systemErrorResult, Some e) | None \<Rightarrow> io_ok (ok_message, None))"

section \<open>Routes\<close>

text \<open>A request is what gin made of its body.\<close>

datatype http_request =
    TemplatesList "(int64 \<times> string) ret"
  | TemplatesCreate "WebCreateTemplateReq ret"
  | TemplatesUpdate "UpdateTemplateReq ret"
  | TemplatesPublish "(int64 \<times> int64) ret"
  | VersionsFork "int64 ret"
  | VersionsUpdate "UpdateVersionReq ret"
  | VersionsReviewInternal "int64 ret"

fun PublicRoutes :: "'s ChannelTemplateService \<Rightarrow> http_request \<Rightarrow> ('s, http_response option) io" where
  "PublicRoutes svc (TemplatesList q) = ginx_B (web_ListTemplates svc) q"
| "PublicRoutes svc (TemplatesCreate q) = ginx_B (web_CreateTemplate svc) q"
| "PublicRoutes svc (TemplatesUpdate q) = ginx_B (web_UpdateTemplate svc) q"
| "PublicRoutes svc (TemplatesPublish q) = ginx_B (web_PublishTemplate svc) q"
| "PublicRoutes svc (VersionsFork q) = ginx_B (web_ForkVersion svc) q"
| "PublicRoutes svc (VersionsUpdate q) = ginx_B (web_UpdateVersion svc) q"
| "PublicRoutes svc (VersionsReviewInternal q) = ginx_B (web_SubmitForInternalReview svc) q"

section \<open>Properties\<close>

text \<open>What a view object was made from.\<close>

definition fromProviderVO :: "ProviderVO \<Rightarrow> ChannelTemplateProvider" where
  "fromProviderVO p =
     \<lparr>cpID = poID p, cpTemplateID = poTemplateID p, cpTemplateVersionID = poTemplateVersionID p,
      cpProviderID = poProviderID p, cpProviderName = poProviderName p,
      cpProviderChannel = poProviderChannel p, cpRequestID = poRequestID p,
      cpProviderTemplateID = poProviderTemplateID p, cpAuditStatus = poAuditStatus p,
      cpRejectReason = poRejectReason p, cpLastReviewSubmissionTime = poLastReviewSubmissionTime p,
      cpCtime = poCtime p, cpUtime = poUtime p\<rparr>"

definition fromVersionVO :: "VersionVO \<Rightarrow> ChannelTemplateVersion" where
  "fromVersionVO v =
     \<lparr>cvId = voID v, cvChannelTemplateID = voChannelTemplateID v, cvName = voName v,
      cvSignature = voSignature v, cvContent = voContent v, cvRemark = voRemark v,
      cvAuditId = voAuditID v, cvAuditorId = voAuditorID v, cvAuditTime = voAuditTime v,
      cvAuditStatus = voAuditStatus v, cvRejectReason = voRejectReason v,
      cvLastReviewSubmissionTime = voLastReviewSubmissionTime v, cvCtime = voCtime v,
      cvUtime = voUtime v, cvProviders = map fromProviderVO (voProviders v)\<rparr>"

definition fromTemplateVO :: "TemplateVO \<Rightarrow> ChannelTemplate" where
  "fromTemplateVO t =
     \<lparr>ctID = toID t, ctOwnerID = toOwnerID t, ctOwnerType = toOwnerType t, ctName = toName t,
      ctDescription = toDescription t, ctChannel = toChannel t, ctBusinessType = toBusinessType t,
      ctActiveVersionID = toActiveVersionID t, ctCtime = toCtime t, ctUtime = toUtime t,
      ctVersions = map fromVersionVO (toVersions t)\<rparr>"

text \<open>The view of a template shows all of it: template, versions and providers can be recovered from the
  view object, so no field is dropped, swapped or cut.\<close>

theorem TemplateVO_roundtrip:
  "fromTemplateVO (toTemplateVO t) = t"
proof -
  have p: "map (fromProviderVO \<circ> toProviderVO) ps = ps" for ps
    by (induction ps) (simp_all add: fromProviderVO_def toProviderVO_def)
  have "map (fromVersionVO \<circ> toVersionVO) vs = vs" for vs
    by (induction vs) (simp_all add: fromVersionVO_def toVersionVO_def p)
  then show ?thesis by (simp add: fromTemplateVO_def toTemplateVO_def)
qed

definition web_ops :: "'s ChannelTemplateService \<Rightarrow> ('s, unit) io set" where
  "web_ops svc = range (\<lambda>q. run_only (PublicRoutes svc q))"

lemma ginx_B_keeps:
  "(\<And>req. keeps I (fn req)) \<Longrightarrow> keeps I (ginx_B fn q)"
  unfolding ginx_B_def io_ok_def by (intro keeps_intros)

lemma web_ops_keep:
  assumes law: "template_db_law g rows" and "tplRepo t = template_repo g" and "foreign_to rows t"
    and "m \<in> web_ops (NewTemplateService t)"
  shows "keeps (\<lambda>s. unpublished (rows s)) m"
proof -
  let ?svc = "NewTemplateService t" and ?I = "\<lambda>s. unpublished (rows s)"
  note keep = template_ops_keep [OF assms(1-3), THEN keeps_run_only_iff [THEN iffD1]]
  have ops: "keeps ?I (ctsGetTemplatesByOwner ?svc i ty)" "keeps ?I (ctsCreateTemplate ?svc tm)"
    "keeps ?I (ctsUpdateTemplate ?svc tm)" "keeps ?I (ctsPublishTemplate ?svc i v)"
    "keeps ?I (ctsForkVersion ?svc v)" "keeps ?I (ctsUpdateVersion ?svc ve)"
    "keeps ?I (ctsSubmitForInternalReview ?svc v)" for i ty tm v ve
    using keep [OF template_ops.intros(1)] keep [OF template_ops.intros(4)] keep [OF template_ops.intros(5)]
      keep [OF template_ops.intros(6)] keep [OF template_ops.intros(7)] keep [OF template_ops.intros(8)]
      keep [OF template_ops.intros(9)] by (simp_all add: NewTemplateService_def)
  obtain q where m: "m = run_only (PublicRoutes ?svc q)" using assms(4) by (auto simp: web_ops_def)
  have "keeps ?I (PublicRoutes ?svc q)"
    by (cases q; simp only: PublicRoutes.simps; rule ginx_B_keeps;
        unfold web_ListTemplates_def web_CreateTemplate_def web_UpdateTemplate_def web_PublishTemplate_def
          web_ForkVersion_def web_UpdateVersion_def web_SubmitForInternalReview_def io_ok_def;
        intro keeps_intros ops)
  then show ?thesis by (simp add: m keeps_run_only)
qed

text \<open>C37. Nothing can be published over HTTP: whatever requests were served before, in whatever order and
  however the SMS providers and the audit answered, a request to publish is never answered with
  success.\<close>

theorem Web_never_publishes:
  assumes "template_db_law g rows" "tplRepo t = template_repo g" "foreign_to rows t"
    and "reaches (web_ops (NewTemplateService t)) s s'" "unpublished (rows s)"
  shows "unpublished (rows s') \<and> (\<forall>res.
    fst (run_state (PublicRoutes (NewTemplateService t) (TemplatesPublish q)) s') \<noteq> Some (PureJSON 200 res))"
proof
  show "unpublished (rows s')"
    by (rule reaches_keeps [OF assms(4), where I = "\<lambda>s. unpublished (rows s)"])
      (use assms in \<open>auto intro: web_ops_keep\<close>)
  obtain req bound where q: "q = (req, bound)" by (cases q)
  obtain e s1 where p: "run_state (ts_PublishTemplate t (fst req) (snd req)) s' = (e, s1)" by (metis prod.collapse)
  with publish_fails [OF assms(1,2), of "fst req" "snd req" s'] obtain err where "e = Some err" by auto
  with p show "\<forall>res. fst (run_state (PublicRoutes (NewTemplateService t) (TemplatesPublish q)) s') \<noteq> Some (PureJSON 200 res)"
    by (auto simp: q ginx_B_def web_PublishTemplate_def NewTemplateService_def ginx_respond_def split: option.split)
qed

theorem Web_never_publishes_witness:
  "let svc = NewTemplateService demo_templateService; s = \<lparr>ttT = [], ttV = [], ttP = []\<rparr>
   in fst (run_state (PublicRoutes svc (TemplatesPublish ((1, 1), None))) s) \<noteq> Some (PureJSON 200 ok_message)"
proof -
  let ?s = "\<lparr>ttT = [], ttV = [], ttP = []\<rparr> :: template_tables"
  have "foreign_to ttT demo_templateService"
    by (simp add: foreign_to_def leaves_def demo_templateService_def)
  moreover have "tplRepo demo_templateService = template_repo mem_templates" "unpublished (ttT ?s)"
    by (simp_all add: demo_templateService_def unpublished_def)
  ultimately show ?thesis
    using Web_never_publishes [OF mem_templates_law _ _ reaches.start, of demo_templateService ?s "((1, 1), None)"]
    by (simp add: Let_def)
qed

text \<open>An update of a version that does not exist is answered with success.\<close>

lemma update_unknown_version:
  assumes "run_state (ctsUpdateVersion svc v) s = (Some e, s')" "is_err e ErrTemplateVersionNotFound"
    and "v = zero_ChannelTemplateVersion\<lparr>cvId := uvVersionID req, cvName := uvName req,
       cvSignature := uvSignature req, cvContent := uvContent req, cvRemark := uvRemark req\<rparr>"
  shows "run_state (PublicRoutes svc (VersionsUpdate (req, None))) s = (Some (PureJSON 200 ok_message), s')"
  using assms by (simp add: ginx_B_def web_UpdateVersion_def ginx_respond_def)

end
