(* ===== verification/Wiring.thy ===== *)
theory Wiring
  imports Server Scheduler
begin

text \<open>
  How the parts are put together (\<^verbatim>\<open>internal/ioc\<close>, \<^verbatim>\<open>config/config.yaml\<close>, \<^verbatim>\<open>internal/pkg/grpcx\<close>,
  \<^verbatim>\<open>internal/pkg/grpc\<close>): the settings as viper reads them, the gRPC server with its chain of
  interceptors, its registration in etcd, the sharding scheduler with the watch on its limit, the
  background tasks and the cache of gRPC clients. A configuration is a partial function from the
  dotted path of a setting to its value; a setting that is absent leaves the field of the Go
  struct at its zero value. gRPC and etcd are parameters.
\<close>

section \<open>Settings\<close>

datatype setting = CInt int | CFloat f64 | CString string | CStrings "string list"

type_synonym settings = "string \<Rightarrow> setting option"

definition setting_int :: "settings \<Rightarrow> string \<Rightarrow> int" where
  "setting_int v k = (case v k of Some (CInt n) \<Rightarrow> n | _ \<Rightarrow> 0)"

definition setting_float :: "settings \<Rightarrow> string \<Rightarrow> f64" where
  "setting_float v k = (case v k of Some (CFloat x) \<Rightarrow> x | _ \<Rightarrow> 0)"

definition setting_string :: "settings \<Rightarrow> string \<Rightarrow> string" where
  "setting_string v k = (case v k of Some (CString x) \<Rightarrow> x | _ \<Rightarrow> '''')"

definition setting_strings :: "settings \<Rightarrow> string \<Rightarrow> string list" where
  "setting_strings v k = (case v k of Some (CStrings xs) \<Rightarrow> xs | _ \<Rightarrow> [])"

text \<open>The file of the repository, as far as the modelled code reads settings of these sections. Its
  section for the server is called \<^verbatim>\<open>gprc\<close>.\<close>

definition config_yaml :: settings where
  "config_yaml = map_of
     [(''mysql.dsn'', CString ''root:root@tcp(localhost:13316)/notification?charset=utf8mb4&collation=utf8mb4_general_ci&parseTime=True&loc=Local&timeout=1s&readTimeout=3s&writeTimeout=3s&multiStatements=true&interpolateParams=true''),
      (''redis.addr'', CString ''127.0.0.1:6379''),
      (''etcd.addrs'', CStrings [''127.0.0.1:2379'']),
      (''gprc.server.port'', CInt 8080),
      (''gprc.server.etcdAddrs'', CStrings [''127.0.0.1:2379'']),
      (''provider.key'', CString ''test_key''),
      (''cache.defaultExpiration'', CInt 60000000000),
      (''cache.cleanupInterval'', CInt 60000000000),
      (''sharding_scheduler.maxLockedTablesKey'', CString ''maxLockedTablesKey''),
      (''sharding_scheduler.maxLockedTables'', CInt 10),
      (''sharding_scheduler.minLoopDuration'', CInt 1000000000),
      (''sharding_scheduler.batchSize'', CInt 100),
      (''sharding_scheduler.batchSizeAdjuster.initBatchSize'', CInt 100),
      (''sharding_scheduler.batchSizeAdjuster.minBatchSize'', CInt 50),
      (''sharding_scheduler.batchSizeAdjuster.maxBatchSize'', CInt 200),
      (''sharding_scheduler.batchSizeAdjuster.adjustStep'', CInt 5),
      (''sharding_scheduler.batchSizeAdjuster.cooldownPeriod'', CInt 5000000000),
      (''sharding_scheduler.batchSizeAdjuster.bufferSize'', CInt 128),
      (''sharding_scheduler.errorEvents.bitRingSize'', CInt 128),
      (''sharding_scheduler.errorEvents.rateThreshold'', CFloat (f64_round (4 / 5))),
      (''sharding_scheduler.errorEvents.consecutiveCount'', CInt 3)]"

text \<open>The default of the data source name stands in the code.\<close>

definition db_dsn :: "settings \<Rightarrow> string" where
  "db_dsn v =
     (case v ''db.mysql.dsn'' of
        Some (CString x) \<Rightarrow> x
      | _ \<Rightarrow> ''root:root@tcp(localhost:3306)/webook_follow?charset=utf8mb4&parseTime=True&loc=Local'')"

definition redis_addr :: "settings \<Rightarrow> string" where
  "redis_addr v = setting_string v ''redis.addr''"

definition etcd_addr :: "settings \<Rightarrow> string" where
  "etcd_addr v = setting_string v ''etcd.addr''"

definition InitProviderEncryptKey :: "settings \<Rightarrow> string" where
  "InitProviderEncryptKey v = setting_string v ''provider.key''"

definition InitGoCache :: "settings \<Rightarrow> duration \<times> duration" where
  "InitGoCache v =
     (setting_int v ''cache.local.defaultExpiration'', setting_int v ''cache.local.cleanupInterval'')"

section \<open>The gRPC server\<close>

record 'l grpcx_Server =
  gxPort :: int
  gxEtcdAddrs :: "string list"
  gxName :: string
  gxKaCancel :: "'l option"
  gxEm :: bool
  gxClient :: bool
  gxKey :: string

text \<open>The interceptors of the server wrap its handlers, the first one outermost. The code passes none.\<close>

definition ChainUnaryInterceptor :: "(('s, 'r) handler \<Rightarrow> ('s, 'r) handler) list \<Rightarrow> ('s, 'r) handler \<Rightarrow> ('s, 'r) handler" where
  "ChainUnaryInterceptor interceptors h = foldr (\<lambda>i h. i h) interceptors h"

definition server_interceptors :: "(('s, 'r) handler \<Rightarrow> ('s, 'r) handler) list" where
  "server_interceptors = []"

definition InitGRPCServer :: "settings \<Rightarrow> 'l grpcx_Server" where
  "InitGRPCServer v =
     \<lparr>gxPort = setting_int v ''grpc.server.port'', gxEtcdAddrs = setting_strings v ''grpc.server.etcdAddrs'',
      gxName = ''notification'', gxKaCancel = None, gxEm = False, gxClient = False, gxKey = ''''\<rparr>"

text \<open>The methods of the registered service; a call answers \<open>None\<close> for a panic, else its error. The
  query service is not registered.\<close>

datatype rpc_call =
    SendCall "pbNotification option option"
  | SendAsyncCall "pbNotification option option"
  | SendBatchCall "pbNotification option list option"
  | SendBatchAsyncCall "pbNotification option list option"
  | PrepareTxCall "pbNotification option option"
  | CommitTxCall string
  | CancelTxCall string

definition rpc_outcome :: "('s, 'r reply option) io \<Rightarrow> ('s, rpc_error option option) io" where
  "rpc_outcome m = do { r \<leftarrow> m; io_return (map_option snd r) }"

fun dispatch :: "'s NotificationServer \<Rightarrow> rpc_call \<Rightarrow> ctx \<Rightarrow> ('s, rpc_error option option) io" where
  "dispatch n (SendCall r) c = rpc_outcome (server_SendNotification n c r)"
| "dispatch n (SendAsyncCall r) c = rpc_outcome (server_SendNotificationAsync n c r)"
| "dispatch n (SendBatchCall r) c = rpc_outcome (server_SendNotificationBatch n c r)"
| "dispatch n (SendBatchAsyncCall r) c = rpc_outcome (server_SendNotificationBatchAsync n c r)"
| "dispatch n (PrepareTxCall r) c = rpc_outcome (server_PrepareTx n c r)"
| "dispatch n (CommitTxCall k) c = rpc_outcome (server_CommitTx n c k)"
| "dispatch n (CancelTxCall k) c = rpc_outcome (server_CancelTx n c k)"

text \<open>A request as it comes from the network: metadata and a deadline, no values.\<close>

definition transport_context :: "(string \<Rightarrow> string list) \<Rightarrow> gtime option \<Rightarrow> ctx" where
  "transport_context md deadline =
     \<lparr>ctxValue = \<lambda>_. None, ctxIncoming = Some md, ctxOutgoing = \<lambda>_. [], ctxDeadline = deadline\<rparr>"

fun rpc_request :: "rpc_call \<Rightarrow> request" where
  "rpc_request (SendCall r) = SendNotificationRequest (Option.bind r id)"
| "rpc_request (SendAsyncCall r) = SendNotificationAsyncRequest (Option.bind r id)"
| "rpc_request (SendBatchCall r) = SendNotificationBatchRequest (case r of None \<Rightarrow> [] | Some ns \<Rightarrow> ns)"
| "rpc_request (SendBatchAsyncCall r) = SendNotificationBatchAsyncRequest (case r of None \<Rightarrow> [] | Some ns \<Rightarrow> ns)"
| "rpc_request (PrepareTxCall r) = OtherRequest"
| "rpc_request (CommitTxCall k) = OtherRequest"
| "rpc_request (CancelTxCall k) = OtherRequest"

definition serve :: "'s NotificationServer \<Rightarrow> rpc_call \<Rightarrow> (string \<Rightarrow> string list) \<Rightarrow> gtime option
    \<Rightarrow> ('s, unit reply option) io" where
  "serve n call md deadline =
     ChainUnaryInterceptor server_interceptors
       (\<lambda>c _. do { e \<leftarrow> dispatch n call c; io_return (map_option (\<lambda>e. (None, e)) e) })
       (transport_context md deadline) (rpc_request call)"

section \<open>Registration in etcd\<close>

text \<open>The operations of the etcd client, the listener and the gRPC server; \<open>'l\<close> are leases. \<open>eaCancel\<close>
  is the function that ends the renewal of a lease.\<close>

record ('s, 'l) etcd_api =
  eaListen :: "string \<Rightarrow> ('s, gerr option) io"
  eaNew :: "string list \<Rightarrow> ('s, gerr option) io"
  eaNewManager :: "string \<Rightarrow> ('s, gerr option) io"
  eaOutboundIP :: "('s, string) io"
  eaGrant :: "int64 \<Rightarrow> ('s, 'l option ret) io"
  eaAddEndpoint :: "string \<Rightarrow> string \<Rightarrow> 'l option \<Rightarrow> ('s, gerr option) io"
  eaKeepAlive :: "'l option \<Rightarrow> ('s, gerr option) io"
  eaCancel :: "'l option \<Rightarrow> ('s, unit) io"
  eaDeleteEndpoint :: "string \<Rightarrow> ('s, gerr option) io"
  eaCloseClient :: "('s, gerr option) io"
  eaServe :: "('s, gerr option) io"
  eaGracefulStop :: "('s, unit) io"

definition lease_ttl :: int64 where "lease_ttl = 30"

definition register_endpoint ::
  "('s, 'l) etcd_api \<Rightarrow> 'l option grpcx_Server \<Rightarrow> ('s, gerr option \<times> 'l option grpcx_Server) io" where
  "register_endpoint api s = do {
     err \<leftarrow> eaNew api (gxEtcdAddrs s);
     if err \<noteq> None then io_return (err, s)
     else do {
       let s = s\<lparr>gxClient := True\<rparr>;
       err \<leftarrow> eaNewManager api (''service/'' @ gxName s);
       if err \<noteq> None then io_return (err, s)
       else do {
         ip \<leftarrow> eaOutboundIP api;
         let addr = ip @ '':'' @ FormatInt (gxPort s);
         let s = s\<lparr>gxKey := ''service/'' @ gxName s @ ''/'' @ addr\<rparr>;
         (lease, err) \<leftarrow> eaGrant api lease_ttl;
         if err \<noteq> None then io_return (err, s)
         else do {
           err \<leftarrow> eaAddEndpoint api (gxKey s) addr lease;
           if err \<noteq> None then io_return (err, s)
           else do {
             let s = s\<lparr>gxKaCancel := Some lease\<rparr>;
             err \<leftarrow> eaKeepAlive api lease;
             io_return (err, s)
           }
         }
       }
     }
   }"

definition grpcx_Serve ::
  "('s, 'l) etcd_api \<Rightarrow> 'l option grpcx_Server \<Rightarrow> ('s, gerr option \<times> 'l option grpcx_Server) io" where
  "grpcx_Serve api s = do {
     err \<leftarrow> eaListen api ('':'' @ FormatInt (gxPort s));
     if err \<noteq> None then io_return (err, s)
     else do {
       (err, s) \<leftarrow> register_endpoint api s;
       if err \<noteq> None then io_return (err, s)
       else do { err \<leftarrow> eaServe api; io_return (err, s) }
     }
   }"

definition grpcx_Close :: "('s, 'l) etcd_api \<Rightarrow> 'l option grpcx_Server \<Rightarrow> ('s, gerr option) io" where
  "grpcx_Close api s = do {
     _ \<leftarrow> (case gxKaCancel s of Some l \<Rightarrow> eaCancel api l | None \<Rightarrow> io_return ());
     err \<leftarrow> (if gxEm s then eaDeleteEndpoint api (gxKey s) else io_return None);
     if err \<noteq> None then io_return err
     else do {
       err \<leftarrow> (if gxClient s then eaCloseClient api else io_return None);
       if err \<noteq> None then io_return err
       else do { _ \<leftarrow> eaGracefulStop api; io_return None }
     }
   }"

section \<open>The sharding scheduler and the watch on its limit\<close>

text \<open>\<open>strconv.ParseInt\<close> with its error dropped: 0 for a text that is no number, the nearest bound
  for one that is out of range. Digits are read from the left, and the scan of the digits stops at the first
  that leaves the range of 64 bits.\<close>

fun scan_uint :: "nat \<Rightarrow> string \<Rightarrow> nat option" where
  "scan_uint n [] = Some n"
| "scan_uint n (c # cs) =
     (case digit_value c of
        None \<Rightarrow> None
      | Some d \<Rightarrow> if 10 * n + d \<ge> 2 ^ 64 then Some (2 ^ 64 - 1) else scan_uint (10 * n + d) cs)"

definition ParseInt_value :: "string \<Rightarrow> int64" where
  "ParseInt_value s =
     (let (neg, ds) = (case s of [] \<Rightarrow> (False, [])
        | c # cs \<Rightarrow> if c = CHR ''+'' then (False, cs)
                    else if c = CHR ''-'' then (True, cs) else (False, s))
      in case (if ds = [] then None else scan_uint 0 ds) of
           None \<Rightarrow> 0
         | Some n \<Rightarrow> if neg then (if n > 2 ^ 63 then - (2 ^ 63) else - int n)
                     else (if n \<ge> 2 ^ 63 then 2 ^ 63 - 1 else int n))"

datatype etcd_event = EventPut string | EventDelete

definition watch_event :: "etcd_event \<Rightarrow> MaxCntResourceSemaphore \<Rightarrow> MaxCntResourceSemaphore" where
  "watch_event e sem =
     (case e of EventPut val \<Rightarrow> UpdateMaxCount (ParseInt_value val) sem | EventDelete \<Rightarrow> sem)"

definition InitShardingScheduler ::
  "settings \<Rightarrow> 's NotificationRepository \<Rightarrow> 's NotificationSender \<Rightarrow> ('s, gtime) io
     \<Rightarrow> (MaxCntResourceSemaphore \<times> ('s, RingBufferAdjuster) ShardingScheduler
           \<times> RingBufferAdjuster sched_state) option" where
  "InitShardingScheduler v repo sender clock =
     map_option (\<lambda>adj.
        (NewMaxCntResourceSemaphore (setting_int v ''sharding_scheduler.maxLockedTables''),
         \<lparr>shRepo = repo, shSender = sender,
          shMinLoopDuration = setting_int v ''sharding_scheduler.minLoopDuration'',
          shAdjust = ra_Adjust, shClock = clock\<rparr>,
         NewShardingScheduler (setting_int v ''sharding_scheduler.batchSize'') adj
           (NewBitRing (setting_int v ''sharding_scheduler.errorEvents.bitRingSize'')
              (setting_float v ''sharding_scheduler.errorEvents.rateThreshold'')
              (setting_int v ''sharding_scheduler.errorEvents.consecutiveCount''))))
       (NewRingBufferAdjuster (setting_int v ''sharding_scheduler.batchSizeAdjuster.initBatchSize'')
          (setting_int v ''sharding_scheduler.batchSizeAdjuster.minBatchSize'')
          (setting_int v ''sharding_scheduler.batchSizeAdjuster.maxBatchSize'')
          (setting_int v ''sharding_scheduler.batchSizeAdjuster.adjustStep'')
          (setting_int v ''sharding_scheduler.batchSizeAdjuster.cooldownPeriod'')
          (setting_int v ''sharding_scheduler.batchSizeAdjuster.bufferSize''))"

section \<open>Background tasks and gRPC clients\<close>

definition InitTasks :: "'t \<Rightarrow> 't \<Rightarrow> 't \<Rightarrow> 't \<Rightarrow> 't list" where
  "InitTasks t1 t2 t3 t4 = [] @ [t1] @ [t2] @ [t3] @ [t4]"

definition StartTasks :: "('t \<Rightarrow> ('s, unit) io) \<Rightarrow> 't list \<Rightarrow> ('s, unit) io" where
  "StartTasks start ts = for_each start ts"

text \<open>\<open>Clients\<close> holds one client per service. Under its mutex \<open>Get\<close> is one step; the error of
  \<^verbatim>\<open>grpc.Dial\<close> is dropped.\<close>

definition Clients_Get ::
  "(string \<Rightarrow> ('s, 'conn) io) \<Rightarrow> ('conn \<Rightarrow> 'c) \<Rightarrow> string \<Rightarrow> (string \<Rightarrow> 'c option)
     \<Rightarrow> ('s, 'c \<times> (string \<Rightarrow> 'c option)) io" where
  "Clients_Get dial creator serviceName clientMap =
     (case clientMap serviceName of
        Some c \<Rightarrow> io_return (c, clientMap)
      | None \<Rightarrow> do {
          conn \<leftarrow> dial (''etcd:///'' @ serviceName);
          let client = creator conn;
          io_return (client, clientMap(serviceName \<mapsto> client))
        })"

section \<open>No request is served\<close>

lemma transport_has_no_business: "GetBizIDFromContext (transport_context md deadline) = (0, Some (Err ErrBizIDNotFound))"
  by (simp add: GetBizIDFromContext_def transport_context_def)

lemma dispatch_rejects:
  "GetBizIDFromContext c = (i, Some e) \<Longrightarrow>
   run_state (dispatch n call c) s = (Some (Some (Status InvalidArgument)), s)"
  by (cases call) (simp_all add: rpc_outcome_def io_status_def server_SendNotification_def
      server_SendNotificationAsync_def server_SendNotificationBatch_def server_SendNotificationBatchAsync_def
      server_PrepareTx_def server_CommitTx_def server_CancelTx_def)

text \<open>C14. As it is wired, the server serves nothing. Its chain of interceptors is empty, so nothing puts
  the business into the context of a request, and every call of every method, whatever its
  metadata and its argument, is answered with \<open>InvalidArgument\<close> without touching the world.\<close>

theorem Every_request_rejected:
  "run_state (serve n call md deadline) s = (Some (None, Some (Status InvalidArgument)), s)"
  by (simp add: serve_def ChainUnaryInterceptor_def server_interceptors_def
      dispatch_rejects [OF transport_has_no_business])

section \<open>The endpoint outlives the server\<close>

text \<open>Adding an endpoint that succeeds registers it; no other operation than deleting it removes one.\<close>

definition etcd_law :: "('s, 'l) etcd_api \<Rightarrow> ('s \<Rightarrow> string set) \<Rightarrow> bool" where
  "etcd_law api eps \<longleftrightarrow>
     (\<forall>k addr l s s'. run_state (eaAddEndpoint api k addr l) s = (None, s') \<longrightarrow> k \<in> eps s')
   \<and> (\<forall>k. (\<forall>l. keeps (\<lambda>s. k \<in> eps s) (eaKeepAlive api l)) \<and> (\<forall>l. keeps (\<lambda>s. k \<in> eps s) (eaCancel api l))
        \<and> keeps (\<lambda>s. k \<in> eps s) (eaCloseClient api) \<and> keeps (\<lambda>s. k \<in> eps s) (eaServe api)
        \<and> keeps (\<lambda>s. k \<in> eps s) (eaGracefulStop api))"

lemma register_state:
  assumes "run_state (register_endpoint api srv) s = ((err, srv'), s')"
  shows "gxEm srv' = gxEm srv"
  using assms by (auto simp: register_endpoint_def Let_def split: if_splits prod.splits)

lemma register_added:
  assumes "etcd_law api eps" "run_state (register_endpoint api srv) s = ((None, srv'), s')"
  shows "gxKey srv' \<in> eps s'"
proof -
  from assms(2) obtain k addr lease s1 s2 where
    "run_state (eaAddEndpoint api k addr lease) s1 = (None, s2)" "k = gxKey srv'"
    "run_state (eaKeepAlive api lease) s2 = (None, s')"
    by (auto simp: register_endpoint_def Let_def split: if_splits prod.splits)
  with assms(1) show ?thesis
    unfolding etcd_law_def by (metis (no_types, lifting) keepsD)
qed

lemma Close_without_manager:
  "\<not> gxEm srv \<Longrightarrow> etcd_law api eps \<Longrightarrow> keeps (\<lambda>s. k \<in> eps s) (grpcx_Close api srv)"
  unfolding grpcx_Close_def by (auto simp: etcd_law_def intro!: keeps_intros)

text \<open>C36. Stopping the server does not deregister it: \<open>register\<close> keeps its endpoint manager in a local
  variable, so the field that \<open>Close\<close> tests is always nil. After a run of the server that ended
  without an error, and after \<open>Close\<close>, the endpoint is still registered, whatever \<open>Close\<close> answers
  and whatever a deletion would have done.\<close>

theorem Close_leaves_endpoint:
  assumes "etcd_law api eps" "run_state (grpcx_Serve api (InitGRPCServer v)) s = ((None, srv), s1)"
  shows "gxKey srv \<in> eps (snd (run_state (grpcx_Close (api\<lparr>eaDeleteEndpoint := delete\<rparr>) srv) s1))"
proof -
  from assms(2) obtain sa sb where
    r: "run_state (register_endpoint api (InitGRPCServer v)) sa = ((None, srv), sb)"
    and serve: "run_state (eaServe api) sb = (None, s1)"
    by (auto simp: grpcx_Serve_def split: if_splits prod.splits)
  have em: "\<not> gxEm srv" using register_state [OF r] by (simp add: InitGRPCServer_def)
  from register_added [OF assms(1) r] assms(1) serve have key: "gxKey srv \<in> eps s1"
    unfolding etcd_law_def by (metis (no_types, lifting) keepsD)
  have "etcd_law (api\<lparr>eaDeleteEndpoint := delete\<rparr>) eps"
    using assms(1) by (simp add: etcd_law_def)
  from Close_without_manager [OF em this] key show ?thesis
    by (simp add: keeps_def)
qed

definition demo_etcd :: "(string list, nat) etcd_api" where
  "demo_etcd =
     \<lparr>eaListen = \<lambda>_. io_return None, eaNew = \<lambda>_. io_return None, eaNewManager = \<lambda>_. io_return None,
      eaOutboundIP = io_return ''10.0.0.7'', eaGrant = \<lambda>_. io_return (Some 4, None),
      eaAddEndpoint = \<lambda>k _ _. State (\<lambda>s. (None, k # s)), eaKeepAlive = \<lambda>_. io_return None,
      eaCancel = \<lambda>_. io_return (), eaDeleteEndpoint = \<lambda>k. State (\<lambda>s. (None, removeAll k s)),
      eaCloseClient = io_return None, eaServe = io_return None, eaGracefulStop = io_return ()\<rparr>"

theorem Close_leaves_endpoint_witness:
  "gxKey (snd (fst (run_state (grpcx_Serve demo_etcd (InitGRPCServer config_yaml)) [])))
     \<in> set (snd (run_state (grpcx_Close demo_etcd (snd (fst (run_state (grpcx_Serve demo_etcd (InitGRPCServer config_yaml)) []))))
          (snd (run_state (grpcx_Serve demo_etcd (InitGRPCServer config_yaml)) []))))"
proof -
  have law: "etcd_law demo_etcd set"
    by (simp add: etcd_law_def demo_etcd_def keeps_def)
  obtain err srv s1 where r: "run_state (grpcx_Serve demo_etcd (InitGRPCServer config_yaml)) [] = ((err, srv), s1)"
    by (metis prod.collapse)
  then have e: "err = None"
    by (auto simp: grpcx_Serve_def register_endpoint_def demo_etcd_def Let_def)
  have "demo_etcd\<lparr>eaDeleteEndpoint := eaDeleteEndpoint demo_etcd\<rparr> = demo_etcd" by simp
  with r Close_leaves_endpoint [OF law r [unfolded e], of "eaDeleteEndpoint demo_etcd"] show ?thesis by simp
qed

section \<open>The limit on locked tables\<close>

lemma parse_digits_ge: "parse_digits a s = Some n \<Longrightarrow> a \<le> n"
proof (induction s arbitrary: a)
  case (Cons c s)
  then obtain d where d: "digit_value c = Some d" "parse_digits (10 * a + d) s = Some n"
    by (auto split: option.splits)
  from Cons.IH [OF d(2)] show ?case by simp
qed simp

lemma scan_parse: "parse_digits a s = Some n \<Longrightarrow> n < 2 ^ 64 \<Longrightarrow> scan_uint a s = Some n"
proof (induction s arbitrary: a)
  case (Cons c s)
  then obtain d where d: "digit_value c = Some d" "parse_digits (10 * a + d) s = Some n"
    by (auto split: option.splits)
  from parse_digits_ge [OF d(2)] Cons d show ?case by simp
qed simp

lemma digit_value_less: "digit_value c = Some d \<Longrightarrow> d < 10"
  by (auto simp: digit_value_def Let_def split: if_splits)

lemma parse_short: "parse_digits a s = Some n \<Longrightarrow> n < (a + 1) * 10 ^ length s"
proof (induction s arbitrary: a)
  case (Cons c s)
  then obtain d where d: "digit_value c = Some d" "parse_digits (10 * a + d) s = Some n"
    by (auto split: option.splits)
  from Cons.IH [OF d(2)] have "n < (10 * a + d + 1) * 10 ^ length s" .
  also have "\<dots> \<le> (10 * (a + 1)) * 10 ^ length s"
    using digit_value_less [OF d(1)] by (intro mult_right_mono) simp_all
  finally show ?case by (simp add: algebra_simps)
qed simp

lemma scan_short: "(a + 1) * 10 ^ length s \<le> 2 ^ 63 \<Longrightarrow> scan_uint a s = parse_digits a s"
proof (induction s arbitrary: a)
  case (Cons c s)
  show ?case
  proof (cases "digit_value c")
    case (Some d)
    have "(10 * a + d + 1) * 10 ^ length s \<le> (10 * (a + 1)) * 10 ^ length s"
      using digit_value_less [OF Some] by (intro mult_right_mono) simp_all
    also have "\<dots> \<le> 2 ^ 63" using Cons.prems by (simp add: algebra_simps)
    finally have le: "(10 * a + d + 1) * 10 ^ length s \<le> 2 ^ 63" .
    have "(10 * a + d + 1) * 1 \<le> (10 * a + d + 1) * 10 ^ length s" by (intro mult_le_mono) simp_all
    with le have "10 * a + d < 2 ^ 64" by simp
    with Some Cons.IH [OF le] show ?thesis by simp
  qed simp
qed simp

lemma ParseInt_value_correct: "ParseInt s = Some v \<Longrightarrow> ParseInt_value s = v"
  by (auto simp: ParseInt_def ParseInt_value_def parse_unsigned_def Let_def int64_range_def
      simp del: scan_uint.simps parse_digits.simps dest!: scan_parse
      split: list.splits option.splits if_splits)

lemma ParseInt_value_malformed:
  assumes "ParseInt s = None" "length s \<le> 18"
  shows "ParseInt_value s = 0"
proof -
  have scan: "scan_uint 0 ds = parse_digits 0 ds" if "length ds \<le> 18" for ds
  proof (rule scan_short)
    have "(10::nat) ^ length ds \<le> 10 ^ 18" using that by (intro power_increasing) simp_all
    then show "(0 + 1) * 10 ^ length ds \<le> (2::nat) ^ 63" by simp
  qed
  have small: "int n \<le> 2 ^ 63 - 1" if "parse_digits 0 ds = Some n" "length ds \<le> 18" for ds n
  proof -
    have "n < 10 ^ length ds" using parse_short [OF that(1)] by simp
    also have "\<dots> \<le> 10 ^ 18" using that(2) by (intro power_increasing) simp_all
    finally show ?thesis by simp
  qed
  show ?thesis
  proof (cases s)
    case Nil
    then show ?thesis by (simp add: ParseInt_value_def)
  next
    case (Cons c cs)
    with assms scan [of cs] scan [of s] small [of cs] small [of s] show ?thesis
      by (auto simp: ParseInt_def ParseInt_value_def parse_unsigned_def Let_def int64_range_def
          split: option.splits if_splits)
  qed
qed

text \<open>A limit written as a decimal number is obeyed.\<close>

theorem Limit_roundtrip:
  assumes "int64_range n"
  shows "maxCount (watch_event (EventPut (FormatInt n)) sem) = n
    \<and> currentCount (watch_event (EventPut (FormatInt n)) sem) = currentCount sem"
  using ParseInt_value_correct [OF ParseInt_FormatInt [OF assms]]
  by (simp add: watch_event_def UpdateMaxCount_def)

text \<open>A limit that is no number stops the scheduling: the watch drops the error of the conversion and
  sets the limit to 0, so that from then on no table can be locked, whatever was locked before, until
  another value is put.\<close>

theorem Malformed_limit_stops:
  assumes "ParseInt val = None" "length val \<le> 18" "0 \<le> currentCount sem"
  shows "sem_Acquire (watch_event (EventPut val) sem) = (Some (Err ErrExceedLimit), sem\<lparr>maxCount := 0\<rparr>)"
  using assms ParseInt_value_malformed by (simp add: watch_event_def UpdateMaxCount_def sem_Acquire_def)

theorem Malformed_limit_stops_witness:
  "ParseInt ''10 tables'' = None \<and>
   sem_Acquire (watch_event (EventPut ''10 tables'') (NewMaxCntResourceSemaphore 10))
     = (Some (Err ErrExceedLimit), \<lparr>maxCount = 0, currentCount = 0\<rparr>)"
proof -
  have n: "ParseInt ''10 tables'' = None" by code_simp
  from Malformed_limit_stops [OF this, of "NewMaxCntResourceSemaphore 10"] n show ?thesis
    by (simp add: NewMaxCntResourceSemaphore_def)
qed

section \<open>The configured scheduler\<close>

text \<open>The settings of the file that the code asks for under other names: the server listens on port 0
  and registers nowhere, the database is the default of the code, etcd has no address, and the local
  cache has no expiry and is never cleaned.\<close>

theorem Settings_not_read:
  "gxPort (InitGRPCServer config_yaml) = 0 \<and> gxEtcdAddrs (InitGRPCServer config_yaml) = []
   \<and> config_yaml ''mysql.dsn'' \<noteq> Some (CString (db_dsn config_yaml))
   \<and> etcd_addr config_yaml = '''' \<and> InitGoCache config_yaml = (0, 0)"
proof -
  have "config_yaml ''grpc.server.port'' = None" "config_yaml ''grpc.server.etcdAddrs'' = None"
    "config_yaml ''db.mysql.dsn'' = None" "config_yaml ''etcd.addr'' = None"
    "config_yaml ''cache.local.defaultExpiration'' = None" "config_yaml ''cache.local.cleanupInterval'' = None"
    "\<exists>d. config_yaml ''mysql.dsn'' = Some (CString (''root:root@tcp(localhost:1'' @ d))"
    by (simp_all add: config_yaml_def)
  then show ?thesis
    by (auto simp: InitGRPCServer_def setting_int_def setting_strings_def setting_string_def db_dsn_def
        etcd_addr_def InitGoCache_def)
qed

text \<open>With the settings of the file the scheduler is well formed: it is created, at most ten tables are
  locked, its first turn asks for 100 notifications, and every later turn for 50 to 200, whatever
  the repository, the sender and the clock do.\<close>

lemma scheduler_settings:
  "\<exists>adj. NewRingBufferAdjuster 100 50 200 5 5000000000 128 = Some adj
    \<and> InitShardingScheduler config_yaml repo sender clock = Some (NewMaxCntResourceSemaphore 10,
        \<lparr>shRepo = repo, shSender = sender, shMinLoopDuration = 1000000000, shAdjust = ra_Adjust, shClock = clock\<rparr>,
        NewShardingScheduler 100 adj (NewBitRing 128 (f64_round (4 / 5)) 3))"
  by (simp add: InitShardingScheduler_def setting_int_def setting_float_def config_yaml_def
      NewRingBufferAdjuster_def NewTimeDurationRingBuffer_def)

theorem Configured_scheduler:
  assumes "run_state (scheduler_rounds k sc st []) s = ((None, st', es), s')"
    and "InitShardingScheduler config_yaml repo sender clock = Some (sem, sc, st)"
  shows "maxCount sem = 10 \<and> wrap64 (lsBatchSize st') \<in> (if k = 0 then {100} else {50..200})"
proof -
  from assms(2) scheduler_settings [of repo sender clock] obtain adj where
    adj: "NewRingBufferAdjuster 100 50 200 5 5000000000 128 = Some adj"
    and st: "st = NewShardingScheduler 100 adj (NewBitRing 128 (f64_round (4 / 5)) 3)"
    and sc: "shAdjust sc = ra_Adjust" and sem: "sem = NewMaxCntResourceSemaphore 10"
    by fastforce
  from New_ra_inv [OF adj] have inv: "ra_inv adj" "ra_minBatchSize adj = 50" "ra_maxBatchSize adj = 200"
    by simp_all
  show ?thesis
  proof (cases k)
    case 0
    with assms(1) st sem show ?thesis
      by (auto simp: NewShardingScheduler_def wrap64_uint64 NewMaxCntResourceSemaphore_def)
  next
    case (Suc j)
    from ring_adjuster.scheduler_rounds_bounded [OF sc _ _ _ assms(1) [unfolded Suc]] inv st sem Suc show ?thesis
      by (simp add: NewShardingScheduler_def NewMaxCntResourceSemaphore_def)
  qed
qed

theorem Configured_scheduler_witness:
  "\<exists>sem sc st. InitShardingScheduler config_yaml (idle_repo :: unit NotificationRepository)
      (shSender (demo_scheduler None)) (io_return 5) = Some (sem, sc, st)
    \<and> maxCount sem = 10 \<and> wrap64 (lsBatchSize st) = 100"
proof -
  obtain sem sc st where i: "InitShardingScheduler config_yaml (idle_repo :: unit NotificationRepository)
      (shSender (demo_scheduler None)) (io_return 5) = Some (sem, sc, st)"
    using scheduler_settings by blast
  have "run_state (scheduler_rounds 0 sc st []) () = ((None, st, []), ())" by simp
  from Configured_scheduler [OF this i] i show ?thesis by simp
qed

section \<open>Clients of services\<close>

text \<open>One connection per service: after a \<open>Get\<close> the same service is answered the same client without
  dialling again, and what is kept for other services does not change.\<close>

theorem Clients_Get_once:
  assumes "run_state (Clients_Get dial creator name m) s = ((c, m'), s')"
  shows "m' name = Some c \<and> run_state (Clients_Get dial creator name m') s1 = ((c, m'), s1)
    \<and> m'(name := m name) = m"
proof -
  from assms have "m' name = Some c \<and> m'(name := m name) = m"
    by (auto simp: Clients_Get_def Let_def fun_upd_idem split: option.splits prod.splits)
  then show ?thesis by (simp add: Clients_Get_def)
qed

theorem Clients_Get_once_witness:
  "run_state (Clients_Get (\<lambda>t. State (\<lambda>s. (length t, Suc s))) (\<lambda>k. k * 2) ''order''
      [''order'' \<mapsto> 26]) 1 = ((26, [''order'' \<mapsto> 26]), 1 :: nat)"
proof -
  have "run_state (Clients_Get (\<lambda>t. State (\<lambda>s. (length t, Suc s))) (\<lambda>k. k * 2) ''order'' Map.empty) 0
      = ((26, [''order'' \<mapsto> 26]), 1 :: nat)"
    by (simp add: Clients_Get_def)
  from Clients_Get_once [OF this, of 1] show ?thesis by (simp add: Clients_Get_def)
qed

end
