(* ===== verification/Platform.thy ===== *)
theory Platform
  imports SendService NotificationRepo Sender Invariants
begin

text \<open>
  The path of a single send through the layers: the service of \<^verbatim>\<open>send_notification.go\<close> over the strategies
  of \<^verbatim>\<open>internal/service/sendstrategy\<close> over the repository of \<^verbatim>\<open>internal/repository/notification.go\<close>, which
  takes the quota from Redis. The locale \<open>metered_repo\<close> is what the strategies rely on: creating a
  notification takes one unit of the quota of its business and channel and fails without one, and the
  other operations leave the quotas alone. The repository of the platform interprets it.
\<close>

section \<open>Contract\<close>

definition frames :: "('s \<Rightarrow> 'v) \<Rightarrow> ('s, 'a) io \<Rightarrow> bool" where
  "frames f m \<longleftrightarrow> (\<forall>v. keeps (\<lambda>s. f s = v) m)"

lemma framesD: "frames f m \<Longrightarrow> run_state m s = (x, s') \<Longrightarrow> f s' = f s"
  unfolding frames_def by (blast dest: keepsD)

lemma frames_run: "frames f m \<Longrightarrow> f (snd (run_state m s)) = f s"
  by (simp add: frames_def keeps_def)

lemma framesI: "(\<And>s. f (snd (run_state m s)) = f s) \<Longrightarrow> frames f m"
  by (simp add: frames_def keeps_def)

text \<open>A step that sends \<open>n\<close>, or fails to: no quota grows, and success costs a unit that was there.\<close>

definition metered :: "('s \<Rightarrow> string \<Rightarrow> int64) \<Rightarrow> Notification \<Rightarrow> 's \<Rightarrow> gerr option \<Rightarrow> 's \<Rightarrow> bool" where
  "metered quotas n s e s' \<longleftrightarrow> (\<forall>k. quotas s' k \<le> quotas s k)
     \<and> (e = None \<longrightarrow> 1 < quotas s (quota_of n) \<and> quotas s' (quota_of n) < quotas s (quota_of n))"

lemma quota_of_SetSendTime [simp]: "quota_of (SetSendTime now n) = quota_of n"
  by (simp add: quota_of_def)

lemma quota_of_simps [simp]:
  "quota_of (n\<lparr>nID := i\<rparr>) = quota_of n" "quota_of (ReplaceAsyncImmediate now n) = quota_of n"
  by (simp_all add: quota_of_def ReplaceAsyncImmediate_def)

locale metered_repo =
  fixes repo :: "'s NotificationRepository" and quotas :: "'s \<Rightarrow> string \<Rightarrow> int64"
  assumes create: "run_state (nrCreate repo n) s = ((m, e), s') \<Longrightarrow>
      quotas s' = (quotas s)(quota_of n := quotas s (quota_of n) - 1)
      \<and> (quotas s (quota_of n) \<le> 1 \<longrightarrow> e = Some ErrQuotaLessThenZero)"
    and create_log: "run_state (nrCreateWithCallbackLog repo n) s = ((m, e), s') \<Longrightarrow>
      quotas s' = (quotas s)(quota_of n := quotas s (quota_of n) - 1)
      \<and> (quotas s (quota_of n) \<le> 1 \<longrightarrow> e = Some ErrQuotaLessThenZero)"
    and lookup: "frames quotas (nrGetByKey repo b key)"
    and cas: "frames quotas (nrCASStatus repo n)"
    and mark_success: "frames quotas (nrMarkSuccess repo n)"
    and mark_failed: "frames quotas (nrMarkFailed repo n)"
begin

lemma sender_frames:
  assumes "\<And>n. frames quotas (channel n)" "\<And>n. frames quotas (csSendCallbackByNotification cb n)"
  shows "frames quotas (nsSend (NewSender repo cb channel submit sched) n)"
  using assms mark_success mark_failed unfolding frames_def NewSender_def sender_Send_def
  by (auto simp: Let_def intro!: keeps_intros)

lemma resend_frames:
  assumes "imRepo i = repo" "\<And>n. frames quotas (nsSend (imSender i) n)"
  shows "frames quotas (resend_existing i n)"
  using lookup cas assms unfolding frames_def resend_existing_def
  by (auto intro!: keeps_intros)

lemma immediate_metered:
  assumes im: "imRepo i = repo" "\<And>n. frames quotas (nsSend (imSender i) n)" "frames quotas (imClock i)"
    and run: "run_state (immediate_Send i n) s = ((r, e), s')"
  shows "metered quotas n s e s'"
proof -
  obtain now s1 where t: "run_state (imClock i) s = (now, s1)" by (metis prod.collapse)
  obtain m err s2 where c: "run_state (nrCreate repo (SetSendTime now n)) s1 = ((m, err), s2)"
    by (metis prod.collapse)
  have s1: "quotas s1 = quotas s" using framesD [OF im(3) t] .
  have s2: "quotas s2 = (quotas s)(quota_of n := quotas s (quota_of n) - 1)"
    "quotas s (quota_of n) \<le> 1 \<Longrightarrow> err = Some ErrQuotaLessThenZero"
    using create [OF c] s1 by simp_all
  show ?thesis
  proof (cases "err = None \<or> (\<exists>d. err = Some d \<and> errors_Is d (Err ErrNotificationDuplicate))")
    case True
    then have "1 < quotas s (quota_of n)"
      using s2(2) by (cases "1 < quotas s (quota_of n)") (auto simp: ErrQuotaLessThenZero_def)
    moreover from True run t c im(1) have
      "run_state (nsSend (imSender i) m) s2 = ((r, e), s') \<or> run_state (resend_existing i m) s2 = ((r, e), s')"
      by (auto simp: immediate_Send_def)
    then have "quotas s' = quotas s2"
      using framesD [OF im(2)] framesD [OF resend_frames [OF im(1,2)]] by blast
    ultimately show ?thesis by (simp add: metered_def s2(1))
  next
    case False
    with run t c im(1) have "s' = s2" "e \<noteq> None" by (auto simp: immediate_Send_def)
    then show ?thesis by (auto simp: metered_def s2(1))
  qed
qed

lemma default_metered:
  assumes df: "dsRepo d = repo" "\<And>b. frames quotas (bsGetByID (dsConfig d) b)" "frames quotas (dsClock d)"
    and run: "run_state (default_Send d n) s = ((r, e), s')"
  shows "metered quotas n s e s'"
proof -
  obtain now s1 where t: "run_state (dsClock d) s = (now, s1)" by (metis prod.collapse)
  obtain cfg s2 where g: "run_state (bsGetByID (dsConfig d) (nBizID n)) s1 = (cfg, s2)"
    by (metis prod.collapse)
  have q: "quotas s2 = quotas s" using framesD [OF df(3) t] framesD [OF df(2) g] by simp
  obtain m err where c: "run_state (nrCreate repo (SetSendTime now n)) s2 = ((m, err), s')
      \<or> run_state (nrCreateWithCallbackLog repo (SetSendTime now n)) s2 = ((m, err), s')"
    and e: "e = None \<longrightarrow> err = None"
    using run t g df(1)
    by (auto simp: default_Send_def default_create_def needCreateCallbackLog_def
        split: prod.splits if_splits option.splits)
  with create create_log q have "quotas s' = (quotas s)(quota_of n := quotas s (quota_of n) - 1)
      \<and> (quotas s (quota_of n) \<le> 1 \<longrightarrow> err = Some ErrQuotaLessThenZero)" by fastforce
  with e show ?thesis by (auto simp: metered_def)
qed

end

text \<open>Everything the service reaches, apart from the repository, leaves the quotas alone.\<close>

definition quiet_parts ::
  "('s \<Rightarrow> 'v) \<Rightarrow> ('s, gtime) io \<Rightarrow> (int64 \<Rightarrow> string \<Rightarrow> ('s, int64) io)
     \<Rightarrow> 's BusinessConfigService \<Rightarrow> 's CallbackService \<Rightarrow> (Notification \<Rightarrow> ('s, SendResponse ret) io) \<Rightarrow> bool" where
  "quiet_parts f clock gen cfg cb channel \<longleftrightarrow> frames f clock \<and> (\<forall>b k. frames f (gen b k))
     \<and> (\<forall>b. frames f (bsGetByID cfg b)) \<and> (\<forall>n. frames f (csSendCallbackByNotification cb n))
     \<and> (\<forall>n. frames f (channel n))"

text \<open>The send service over both strategies, the sender and one repository, and a request to it:
  the flag tells the asynchronous form.\<close>

definition platform_service ::
  "('s, gtime) io \<Rightarrow> (int64 \<Rightarrow> string \<Rightarrow> ('s, int64) io) \<Rightarrow> 's NotificationRepository
     \<Rightarrow> 's BusinessConfigService \<Rightarrow> 's CallbackService \<Rightarrow> (Notification \<Rightarrow> ('s, SendResponse ret) io)
     \<Rightarrow> (nat \<Rightarrow> gerr option) \<Rightarrow> (Notification list \<Rightarrow> nat list) \<Rightarrow> 's sendService" where
  "platform_service clock gen repo cfg cb channel submit sched =
     NewSendService clock gen (NewStrategyDispatcher
       \<lparr>imRepo = repo, imSender = NewSender repo cb channel submit sched, imClock = clock\<rparr>
       \<lparr>dsRepo = repo, dsConfig = cfg, dsClock = clock\<rparr>)"

definition send_request :: "'s sendService \<Rightarrow> bool \<times> Notification \<Rightarrow> ('s, SendResponse ret) io" where
  "send_request sv q = (if fst q then SendNotificationAsync sv (snd q) else SendNotification sv (snd q))"

context metered_repo
begin

lemma dispatcher_metered:
  assumes quiet: "quiet_parts quotas clock gen cfg cb channel"
    and run: "run_state (stSend (svStrategy (platform_service clock gen repo cfg cb channel submit sched)) n) s
      = ((r, e), s')"
  shows "metered quotas n s e s'"
proof -
  let ?im = "\<lparr>imRepo = repo, imSender = NewSender repo cb channel submit sched, imClock = clock\<rparr>"
  let ?df = "\<lparr>dsRepo = repo, dsConfig = cfg, dsClock = clock\<rparr>"
  from run have "run_state (immediate_Send ?im n) s = ((r, e), s') \<or> run_state (default_Send ?df n) s = ((r, e), s')"
    by (auto simp: platform_service_def NewSendService_def NewStrategyDispatcher_def Let_def
        dispatcher_Send_def selectStrategy_def split: if_splits)
  then show ?thesis
    using quiet immediate_metered [of ?im n s r e s'] default_metered [of ?df n s r e s']
      sender_frames [of channel cb submit sched]
    by (auto simp: quiet_parts_def)
qed

lemma metered_cong: "quotas s1 = quotas s \<Longrightarrow> quota_of m = quota_of n \<Longrightarrow> e = None \<longrightarrow> e' = None
    \<Longrightarrow> metered quotas m s1 e' s' \<Longrightarrow> metered quotas n s e s'"
  by (auto simp: metered_def)

lemma request_metered:
  assumes quiet: "quiet_parts quotas clock gen cfg cb channel"
    and run: "run_state (send_request (platform_service clock gen repo cfg cb channel submit sched) (a, n)) s
      = ((r, e), s')"
  shows "metered quotas n s e s'"
proof -
  let ?sv = "platform_service clock gen repo cfg cb channel submit sched"
  have sv: "svClock ?sv = clock" "svGenerate ?sv = gen"
    by (simp_all add: platform_service_def NewSendService_def)
  obtain now s1 where t: "run_state clock s = (now, s1)" by (metis prod.collapse)
  obtain i s2 where g: "run_state (gen (nBizID n) (nKey n)) s1 = (i, s2)" by (metis prod.collapse)
  obtain now' s3 where t': "run_state clock s2 = (now', s3)" by (metis prod.collapse)
  have q: "quotas s1 = quotas s" "quotas s2 = quotas s" "quotas s3 = quotas s"
    using quiet framesD [OF _ t, of quotas] framesD [OF _ g, of quotas] framesD [OF _ t', of quotas]
    by (simp_all add: quiet_parts_def)
  show ?thesis
  proof (cases "Notification_Validate now n")
    case None
    have "\<exists>m s0 r' e'. run_state (stSend (svStrategy ?sv) m) s0 = ((r', e'), s') \<and> quotas s0 = quotas s
        \<and> quota_of m = quota_of n \<and> (e = None \<longrightarrow> e' = None)"
    proof (cases a)
      case True
      with run None t g t' q show ?thesis
        by (intro exI [of _ "ReplaceAsyncImmediate now' (n\<lparr>nID := i\<rparr>)"] exI [of _ s3])
          (simp add: send_request_def SendNotificationAsync_def sv)
    next
      case False
      with run None t g q show ?thesis
        by (intro exI [of _ "n\<lparr>nID := i\<rparr>"] exI [of _ s2])
          (auto simp: send_request_def SendNotification_def sv split: prod.splits option.splits)
    qed
    then show ?thesis using dispatcher_metered [OF quiet] metered_cong by blast
  next
    case (Some err)
    with run t have "s' = s1 \<and> e = Some err"
      by (cases a) (simp_all add: send_request_def SendNotification_def SendNotificationAsync_def sv)
    with q show ?thesis by (simp add: metered_def)
  qed
qed

end

section \<open>The repository of the platform\<close>

definition quiet_dao :: "('s \<Rightarrow> 'v) \<Rightarrow> 's NotificationDAO \<Rightarrow> bool" where
  "quiet_dao f d \<longleftrightarrow> (\<forall>e. frames f (ndCreate d e)) \<and> (\<forall>e. frames f (ndCreateWithCallbackLog d e))
     \<and> (\<forall>b k. frames f (ndGetByKey d b k)) \<and> (\<forall>e. frames f (ndCASStatus d e))
     \<and> (\<forall>e. frames f (ndMarkSuccess d e)) \<and> (\<forall>e. frames f (ndMarkFailed d e))"

text \<open>Both forms of creating take the unit first, and do not get it back.\<close>

lemma notification_repo_metered:
  assumes rd: "redis_decrby rd quotas" "redis_empty_script rd" and d: "quiet_dao quotas d"
  shows "metered_repo (NewNotificationRepository d (NewQuotaCache rd) c) quotas"
proof
  fix n s m e s'
  obtain s1 where s1: "run_state (quota_Decr rd (nBizID n) (nChannel n) defaultQuotaNumber) s
      = (if quotas s (quota_of n) \<le> 1 then Some ErrQuotaLessThenZero else None, s1)"
    "quotas s1 = (quotas s)(quota_of n := quotas s (quota_of n) - 1)"
    using Decr_run [OF rd(1), of "nBizID n" "nChannel n" defaultQuotaNumber s]
    by (auto simp: quota_of_def defaultQuotaNumber_def)
  have q: "quotas (snd (run_state (ndCreate d x) s1)) = quotas s1"
    "quotas (snd (run_state (ndCreateWithCallbackLog d x) s1)) = quotas s1" for x
    using d by (simp_all add: quiet_dao_def frames_run)
  let ?goal = "quotas s' = (quotas s)(quota_of n := quotas s (quota_of n) - 1)
      \<and> (quotas s (quota_of n) \<le> 1 \<longrightarrow> e = Some ErrQuotaLessThenZero)"
  show ?goal
    if "run_state (nrCreate (NewNotificationRepository d (NewQuotaCache rd) c) n) s = ((m, e), s')"
    using that s1 q(1) [of "toEntity c n"]
    by (auto simp: NewNotificationRepository_def NewQuotaCache_def Let_def repo_Create_def
        Incr_empty [OF rd(2)] split: if_splits prod.splits option.splits)
  show ?goal
    if "run_state (nrCreateWithCallbackLog (NewNotificationRepository d (NewQuotaCache rd) c) n) s = ((m, e), s')"
    using that s1 q(2) [of "toEntity c n"]
    by (auto simp: NewNotificationRepository_def NewQuotaCache_def Let_def repo_CreateWithCallbackLog_def
        Incr_empty [OF rd(2)] split: if_splits prod.splits option.splits)
next
  fix n :: Notification and b key
  have "frames quotas (quota_Incr rd (nBizID n) (nChannel n) defaultQuotaNumber)"
    by (rule framesI) (simp add: Incr_empty [OF rd(2)])
  with d show "frames quotas (nrGetByKey (NewNotificationRepository d (NewQuotaCache rd) c) b key)"
    "frames quotas (nrCASStatus (NewNotificationRepository d (NewQuotaCache rd) c) n)"
    "frames quotas (nrMarkSuccess (NewNotificationRepository d (NewQuotaCache rd) c) n)"
    "frames quotas (nrMarkFailed (NewNotificationRepository d (NewQuotaCache rd) c) n)"
    unfolding frames_def quiet_dao_def
    by (auto simp: NewNotificationRepository_def NewQuotaCache_def Let_def repo_GetByKey_def
        repo_CASStatus_def repo_MarkSuccess_def repo_MarkFailed_def intro!: keeps_intros)
qed

section \<open>Quotas bound the sends\<close>

definition sent_under :: "string \<Rightarrow> (bool \<times> Notification) list \<Rightarrow> SendResponse ret list \<Rightarrow> nat" where
  "sent_under k qs rs = length (filter (\<lambda>(q, r). snd r = None \<and> quota_of (snd q) = k) (zip qs rs))"

lemma sent_under_simps:
  "sent_under k [] rs = 0"
  "sent_under k (q # qs) (r # rs)
     = (if snd r = None \<and> quota_of (snd q) = k then Suc (sent_under k qs rs) else sent_under k qs rs)"
  by (simp_all add: sent_under_def)

lemma sends_metered:
  assumes step: "\<And>a n s r e s'. run_state (send_request sv (a, n)) s = ((r, e), s') \<Longrightarrow> metered quotas n s e s'"
    and "run_state (State_Monad.traverse_list (send_request sv) qs) s = (rs, s')"
  shows "(sent_under k qs rs = 0 \<or> int (sent_under k qs rs) < quotas s k)
     \<and> quotas s' k \<le> quotas s k - int (sent_under k qs rs)"
  using assms(2)
proof (induction qs arbitrary: s rs)
  case Nil
  then show ?case by (simp add: sent_under_simps)
next
  case (Cons q qs)
  obtain a n where q: "q = (a, n)" by force
  obtain r e s1 where r: "run_state (send_request sv q) s = ((r, e), s1)" by (metis prod.collapse)
  obtain rs' where rs': "run_state (State_Monad.traverse_list (send_request sv) qs) s1 = (rs', s')"
    "rs = (r, e) # rs'"
    using Cons.prems r by (auto split: prod.splits)
  from step r q have "metered quotas n s e s1" by blast
  with Cons.IH [OF rs'(1)] show ?case
    unfolding rs'(2) q sent_under_simps metered_def by (auto dest: spec [of _ k])
qed

text \<open>C4. The quota of a business on a channel bounds what is sent under it: of any sequence of
  requests, synchronous or not, immediate or scheduled, fewer than the quota succeed, and every success
  is paid for.\<close>

theorem Quota_bounds_sends:
  assumes "redis_decrby rd quotas" "redis_empty_script rd" "quiet_dao quotas d"
    and "quiet_parts quotas clock gen cfg cb channel"
    and "run_state (State_Monad.traverse_list (send_request (platform_service clock gen
      (NewNotificationRepository d (NewQuotaCache rd) c) cfg cb channel submit sched)) qs) s = (rs, s')"
  shows "(sent_under k qs rs = 0 \<or> int (sent_under k qs rs) < quotas s k)
     \<and> quotas s' k \<le> quotas s k - int (sent_under k qs rs)"
  by (rule sends_metered [OF metered_repo.request_metered [OF notification_repo_metered [OF assms(1-3)] assms(4)] assms(5)])

text \<open>A database that takes the rows, and three requests under a quota of three: two are sent.\<close>

definition taking_dao :: "'s NotificationDAO" where
  "taking_dao = rejecting_dao\<lparr>ndCreate := \<lambda>e. io_return (e, None),
     ndCreateWithCallbackLog := \<lambda>e. io_return (e, None), ndMarkSuccess := \<lambda>_. io_return None\<rparr>"

lemma frames_return: "frames f (io_return x)"
  by (simp add: framesI)

lemma taking_dao_quiet: "quiet_dao f taking_dao"
  by (simp add: quiet_dao_def taking_dao_def rejecting_dao_def Let_def frames_return)

interpretation memory: metered_repo "NewNotificationRepository taking_dao (NewQuotaCache mem_redis) test_codec" "\<lambda>s. s"
  by (rule notification_repo_metered [OF mem_redis_laws taking_dao_quiet])

definition demo_platform :: "(string \<Rightarrow> int64) sendService" where
  "demo_platform = platform_service (io_return 5) (\<lambda>_ _. io_return 1)
     (NewNotificationRepository taking_dao (NewQuotaCache mem_redis) test_codec) (fixed_config (\<lambda>_. None))
     idle_callback (\<lambda>n. io_return (zero_SendResponse, None)) (\<lambda>_. None) (\<lambda>ns. [0..<length ns])"

definition demo_requests :: "(bool \<times> Notification) list" where
  "demo_requests = [(False, demo_notification), (True, demo_notification), (False, demo_notification)]"

lemma demo_parts: "quiet_parts f (io_return 5) (\<lambda>_ _. io_return 1) (fixed_config (\<lambda>_. None)) idle_callback
    (\<lambda>n. io_return (zero_SendResponse, None))"
  by (simp add: quiet_parts_def fixed_config_def idle_callback_def frames_return)

lemma demo_two_sent:
  "sent_under (quota_of demo_notification) demo_requests
     (fst (run_state (State_Monad.traverse_list (send_request demo_platform) demo_requests) (\<lambda>_. 3))) = 2"
  by code_simp

theorem Quota_bounds_sends_witness:
  "let (rs, s') = run_state (State_Monad.traverse_list (send_request demo_platform) demo_requests) (\<lambda>_. 3)
   in sent_under (quota_of demo_notification) demo_requests rs = 2 \<and> s' (quota_of demo_notification) \<le> 1"
proof -
  obtain rs s' where r: "run_state (State_Monad.traverse_list (send_request demo_platform) demo_requests) (\<lambda>_. 3)
      = (rs, s')" by (metis prod.collapse)
  with demo_two_sent have "sent_under (quota_of demo_notification) demo_requests rs = 2" by simp
  with Quota_bounds_sends [OF mem_redis_laws taking_dao_quiet demo_parts r [unfolded demo_platform_def],
      of "quota_of demo_notification"]
  show ?thesis unfolding r by simp
qed

end
