(* ===== verification/Spec2Isabelle.thy ===== *)
theory Spec2Isabelle
  imports BitRing BatchSize Retry Sharding LoadBalancer Channels LoopJob NotificationRepo DaoFacts
    Sender SendStrategies SendService TxService Callback Interceptors Server ConfigServer QuotaService
    HashRing Scheduler Monitor Failover Observability GrpcObservers RedisHooks GormPlugins Web Wiring Platform
begin

text \<open>
  A model of the notification platform \<^verbatim>\<open>go-notification\<close> and the theorems about it. Paths are
  relative to the repository.

  \<^bold>\<open>The program.\<close> Businesses send notifications over gRPC, at once or later, singly or in batches, or
  as transactions that they commit or cancel. A request passes the interceptors
  (\<^verbatim>\<open>internal/api/grpc/interceptor\<close>) and the server (\<^verbatim>\<open>internal/api/grpc/server.go\<close>), which checks that
  its template is published and calls the send service. The service gives the notification an
  identifier and hands it to a send strategy: the immediate one stores and sends, the default one
  stores under a quota, and a scheduler per table of notifications, under a distributed lock, sends
  what is due. Sending goes through a channel, which asks one provider after another, and records the
  outcome; a call-back then tells the business. Beside this run the check-back of undecided
  transactions, the monthly reset of quotas, the management of templates (over HTTP) and of the
  configurations of the businesses (with two caches before the database). Pools, hooks, plugins,
  decorators and interceptors add failover, metrics and traces.

  \<^bold>\<open>Theories and sources.\<close> The component theories follow the layers of the code.
  \<^item> Ground: \<^verbatim>\<open>Prelude\<close> (fixed-width integers, generic lemmas), \<^verbatim>\<open>Float64\<close>, \<^verbatim>\<open>Strconv\<close> (what is used of
    the standard library), \<^verbatim>\<open>Errors\<close> (\<^verbatim>\<open>internal/errs\<close>), \<^verbatim>\<open>Domain\<close> (\<^verbatim>\<open>internal/domain\<close>), \<^verbatim>\<open>Interfaces\<close>
    (the Go interfaces as records of operations on a world), \<^verbatim>\<open>Invariants\<close> (what operations keep),
    \<^verbatim>\<open>Api\<close> (messages).
  \<^item> Packages: \<^verbatim>\<open>BitRing\<close> and \<^verbatim>\<open>RingBuffer\<close>, which interpret the contract \<open>sliding_window\<close> of
    \<^verbatim>\<open>Sliding_Window\<close>; \<^verbatim>\<open>BatchSize\<close> (contract \<open>adjuster\<close>), \<^verbatim>\<open>Retry\<close> (contract \<open>retry_strategy\<close>),
    \<^verbatim>\<open>Hash_Id\<close>, \<^verbatim>\<open>Sharding\<close>, \<^verbatim>\<open>LoopJob\<close> (contract \<open>resource_semaphore\<close>), \<^verbatim>\<open>HashRing\<close>, \<^verbatim>\<open>Monitor\<close>,
    each one package of \<^verbatim>\<open>internal/pkg\<close>.
  \<^item> Data: \<^verbatim>\<open>Dao\<close>, \<^verbatim>\<open>DaoFacts\<close>, \<^verbatim>\<open>Sql\<close>, \<^verbatim>\<open>TemplateDao\<close>, \<^verbatim>\<open>ProviderRepo\<close>, \<^verbatim>\<open>ConfigRepo\<close> (the statements of
    \<^verbatim>\<open>internal/repository/dao\<close>), \<^verbatim>\<open>QuotaCache\<close>, \<^verbatim>\<open>ConfigCache\<close> (\<^verbatim>\<open>internal/repository/cache\<close>, contract
    \<open>config_cache\<close>), \<^verbatim>\<open>NotificationRepo\<close>, \<^verbatim>\<open>Templates\<close>, \<^verbatim>\<open>ConfigFacts\<close> and \<^verbatim>\<open>ConfigProps\<close>
    (\<^verbatim>\<open>internal/repository\<close>, contract \<open>config_repo\<close>).
  \<^item> Services: \<^verbatim>\<open>LoadBalancer\<close>, \<^verbatim>\<open>Channels\<close>, \<^verbatim>\<open>Sender\<close>, \<^verbatim>\<open>SendStrategies\<close>, \<^verbatim>\<open>SendService\<close>, \<^verbatim>\<open>TxService\<close>,
    \<^verbatim>\<open>Callback\<close>, \<^verbatim>\<open>Scheduler\<close> (contract \<open>platform_sender\<close>), \<^verbatim>\<open>QuotaService\<close>, \<^verbatim>\<open>SmsClient\<close>,
    \<^verbatim>\<open>TemplateService\<close>, \<^verbatim>\<open>TemplateFacts\<close> (\<^verbatim>\<open>internal/service\<close>); \<^verbatim>\<open>Platform\<close> puts the send service, the
    strategies, the sender, the repository and the quotas together (contract \<open>metered_repo\<close>).
  \<^item> Interfaces to the outside: \<^verbatim>\<open>Interceptors\<close> (contract \<open>idempotency\<close>), \<^verbatim>\<open>Server\<close>, \<^verbatim>\<open>ConfigServer\<close>
    (\<^verbatim>\<open>internal/api\<close>), \<^verbatim>\<open>Web\<close> (\<^verbatim>\<open>internal/web\<close>, \<^verbatim>\<open>internal/pkg/ginx\<close>), \<^verbatim>\<open>Failover\<close> (the connection
    pools and \<^verbatim>\<open>internal/event\<close>), \<^verbatim>\<open>Observability\<close>, \<^verbatim>\<open>GrpcObservers\<close>, \<^verbatim>\<open>RedisHooks\<close>, \<^verbatim>\<open>GormPlugins\<close>
    (metrics and traces), and \<^verbatim>\<open>Wiring\<close> (\<^verbatim>\<open>internal/ioc\<close>, \<^verbatim>\<open>config\<close>, \<^verbatim>\<open>internal/pkg/grpcx\<close>).

  \<^bold>\<open>How the code is modelled.\<close> A definition has the name of the function it translates, with a prefix
  where two types have a method of that name. A method is a state transformer on a world \<open>'s\<close> that is
  left open, so that a component is modelled for all implementations of what it calls; components are
  composed by filling in the records. A result and an error are a pair, as in Go, where both are looked
  at; a call that can panic has an option as its result, and \<open>None\<close> is the panic. A loop without a
  bound is a partial function (\<open>channel_loop\<close>, \<open>SendCallback_loop\<close>, \<open>LoadCache_loop\<close>, \<open>scheduler_loop\<close>,
  the reset of the quotas): \<open>None\<close> is a run that never returns, and that one returns is a theorem of its
  own, without any fuel. Jobs and monitors that run for ever are step functions over the events they
  wait for (\<open>job_event\<close>, \<open>hb_event\<close>), with their reachable states as inductive predicates; where a
  number of turns appears (\<open>scheduler_rounds\<close>, \<open>consumer_Start\<close>) the theorems hold for every number.
  Goroutines of one batch, and the walk through a Go map, are an order that is an argument of the model:
  the theorems hold for all orders. A method under a mutex is one step. Integers have the width of the
  code, with the wrap-around written out, or are machine words where the code works on bits.

  \<^bold>\<open>Parameters.\<close> What is not in the repository is a parameter: gorm and MySQL, Redis, Kafka, etcd, gin,
  the gRPC transport, the lock service, the JWT, cipher, JSON and SMS libraries, the clock, and the
  businesses. What the code relies on is a predicate on the parameter (\<open>sql_engine\<close>, \<open>template_db_law\<close>,
  \<open>redis_decrby\<close>, \<open>config_redis_law\<close>, \<open>crypto_law\<close>, \<open>kafka_law\<close>, \<open>etcd_law\<close> and others), stated from its
  documentation, and each has an instance in memory on which the witnesses are evaluated. That MySQL
  rejects a statement with a column its table does not have, or with the wrong number of arguments, is
  such a law; it makes several statements of the code have no effect.

  \<^bold>\<open>What the theorems show.\<close>
  \<^item> Contracts that hold: the bit ring is a sliding window of outcomes, the adjusters stay in their
    bounds, the heartbeat has the hysteresis it is meant to have, identifiers can be taken apart and
    lead to the shard of their key, the hash ring gives a key to its clockwise successor and moves few
    keys, the selector finds the first healthy provider, a table is worked on only under its lease, of two
    writers of one version one wins, batches report every notification once in any order of their tasks,
    the check-back settles every transaction once, a batch request is refused or passed on as a whole,
    configurations are read as they were written through both caches, preloading is complete,
    fewer single sends succeed than the quota allows,
    call-backs are all delivered when the businesses accept, requests are handled once, the scheduler
    gives a table up exactly when its record of failures says so.
  \<^item> Consequences of faults in the code: as it is wired, the server rejects every request; no template
    is ever published, and without one the server sends nothing; deferred statements are never executed;
    a transaction that is prepared cannot be committed; the outcome of a batch is not recorded, so that
    the scheduler sends it again; the round of call-backs can spin; a stopped server stays registered.
  The theorems numbered C1 to C40 are the main ones. The others of the theories are lemmas they rest
  on and smaller properties, among them further faults.

  \<^bold>\<open>Not modelled.\<close> The code that protoc generates (\<^verbatim>\<open>api/proto/gen\<close>: stubs, messages, validators), as
  the program calls nothing of it but getters, which are the fields of the messages; the loggers, whose
  only effect is output, and the entries written through them, except those of the log interceptor; the
  opening of connections and of the exporter of traces (\<^verbatim>\<open>internal/ioc\<close>, \<^verbatim>\<open>internal/pkg/netx\<close>); the stub
  \<^verbatim>\<open>interceptor/limit\<close>, whose methods all panic; mocks, tests and scripts. Error texts are not kept, only
  which error it is; nor is the passing of time in a sleep. The detail types for querying a sending
  (\<^verbatim>\<open>sms/client/types.go\<close>) are not used by the program.
\<close>

end
